(* ===== verification/Go_Prelude.thy ===== *)
theory Go_Prelude
  imports Main "HOL-Library.AList" "HOL-Library.Sublist"
begin

text \<open>
  The vocabulary every component of the development shares.

  \<^item> \<open>code\<close> and \<open>go_error\<close>: gRPC status codes and Go error values. Sentinel errors
    (\<^verbatim>\<open>var ErrX = ...\<close>) are constructors; \<open>Wrap\<close> is \<^verbatim>\<open>fmt.Errorf("...%w...", err)\<close>;
    \<open>errors_is\<close> and \<open>StatusCode\<close> walk the chain of wrapped errors as
    \<^verbatim>\<open>errors.Is\<close> and \<^verbatim>\<open>errors.As\<close> do.
  \<^item> \<open>'a go\<close>: what a call can do: return a value, return an error, or panic.
  \<^item> \<open>('s, 'a) prog\<close>: a call that reads and changes a state, with the sequencing
    operators the handlers are composed with.
  \<^item> \<open>'v gomap\<close>: a Go \<^verbatim>\<open>map[string]V\<close> as an association list, in the order in which a
    \<^verbatim>\<open>range\<close> loop visits it. A nil map and an empty one are both \<open>[]\<close>: they read alike,
    and the code allocates before it writes.
\<close>

named_theorems go_simps \<open>equations that evaluate results, programs and Go maps\<close>

section \<open>Errors\<close>

datatype code =
    OK | Canceled | Unknown | InvalidArgument | DeadlineExceeded | NotFound | AlreadyExists
  | PermissionDenied | ResourceExhausted | FailedPrecondition | Aborted | OutOfRange
  | Unimplemented | Internal | Unavailable | DataLoss | Unauthenticated

text \<open>
  The sentinels of \<^verbatim>\<open>pkg/storage/errors.go\<close> and \<^verbatim>\<open>pkg/validation/validation.go\<close> are
  values of types with a \<^verbatim>\<open>GRPCStatus\<close> method. \<open>ErrStatus\<close> is \<^verbatim>\<open>status.Error(code, msg)\<close>.
  \<open>ErrText\<close> is any error with only a message (\<^verbatim>\<open>errors.New\<close>, the errors of libraries).
\<close>

datatype go_error =
    ErrNotFound
  | ErrAlreadyExists
  | ErrMissingRequiredField
  | ErrInvalidValue
  | ErrDuplicate
  | ErrReadOnlyField
  | ErrInvalidLabelName
  | ErrInvalidLabelValue
  | ErrInvalidName
  | ErrInvalidSubjectName
  | ErrInvalidID
  | ErrInternalLabelInSelector
  | ErrValidation string
  | ErrStatus code string
  | ErrText string
  | Wrap string go_error

fun errors_is :: "go_error \<Rightarrow> go_error \<Rightarrow> bool" where
  "errors_is (Wrap m e) target = (Wrap m e = target \<or> errors_is e target)"
| "errors_is e target = (e = target)"

text \<open>The code of the first error of the chain that has a \<^verbatim>\<open>GRPCStatus\<close> method.\<close>

fun grpc_status :: "go_error \<Rightarrow> code option" where
  "grpc_status ErrNotFound = Some NotFound"
| "grpc_status ErrAlreadyExists = Some AlreadyExists"
| "grpc_status (ErrStatus c m) = Some c"
| "grpc_status (ErrText m) = None"
| "grpc_status (Wrap m e) = None"
| "grpc_status e = Some InvalidArgument"

section \<open>Results and programs\<close>

datatype 'a go = Ret 'a | Fail go_error | Panic string

definition go_bind :: "'a go \<Rightarrow> ('a \<Rightarrow> 'b go) \<Rightarrow> 'b go" where
  "go_bind m f = (case m of Ret x \<Rightarrow> f x | Fail e \<Rightarrow> Fail e | Panic p \<Rightarrow> Panic p)"

text \<open>\<^verbatim>\<open>if err != nil { return g(err) }\<close>\<close>

definition go_err :: "'a go \<Rightarrow> (go_error \<Rightarrow> go_error) \<Rightarrow> 'a go" where
  "go_err m g = (case m of Ret x \<Rightarrow> Ret x | Fail e \<Rightarrow> Fail (g e) | Panic p \<Rightarrow> Panic p)"

text \<open>The first failing check of a sequence, as a chain of \<^verbatim>\<open>if err != nil { return err }\<close>.\<close>

fun go_all :: "('a \<Rightarrow> unit go) \<Rightarrow> 'a list \<Rightarrow> unit go" where
  "go_all f [] = Ret ()"
| "go_all f (x # xs) = go_bind (f x) (\<lambda>_. go_all f xs)"

text \<open>A loop that maps a fallible call over a list and stops at the first error.\<close>

fun go_map :: "('a \<Rightarrow> 'b go) \<Rightarrow> 'a list \<Rightarrow> 'b list go" where
  "go_map f [] = Ret []"
| "go_map f (x # xs) = go_bind (f x) (\<lambda>y. go_bind (go_map f xs) (\<lambda>ys. Ret (y # ys)))"

lemma go_bind_simps [simp, go_simps]:
  "go_bind (Ret x) f = f x" "go_bind (Fail e) f = Fail e" "go_bind (Panic p) f = Panic p"
  by (simp_all add: go_bind_def)

lemma go_err_simps [simp, go_simps]:
  "go_err (Ret x) g = Ret x" "go_err (Fail e) g = Fail (g e)" "go_err (Panic p) g = Panic p"
  by (simp_all add: go_err_def)

lemma go_bind_eq_Ret [simp]:
  "go_bind m f = Ret y \<longleftrightarrow> (\<exists>x. m = Ret x \<and> f x = Ret y)"
  by (cases m) simp_all

lemma go_err_eq_Ret [simp]: "go_err m g = Ret y \<longleftrightarrow> m = Ret y"
  by (cases m) simp_all

lemma go_all_Ret [simp]: "go_all f xs = Ret () \<longleftrightarrow> (\<forall>x \<in> set xs. f x = Ret ())"
  by (induction xs) auto

lemma go_map_Ret: "go_map f xs = Ret ys \<longleftrightarrow> list_all2 (\<lambda>x y. f x = Ret y) xs ys"
proof (induction xs arbitrary: ys)
  case Nil
  show ?case by (cases ys) auto
next
  case (Cons x xs)
  show ?case by (cases ys) (auto simp: Cons.IH)
qed

lemma go_map_total:
  "(\<And>x. x \<in> set xs \<Longrightarrow> f x = Ret (g x)) \<Longrightarrow> go_map f xs = Ret (map g xs)"
  by (induction xs) simp_all

type_synonym ('s, 'a) prog = "'s \<Rightarrow> 'a go \<times> 's"

definition return :: "'a \<Rightarrow> ('s, 'a) prog" where
  "return x s = (Ret x, s)"

definition throw :: "go_error \<Rightarrow> ('s, 'a) prog" where
  "throw e s = (Fail e, s)"

definition panic :: "string \<Rightarrow> ('s, 'a) prog" where
  "panic p s = (Panic p, s)"

definition bind :: "('s, 'a) prog \<Rightarrow> ('a \<Rightarrow> ('s, 'b) prog) \<Rightarrow> ('s, 'b) prog" where
  "bind m f s = (case m s of
     (Ret x, t) \<Rightarrow> f x t
   | (Fail e, t) \<Rightarrow> (Fail e, t)
   | (Panic p, t) \<Rightarrow> (Panic p, t))"

text \<open>\<open>catch m h\<close>: the caller looks at the error (\<open>h\<close>) and otherwise goes on.\<close>

definition catch :: "('s, 'a) prog \<Rightarrow> (go_error \<Rightarrow> ('s, 'a) prog) \<Rightarrow> ('s, 'a) prog" where
  "catch m h s = (case m s of
     (Ret x, t) \<Rightarrow> (Ret x, t)
   | (Fail e, t) \<Rightarrow> h e t
   | (Panic p, t) \<Rightarrow> (Panic p, t))"

abbreviation map_err :: "(go_error \<Rightarrow> go_error) \<Rightarrow> ('s, 'a) prog \<Rightarrow> ('s, 'a) prog" where
  "map_err g m \<equiv> catch m (\<lambda>e. throw (g e))"

text \<open>A pure fallible call inside a program.\<close>

definition lift :: "'a go \<Rightarrow> ('s, 'a) prog" where
  "lift m s = (m, s)"

lemma prog_simps [simp, go_simps]:
  "return x s = (Ret x, s)" "throw e s = (Fail e, s)" "panic p s = (Panic p, s)"
  "lift m s = (m, s)"
  by (simp_all add: return_def throw_def panic_def lift_def)

lemma bind_eval [go_simps]:
  "m s = (Ret x, t) \<Longrightarrow> bind m f s = f x t"
  "m s = (Fail e, t) \<Longrightarrow> bind m f s = (Fail e, t)"
  "m s = (Panic p, t) \<Longrightarrow> bind m f s = (Panic p, t)"
  by (simp_all add: bind_def)

lemma bind_eq_Ret:
  "bind m f s = (Ret y, u) \<longleftrightarrow> (\<exists>x t. m s = (Ret x, t) \<and> f x t = (Ret y, u))"
  by (auto simp: bind_def split: prod.splits go.splits)

lemma catch_eval [go_simps]:
  "m s = (Ret x, t) \<Longrightarrow> catch m h s = (Ret x, t)"
  "m s = (Fail e, t) \<Longrightarrow> catch m h s = h e t"
  "m s = (Panic p, t) \<Longrightarrow> catch m h s = (Panic p, t)"
  by (simp_all add: catch_def)

lemma map_err_eq_Ret: "map_err g m s = (Ret y, u) \<longleftrightarrow> m s = (Ret y, u)"
  by (auto simp: catch_def split: prod.splits go.splits)

lemma bind_lift [simp]:
  "bind (lift (Ret x)) f s = f x s"
  "bind (lift (Fail e)) f s = (Fail e, s)"
  "bind (lift (Panic p)) f s = (Panic p, s)"
  "bind (return x) f s = f x s"
  "bind (throw e) f s = (Fail e, s)"
  "bind (panic p) f s = (Panic p, s)"
  by (simp_all add: bind_def)

text \<open>
  A program that leaves an invariant intact whatever it returns: the shape of every
  preservation lemma, closed under sequencing.
\<close>

definition preserves :: "('s \<Rightarrow> bool) \<Rightarrow> ('s, 'a) prog \<Rightarrow> bool" where
  "preserves P m \<longleftrightarrow> (\<forall>s. P s \<longrightarrow> P (snd (m s)))"

lemma preservesI: "(\<And>s r t. P s \<Longrightarrow> m s = (r, t) \<Longrightarrow> P t) \<Longrightarrow> preserves P m"
  by (simp add: preserves_def prod_eq_iff)

lemma preservesD: "preserves P m \<Longrightarrow> P s \<Longrightarrow> m s = (r, t) \<Longrightarrow> P t"
  by (metis preserves_def snd_conv)

lemma preserves_pure [simp, intro]:
  "preserves P (return x)" "preserves P (throw e)" "preserves P (panic p)" "preserves P (lift m)"
  by (simp_all add: preserves_def)

lemma preserves_bind [intro]:
  assumes "preserves P m" and "\<And>x. preserves P (f x)"
  shows "preserves P (bind m f)"
proof (rule preservesI)
  fix s r t assume P: "P s" and run: "bind m f s = (r, t)"
  obtain q u where m: "m s = (q, u)" by (cases "m s")
  have "P u" using preservesD [OF assms(1) P m] .
  with run m show "P t"
    by (cases q) (auto simp: bind_def dest: preservesD [OF assms(2)])
qed

lemma preserves_catch [intro]:
  assumes "preserves P m" and "\<And>e. preserves P (h e)"
  shows "preserves P (catch m h)"
proof (rule preservesI)
  fix s r t assume P: "P s" and run: "catch m h s = (r, t)"
  obtain q u where m: "m s = (q, u)" by (cases "m s")
  have "P u" using preservesD [OF assms(1) P m] .
  with run m show "P t"
    by (cases q) (auto simp: catch_def dest: preservesD [OF assms(2)])
qed

lemma preserves_if: "preserves P m \<Longrightarrow> preserves P n \<Longrightarrow> preserves P (if b then m else n)"
  by simp

lemma preserves_option: "preserves P m \<Longrightarrow> (\<And>x. preserves P (f x)) \<Longrightarrow> preserves P (case v of None \<Rightarrow> m | Some x \<Rightarrow> f x)"
  by (cases v) simp_all

text \<open>A program on the second part of a larger state.\<close>

definition on_snd :: "('s, 'a) prog \<Rightarrow> ('b \<times> 's, 'a) prog" where
  "on_snd m = (\<lambda>(b, s). case m s of (r, t) \<Rightarrow> (r, (b, t)))"

lemma on_snd_run [simp]: "on_snd m (b, s) = (fst (m s), (b, snd (m s)))"
  by (simp add: on_snd_def split_beta)

section \<open>Go maps\<close>

type_synonym 'v gomap = "(string \<times> 'v) list"

abbreviation lookup :: "'v gomap \<Rightarrow> string \<Rightarrow> 'v option" where
  "lookup m k \<equiv> map_of m k"

text \<open>Reading a missing key of a \<^verbatim>\<open>map[string]string\<close> gives the zero value.\<close>

definition map_get :: "string gomap \<Rightarrow> string \<Rightarrow> string" where
  "map_get m k = (case lookup m k of None \<Rightarrow> '''' | Some v \<Rightarrow> v)"

abbreviation keys :: "'v gomap \<Rightarrow> string list" where
  "keys m \<equiv> map fst m"

definition gomap_ok :: "'v gomap \<Rightarrow> bool" where
  "gomap_ok m \<longleftrightarrow> distinct (keys m)"

text \<open>\<^verbatim>\<open>maps.Equal\<close>: the same number of entries, and every entry of the one in the other.\<close>

definition maps_Equal :: "'v gomap \<Rightarrow> 'v gomap \<Rightarrow> bool" where
  "maps_Equal m1 m2 \<longleftrightarrow>
     length m1 = length m2 \<and> list_all (\<lambda>(k, v). lookup m2 k = Some v) m1"

lemma map_get_Some [simp]: "lookup m k = Some v \<Longrightarrow> map_get m k = v"
  by (simp add: map_get_def)

lemma map_get_None [simp]: "lookup m k = None \<Longrightarrow> map_get m k = ''''"
  by (simp add: map_get_def)

lemma lookup_filter_key:
  "lookup (filter (\<lambda>(k, v). P k) m) k = (if P k then lookup m k else None)"
  by (induction m) auto

lemma gomap_ok_filter [simp]: "gomap_ok m \<Longrightarrow> gomap_ok (filter P m)"
  unfolding gomap_ok_def by (induction m) (auto simp: image_iff)

lemma gomap_ok_update [simp]: "gomap_ok m \<Longrightarrow> gomap_ok (AList.update k v m)"
  unfolding gomap_ok_def by (rule distinct_update)

lemma gomap_ok_delete [simp]: "gomap_ok m \<Longrightarrow> gomap_ok (AList.delete k m)"
  unfolding gomap_ok_def by (rule distinct_delete)

lemma lookup_update [simp]: "lookup (AList.update k v m) = (lookup m)(k \<mapsto> v)"
  by (rule update_conv')

lemma lookup_delete [simp]: "lookup (AList.delete k m) = (lookup m)(k := None)"
  by (rule delete_conv')

lemma maps_Equal_iff:
  assumes "gomap_ok m1" and "gomap_ok m2"
  shows "maps_Equal m1 m2 \<longleftrightarrow> lookup m1 = lookup m2"
proof
  assume eq: "maps_Equal m1 m2"
  have sub: "lookup m1 \<subseteq>\<^sub>m lookup m2"
    using eq by (fastforce simp: maps_Equal_def map_le_def list_all_iff dest: map_of_SomeD)
  then have "dom (lookup m1) \<subseteq> dom (lookup m2)" by (rule map_le_implies_dom_le)
  moreover have "card (dom (lookup m1)) = card (dom (lookup m2))"
    using eq distinct_card [OF assms(1) [unfolded gomap_ok_def]]
      distinct_card [OF assms(2) [unfolded gomap_ok_def]]
    by (simp add: maps_Equal_def dom_map_of_conv_image_fst)
  ultimately have "dom (lookup m1) = dom (lookup m2)"
    by (simp add: card_subset_eq finite_dom_map_of)
  with sub show "lookup m1 = lookup m2"
    by (metis map_le_antisym map_le_def)
next
  assume eq: "lookup m1 = lookup m2"
  have "set m1 = set m2"
    using assms eq unfolding gomap_ok_def by (metis map_of_inject_set)
  then have "length m1 = length m2"
    using assms unfolding gomap_ok_def by (metis distinct_card distinct_map)
  then show "maps_Equal m1 m2"
    using eq assms(1) by (auto simp: maps_Equal_def list_all_iff gomap_ok_def dest: map_of_is_SomeI)
qed

end
