(* ===== verification/Go_Strings.thy ===== *)
theory Go_Strings
  imports Go_Prelude
begin

text \<open>
  The parts of Go's standard library that the components compute with: \<^verbatim>\<open>strings\<close>,
  \<^verbatim>\<open>strconv\<close>, \<^verbatim>\<open>encoding/hex\<close>, \<^verbatim>\<open>encoding/base64\<close>, \<^verbatim>\<open>path\<close> and UTF-8 decoding, on
  byte strings (a \<^typ>\<open>char\<close> is a byte), with the laws the components rely on: round
  trips of the encodings and the injectivity of storage keys built with \<^verbatim>\<open>path.Join\<close>.
\<close>

section \<open>Package strings\<close>

abbreviation HasPrefix :: "string \<Rightarrow> string \<Rightarrow> bool" where
  "HasPrefix s p \<equiv> prefix p s"

definition TrimPrefix :: "string \<Rightarrow> string \<Rightarrow> string" where
  "TrimPrefix s p = (if prefix p s then drop (length p) s else s)"

fun split :: "char \<Rightarrow> string \<Rightarrow> string list" where
  "split c [] = [[]]"
| "split c (x # xs) =
     (if x = c then [] # split c xs
      else (case split c xs of [] \<Rightarrow> [[x]] | y # ys \<Rightarrow> (x # y) # ys))"

fun join :: "string \<Rightarrow> string list \<Rightarrow> string" where
  "join sep [] = []"
| "join sep [x] = x"
| "join sep (x # y # ys) = x @ sep @ join sep (y # ys)"

lemma split_nonempty [simp]: "split c s \<noteq> []"
  by (cases s) (auto split: list.splits)

lemma split_free [simp]: "c \<notin> set s \<Longrightarrow> split c s = [s]"
  by (induction s) auto

lemma split_append: "split c (a @ c # b) = split c a @ split c b"
  by (induction a) (auto split: list.splits)

lemma split_free_append [simp]: "c \<notin> set a \<Longrightarrow> split c (a @ c # b) = a # split c b"
  by (simp add: split_append)

lemma split_seg_free: "x \<in> set (split c s) \<Longrightarrow> c \<notin> set x"
  by (induction s arbitrary: x) (auto split: list.splits if_splits)

lemma join_split: "join [c] (split c s) = s"
proof (induction s)
  case (Cons x s)
  then show ?case
    by (cases "split c s") (auto, metis join.simps(2,3) list.exhaust append_Cons)
qed simp

lemma split_join:
  "xs \<noteq> [] \<Longrightarrow> \<forall>x \<in> set xs. c \<notin> set x \<Longrightarrow> split c (join [c] xs) = xs"
  by (induction "[c]" xs rule: join.induct) auto

lemma join_append:
  "xs \<noteq> [] \<Longrightarrow> ys \<noteq> [] \<Longrightarrow> join sep (xs @ ys) = join sep xs @ sep @ join sep ys"
proof (induction sep xs rule: join.induct)
  case (2 sep x)
  then show ?case by (cases ys) simp_all
qed simp_all

text \<open>
  \<^verbatim>\<open>strings.TrimSpace\<close> removes leading and trailing white space as defined by Unicode;
  \<open>spaces\<close> lists the UTF-8 encodings of those code points.
\<close>

definition spaces :: "string list" where
  "spaces = map (map char_of) ([[9], [10], [11], [12], [13], [32], [0xC2, 0x85], [0xC2, 0xA0],
     [0xE1, 0x9A, 0x80], [0xE2, 0x80, 0xA8], [0xE2, 0x80, 0xA9], [0xE2, 0x80, 0xAF],
     [0xE2, 0x81, 0x9F], [0xE3, 0x80, 0x80]] @ map (\<lambda>n. [0xE2, 0x80, n]) [0x80..<0x8B]
     :: nat list list)"

function trim_front :: "string list \<Rightarrow> string \<Rightarrow> string" where
  "trim_front ws s =
     (case List.find (\<lambda>w. w \<noteq> [] \<and> prefix w s) ws of
        None \<Rightarrow> s | Some w \<Rightarrow> trim_front ws (drop (length w) s))"
  by pat_completeness auto
termination
proof (relation "measure (\<lambda>(ws, s). length s)", simp)
  fix ws :: "string list" and s w
  assume "List.find (\<lambda>w. w \<noteq> [] \<and> prefix w s) ws = Some w"
  then have "w \<noteq> []" and "prefix w s" by (auto simp: find_Some_iff)
  then show "((ws, drop (length w) s), (ws, s)) \<in> measure (\<lambda>(ws, s). length s)"
    by (cases s) (auto simp: prefix_def)
qed

declare trim_front.simps [simp del]

definition TrimSpace :: "string \<Rightarrow> string" where
  "TrimSpace s = rev (trim_front (map rev spaces) (rev (trim_front spaces s)))"

lemma trim_front_id: "\<forall>w \<in> set ws. w \<noteq> [] \<longrightarrow> \<not> prefix w s \<Longrightarrow> trim_front ws s = s"
  by (subst trim_front.simps) (auto split: option.splits simp: find_Some_iff)

lemma trim_front_step:
  "w \<in> set ws \<Longrightarrow> w \<noteq> [] \<Longrightarrow> length w = 1 \<Longrightarrow> hd w = c \<Longrightarrow>
   \<forall>v \<in> set ws. v \<noteq> [] \<longrightarrow> hd v = c \<longrightarrow> length v = 1 \<Longrightarrow>
   trim_front ws (c # s) = trim_front ws s"
proof -
  assume w: "w \<in> set ws" "w \<noteq> []" "length w = 1" "hd w = c"
    and one: "\<forall>v \<in> set ws. v \<noteq> [] \<longrightarrow> hd v = c \<longrightarrow> length v = 1"
  have "w = [c]" using w(2-4) by (cases w) simp_all
  then have "\<exists>v. List.find (\<lambda>w. w \<noteq> [] \<and> prefix w (c # s)) ws = Some v"
    using w(1) by (auto simp: find_None_iff simp flip: not_None_eq intro!: bexI [of _ w])
  then obtain v where v: "List.find (\<lambda>w. w \<noteq> [] \<and> prefix w (c # s)) ws = Some v" ..
  then have "v \<in> set ws" "v \<noteq> []" "prefix v (c # s)" by (auto simp: find_Some_iff)
  with one have "length v = 1" by (cases v) auto
  with v show ?thesis by (subst trim_front.simps) simp
qed

text \<open>A string that neither starts nor ends with a byte that can open or close a space.\<close>

definition space_free :: "string \<Rightarrow> bool" where
  "space_free s \<longleftrightarrow>
     s \<noteq> [] \<and> hd s \<notin> set (map hd spaces) \<and> last s \<notin> set (map last spaces)"

lemma spaces_nonempty: "w \<in> set spaces \<Longrightarrow> w \<noteq> []"
  by (auto simp: spaces_def)

lemma trim_front_spaces_id: "s \<noteq> [] \<Longrightarrow> hd s \<notin> set (map hd spaces) \<Longrightarrow> trim_front spaces s = s"
proof (rule trim_front_id, intro ballI impI notI)
  fix w assume s: "s \<noteq> []" "hd s \<notin> set (map hd spaces)"
    and w: "w \<in> set spaces" "w \<noteq> []" "prefix w s"
  from w(2,3) have "hd s = hd w" by (cases w; cases s) auto
  with s w(1) show False by auto
qed

lemma TrimSpace_id: "space_free s \<Longrightarrow> TrimSpace s = s"
proof -
  assume sf: "space_free s"
  then have "trim_front spaces s = s"
    by (simp add: space_free_def trim_front_spaces_id)
  moreover have "trim_front (map rev spaces) (rev s) = rev s"
  proof (rule trim_front_id, intro ballI impI notI)
    fix w assume w: "w \<in> set (map rev spaces)" "w \<noteq> []" "prefix w (rev s)"
    then obtain v where v: "v \<in> set spaces" "w = rev v" by auto
    with w have "suffix v s" "v \<noteq> []" by (auto simp: suffix_to_prefix)
    then have "last s = last v" by (auto simp: suffix_def)
    with v sf show False by (auto simp: space_free_def)
  qed
  ultimately show ?thesis by (simp add: TrimSpace_def)
qed

lemma TrimSpace_leading: "space_free s \<Longrightarrow> TrimSpace (CHR '' '' # s) = s"
proof -
  assume sf: "space_free s"
  have "list_ex (\<lambda>w. w = '' '') spaces" by code_simp
  then have sp: "'' '' \<in> set spaces" by (auto simp: list_ex_iff)
  have "list_all (\<lambda>v. v \<noteq> [] \<longrightarrow> hd v = CHR '' '' \<longrightarrow> length v = 1) spaces" by code_simp
  then have "trim_front spaces (CHR '' '' # s) = trim_front spaces s"
    using sp by (intro trim_front_step [of "'' ''"]) (simp_all add: list_all_iff)
  then show ?thesis using TrimSpace_id [OF sf] by (simp add: TrimSpace_def)
qed

section \<open>Decimal numbers\<close>

definition digit :: "nat \<Rightarrow> char" where
  "digit n = char_of (48 + n)"

fun show_nat :: "nat \<Rightarrow> string" where
  "show_nat n = (if n < 10 then [digit n] else show_nat (n div 10) @ [digit (n mod 10)])"

declare show_nat.simps [simp del]

definition digit_val :: "char \<Rightarrow> nat option" where
  "digit_val c = (let n = of_char c in if 48 \<le> n \<and> n \<le> 57 then Some (n - 48) else None)"

fun parse_digits :: "nat \<Rightarrow> string \<Rightarrow> nat option" where
  "parse_digits acc [] = Some acc"
| "parse_digits acc (c # cs) =
     (case digit_val c of None \<Rightarrow> None | Some d \<Rightarrow> parse_digits (10 * acc + d) cs)"

text \<open>\<^verbatim>\<open>strconv.ParseUint(s, 10, 64)\<close>\<close>

definition ParseUint :: "string \<Rightarrow> nat option" where
  "ParseUint s = (if s = [] then None
     else (case parse_digits 0 s of None \<Rightarrow> None | Some n \<Rightarrow> if n < 2 ^ 64 then Some n else None))"

text \<open>\<^verbatim>\<open>strconv.ParseInt(s, 10, 64)\<close>, which \<^verbatim>\<open>strconv.Atoi\<close> is on a 64-bit machine\<close>

definition ParseInt :: "string \<Rightarrow> int option" where
  "ParseInt s =
     (let neg = prefix ''-'' s; t = (if prefix ''-'' s \<or> prefix ''+'' s then tl s else s)
      in if t = [] then None
         else (case parse_digits 0 t of
                 None \<Rightarrow> None
               | Some n \<Rightarrow> if neg then (if n \<le> 2 ^ 63 then Some (- int n) else None)
                          else (if n < 2 ^ 63 then Some (int n) else None)))"

lemma digit_val_digit [simp]: "n < 10 \<Longrightarrow> digit_val (digit n) = Some n"
  by (simp add: digit_val_def digit_def)

lemma parse_digits_append:
  "parse_digits acc (xs @ ys) =
     (case parse_digits acc xs of None \<Rightarrow> None | Some a \<Rightarrow> parse_digits a ys)"
  by (induction acc xs rule: parse_digits.induct) (auto split: option.splits)

lemma parse_show_nat: "parse_digits 0 (show_nat n) = Some n"
proof (induction n rule: show_nat.induct)
  case (1 n)
  show ?case
    by (subst show_nat.simps) (simp add: parse_digits_append 1)
qed

lemma show_nat_nonempty [simp]: "show_nat n \<noteq> []"
  by (subst show_nat.simps) simp

lemma show_nat_inject [simp]: "show_nat m = show_nat n \<longleftrightarrow> m = n"
  by (metis option.inject parse_show_nat)

lemma hd_show_nat: "\<exists>d < 10. hd (show_nat n) = digit d"
proof (induction n rule: show_nat.induct)
  case (1 n)
  show ?case
  proof (cases "n < 10")
    case True
    then show ?thesis by (subst show_nat.simps) auto
  next
    case False
    with 1 show ?thesis by (subst show_nat.simps) (simp add: hd_append)
  qed
qed

lemma show_nat_unsigned: "\<not> prefix ''-'' (show_nat n)" "\<not> prefix ''+'' (show_nat n)"
proof -
  obtain d where d: "d < 10" "hd (show_nat n) = digit d" using hd_show_nat by blast
  have "digit d \<noteq> CHR ''-''" "digit d \<noteq> CHR ''+''"
    using d(1) by (auto simp: digit_def char_of_eq_iff take_bit_eq_mod)
  with d(2) show "\<not> prefix ''-'' (show_nat n)" "\<not> prefix ''+'' (show_nat n)"
    by (cases "show_nat n"; auto)+
qed

lemma ParseInt_show_nat [simp]: "n < 2 ^ 63 \<Longrightarrow> ParseInt (show_nat n) = Some (int n)"
  by (simp add: ParseInt_def show_nat_unsigned parse_show_nat)

lemma ParseUint_show_nat [simp]: "n < 2 ^ 64 \<Longrightarrow> ParseUint (show_nat n) = Some n"
  by (simp add: ParseUint_def parse_show_nat)

end
