(* ===== verification/Go_Encoding.thy ===== *)
theory Go_Encoding
  imports Go_Strings
begin

text \<open>
  \<^verbatim>\<open>encoding/hex\<close>, the unpadded URL alphabet and the padded standard alphabet of
  \<^verbatim>\<open>encoding/base64\<close>, and the decoding of UTF-8 into code points. Decoders return
  \<^const>\<open>None\<close> where Go returns an error. Both encodings round-trip.
\<close>

section \<open>Hexadecimal\<close>

definition hex_char :: "nat \<Rightarrow> char" where
  "hex_char n = ''0123456789abcdef'' ! n"

fun hex_EncodeToString :: "string \<Rightarrow> string" where
  "hex_EncodeToString [] = []"
| "hex_EncodeToString (c # cs) =
     hex_char (of_char c div 16) # hex_char (of_char c mod 16) # hex_EncodeToString cs"

definition hex_val :: "char \<Rightarrow> nat option" where
  "hex_val c = (let n = of_char c in
     if 48 \<le> n \<and> n \<le> 57 then Some (n - 48)
     else if 97 \<le> n \<and> n \<le> 102 then Some (n - 87)
     else if 65 \<le> n \<and> n \<le> 70 then Some (n - 55)
     else None)"

fun hex_DecodeString :: "string \<Rightarrow> string option" where
  "hex_DecodeString [] = Some []"
| "hex_DecodeString [c] = None"
| "hex_DecodeString (c # d # cs) =
     (case (hex_val c, hex_val d, hex_DecodeString cs) of
        (Some h, Some l, Some r) \<Rightarrow> Some (char_of (16 * h + l) # r)
      | _ \<Rightarrow> None)"

lemma hex_val_char [simp]: "n < 16 \<Longrightarrow> hex_val (hex_char n) = Some n"
proof -
  have "list_all (\<lambda>n. hex_val (hex_char n) = Some n) [0..<16]" by code_simp
  then show "n < 16 \<Longrightarrow> hex_val (hex_char n) = Some n" by (simp add: list_all_iff)
qed

lemma hex_roundtrip [simp]: "hex_DecodeString (hex_EncodeToString s) = Some s"
  by (induction s) (simp_all add: div_less_iff_less_mult)

lemma length_hex_Encode [simp]: "length (hex_EncodeToString s) = 2 * length s"
  by (induction s) simp_all

lemma hex_Encode_inject [simp]: "hex_EncodeToString s = hex_EncodeToString t \<longleftrightarrow> s = t"
  by (metis hex_roundtrip option.inject)

lemma length_hex_Decode: "hex_DecodeString s = Some t \<Longrightarrow> length s = 2 * length t"
  by (induction s arbitrary: t rule: hex_DecodeString.induct) (auto split: option.splits)

definition is_hex :: "char \<Rightarrow> bool" where
  "is_hex c \<longleftrightarrow> c \<in> set ''0123456789abcdef''"

lemma hex_char_is_hex: "n < 16 \<Longrightarrow> is_hex (hex_char n)"
  unfolding is_hex_def hex_char_def by (intro nth_mem) simp

lemma set_hex_Encode: "c \<in> set (hex_EncodeToString s) \<Longrightarrow> is_hex c"
  by (induction s) (auto simp: hex_char_is_hex div_less_iff_less_mult)

section \<open>Base64\<close>

definition b64url :: string where
  "b64url = ''ABCDEFGHIJKLMNOPQRSTUVWXYZabcdefghijklmnopqrstuvwxyz0123456789-_''"

definition b64std :: string where
  "b64std = ''ABCDEFGHIJKLMNOPQRSTUVWXYZabcdefghijklmnopqrstuvwxyz0123456789+/''"

fun b64_sextets :: "nat list \<Rightarrow> nat list" where
  "b64_sextets [] = []"
| "b64_sextets [a] = [a div 4, (a mod 4) * 16]"
| "b64_sextets [a, b] = [a div 4, (a mod 4) * 16 + b div 16, (b mod 16) * 4]"
| "b64_sextets (a # b # c # r) =
     [a div 4, (a mod 4) * 16 + b div 16, (b mod 16) * 4 + c div 64, c mod 64] @ b64_sextets r"

fun b64_octets :: "nat list \<Rightarrow> nat list option" where
  "b64_octets [] = Some []"
| "b64_octets [w] = None"
| "b64_octets [w, x] = Some [w * 4 + x div 16]"
| "b64_octets [w, x, y] = Some [w * 4 + x div 16, (x mod 16) * 16 + y div 4]"
| "b64_octets (w # x # y # z # r) =
     map_option (\<lambda>t. [w * 4 + x div 16, (x mod 16) * 16 + y div 4, (y mod 4) * 64 + z] @ t)
       (b64_octets r)"

definition alpha_index :: "string \<Rightarrow> char \<Rightarrow> nat option" where
  "alpha_index al c = List.find (\<lambda>i. al ! i = c) [0..<length al]"

fun alpha_indices :: "string \<Rightarrow> string \<Rightarrow> nat list option" where
  "alpha_indices al [] = Some []"
| "alpha_indices al (c # cs) =
     (case (alpha_index al c, alpha_indices al cs) of
        (Some i, Some is) \<Rightarrow> Some (i # is) | _ \<Rightarrow> None)"

text \<open>\<^verbatim>\<open>base64.RawURLEncoding\<close>. The decoder skips carriage returns and line feeds.\<close>

definition RawURL_EncodeToString :: "string \<Rightarrow> string" where
  "RawURL_EncodeToString s = map (\<lambda>i. b64url ! i) (b64_sextets (map of_char s))"

definition strip_newlines :: "string \<Rightarrow> string" where
  "strip_newlines s = filter (\<lambda>c. c \<noteq> CHR 0x0A \<and> c \<noteq> CHR 0x0D) s"

definition RawURL_DecodeString :: "string \<Rightarrow> string option" where
  "RawURL_DecodeString s =
     (case alpha_indices b64url (strip_newlines s) of
        None \<Rightarrow> None
      | Some is \<Rightarrow> map_option (map char_of) (b64_octets is))"

text \<open>\<^verbatim>\<open>base64.StdEncoding\<close>: the last group is padded with \<open>=\<close> to four characters.\<close>

definition Std_EncodeToString :: "string \<Rightarrow> string" where
  "Std_EncodeToString s =
     map (\<lambda>i. b64std ! i) (b64_sextets (map of_char s))
       @ replicate ((3 - length s mod 3) mod 3) (CHR ''='')"

definition Std_DecodeString :: "string \<Rightarrow> string option" where
  "Std_DecodeString s =
     (let t = strip_newlines s; pads = length (takeWhile (\<lambda>c. c = CHR ''='') (rev t));
          body = take (length t - pads) t
      in if length t mod 4 \<noteq> 0 \<or> pads > 2 then None
         else (case alpha_indices b64std body of
                 None \<Rightarrow> None
               | Some is \<Rightarrow> map_option (map char_of) (b64_octets is)))"

lemma b64_roundtrip_nat:
  "\<forall>x \<in> set xs. x < 256 \<Longrightarrow> b64_octets (b64_sextets xs) = Some xs"
proof (induction xs rule: b64_sextets.induct)
  case (4 a b c r)
  then have "b div 16 < 16" "c div 64 < 4" by auto
  with 4 show ?case by (simp add: mult.commute)
next
  case (3 a b)
  then have "b div 16 < 16" by auto
  then show ?case by (simp add: mult.commute)
qed (simp_all add: mult.commute)

lemma b64_sextets_less: "\<forall>x \<in> set xs. x < 256 \<Longrightarrow> i \<in> set (b64_sextets xs) \<Longrightarrow> i < 64"
proof (induction xs rule: b64_sextets.induct)
  case (4 a b c r)
  have "a mod 4 < 4" "b mod 16 < 16" "c mod 64 < 64" by simp_all
  moreover have "a div 4 < 64" "b div 16 < 16" "c div 64 < 4" using 4 by auto
  ultimately show ?case using 4 by auto
next
  case (3 a b)
  have "a mod 4 < 4" "b mod 16 < 16" by simp_all
  moreover have "a div 4 < 64" "b div 16 < 16" using 3 by auto
  ultimately show ?case using 3 by auto
next
  case (2 a)
  have "a mod 4 < 4" by simp
  with 2 show ?case by auto
qed simp

lemma alpha_index_nth:
  assumes "distinct al" and "i < length al"
  shows "alpha_index al (al ! i) = Some i"
proof -
  have "\<exists>j. List.find (\<lambda>j. al ! j = al ! i) [0..<length al] = Some j"
    using assms(2) by (auto simp: find_None_iff simp flip: not_None_eq)
  then obtain j where j: "List.find (\<lambda>j. al ! j = al ! i) [0..<length al] = Some j" ..
  then have "j < length al" "al ! j = al ! i" by (auto simp: find_Some_iff)
  with assms j show ?thesis by (simp add: alpha_index_def nth_eq_iff_index_eq)
qed

lemma alpha_indices_map:
  "distinct al \<Longrightarrow> \<forall>i \<in> set is. i < length al \<Longrightarrow>
   alpha_indices al (map (\<lambda>i. al ! i) is) = Some is"
  by (induction "is") (simp_all add: alpha_index_nth)

lemma b64url_props: "distinct b64url" "length b64url = 64" "distinct b64std" "length b64std = 64"
  by (simp_all add: b64url_def b64std_def)

lemma b64url_mem: "c \<in> set b64url \<Longrightarrow>
    c \<noteq> CHR 0x0A \<and> c \<noteq> CHR 0x0D \<and> c \<noteq> CHR ''='' \<and> c \<noteq> CHR '','' \<and> c \<noteq> CHR 0x22"
  by (auto simp: b64url_def)

lemma set_RawURL_Encode: "set (RawURL_EncodeToString s) \<subseteq> set b64url"
proof
  fix c assume "c \<in> set (RawURL_EncodeToString s)"
  then obtain i where "i \<in> set (b64_sextets (map of_char s))" "c = b64url ! i"
    by (auto simp: RawURL_EncodeToString_def)
  then show "c \<in> set b64url"
    using b64_sextets_less [of "map of_char s" i] b64url_props by (auto intro!: nth_mem)
qed

lemma strip_newlines_id:
  "\<forall>c \<in> set s. c \<noteq> CHR 0x0A \<and> c \<noteq> CHR 0x0D \<Longrightarrow> strip_newlines s = s"
  by (simp add: strip_newlines_def)

lemma RawURL_roundtrip [simp]: "RawURL_DecodeString (RawURL_EncodeToString s) = Some s"
proof -
  have bytes: "\<forall>x \<in> set (map of_char s). (x::nat) < 256" by auto
  have "strip_newlines (RawURL_EncodeToString s) = RawURL_EncodeToString s"
    using set_RawURL_Encode b64url_mem by (intro strip_newlines_id) blast
  moreover have "alpha_indices b64url (RawURL_EncodeToString s) =
      Some (b64_sextets (map of_char s))"
    unfolding RawURL_EncodeToString_def
    using b64_sextets_less [OF bytes] b64url_props by (intro alpha_indices_map) auto
  ultimately show ?thesis
    by (simp add: RawURL_DecodeString_def b64_roundtrip_nat [OF bytes] comp_def)
qed

lemma RawURL_Encode_empty [simp]: "RawURL_EncodeToString s = [] \<longleftrightarrow> s = []"
  by (metis RawURL_roundtrip RawURL_EncodeToString_def b64_sextets.simps(1) list.map(1) option.inject)

lemma b64std_mem: "c \<in> set b64std \<Longrightarrow> c \<noteq> CHR 0x0A \<and> c \<noteq> CHR 0x0D \<and> c \<noteq> CHR ''='' \<and> c \<noteq> CHR 0x22"
  by (auto simp: b64std_def)

lemma set_std_body: "set (map (\<lambda>i. b64std ! i) (b64_sextets (map of_char s))) \<subseteq> set b64std"
proof
  fix c assume "c \<in> set (map (\<lambda>i. b64std ! i) (b64_sextets (map of_char s)))"
  then obtain i where "i \<in> set (b64_sextets (map of_char s))" "c = b64std ! i" by auto
  then show "c \<in> set b64std"
    using b64_sextets_less [of "map of_char s" i] b64url_props by (auto intro!: nth_mem)
qed

lemma length_b64_sextets: "(length (b64_sextets xs) + (3 - length xs mod 3) mod 3) mod 4 = 0"
proof (induction xs rule: b64_sextets.induct)
  case (4 a b c r)
  have "length (a # b # c # r) mod 3 = length r mod 3" by simp
  with 4 show ?case by simp
qed simp_all

lemma takeWhile_replicate: "\<forall>c \<in> set b. c \<noteq> x \<Longrightarrow> takeWhile (\<lambda>c. c = x) (replicate n x @ b) = replicate n x"
  by (induction n) (cases b, auto)

lemma Std_no_quote: "CHR 0x22 \<notin> set (Std_EncodeToString s)"
  using set_std_body [of s] b64std_mem by (auto simp: Std_EncodeToString_def)

lemma Std_roundtrip [simp]: "Std_DecodeString (Std_EncodeToString s) = Some s"
proof -
  let ?body = "map (\<lambda>i. b64std ! i) (b64_sextets (map of_char s))"
  let ?n = "(3 - length s mod 3) mod 3"
  have bytes: "\<forall>x \<in> set (map of_char s). (x::nat) < 256" by auto
  have body: "\<forall>c \<in> set ?body. c \<noteq> CHR 0x0A \<and> c \<noteq> CHR 0x0D \<and> c \<noteq> CHR ''=''"
    using set_std_body [of s] b64std_mem by blast
  then have strip: "strip_newlines (Std_EncodeToString s) = ?body @ replicate ?n (CHR ''='')"
    unfolding Std_EncodeToString_def by (intro strip_newlines_id) auto
  have pads: "takeWhile (\<lambda>c. c = CHR ''='') (rev (?body @ replicate ?n (CHR ''=''))) = replicate ?n (CHR ''='')"
    using body takeWhile_replicate [of "rev ?body" "CHR ''=''" ?n] by auto
  have len: "length (?body @ replicate ?n (CHR ''='')) mod 4 = 0"
    using length_b64_sextets [of "map of_char s"] by simp
  have small: "\<not> ?n > 2" by simp
  have "alpha_indices b64std ?body = Some (b64_sextets (map of_char s))"
    using b64_sextets_less [OF bytes] b64url_props by (intro alpha_indices_map) auto
  then show ?thesis
    unfolding Std_DecodeString_def strip Let_def pads
    using len small by (simp add: b64_roundtrip_nat [OF bytes] comp_def)
qed

lemma Std_inject [simp]: "Std_EncodeToString s = Std_EncodeToString t \<longleftrightarrow> s = t"
  by (metis Std_roundtrip option.inject)

section \<open>UTF-8\<close>

definition cont :: "char \<Rightarrow> nat \<Rightarrow> nat \<Rightarrow> bool" where
  "cont c lo hi \<longleftrightarrow> lo \<le> of_char c \<and> of_char c \<le> hi"

text \<open>\<^verbatim>\<open>utf8.DecodeRuneInString\<close>: the code point and its width; an invalid byte is U+FFFD.\<close>

definition decode_rune :: "string \<Rightarrow> nat \<times> nat" where
  "decode_rune s = (case s of [] \<Rightarrow> (65533, 0) | b # r \<Rightarrow> (let n = of_char b in
     if n < 0x80 then (n, 1)
     else if 0xC2 \<le> n \<and> n \<le> 0xDF then
       (case r of c # _ \<Rightarrow> if cont c 0x80 0xBF then ((n - 0xC0) * 64 + (of_char c - 0x80), 2)
                          else (65533, 1)
        | _ \<Rightarrow> (65533, 1))
     else if 0xE0 \<le> n \<and> n \<le> 0xEF then
       (case r of c # d # _ \<Rightarrow>
          if cont c (if n = 0xE0 then 0xA0 else 0x80) (if n = 0xED then 0x9F else 0xBF)
             \<and> cont d 0x80 0xBF
          then ((n - 0xE0) * 4096 + (of_char c - 0x80) * 64 + (of_char d - 0x80), 3)
          else (65533, 1)
        | _ \<Rightarrow> (65533, 1))
     else if 0xF0 \<le> n \<and> n \<le> 0xF4 then
       (case r of c # d # e # _ \<Rightarrow>
          if cont c (if n = 0xF0 then 0x90 else 0x80) (if n = 0xF4 then 0x8F else 0xBF)
             \<and> cont d 0x80 0xBF \<and> cont e 0x80 0xBF
          then ((n - 0xF0) * 262144 + (of_char c - 0x80) * 4096 + (of_char d - 0x80) * 64
                 + (of_char e - 0x80), 4)
          else (65533, 1)
        | _ \<Rightarrow> (65533, 1))
     else (65533, 1)))"

function runes :: "string \<Rightarrow> nat list" where
  "runes s = (if s = [] then []
     else fst (decode_rune s) # runes (drop (max 1 (snd (decode_rune s))) s))"
  by pat_completeness auto
termination
  by (relation "measure length") auto

declare runes.simps [simp del]

lemma runes_Nil [simp]: "runes [] = []"
  by (simp add: runes.simps)

lemma runes_ascii:
  "\<forall>c \<in> set s. of_char c < (128::nat) \<Longrightarrow> runes s = map of_char s"
proof (induction s)
  case (Cons c s)
  then have "decode_rune (c # s) = (of_char c, 1)" by (simp add: decode_rune_def)
  with Cons show ?case by (subst runes.simps) simp
qed simp

end
