(* ===== verification/Go_Path.thy ===== *)
theory Go_Path
  imports Go_Strings
begin

text \<open>
  Go's \<^verbatim>\<open>path\<close> package (\<^verbatim>\<open>Clean\<close>, \<^verbatim>\<open>Join\<close>, \<^verbatim>\<open>Base\<close>), by segments. The storage
  backends build their keys with \<^verbatim>\<open>path.Join(prefix, kind, id)\<close>; the lemmas here say that
  this is injective, and that the id is the last segment of the key, whenever kind and id are
  plain segments (not empty, no slash, neither \<open>.\<close> nor \<open>..\<close>).
\<close>

abbreviation slash :: char where
  "slash \<equiv> CHR ''/''"

fun clean_segs :: "bool \<Rightarrow> string list \<Rightarrow> string list \<Rightarrow> string list" where
  "clean_segs rooted st [] = rev st"
| "clean_segs rooted st (x # xs) =
     (if x = [] \<or> x = ''.'' then clean_segs rooted st xs
      else if x = ''..'' then
        (case st of
           [] \<Rightarrow> clean_segs rooted (if rooted then [] else [''..'']) xs
         | y # ys \<Rightarrow> if y = ''..'' then clean_segs rooted (''..'' # st) xs
                    else clean_segs rooted ys xs)
      else clean_segs rooted (x # st) xs)"

definition rooted :: "string \<Rightarrow> bool" where
  "rooted s \<longleftrightarrow> s \<noteq> [] \<and> hd s = slash"

definition path_Clean :: "string \<Rightarrow> string" where
  "path_Clean s =
     (if s = [] then ''.''
      else let segs = clean_segs (rooted s) [] (split slash s)
           in if rooted s then slash # join [slash] segs
              else if segs = [] then ''.'' else join [slash] segs)"

definition path_Join :: "string list \<Rightarrow> string" where
  "path_Join elems =
     (let es = dropWhile (\<lambda>e. e = []) elems
      in if es = [] then [] else path_Clean (join [slash] es))"

definition path_Base :: "string \<Rightarrow> string" where
  "path_Base s =
     (if s = [] then ''.''
      else let t = rev (dropWhile (\<lambda>c. c = slash) (rev s))
           in if t = [] then [slash] else last (split slash t))"

definition plain :: "string \<Rightarrow> bool" where
  "plain x \<longleftrightarrow> x \<noteq> [] \<and> slash \<notin> set x \<and> x \<noteq> ''.'' \<and> x \<noteq> ''..''"

lemma clean_segs_plain:
  "plain k \<Longrightarrow> plain x \<Longrightarrow> clean_segs r st (xs @ [k, x]) = clean_segs r st xs @ [k, x]"
  by (induction r st xs rule: clean_segs.induct) (auto simp: plain_def split: list.splits)

lemma clean_segs_free:
  "\<forall>y \<in> set st. slash \<notin> set y \<Longrightarrow> \<forall>y \<in> set xs. slash \<notin> set y \<Longrightarrow>
   \<forall>y \<in> set (clean_segs r st xs). slash \<notin> set y"
  by (induction r st xs rule: clean_segs.induct) (auto split: list.splits)

text \<open>The segments that a key prefix contributes, and whether the key is rooted.\<close>

definition prefix_segs :: "string \<Rightarrow> string list" where
  "prefix_segs p = (if p = [] then [] else clean_segs (rooted p) [] (split slash p))"

definition key_of :: "bool \<Rightarrow> string list \<Rightarrow> string" where
  "key_of r segs = (if r then slash # join [slash] segs else join [slash] segs)"

lemma rooted_append: "p \<noteq> [] \<Longrightarrow> rooted (p @ q) = rooted p"
  by (simp add: rooted_def)

lemma plain_not_rooted: "plain k \<Longrightarrow> \<not> rooted (k @ q)"
  by (cases k) (auto simp: rooted_def plain_def)

lemma path_Join_key:
  assumes "plain k" and "plain x"
  shows "path_Join [p, k, x] = key_of (rooted p) (prefix_segs p @ [k, x])"
proof -
  from assms have ne: "k \<noteq> []" "x \<noteq> []" and free: "slash \<notin> set k" "slash \<notin> set x"
    by (auto simp: plain_def)
  show ?thesis
  proof (cases "p = []")
    case True
    have "clean_segs False [] [k, x] = [k, x]"
      using clean_segs_plain [OF assms, of False "[]" "[]"] by simp
    with True ne free assms(1) show ?thesis
      by (simp add: path_Join_def path_Clean_def plain_not_rooted key_of_def prefix_segs_def
          Let_def rooted_def [of "[]"])
  next
    case False
    let ?s = "p @ slash # k @ slash # x"
    have segs: "split slash ?s = split slash p @ [k, x]"
      using free by (simp add: split_append)
    have "rooted ?s = rooted p" using False by (simp add: rooted_append)
    with False segs show ?thesis
      by (simp add: path_Join_def path_Clean_def clean_segs_plain [OF assms] key_of_def
          prefix_segs_def Let_def)
  qed
qed

lemma path_Join2_key:
  assumes "plain x" and "plain p"
  shows "path_Join [p, x] = p @ slash # x"
proof -
  from assms have ne: "p \<noteq> []" and free: "slash \<notin> set p" "slash \<notin> set x"
    by (auto simp: plain_def)
  have "clean_segs False [] ([] @ [p, x]) = [p, x]"
    by (subst clean_segs_plain [OF assms(2,1)]) simp
  with ne free assms show ?thesis
    by (simp add: path_Join_def path_Clean_def plain_not_rooted Let_def)
qed

lemma prefix_segs_free: "y \<in> set (prefix_segs p) \<Longrightarrow> slash \<notin> set y"
proof -
  assume y: "y \<in> set (prefix_segs p)"
  have "\<forall>y \<in> set (clean_segs (rooted p) [] (split slash p)). slash \<notin> set y"
    by (rule clean_segs_free) (simp, blast dest: split_seg_free)
  with y show ?thesis by (simp add: prefix_segs_def split: if_splits)
qed

lemma key_of_inject:
  assumes "xs \<noteq> []" "ys \<noteq> []"
    and "\<forall>x \<in> set xs. slash \<notin> set x" "\<forall>y \<in> set ys. slash \<notin> set y"
  shows "key_of r xs = key_of r ys \<longleftrightarrow> xs = ys"
  using assms by (metis key_of_def list.inject split_join)

theorem path_Join_inject:
  assumes "plain k" "plain x" "plain k'" "plain x'"
  shows "path_Join [p, k, x] = path_Join [p, k', x'] \<longleftrightarrow> k = k' \<and> x = x'"
proof -
  have "\<forall>y \<in> set (prefix_segs p @ [k, x]). slash \<notin> set y"
    and "\<forall>y \<in> set (prefix_segs p @ [k', x']). slash \<notin> set y"
    using assms prefix_segs_free by (auto simp: plain_def)
  then show ?thesis
    by (simp add: path_Join_key assms key_of_inject)
qed

lemma path_Base_key:
  assumes "plain k" "plain x"
  shows "path_Base (path_Join [p, k, x]) = x"
proof -
  let ?xs = "prefix_segs p @ [k]"
  have x: "x \<noteq> []" "slash \<notin> set x" using assms by (auto simp: plain_def)
  then have lx: "last x \<noteq> slash" by (metis last_in_set)
  have key: "path_Join [p, k, x] = key_of (rooted p) ?xs @ slash # x"
    using join_append [of ?xs "[x]" "[slash]"] by (simp add: path_Join_key [OF assms] key_of_def)
  have "dropWhile (\<lambda>c. c = slash) (rev (key_of (rooted p) ?xs @ slash # x))
      = rev (key_of (rooted p) ?xs @ slash # x)"
    using x lx by (cases x rule: rev_cases) auto
  with key x show ?thesis
    by (simp add: path_Base_def split_append)
qed

text \<open>A listing scans the keys that start with \<open>path.Join(prefix, kind)\<close>.\<close>

lemma path_Join_kind:
  assumes "plain k"
  shows "path_Join [p, k] = key_of (rooted p) (prefix_segs p @ [k])"
proof -
  have snoc: "clean_segs r st (xs @ [k]) = clean_segs r st xs @ [k]" for r st xs
    using assms
    by (induction r st xs rule: clean_segs.induct) (auto simp: plain_def split: list.splits)
  from assms have k: "k \<noteq> []" "slash \<notin> set k" by (auto simp: plain_def)
  show ?thesis
  proof (cases "p = []")
    case True
    with k assms show ?thesis
      using snoc [of False "[]" "[]"] plain_not_rooted [OF assms, of "[]"]
      by (simp add: path_Join_def path_Clean_def key_of_def prefix_segs_def Let_def
          rooted_def [of "[]"])
  next
    case False
    with k show ?thesis
      by (simp add: path_Join_def path_Clean_def key_of_def prefix_segs_def Let_def
          split_append snoc rooted_append)
  qed
qed

lemma path_Join_snoc:
  assumes "plain k" "plain x"
  shows "path_Join [p, k, x] = path_Join [p, k] @ slash # x"
  using join_append [of "prefix_segs p @ [k]" "[x]" "[slash]"]
  by (simp add: path_Join_key [OF assms] path_Join_kind [OF assms(1)] key_of_def)

end
