(* ===== verification/Validation.thy ===== *)
theory Validation
  imports Go_Encoding Go_Path
begin

text \<open>
  \<^verbatim>\<open>pkg/validation\<close>: the four anchored regular expressions of \<^verbatim>\<open>validation.go\<close> as
  predicates, and the \<^verbatim>\<open>Validate...\<close> functions over them. A \<^verbatim>\<open>nil\<close> error is
  \<^term>\<open>Ret ()\<close>. The lemmas give, for each validator, exactly the strings it accepts, and that an
  accepted id is a plain path segment.
\<close>

definition alnum :: "char \<Rightarrow> bool" where
  "alnum c \<longleftrightarrow> (let n = of_char c :: nat in
     97 \<le> n \<and> n \<le> 122 \<or> 65 \<le> n \<and> n \<le> 90 \<or> 48 \<le> n \<and> n \<le> 57)"

text \<open>\<^verbatim>\<open>^[a-zA-Z0-9][a-zA-Z0-9-_./]{0,63}$\<close>\<close>

definition labelNameRegex :: "string \<Rightarrow> bool" where
  "labelNameRegex s = (case s of [] \<Rightarrow> False
     | c # cs \<Rightarrow> alnum c \<and> length cs \<le> 63 \<and> list_all (\<lambda>d. alnum d \<or> d \<in> set ''-_./'') cs)"

text \<open>\<^verbatim>\<open>^[a-zA-Z0-9][a-zA-Z0-9-_.]{0,63}$\<close>\<close>

definition labelValueRegex :: "string \<Rightarrow> bool" where
  "labelValueRegex s = (case s of [] \<Rightarrow> False
     | c # cs \<Rightarrow> alnum c \<and> length cs \<le> 63 \<and> list_all (\<lambda>d. alnum d \<or> d \<in> set ''-_.'') cs)"

text \<open>\<^verbatim>\<open>^[a-zA-Z0-9-_.\(\)]{1,128}$\<close>\<close>

definition idRegex :: "string \<Rightarrow> bool" where
  "idRegex s \<longleftrightarrow> 1 \<le> length s \<and> length s \<le> 128 \<and> list_all (\<lambda>d. alnum d \<or> d \<in> set ''-_.()'') s"

text \<open>\<^verbatim>\<open>^[^\\*"'\s]{1,256}$\<close>; it counts code points, and \<^verbatim>\<open>\s\<close> is \<^verbatim>\<open>[\t\n\f\r ]\<close>.\<close>

definition subjectNameRegex :: "string \<Rightarrow> bool" where
  "subjectNameRegex s \<longleftrightarrow>
     1 \<le> length (runes s) \<and> length (runes s) \<le> 256 \<and>
     list_all (\<lambda>r. r \<notin> {92, 42, 34, 39, 9, 10, 12, 13, 32}) (runes s)"

definition ValidateLabelName :: "string \<Rightarrow> unit go" where
  "ValidateLabelName name = (if \<not> labelNameRegex name then Fail ErrInvalidLabelName else Ret ())"

definition ValidateLabelValue :: "string \<Rightarrow> unit go" where
  "ValidateLabelValue v = (if \<not> labelValueRegex v then Fail ErrInvalidLabelValue else Ret ())"

definition ValidateLabels :: "string gomap \<Rightarrow> unit go" where
  "ValidateLabels labels =
     go_all (\<lambda>(k, v). go_bind (ValidateLabelName k) (\<lambda>_. ValidateLabelValue v)) labels"

definition ValidateID :: "string \<Rightarrow> unit go" where
  "ValidateID i = (if \<not> idRegex i then Fail ErrInvalidID
     else if replicate (length i) (CHR ''.'') = i then Fail ErrInvalidID
     else Ret ())"

definition ValidateSubject :: "string \<Rightarrow> unit go" where
  "ValidateSubject subject =
     (if \<not> subjectNameRegex subject then Fail ErrInvalidSubjectName else Ret ())"

lemma ValidateLabelName_Ret [simp]: "ValidateLabelName s = Ret () \<longleftrightarrow> labelNameRegex s"
  by (simp add: ValidateLabelName_def)

lemma ValidateLabelValue_Ret [simp]: "ValidateLabelValue s = Ret () \<longleftrightarrow> labelValueRegex s"
  by (simp add: ValidateLabelValue_def)

lemma ValidateSubject_Ret [simp]: "ValidateSubject s = Ret () \<longleftrightarrow> subjectNameRegex s"
  by (simp add: ValidateSubject_def)

lemma ValidateID_Ret:
  "ValidateID s = Ret () \<longleftrightarrow> idRegex s \<and> \<not> (\<forall>c \<in> set s. c = CHR ''.'')"
proof -
  have "replicate (length s) (CHR ''.'') = s \<longleftrightarrow> (\<forall>c \<in> set s. c = CHR ''.'')"
    by (induction s) auto
  then show ?thesis by (simp add: ValidateID_def)
qed

lemma ValidateLabels_Ret [simp]:
  "ValidateLabels m = Ret () \<longleftrightarrow> (\<forall>(k, v) \<in> set m. labelNameRegex k \<and> labelValueRegex v)"
  by (auto simp: ValidateLabels_def)

lemma go_all_Fail: "go_all f xs = Fail e \<Longrightarrow> \<exists>x \<in> set xs. f x = Fail e"
proof (induction xs)
  case (Cons x xs)
  then show ?case by (cases "f x") auto
qed simp

lemma go_all_Panic: "go_all f xs = Panic p \<Longrightarrow> \<exists>x \<in> set xs. f x = Panic p"
proof (induction xs)
  case (Cons x xs)
  then show ?case by (cases "f x") auto
qed simp

lemma labelValueRegex_nonempty: "labelValueRegex s \<Longrightarrow> s \<noteq> []"
  by (auto simp: labelValueRegex_def)

text \<open>An accepted id cannot leave the directory it is joined to.\<close>

lemma ValidateID_plain: "ValidateID s = Ret () \<Longrightarrow> plain s"
proof -
  assume ok: "ValidateID s = Ret ()"
  have "slash \<notin> set s"
    using ok by (auto simp: ValidateID_Ret idRegex_def list_all_iff alnum_def)
  moreover have "s \<noteq> []" "s \<noteq> ''.''" "s \<noteq> ''..''"
    using ok by (auto simp: ValidateID_Ret idRegex_def)
  ultimately show ?thesis by (simp add: plain_def)
qed

lemma alnum_hex: "is_hex c \<Longrightarrow> alnum c"
  by (auto simp: is_hex_def alnum_def)

text \<open>The hexadecimal ids of bootstrap tokens are valid ids.\<close>

lemma ValidateID_hex:
  assumes "1 \<le> length s" and "length s \<le> 64"
  shows "ValidateID (hex_EncodeToString s) = Ret ()"
proof -
  let ?h = "hex_EncodeToString s"
  have "list_all (\<lambda>d. alnum d \<or> d \<in> set ''-_.()'') ?h"
    using set_hex_Encode alnum_hex by (auto simp: list_all_iff)
  moreover have "hd ?h \<in> set ?h" using assms(1) by (cases s) auto
  moreover then have "is_hex (hd ?h)" by (rule set_hex_Encode)
  then have "hd ?h \<noteq> CHR ''.''" by (auto simp: is_hex_def)
  ultimately show ?thesis
    using assms by (auto simp: ValidateID_Ret idRegex_def)
qed

end
