(* ===== verification/Core_V1.thy ===== *)
theory Core_V1
  imports Validation
begin

text \<open>
  \<^verbatim>\<open>pkg/apis/core/v1\<close>: the messages of \<^verbatim>\<open>core.proto\<close> the gateway stores and exchanges, and the
  handwritten methods on them (\<^verbatim>\<open>labels.go\<close>, \<^verbatim>\<open>metadata.go\<close>, \<^verbatim>\<open>reference.go\<close>,
  \<^verbatim>\<open>comparator.go\<close>, \<^verbatim>\<open>validation.go\<close>, \<^verbatim>\<open>extensions.go\<close>).

  A message is a record; a pointer to a message that the code compares with \<^verbatim>\<open>nil\<close> is an option; a
  repeated message field is a list of (non-nil) messages; a timestamp is a number of nanoseconds
  since the Unix epoch.
\<close>

type_synonym time = int

record Reference =
  ref_id :: string

record TokenCapability =
  tc_type :: string
  tc_reference :: "Reference option"

record BootstrapTokenMetadata =
  bm_leaseID :: int
  bm_ttl :: int
  bm_usageCount :: int
  bm_labels :: "string gomap"
  bm_capabilities :: "TokenCapability list"
  bm_resourceVersion :: string

record BootstrapToken =
  bt_tokenID :: string
  bt_secret :: string
  bt_metadata :: "BootstrapTokenMetadata option"

datatype Module =
  Module (mod_path: string) (mod_version: string) (mod_sum: string) (mod_replace: "Module option")

record BuildInfo =
  bi_goVersion :: string
  bi_path :: string
  bi_main :: "Module option"
  bi_deps :: "Module list"
  bi_settings :: "(string \<times> string) list"

record LastKnownConnectionDetails =
  lk_time :: "time option"
  lk_address :: string
  lk_agentBuildInfo :: "BuildInfo option"
  lk_pluginVersions :: "string gomap"

record ClusterCapability =
  cc_name :: string
  cc_deletionTimestamp :: "time option"

record ClusterMetadata =
  cm_labels :: "string gomap"
  cm_capabilities :: "ClusterCapability list"
  cm_resourceVersion :: string
  cm_lastKnown :: "LastKnownConnectionDetails option"
  cm_creationTimestamp :: "time option"

record Cluster =
  cl_id :: string
  cl_metadata :: "ClusterMetadata option"

record LabelSelectorRequirement =
  lr_key :: string
  lr_operator :: string
  lr_values :: "string list"

record LabelSelector =
  ls_matchLabels :: "string gomap"
  ls_matchExpressions :: "LabelSelectorRequirement list"

record ClusterSelector =
  cs_clusterIDs :: "string list"
  cs_labelSelector :: "LabelSelector option"
  cs_matchOptions :: int

record Role =
  role_id :: string
  role_clusterIDs :: "string list"
  role_matchLabels :: "LabelSelector option"

record RoleBinding =
  rb_id :: string
  rb_roleId :: string
  rb_subjects :: "string list"
  rb_taints :: "string list"

record Status =
  st_timestamp :: "time option"
  st_connected :: bool

record Health =
  h_timestamp :: "time option"
  h_ready :: bool
  h_conditions :: "string list"
  h_annotations :: "string gomap"

record HealthStatus =
  hs_health :: "Health option"
  hs_status :: "Status option"

text \<open>\<^verbatim>\<open>MatchOptions\<close>: the enum and its alias.\<close>

abbreviation "MatchOptions_EmptySelectorMatchesAll \<equiv> (0 :: int)"
abbreviation "MatchOptions_EmptySelectorMatchesNone \<equiv> (1 :: int)"

text \<open>The zero messages \<^verbatim>\<open>&BootstrapTokenMetadata{}\<close> and \<^verbatim>\<open>&ClusterMetadata{}\<close>.\<close>

definition zero_BootstrapTokenMetadata :: BootstrapTokenMetadata where
  "zero_BootstrapTokenMetadata = \<lparr> bm_leaseID = 0, bm_ttl = 0, bm_usageCount = 0, bm_labels = [],
     bm_capabilities = [], bm_resourceVersion = '''' \<rparr>"

definition zero_ClusterMetadata :: ClusterMetadata where
  "zero_ClusterMetadata = \<lparr> cm_labels = [], cm_capabilities = [], cm_resourceVersion = '''',
     cm_lastKnown = None, cm_creationTimestamp = None \<rparr>"

section \<open>metadata.go\<close>

text \<open>A getter on a \<^verbatim>\<open>nil\<close> message answers the zero value; a setter creates the missing metadata.\<close>

definition GetMetadataT :: "BootstrapToken \<Rightarrow> BootstrapTokenMetadata" where
  "GetMetadataT t = (case bt_metadata t of None \<Rightarrow> zero_BootstrapTokenMetadata | Some m \<Rightarrow> m)"

definition token_GetCapabilities :: "BootstrapToken \<Rightarrow> TokenCapability list" where
  "token_GetCapabilities t = bm_capabilities (GetMetadataT t)"

definition token_SetCapabilities :: "BootstrapToken \<Rightarrow> TokenCapability list \<Rightarrow> BootstrapToken" where
  "token_SetCapabilities t cs = t\<lparr> bt_metadata := Some ((GetMetadataT t)\<lparr> bm_capabilities := cs \<rparr>) \<rparr>"

definition token_GetLabels :: "BootstrapToken \<Rightarrow> string gomap" where
  "token_GetLabels t = bm_labels (GetMetadataT t)"

definition token_SetLabels :: "BootstrapToken \<Rightarrow> string gomap \<Rightarrow> BootstrapToken" where
  "token_SetLabels t ls = t\<lparr> bt_metadata := Some ((GetMetadataT t)\<lparr> bm_labels := ls \<rparr>) \<rparr>"

definition token_GetResourceVersion :: "BootstrapToken \<Rightarrow> string" where
  "token_GetResourceVersion t = bm_resourceVersion (GetMetadataT t)"

definition token_SetResourceVersion :: "BootstrapToken \<Rightarrow> string \<Rightarrow> BootstrapToken" where
  "token_SetResourceVersion t v =
     t\<lparr> bt_metadata := Some ((GetMetadataT t)\<lparr> bm_resourceVersion := v \<rparr>) \<rparr>"

definition GetMetadataC :: "Cluster \<Rightarrow> ClusterMetadata" where
  "GetMetadataC c = (case cl_metadata c of None \<Rightarrow> zero_ClusterMetadata | Some m \<Rightarrow> m)"

definition cluster_GetCapabilities :: "Cluster \<Rightarrow> ClusterCapability list" where
  "cluster_GetCapabilities c = cm_capabilities (GetMetadataC c)"

definition cluster_SetCapabilities :: "Cluster \<Rightarrow> ClusterCapability list \<Rightarrow> Cluster" where
  "cluster_SetCapabilities c cs = c\<lparr> cl_metadata := Some ((GetMetadataC c)\<lparr> cm_capabilities := cs \<rparr>) \<rparr>"

definition cluster_GetLabels :: "Cluster \<Rightarrow> string gomap" where
  "cluster_GetLabels c = cm_labels (GetMetadataC c)"

definition cluster_SetLabels :: "Cluster \<Rightarrow> string gomap \<Rightarrow> Cluster" where
  "cluster_SetLabels c ls = c\<lparr> cl_metadata := Some ((GetMetadataC c)\<lparr> cm_labels := ls \<rparr>) \<rparr>"

definition cluster_GetResourceVersion :: "Cluster \<Rightarrow> string" where
  "cluster_GetResourceVersion c = cm_resourceVersion (GetMetadataC c)"

definition cluster_SetResourceVersion :: "Cluster \<Rightarrow> string \<Rightarrow> Cluster" where
  "cluster_SetResourceVersion c v =
     c\<lparr> cl_metadata := Some ((GetMetadataC c)\<lparr> cm_resourceVersion := v \<rparr>) \<rparr>"

definition cluster_SetCreationTimestamp :: "Cluster \<Rightarrow> time \<Rightarrow> Cluster" where
  "cluster_SetCreationTimestamp c ts =
     c\<lparr> cl_metadata := Some ((GetMetadataC c)\<lparr> cm_creationTimestamp := Some ts \<rparr>) \<rparr>"

definition cluster_GetCreationTimestamp :: "Cluster \<Rightarrow> time" where
  "cluster_GetCreationTimestamp c =
     (case cm_creationTimestamp (GetMetadataC c) of None \<Rightarrow> 0 | Some t \<Rightarrow> t)"

lemmas token_access = GetMetadataT_def token_GetCapabilities_def token_SetCapabilities_def
  token_GetLabels_def token_SetLabels_def token_GetResourceVersion_def token_SetResourceVersion_def

lemmas cluster_access = GetMetadataC_def cluster_GetCapabilities_def cluster_SetCapabilities_def
  cluster_GetLabels_def cluster_SetLabels_def cluster_GetResourceVersion_def
  cluster_SetResourceVersion_def cluster_SetCreationTimestamp_def cluster_GetCreationTimestamp_def

lemma token_get_set [simp]:
  "token_GetCapabilities (token_SetCapabilities t cs) = cs"
  "token_GetLabels (token_SetLabels t ls) = ls"
  "token_GetResourceVersion (token_SetResourceVersion t v) = v"
  "token_GetCapabilities (token_SetResourceVersion t v) = token_GetCapabilities t"
  "token_GetLabels (token_SetResourceVersion t v) = token_GetLabels t"
  "token_GetLabels (token_SetCapabilities t cs) = token_GetLabels t"
  "token_GetCapabilities (token_SetLabels t ls) = token_GetCapabilities t"
  "bt_tokenID (token_SetCapabilities t cs) = bt_tokenID t"
  "bt_tokenID (token_SetLabels t ls) = bt_tokenID t"
  "bt_tokenID (token_SetResourceVersion t v) = bt_tokenID t"
  "token_SetResourceVersion (token_SetResourceVersion t u) v = token_SetResourceVersion t v"
  by (simp_all add: token_access)

lemma cluster_get_set [simp]:
  "cluster_GetCapabilities (cluster_SetCapabilities c cs) = cs"
  "cluster_GetLabels (cluster_SetLabels c ls) = ls"
  "cluster_GetResourceVersion (cluster_SetResourceVersion c v) = v"
  "cluster_GetCreationTimestamp (cluster_SetCreationTimestamp c ts) = ts"
  "cluster_GetLabels (cluster_SetCapabilities c cs) = cluster_GetLabels c"
  "cluster_GetLabels (cluster_SetResourceVersion c v) = cluster_GetLabels c"
  "cluster_GetLabels (cluster_SetCreationTimestamp c ts) = cluster_GetLabels c"
  "cluster_GetCapabilities (cluster_SetLabels c ls) = cluster_GetCapabilities c"
  "cluster_GetCapabilities (cluster_SetResourceVersion c v) = cluster_GetCapabilities c"
  "cluster_GetCapabilities (cluster_SetCreationTimestamp c ts) = cluster_GetCapabilities c"
  "cluster_GetCreationTimestamp (cluster_SetResourceVersion c v) = cluster_GetCreationTimestamp c"
  "cl_id (cluster_SetCapabilities c cs) = cl_id c"
  "cl_id (cluster_SetLabels c ls) = cl_id c"
  "cl_id (cluster_SetResourceVersion c v) = cl_id c"
  "cl_id (cluster_SetCreationTimestamp c ts) = cl_id c"
  "cluster_SetResourceVersion (cluster_SetResourceVersion c u) v = cluster_SetResourceVersion c v"
  by (simp_all add: cluster_access)

section \<open>labels.go\<close>

abbreviation "LabelSelectorOpIn \<equiv> ''In''"
abbreviation "LabelSelectorOpNotIn \<equiv> ''NotIn''"
abbreviation "LabelSelectorOpExists \<equiv> ''Exists''"
abbreviation "LabelSelectorOpDoesNotExist \<equiv> ''DoesNotExist''"
abbreviation "NameLabel \<equiv> ''opni.io/name''"
abbreviation "LegacyNameLabel \<equiv> ''kubernetes.io/metadata.name''"

definition IsLabelInternal :: "string \<Rightarrow> bool" where
  "IsLabelInternal key = HasPrefix key ''opni.io/''"

definition IsLabelMutable :: "string \<Rightarrow> bool" where
  "IsLabelMutable key = (if key = NameLabel then True else \<not> IsLabelInternal key)"

text \<open>The operator symbols are the UTF-8 encodings of U+2208, U+2209, U+2203 and U+2204.\<close>

definition keyWithOperatorSymbol :: "string \<Rightarrow> string \<Rightarrow> string" where
  "keyWithOperatorSymbol key op =
     (if op = LabelSelectorOpIn then key @ '' '' @ [CHR 0xE2, CHR 0x88, CHR 0x88]
      else if op = LabelSelectorOpNotIn then key @ '' '' @ [CHR 0xE2, CHR 0x88, CHR 0x89]
      else if op = LabelSelectorOpExists then [CHR 0xE2, CHR 0x88, CHR 0x83] @ '' '' @ key
      else if op = LabelSelectorOpDoesNotExist then [CHR 0xE2, CHR 0x88, CHR 0x84] @ '' '' @ key
      else key @ '' ?'')"

definition requirement_ExpressionString :: "LabelSelectorRequirement \<Rightarrow> string" where
  "requirement_ExpressionString r =
     (if lr_operator r = LabelSelectorOpExists \<or> lr_operator r = LabelSelectorOpDoesNotExist
      then keyWithOperatorSymbol (lr_key r) (lr_operator r)
      else keyWithOperatorSymbol (lr_key r) (lr_operator r) @ '' {'' @
             join '','' (lr_values r) @ ''}'')"

definition selector_ExpressionString :: "LabelSelector option \<Rightarrow> string" where
  "selector_ExpressionString ls = (case ls of None \<Rightarrow> '''' | Some ls \<Rightarrow>
     join '' && ''
       (map (\<lambda>(k, v). requirement_ExpressionString
                \<lparr> lr_key = k, lr_operator = LabelSelectorOpIn, lr_values = [v] \<rparr>) (ls_matchLabels ls) @
        map requirement_ExpressionString (ls_matchExpressions ls)))"

definition selector_IsEmpty :: "LabelSelector option \<Rightarrow> bool" where
  "selector_IsEmpty ls = (case ls of None \<Rightarrow> True
     | Some ls \<Rightarrow> ls_matchLabels ls = [] \<and> ls_matchExpressions ls = [])"

section \<open>reference.go\<close>

definition cluster_Reference :: "Cluster \<Rightarrow> Reference" where
  "cluster_Reference c = \<lparr> ref_id = cl_id c \<rparr>"

definition role_Reference :: "Role \<Rightarrow> Reference" where
  "role_Reference r = \<lparr> ref_id = role_id r \<rparr>"

definition roleBinding_Reference :: "RoleBinding \<Rightarrow> Reference" where
  "roleBinding_Reference r = \<lparr> ref_id = rb_id r \<rparr>"

definition token_Reference :: "BootstrapToken \<Rightarrow> Reference" where
  "token_Reference t = \<lparr> ref_id = bt_tokenID t \<rparr>"

definition RoleReference :: "RoleBinding \<Rightarrow> Reference" where
  "RoleReference r = \<lparr> ref_id = rb_roleId r \<rparr>"

lemmas Reference_simps [simp] = cluster_Reference_def role_Reference_def roleBinding_Reference_def
  token_Reference_def RoleReference_def

section \<open>comparator.go\<close>

definition equalNonzeroOperator :: "string \<Rightarrow> string \<Rightarrow> bool" where
  "equalNonzeroOperator a b = (if a = '''' \<or> b = '''' then False else a = b)"

definition reference_Equal :: "Reference option \<Rightarrow> Reference option \<Rightarrow> bool" where
  "reference_Equal r other = (case (r, other) of
     (Some a, Some b) \<Rightarrow> equalNonzeroOperator (ref_id a) (ref_id b)
   | _ \<Rightarrow> r = other)"

text \<open>\<^verbatim>\<open>equalNonzeroFunc\<close> at its one instance, \<^verbatim>\<open>*Reference\<close>, whose zero value is \<^verbatim>\<open>nil\<close>.\<close>

definition equalNonzeroFunc :: "Reference option \<Rightarrow> Reference option \<Rightarrow> bool" where
  "equalNonzeroFunc a b =
     (if reference_Equal a None \<or> reference_Equal b None then False else reference_Equal a b)"

definition tokenCapability_Equal :: "TokenCapability \<Rightarrow> TokenCapability \<Rightarrow> bool" where
  "tokenCapability_Equal c other \<longleftrightarrow>
     equalNonzeroOperator (tc_type c) (tc_type other) \<and>
     equalNonzeroFunc (tc_reference c) (tc_reference other)"

definition clusterCapability_Equal :: "ClusterCapability \<Rightarrow> ClusterCapability \<Rightarrow> bool" where
  "clusterCapability_Equal c other = equalNonzeroOperator (cc_name c) (cc_name other)"

definition health_Equal :: "Health option \<Rightarrow> Health option \<Rightarrow> bool" where
  "health_Equal r other = (case (r, other) of
     (Some a, Some b) \<Rightarrow> h_ready a = h_ready b \<and> h_conditions a = h_conditions b \<and>
        maps_Equal (h_annotations a) (h_annotations b)
   | _ \<Rightarrow> r = other)"

definition asTime :: "time option \<Rightarrow> time" where
  "asTime t = (case t of None \<Rightarrow> 0 | Some t \<Rightarrow> t)"

definition health_timestamp :: "Health option \<Rightarrow> time" where
  "health_timestamp h = (case h of None \<Rightarrow> 0 | Some h \<Rightarrow> asTime (h_timestamp h))"

definition health_NewerThan :: "Health option \<Rightarrow> Health option \<Rightarrow> bool" where
  "health_NewerThan r other = (health_timestamp r > health_timestamp other)"

lemma equalNonzeroOperator_iff [simp]: "equalNonzeroOperator a b \<longleftrightarrow> a = b \<and> a \<noteq> ''''"
  by (auto simp: equalNonzeroOperator_def)

lemma equalNonzeroFunc_iff [simp]:
  "equalNonzeroFunc a b \<longleftrightarrow> (\<exists>i. i \<noteq> '''' \<and> a = Some \<lparr> ref_id = i \<rparr> \<and> b = Some \<lparr> ref_id = i \<rparr>)"
  by (cases a; cases b) (auto simp: equalNonzeroFunc_def reference_Equal_def intro: Reference.equality)

text \<open>A capability that names nothing is not even equal to itself; on the others the two
  \<^verbatim>\<open>Equal\<close> methods are equivalence relations.\<close>

definition tokenCapability_named :: "TokenCapability \<Rightarrow> bool" where
  "tokenCapability_named c \<longleftrightarrow> tc_type c \<noteq> '''' \<and>
     (case tc_reference c of None \<Rightarrow> False | Some r \<Rightarrow> ref_id r \<noteq> '''')"

lemma tokenCapability_Equal_iff:
  "tokenCapability_Equal c d \<longleftrightarrow>
     tokenCapability_named c \<and> tc_type c = tc_type d \<and> tc_reference c = tc_reference d"
proof (cases "tc_reference c")
  case (Some r)
  then show ?thesis
    by (cases r) (auto simp: tokenCapability_Equal_def tokenCapability_named_def)
qed (simp add: tokenCapability_Equal_def tokenCapability_named_def)

lemma clusterCapability_Equal_iff [simp]:
  "clusterCapability_Equal c d \<longleftrightarrow> cc_name c = cc_name d \<and> cc_name c \<noteq> ''''"
  by (simp add: clusterCapability_Equal_def)

section \<open>extensions.go\<close>

definition health_Summary :: "HealthStatus \<Rightarrow> string" where
  "health_Summary s = (case (hs_status s, hs_health s) of
     (Some st, Some h) \<Rightarrow>
        if \<not> st_connected st then ''Disconnected''
        else if h_conditions h \<noteq> [] then ''Unhealthy: '' @ join '', '' (h_conditions h)
        else if \<not> h_ready h then ''Not ready (unknown reason)''
        else ''Healthy''
   | _ \<Rightarrow> ''Unknown'')"

lemma health_Summary_Healthy:
  "health_Summary s = ''Healthy'' \<longleftrightarrow>
     (\<exists>st h. hs_status s = Some st \<and> hs_health s = Some h \<and>
        st_connected st \<and> h_ready h \<and> h_conditions h = [])"
  by (cases "hs_status s"; cases "hs_health s") (auto simp: health_Summary_def)

end
