(* ===== verification/Api_Validation.thy ===== *)
theory Api_Validation
  imports Core_V1
begin

text \<open>
  The \<^verbatim>\<open>Validate\<close> methods of the API messages: \<^verbatim>\<open>pkg/apis/core/v1/validation.go\<close>,
  \<^verbatim>\<open>pkg/apis/management/v1/validation.go\<close>, \<^verbatim>\<open>pkg/apis/bootstrap/{v1,v2}/validation.go\<close>,
  \<^verbatim>\<open>pkg/apis/capability/v1/validation.go\<close> and \<^verbatim>\<open>pkg/apis/control/v1/validate.go\<close>.

  A method called through a \<^verbatim>\<open>nil\<close> pointer whose fields it reads is a \<^term>\<open>Panic\<close>. Parameters for
  code of other packages: \<^verbatim>\<open>lo.Uniq\<close> (documented to return its argument without duplicates) and the
  protobuf duration's \<^verbatim>\<open>CheckValid\<close> and \<^verbatim>\<open>AsDuration\<close>.
\<close>

section \<open>core/v1\<close>

abbreviation missing :: "string \<Rightarrow> 'a go" where
  "missing field \<equiv> Fail (Wrap field ErrMissingRequiredField)"

definition cluster_Validate :: "Cluster \<Rightarrow> unit go" where
  "cluster_Validate c = (if cl_id c = '''' then missing ''id''
     else go_bind (ValidateID (cl_id c)) (\<lambda>_. ValidateLabels (cluster_GetLabels c)))"

definition requirement_Validate :: "LabelSelectorRequirement \<Rightarrow> unit go" where
  "requirement_Validate r = (if lr_key r = '''' then missing ''key''
     else if lr_operator r = '''' then missing ''operator''
     else go_bind (ValidateLabelName (lr_key r)) (\<lambda>_.
       if lr_operator r \<in> {LabelSelectorOpIn, LabelSelectorOpNotIn, LabelSelectorOpExists,
            LabelSelectorOpDoesNotExist}
       then go_all ValidateLabelValue (lr_values r)
       else Fail (Wrap (lr_operator r) ErrInvalidValue)))"

definition selector_Validate :: "LabelSelector \<Rightarrow> unit go" where
  "selector_Validate ls = go_bind (ValidateLabels (ls_matchLabels ls))
     (\<lambda>_. go_all requirement_Validate (ls_matchExpressions ls))"

definition restricted_Validate :: "LabelSelector \<Rightarrow> unit go" where
  "restricted_Validate ls =
     go_bind (ValidateLabels (ls_matchLabels ls)) (\<lambda>_.
     go_bind (go_all (\<lambda>k. if IsLabelInternal k then Fail (Wrap k ErrInternalLabelInSelector) else Ret ())
                (keys (ls_matchLabels ls))) (\<lambda>_.
     go_all (\<lambda>l. go_bind (requirement_Validate l) (\<lambda>_.
        if IsLabelInternal (lr_key l) then Fail (Wrap (lr_key l) ErrInternalLabelInSelector)
        else Ret ())) (ls_matchExpressions ls)))"

definition clusterSelector_Validate ::
  "(string list \<Rightarrow> string list) \<Rightarrow> ClusterSelector \<Rightarrow> unit go" where
  "clusterSelector_Validate uniq s =
     go_bind (go_all ValidateID (cs_clusterIDs s)) (\<lambda>_.
     if length (uniq (cs_clusterIDs s)) \<noteq> length (cs_clusterIDs s)
     then Fail (Wrap ''clusterIDs'' ErrDuplicate)
     else case cs_labelSelector s of None \<Rightarrow> Ret () | Some ls \<Rightarrow> selector_Validate ls)"

definition role_Validate :: "(string list \<Rightarrow> string list) \<Rightarrow> Role \<Rightarrow> unit go" where
  "role_Validate uniq r = (if role_id r = '''' then missing ''id''
     else go_bind (go_err (ValidateID (role_id r)) (Wrap (role_id r))) (\<lambda>_.
     go_bind (go_all (\<lambda>i. go_err (ValidateID i) (Wrap i)) (role_clusterIDs r)) (\<lambda>_.
     if length (uniq (role_clusterIDs r)) \<noteq> length (role_clusterIDs r)
     then Fail (Wrap ''clusterIDs'' ErrDuplicate)
     else case role_matchLabels r of None \<Rightarrow> Ret () | Some ls \<Rightarrow> restricted_Validate ls)))"

definition roleBinding_Validate :: "RoleBinding \<Rightarrow> unit go" where
  "roleBinding_Validate rb = (if rb_id rb = '''' then missing ''id''
     else if rb_roleId rb = '''' then missing ''roleId''
     else go_bind (go_err (ValidateID (rb_id rb)) (Wrap (rb_id rb))) (\<lambda>_.
     go_bind (go_err (ValidateID (rb_roleId rb)) (Wrap (rb_roleId rb))) (\<lambda>_.
     go_all ValidateSubject (rb_subjects rb))))"

definition reference_Validate :: "Reference option \<Rightarrow> unit go" where
  "reference_Validate ref = (case ref of None \<Rightarrow> Panic ''nil Reference''
     | Some r \<Rightarrow> if ref_id r = '''' then missing ''id'' else ValidateID (ref_id r))"

definition subjectAccessRequest_Validate :: "string \<Rightarrow> unit go" where
  "subjectAccessRequest_Validate subject =
     (if subject = '''' then missing ''subject'' else ValidateSubject subject)"

definition matchOptions_Validate :: "int \<Rightarrow> unit go" where
  "matchOptions_Validate opt = (if opt \<noteq> 0 \<and> opt \<noteq> 1 then Fail (Wrap ''MatchOptions'' ErrInvalidValue)
     else Ret ())"

definition tokenCapability_Validate :: "TokenCapability \<Rightarrow> unit go" where
  "tokenCapability_Validate tc = (if tc_type tc = '''' then missing ''type''
     else case tc_reference tc of None \<Rightarrow> Ret () | Some r \<Rightarrow> reference_Validate (Some r))"

definition clusterCapability_Validate :: "ClusterCapability \<Rightarrow> unit go" where
  "clusterCapability_Validate cc = (if cc_name cc = '''' then missing ''name'' else Ret ())"

section \<open>management/v1\<close>

record 'd CreateBootstrapTokenRequest =
  cbt_ttl :: 'd
  cbt_labels :: "string gomap"
  cbt_capabilities :: "TokenCapability list"

definition createToken_Validate ::
  "('d \<Rightarrow> unit go) \<Rightarrow> ('d \<Rightarrow> int) \<Rightarrow> 'd CreateBootstrapTokenRequest \<Rightarrow> unit go" where
  "createToken_Validate CheckValid AsDuration r =
     go_bind (case CheckValid (cbt_ttl r) of Fail e \<Rightarrow> Fail (Wrap ''ttl'' ErrInvalidValue) | x \<Rightarrow> x) (\<lambda>_.
     if AsDuration (cbt_ttl r) \<le> 0 then Fail (Wrap ''ttl cannot be negative or zero'' ErrInvalidValue)
     else go_bind (ValidateLabels (cbt_labels r)) (\<lambda>_.
          go_all tokenCapability_Validate (cbt_capabilities r)))"

record ListClustersRequest =
  lcr_matchLabels :: "LabelSelector option"
  lcr_matchOptions :: int

definition listClusters_Validate :: "ListClustersRequest \<Rightarrow> unit go" where
  "listClusters_Validate r =
     go_bind (case lcr_matchLabels r of None \<Rightarrow> Ret () | Some ls \<Rightarrow> selector_Validate ls)
       (\<lambda>_. matchOptions_Validate (lcr_matchOptions r))"

record EditClusterRequest =
  ecr_cluster :: "Reference option"
  ecr_labels :: "string gomap"

definition editCluster_Validate :: "EditClusterRequest \<Rightarrow> unit go" where
  "editCluster_Validate r = (case ecr_cluster r of None \<Rightarrow> missing ''cluster''
     | Some c \<Rightarrow> go_bind (reference_Validate (Some c)) (\<lambda>_. ValidateLabels (ecr_labels r)))"

definition watchClusters_Validate :: "Reference list \<Rightarrow> unit go" where
  "watchClusters_Validate items = go_all (\<lambda>c. reference_Validate (Some c)) items"

section \<open>capability/v1 and the capability requests of management/v1\<close>

record InstallRequest =
  ir_cluster :: "Reference option"
  ir_ignoreWarnings :: bool

record UninstallRequest =
  ur_cluster :: "Reference option"

definition install_Validate :: "InstallRequest option \<Rightarrow> unit go" where
  "install_Validate req = (case req of None \<Rightarrow> Panic ''nil InstallRequest''
     | Some r \<Rightarrow> reference_Validate (ir_cluster r))"

definition uninstall_Validate :: "UninstallRequest option \<Rightarrow> unit go" where
  "uninstall_Validate req = (case req of None \<Rightarrow> Panic ''nil UninstallRequest''
     | Some r \<Rightarrow> reference_Validate (ur_cluster r))"

record CapabilityInstallRequest =
  cir_name :: string
  cir_target :: "InstallRequest option"

record CapabilityUninstallRequest =
  cur_name :: string
  cur_target :: "UninstallRequest option"

record CapabilityStatusRequest =
  csr_name :: string
  csr_cluster :: "Reference option"

definition capabilityInstall_Validate :: "CapabilityInstallRequest \<Rightarrow> unit go" where
  "capabilityInstall_Validate r =
     go_bind (ValidateID (cir_name r)) (\<lambda>_. install_Validate (cir_target r))"

definition capabilityUninstall_Validate :: "CapabilityUninstallRequest \<Rightarrow> unit go" where
  "capabilityUninstall_Validate r =
     go_bind (ValidateID (cur_name r)) (\<lambda>_. uninstall_Validate (cur_target r))"

definition capabilityStatus_Validate :: "CapabilityStatusRequest \<Rightarrow> unit go" where
  "capabilityStatus_Validate r =
     go_bind (ValidateID (csr_name r)) (\<lambda>_. reference_Validate (csr_cluster r))"

text \<open>\<^verbatim>\<open>CapabilityUninstallCancelRequest\<close> has the fields of \<^verbatim>\<open>CapabilityStatusRequest\<close>.\<close>

definition capabilityUninstallCancel_Validate :: "CapabilityStatusRequest \<Rightarrow> unit go" where
  "capabilityUninstallCancel_Validate r =
     go_bind (ValidateID (csr_name r)) (\<lambda>_. reference_Validate (csr_cluster r))"

section \<open>bootstrap/v1 and bootstrap/v2\<close>

record BootstrapAuthRequestV1 =
  ba1_clientID :: string
  ba1_clientPubKey :: string
  ba1_capability :: string

record BootstrapAuthRequestV2 =
  ba2_clientId :: string
  ba2_clientPubKey :: string
  ba2_friendlyName :: "string option"

definition bootstrapAuthV1_Validate :: "BootstrapAuthRequestV1 \<Rightarrow> unit go" where
  "bootstrapAuthV1_Validate h =
     (if ba1_clientID h = '''' then Fail (ErrValidation ''missing required field: ClientID'')
      else if ValidateID (ba1_clientID h) \<noteq> Ret () then Fail ErrInvalidID
      else if ba1_clientPubKey h = [] then Fail (ErrValidation ''missing required field: ClientPubKey'')
      else if ba1_capability h = '''' then Fail (ErrValidation ''missing required field: Capability'')
      else Ret ())"

definition bootstrapAuthV2_Validate :: "BootstrapAuthRequestV2 \<Rightarrow> unit go" where
  "bootstrapAuthV2_Validate h =
     (if ba2_clientId h = '''' then Fail (ErrValidation ''missing required field: ClientID'')
      else if ValidateID (ba2_clientId h) \<noteq> Ret () then Fail ErrInvalidID
      else if ba2_clientPubKey h = [] then Fail (ErrValidation ''missing required field: ClientPubKey'')
      else case ba2_friendlyName h of
        Some n \<Rightarrow> if ValidateLabelValue n \<noteq> Ret () then Fail ErrInvalidName else Ret ()
      | None \<Rightarrow> Ret ())"

section \<open>control/v1\<close>

text \<open>The enum is open: a decoded value outside it is \<open>PatchOp_Other\<close>.\<close>

datatype PatchOp = PatchOp_None | PatchOp_Update | PatchOp_Create | PatchOp_Remove | PatchOp_Rename
  | PatchOp_Other int

record PluginManifestEntry =
  pme_module :: string
  pme_filename :: string
  pme_digest :: string

record PluginArchiveEntry =
  pae_metadata :: "PluginManifestEntry option"
  pae_data :: string

record PatchSpec =
  ps_module :: string
  ps_op :: PatchOp
  ps_data :: string
  ps_filename :: string
  ps_oldDigest :: string
  ps_newDigest :: string

text \<open>The getters of a \<^verbatim>\<open>nil\<close> entry answer the empty string; \<^verbatim>\<open>GetId\<close> is \<^verbatim>\<open>GetModule\<close>.\<close>

definition archiveEntry_Validate :: "PluginArchiveEntry \<Rightarrow> unit go" where
  "archiveEntry_Validate a =
     (let get = (\<lambda>f. case pae_metadata a of None \<Rightarrow> '''' | Some m \<Rightarrow> f m) in
      if get pme_digest = '''' then Fail (ErrValidation ''digest is required for plugin archive entries'')
      else if get pme_filename = '''' then Fail (ErrValidation ''filename is required for plugin archive entries'')
      else if get pme_module = '''' then Fail (ErrValidation ''module is required for plugin archive entries'')
      else if get pme_module = '''' then Fail (ErrValidation ''id is required for plugin archive entries'')
      else Ret ())"

definition archive_Validate :: "PluginArchiveEntry list \<Rightarrow> unit go" where
  "archive_Validate items = go_all archiveEntry_Validate items"

definition manifestEntry_Validate :: "PluginManifestEntry \<Rightarrow> unit go" where
  "manifestEntry_Validate m =
     (if pme_digest m = '''' then Fail (ErrValidation ''digest is required for plugin manifest entries'')
      else if pme_filename m = '''' then Fail (ErrValidation ''Filename is required for plugin manifest entries'')
      else if pme_module m = '''' then Fail (ErrValidation ''Module is required for plugin manifest entries'')
      else Ret ())"

definition manifest_Validate :: "PluginManifestEntry list \<Rightarrow> unit go" where
  "manifest_Validate items = go_all manifestEntry_Validate items"

definition patchSpec_Validate :: "PatchSpec \<Rightarrow> unit go" where
  "patchSpec_Validate a =
     (if ps_filename a = '''' then Fail (ErrValidation ''filename must be set'')
      else if ps_module a = '''' then Fail (ErrValidation ''module must be set'')
      else case ps_op a of
        PatchOp_Create \<Rightarrow>
          if ps_newDigest a = '''' then Fail (ErrValidation ''NewHash is required for creating'') else Ret ()
      | PatchOp_None \<Rightarrow>
          if ps_data a \<noteq> [] then Fail (ErrValidation ''no data should be sent alongside a None/Remove operation'')
          else Ret ()
      | PatchOp_Remove \<Rightarrow>
          if ps_data a \<noteq> [] then Fail (ErrValidation ''no data should be sent alongside a None/Remove operation'')
          else Ret ()
      | PatchOp_Other n \<Rightarrow> Ret ()
      | _ \<Rightarrow>
          if ps_oldDigest a = '''' then Fail (ErrValidation ''OldHash is required for patching'')
          else if ps_newDigest a = '''' then Fail (ErrValidation ''NewHash is required for patching'')
          else Ret ())"

definition patchList_Validate :: "PatchSpec list \<Rightarrow> unit go" where
  "patchList_Validate items = go_all patchSpec_Validate items"

section \<open>What the validators accept\<close>

lemma requirement_Validate_Ret:
  "requirement_Validate r = Ret () \<longleftrightarrow> labelNameRegex (lr_key r) \<and>
     lr_operator r \<in> {LabelSelectorOpIn, LabelSelectorOpNotIn, LabelSelectorOpExists,
       LabelSelectorOpDoesNotExist} \<and>
     (\<forall>v \<in> set (lr_values r). labelValueRegex v)"
  by (auto simp: requirement_Validate_def labelNameRegex_def)

lemma selector_Validate_Ret:
  "selector_Validate ls = Ret () \<longleftrightarrow>
     (\<forall>(k, v) \<in> set (ls_matchLabels ls). labelNameRegex k \<and> labelValueRegex v) \<and>
     (\<forall>r \<in> set (ls_matchExpressions ls). requirement_Validate r = Ret ())"
  by (auto simp: selector_Validate_def)

lemma restricted_Validate_Ret:
  "restricted_Validate ls = Ret () \<longleftrightarrow> selector_Validate ls = Ret () \<and>
     (\<forall>k \<in> set (keys (ls_matchLabels ls)). \<not> IsLabelInternal k) \<and>
     (\<forall>r \<in> set (ls_matchExpressions ls). \<not> IsLabelInternal (lr_key r))"
  by (auto simp: restricted_Validate_def selector_Validate_def)

text \<open>What \<^verbatim>\<open>lo.Uniq\<close> documents: the elements of its argument, each once.\<close>

definition uniq_spec :: "(string list \<Rightarrow> string list) \<Rightarrow> bool" where
  "uniq_spec uniq \<longleftrightarrow> (\<forall>xs. distinct (uniq xs) \<and> set (uniq xs) = set xs)"

lemma uniq_length: "uniq_spec uniq \<Longrightarrow> length (uniq xs) = length xs \<longleftrightarrow> distinct xs"
  by (metis uniq_spec_def distinct_card card_distinct)

lemma role_Validate_Ret:
  assumes "uniq_spec uniq"
  shows "role_Validate uniq r = Ret () \<longleftrightarrow>
     ValidateID (role_id r) = Ret () \<and> (\<forall>i \<in> set (role_clusterIDs r). ValidateID i = Ret ()) \<and>
     distinct (role_clusterIDs r) \<and>
     (\<forall>ls. role_matchLabels r = Some ls \<longrightarrow> restricted_Validate ls = Ret ())"
  using uniq_length [OF assms, of "role_clusterIDs r"]
  by (auto simp: role_Validate_def ValidateID_Ret idRegex_def split: option.splits)

lemma reference_Validate_Ret:
  "reference_Validate r = Ret () \<longleftrightarrow> (\<exists>x. r = Some x \<and> ValidateID (ref_id x) = Ret ())"
  by (auto simp: reference_Validate_def ValidateID_Ret idRegex_def split: option.splits)

lemma cluster_Validate_Ret:
  "cluster_Validate c = Ret () \<longleftrightarrow> ValidateID (cl_id c) = Ret () \<and> ValidateLabels (cluster_GetLabels c) = Ret ()"
  by (auto simp: cluster_Validate_def ValidateID_Ret idRegex_def)

end
