(* ===== verification/Selection.thy ===== *)
theory Selection
  imports Api_Validation
begin

text \<open>
  \<^verbatim>\<open>pkg/storage/selection.go\<close>: label selectors and the predicate a cluster list is filtered with. The
  predicate is a function of what the generic parameter offers, the id and the labels.
\<close>

unbundle bit_operations_syntax

fun match_expressions :: "string gomap \<Rightarrow> LabelSelectorRequirement list \<Rightarrow> bool" where
  "match_expressions labels [] = True"
| "match_expressions labels (req # rest) =
     (if lr_operator req = LabelSelectorOpIn then
        if \<not> list_ex (\<lambda>v. map_get labels (lr_key req) = v) (lr_values req) then False
        else match_expressions labels rest
      else if lr_operator req = LabelSelectorOpNotIn then
        (case lookup labels (lr_key req) of
           None \<Rightarrow> False
         | Some v \<Rightarrow> if list_ex (\<lambda>w. v = w) (lr_values req) then False else True)
      else if lr_operator req = LabelSelectorOpExists then
        if lookup labels (lr_key req) = None then False else match_expressions labels rest
      else if lr_operator req = LabelSelectorOpDoesNotExist then
        if lookup labels (lr_key req) \<noteq> None then False else match_expressions labels rest
      else match_expressions labels rest)"

definition labelSelectorMatches :: "LabelSelector \<Rightarrow> string gomap \<Rightarrow> bool" where
  "labelSelectorMatches sel labels \<longleftrightarrow>
     (if list_ex (\<lambda>(k, v). map_get labels k \<noteq> v) (ls_matchLabels sel) then False
      else match_expressions labels (ls_matchExpressions sel))"

definition NewSelectorPredicate :: "ClusterSelector \<Rightarrow> string \<Rightarrow> string gomap \<Rightarrow> bool" where
  "NewSelectorPredicate s = (let emptyLabelSelector = selector_IsEmpty (cs_labelSelector s) in
     if emptyLabelSelector \<and> cs_clusterIDs s = [] then
       if cs_matchOptions s AND MatchOptions_EmptySelectorMatchesNone \<noteq> 0
       then (\<lambda>i labels. False) else (\<lambda>i labels. True)
     else (\<lambda>i labels.
       if i \<in> set (cs_clusterIDs s) then True
       else if emptyLabelSelector then False
       else case cs_labelSelector s of
         None \<Rightarrow> False | Some sel \<Rightarrow> labelSelectorMatches sel labels))"

definition cluster_selected :: "ClusterSelector \<Rightarrow> Cluster \<Rightarrow> bool" where
  "cluster_selected s c = NewSelectorPredicate s (cl_id c) (cluster_GetLabels c)"

section \<open>The meaning of a selector\<close>

text \<open>What one requirement asks of the labels, and the expressions the loop really looks at.\<close>

definition req_holds :: "string gomap \<Rightarrow> LabelSelectorRequirement \<Rightarrow> bool" where
  "req_holds labels r \<longleftrightarrow>
     (lr_operator r = LabelSelectorOpIn \<longrightarrow> map_get labels (lr_key r) \<in> set (lr_values r)) \<and>
     (lr_operator r = LabelSelectorOpNotIn \<longrightarrow>
        (\<exists>v. lookup labels (lr_key r) = Some v \<and> v \<notin> set (lr_values r))) \<and>
     (lr_operator r = LabelSelectorOpExists \<longrightarrow> lookup labels (lr_key r) \<noteq> None) \<and>
     (lr_operator r = LabelSelectorOpDoesNotExist \<longrightarrow> lookup labels (lr_key r) = None)"

fun until_NotIn :: "LabelSelectorRequirement list \<Rightarrow> LabelSelectorRequirement list" where
  "until_NotIn [] = []"
| "until_NotIn (r # rs) = (if lr_operator r = LabelSelectorOpNotIn then [r] else r # until_NotIn rs)"

lemma match_expressions_iff:
  "match_expressions labels rs \<longleftrightarrow> (\<forall>r \<in> set (until_NotIn rs). req_holds labels r)"
  by (induction rs) (auto simp: req_holds_def list_ex_iff split: option.splits)

lemma labelSelectorMatches_iff:
  "labelSelectorMatches sel labels \<longleftrightarrow>
     (\<forall>(k, v) \<in> set (ls_matchLabels sel). map_get labels k = v) \<and>
     (\<forall>r \<in> set (until_NotIn (ls_matchExpressions sel)). req_holds labels r)"
  by (simp add: labelSelectorMatches_def match_expressions_iff list_ex_iff case_prod_beta)

lemma set_until_NotIn: "set (until_NotIn rs) \<subseteq> set rs"
  by (induction rs) auto

lemma until_NotIn_id:
  "(\<forall>r \<in> set (butlast rs). lr_operator r \<noteq> LabelSelectorOpNotIn) \<Longrightarrow> until_NotIn rs = rs"
  by (induction rs) (auto split: if_splits)

lemma req_holds_cong:
  "lookup l1 (lr_key r) = lookup l2 (lr_key r) \<Longrightarrow> req_holds l1 r = req_holds l2 r"
  by (simp add: req_holds_def map_get_def)

lemma labelSelectorMatches_cong:
  assumes "\<And>k. k \<in> fst ` set (ls_matchLabels sel) \<union> lr_key ` set (ls_matchExpressions sel) \<Longrightarrow>
     lookup l1 k = lookup l2 k"
  shows "labelSelectorMatches sel l1 = labelSelectorMatches sel l2"
proof -
  have "map_get l1 (fst x) = map_get l2 (fst x)" if "x \<in> set (ls_matchLabels sel)" for x
    using that assms [of "fst x"] by (simp add: map_get_def)
  then have "(\<forall>(k, v) \<in> set (ls_matchLabels sel). map_get l1 k = v) \<longleftrightarrow>
        (\<forall>(k, v) \<in> set (ls_matchLabels sel). map_get l2 k = v)"
    by (simp add: case_prod_beta)
  moreover have "req_holds l1 r = req_holds l2 r" if "r \<in> set (until_NotIn (ls_matchExpressions sel))" for r
    using that set_until_NotIn [of "ls_matchExpressions sel"] assms [of "lr_key r"]
    by (intro req_holds_cong) auto
  ultimately show ?thesis by (simp add: labelSelectorMatches_iff)
qed

lemma NewSelectorPredicate_iff:
  "NewSelectorPredicate s i labels \<longleftrightarrow>
     (if selector_IsEmpty (cs_labelSelector s) \<and> cs_clusterIDs s = []
      then even (cs_matchOptions s)
      else i \<in> set (cs_clusterIDs s) \<or>
        (\<exists>sel. cs_labelSelector s = Some sel \<and> \<not> selector_IsEmpty (Some sel) \<and>
           labelSelectorMatches sel labels))"
  by (cases "cs_labelSelector s") (auto simp: NewSelectorPredicate_def Let_def and_one_eq)

section \<open>Properties\<close>


definition prod_selector :: ClusterSelector where
  "prod_selector = \<lparr> cs_clusterIDs = [''c1''],
     cs_labelSelector = Some \<lparr> ls_matchLabels = [(''env'', ''prod'')],
       ls_matchExpressions = [
         \<lparr> lr_key = ''zone'', lr_operator = LabelSelectorOpExists, lr_values = [] \<rparr>,
         \<lparr> lr_key = ''tier'', lr_operator = LabelSelectorOpNotIn, lr_values = [''db''] \<rparr>] \<rparr>,
     cs_matchOptions = 0 \<rparr>"

definition labelled_cluster :: "string \<Rightarrow> string gomap \<Rightarrow> Cluster" where
  "labelled_cluster i ls = cluster_SetLabels \<lparr> cl_id = i, cl_metadata = None \<rparr> ls"



text \<open>C30: the label selector of a role that passes validation cannot observe internal labels: two
  clusters with the same id whose labels agree outside the \<^verbatim>\<open>opni.io/\<close> prefix are either both matched
  or both not matched by the role.\<close>

theorem role_selector_ignores_internal_labels:
  assumes "uniq_spec uniq" and "role_Validate uniq r = Ret ()"
    and "cl_id c = cl_id d"
    and "\<And>k. \<not> IsLabelInternal k \<Longrightarrow> lookup (cluster_GetLabels c) k = lookup (cluster_GetLabels d) k"
  shows "cluster_selected \<lparr> cs_clusterIDs = role_clusterIDs r, cs_labelSelector = role_matchLabels r,
             cs_matchOptions = opts \<rparr> c =
         cluster_selected \<lparr> cs_clusterIDs = role_clusterIDs r, cs_labelSelector = role_matchLabels r,
             cs_matchOptions = opts \<rparr> d"
proof -
  have "labelSelectorMatches sel (cluster_GetLabels c) = labelSelectorMatches sel (cluster_GetLabels d)"
    if "role_matchLabels r = Some sel" for sel
  proof (rule labelSelectorMatches_cong)
    fix k assume "k \<in> fst ` set (ls_matchLabels sel) \<union> lr_key ` set (ls_matchExpressions sel)"
    moreover have "restricted_Validate sel = Ret ()"
      using assms(2) that by (simp add: role_Validate_Ret [OF assms(1)])
    ultimately have "\<not> IsLabelInternal k" by (auto simp: restricted_Validate_Ret)
    then show "lookup (cluster_GetLabels c) k = lookup (cluster_GetLabels d) k" by (rule assms(4))
  qed
  then show ?thesis using assms(3)
    by (auto simp: cluster_selected_def NewSelectorPredicate_iff)
qed

definition web_role :: Role where
  "web_role = \<lparr> role_id = ''web'', role_clusterIDs = [''c9''],
     role_matchLabels = Some \<lparr> ls_matchLabels = [(''env'', ''prod'')], ls_matchExpressions = [] \<rparr> \<rparr>"

lemma web_role_valid: "role_Validate remdups web_role = Ret ()"
  by (simp add: role_Validate_def web_role_def ValidateID_Ret idRegex_def restricted_Validate_Ret
        selector_Validate_Ret labelNameRegex_def labelValueRegex_def IsLabelInternal_def alnum_def)

lemma uniq_remdups: "uniq_spec remdups"
  by (simp add: uniq_spec_def)

text \<open>Witness: a validated role matches a cluster alike with and without an internal label.\<close>

theorem role_selector_ignores_internal_labels_witness:
  "role_Validate remdups web_role = Ret () \<and>
   cluster_selected \<lparr> cs_clusterIDs = [''c9''], cs_labelSelector = role_matchLabels web_role, cs_matchOptions = 1 \<rparr>
     (labelled_cluster ''c1'' [(''env'', ''prod''), (''opni.io/x'', ''y'')]) =
   cluster_selected \<lparr> cs_clusterIDs = [''c9''], cs_labelSelector = role_matchLabels web_role, cs_matchOptions = 1 \<rparr>
     (labelled_cluster ''c1'' [(''env'', ''prod'')])"
proof -
  let ?c = "labelled_cluster ''c1'' [(''env'', ''prod''), (''opni.io/x'', ''y'')]"
  let ?d = "labelled_cluster ''c1'' [(''env'', ''prod'')]"
  have "lookup (cluster_GetLabels ?c) k = lookup (cluster_GetLabels ?d) k" if "\<not> IsLabelInternal k" for k
    using that by (auto simp: labelled_cluster_def IsLabelInternal_def)
  moreover have "role_clusterIDs web_role = [''c9'']" "cl_id ?c = cl_id ?d"
    by (simp_all add: web_role_def labelled_cluster_def)
  ultimately show ?thesis
    using role_selector_ignores_internal_labels [OF uniq_remdups web_role_valid, of ?c ?d 1]
    by (simp add: web_role_valid)
qed

end
