(* ===== verification/Storage.thy ===== *)
theory Storage
  imports Selection
begin

text \<open>
  \<^verbatim>\<open>pkg/storage\<close>: the interfaces of \<^verbatim>\<open>stores.go\<close> as records of operations, the object mutators, the
  token options, role binding taints, the key-value adapters of \<^verbatim>\<open>kvutil.go\<close>, the watch context, the
  composite backend, and the contracts (locales) the backends fulfil.

  An operation is a program over the backend's state. \<^verbatim>\<open>CreateCluster\<close> writes the resource version and
  the creation time into its argument, so it answers the updated cluster. A mutator is a function on
  the object that may panic.
\<close>

type_synonym 'a MutatorFunc = "'a \<Rightarrow> 'a go"

section \<open>mutators.go\<close>

fun NewCompositeMutator :: "'a MutatorFunc list \<Rightarrow> 'a MutatorFunc" where
  "NewCompositeMutator [] t = Ret t"
| "NewCompositeMutator (m # ms) t = go_bind (m t) (NewCompositeMutator ms)"

text \<open>\<^verbatim>\<open>UsageCount\<close> is an \<^verbatim>\<open>int64\<close>: the increment wraps.\<close>

definition int64 :: "int \<Rightarrow> int" where
  "int64 n = (n + 2 ^ 63) mod 2 ^ 64 - 2 ^ 63"

definition NewIncrementUsageCountMutator :: "BootstrapToken MutatorFunc" where
  "NewIncrementUsageCountMutator obj = (case bt_metadata obj of
     None \<Rightarrow> Panic ''nil Metadata''
   | Some m \<Rightarrow> Ret (obj\<lparr> bt_metadata := Some (m\<lparr> bm_usageCount := int64 (bm_usageCount m + 1) \<rparr>) \<rparr>))"

text \<open>The generic mutators, over the accessors and the comparison of the object type.\<close>

definition NewAddCapabilityMutator ::
  "('o \<Rightarrow> 'c list) \<Rightarrow> ('o \<Rightarrow> 'c list \<Rightarrow> 'o) \<Rightarrow> ('c \<Rightarrow> 'c \<Rightarrow> bool) \<Rightarrow> 'c \<Rightarrow> 'o MutatorFunc" where
  "NewAddCapabilityMutator getCaps setCaps eq capability obj =
     (let exists = list_ex (\<lambda>c. eq c capability) (getCaps obj) in
      if \<not> exists then Ret (setCaps obj (getCaps obj @ [capability])) else Ret obj)"

definition NewRemoveCapabilityMutator ::
  "('o \<Rightarrow> 'c list) \<Rightarrow> ('o \<Rightarrow> 'c list \<Rightarrow> 'o) \<Rightarrow> ('c \<Rightarrow> 'c \<Rightarrow> bool) \<Rightarrow> 'c \<Rightarrow> 'o MutatorFunc" where
  "NewRemoveCapabilityMutator getCaps setCaps eq capability obj =
     Ret (setCaps obj (filter (\<lambda>c. \<not> eq c capability) (getCaps obj)))"

abbreviation add_cluster_capability :: "ClusterCapability \<Rightarrow> Cluster MutatorFunc" where
  "add_cluster_capability \<equiv>
     NewAddCapabilityMutator cluster_GetCapabilities cluster_SetCapabilities clusterCapability_Equal"

abbreviation remove_cluster_capability :: "ClusterCapability \<Rightarrow> Cluster MutatorFunc" where
  "remove_cluster_capability \<equiv>
     NewRemoveCapabilityMutator cluster_GetCapabilities cluster_SetCapabilities clusterCapability_Equal"

abbreviation add_token_capability :: "TokenCapability \<Rightarrow> BootstrapToken MutatorFunc" where
  "add_token_capability \<equiv>
     NewAddCapabilityMutator token_GetCapabilities token_SetCapabilities tokenCapability_Equal"

lemma NewCompositeMutator_append:
  "NewCompositeMutator (ms @ ns) t = go_bind (NewCompositeMutator ms t) (NewCompositeMutator ns)"
proof (induction ms arbitrary: t)
  case (Cons m ms)
  then show ?case by (cases "m t") auto
qed simp

text \<open>The interface the two generic mutators rely on: a capability list that can be read and written,
  and a symmetric and transitive comparison.\<close>

locale capability_object =
  fixes getCaps :: "'o \<Rightarrow> 'c list" and setCaps :: "'o \<Rightarrow> 'c list \<Rightarrow> 'o" and eq :: "'c \<Rightarrow> 'c \<Rightarrow> bool"
  assumes get_set: "getCaps (setCaps x cs) = cs"
    and Equal_sym: "eq c d \<Longrightarrow> eq d c"
    and Equal_trans: "eq c d \<Longrightarrow> eq d e \<Longrightarrow> eq c e"
begin

definition has_capability :: "'o \<Rightarrow> 'c \<Rightarrow> bool" where
  "has_capability x c \<longleftrightarrow> (\<exists>d \<in> set (getCaps x). eq d c)"

lemma add_has:
  "eq c c \<Longrightarrow> NewAddCapabilityMutator getCaps setCaps eq c x = Ret y \<Longrightarrow>
   has_capability y d \<longleftrightarrow> has_capability x d \<or> eq c d"
  unfolding has_capability_def
  by (auto simp: NewAddCapabilityMutator_def Let_def list_ex_iff get_set split: if_splits
        dest: Equal_sym Equal_trans)

lemma add_idem:
  "eq c c \<Longrightarrow> NewAddCapabilityMutator getCaps setCaps eq c x = Ret y \<Longrightarrow>
   NewAddCapabilityMutator getCaps setCaps eq c y = Ret y"
  by (auto simp: NewAddCapabilityMutator_def Let_def list_ex_iff get_set split: if_splits)

lemma remove_has:
  "NewRemoveCapabilityMutator getCaps setCaps eq c x = Ret y \<Longrightarrow>
   has_capability y d \<longleftrightarrow> has_capability x d \<and> \<not> eq c d"
  unfolding has_capability_def
  by (simp add: NewRemoveCapabilityMutator_def) (metis (no_types, lifting) get_set mem_Collect_eq
        set_filter Equal_sym Equal_trans)

lemma remove_add:
  "\<not> has_capability x c \<Longrightarrow> eq c c \<Longrightarrow>
   NewAddCapabilityMutator getCaps setCaps eq c x = Ret y \<Longrightarrow>
   \<exists>z. NewRemoveCapabilityMutator getCaps setCaps eq c y = Ret z \<and> getCaps z = getCaps x"
  unfolding has_capability_def
  by (auto simp: NewAddCapabilityMutator_def NewRemoveCapabilityMutator_def Let_def list_ex_iff get_set
        filter_id_conv)

end

interpretation cluster_caps: capability_object cluster_GetCapabilities cluster_SetCapabilities
  clusterCapability_Equal
  by unfold_locales auto

interpretation token_caps: capability_object token_GetCapabilities token_SetCapabilities
  tokenCapability_Equal
  by unfold_locales (auto simp: tokenCapability_Equal_iff tokenCapability_named_def)

section \<open>options.go\<close>

record TokenCreateOptions =
  tco_Labels :: "string gomap"
  tco_Capabilities :: "TokenCapability list"

type_synonym TokenCreateOption = "TokenCreateOptions \<Rightarrow> TokenCreateOptions"

definition NewTokenCreateOptions :: TokenCreateOptions where
  "NewTokenCreateOptions = \<lparr> tco_Labels = [], tco_Capabilities = [] \<rparr>"

definition Apply :: "TokenCreateOption list \<Rightarrow> TokenCreateOptions \<Rightarrow> TokenCreateOptions" where
  "Apply opts o' = fold (\<lambda>op o'. op o') opts o'"

definition WithLabels :: "string gomap \<Rightarrow> TokenCreateOption" where
  "WithLabels labels o' = o'\<lparr> tco_Labels := labels \<rparr>"

definition WithCapabilities :: "TokenCapability list \<Rightarrow> TokenCreateOption" where
  "WithCapabilities capabilities o' = o'\<lparr> tco_Capabilities := capabilities \<rparr>"

section \<open>stores.go\<close>

text \<open>\<^verbatim>\<open>ttl\<close> is a \<^verbatim>\<open>time.Duration\<close>, in nanoseconds.\<close>

record 's TokenStore =
  CreateToken :: "int \<Rightarrow> TokenCreateOption list \<Rightarrow> ('s, BootstrapToken) prog"
  DeleteToken :: "Reference \<Rightarrow> ('s, unit) prog"
  GetToken :: "Reference \<Rightarrow> ('s, BootstrapToken) prog"
  UpdateToken :: "Reference \<Rightarrow> BootstrapToken MutatorFunc \<Rightarrow> ('s, BootstrapToken) prog"
  ListTokens :: "('s, BootstrapToken list) prog"

record 's ClusterStore =
  CreateCluster :: "Cluster \<Rightarrow> ('s, Cluster) prog"
  DeleteCluster :: "Reference \<Rightarrow> ('s, unit) prog"
  GetCluster :: "Reference \<Rightarrow> ('s, Cluster) prog"
  UpdateCluster :: "Reference \<Rightarrow> Cluster MutatorFunc \<Rightarrow> ('s, Cluster) prog"
  ListClusters :: "LabelSelector option \<Rightarrow> int \<Rightarrow> ('s, Cluster list) prog"

record 's RBACStore =
  CreateRole :: "Role \<Rightarrow> ('s, unit) prog"
  DeleteRole :: "Reference \<Rightarrow> ('s, unit) prog"
  GetRole :: "Reference \<Rightarrow> ('s, Role) prog"
  CreateRoleBinding :: "RoleBinding \<Rightarrow> ('s, unit) prog"
  DeleteRoleBinding :: "Reference \<Rightarrow> ('s, unit) prog"
  GetRoleBinding :: "Reference \<Rightarrow> ('s, RoleBinding) prog"
  ListRoles :: "('s, Role list) prog"
  ListRoleBindings :: "('s, RoleBinding list) prog"

record ('s, 'k) KeyringStore =
  keyring_Put :: "'k \<Rightarrow> ('s, unit) prog"
  keyring_Get :: "('s, 'k) prog"
  keyring_Delete :: "('s, unit) prog"

record ('s, 'v) KeyValueStoreT =
  kv_Put :: "string \<Rightarrow> 'v \<Rightarrow> ('s, unit) prog"
  kv_Get :: "string \<Rightarrow> ('s, 'v) prog"
  kv_Delete :: "string \<Rightarrow> ('s, unit) prog"
  kv_ListKeys :: "string \<Rightarrow> ('s, string list) prog"

type_synonym ('s, 'k) KeyringStoreBroker = "string \<Rightarrow> Reference \<Rightarrow> ('s, 'k) KeyringStore"
type_synonym 's KeyValueStoreBroker = "string \<Rightarrow> ('s, string) KeyValueStoreT"

text \<open>\<^verbatim>\<open>Backend\<close> embeds the five interfaces.\<close>

record ('s, 'k) Backend =
  b_tokens :: "'s TokenStore"
  b_clusters :: "'s ClusterStore"
  b_rbac :: "'s RBACStore"
  b_keyrings :: "('s, 'k) KeyringStoreBroker"
  b_kv :: "'s KeyValueStoreBroker"

text \<open>A string type; \<open>WatchEventUnset\<close> is its zero value.\<close>

datatype WatchEventType = WatchEventUnset | WatchEventCreate | WatchEventUpdate | WatchEventDelete

record 'o WatchEvent =
  we_EventType :: WatchEventType
  we_Current :: "'o option"
  we_Previous :: "'o option"

section \<open>composite.go\<close>

text \<open>A store passed to \<^verbatim>\<open>Use\<close> implements some of the five interfaces: the type assertions on it are
  the fields that are not \<^const>\<open>None\<close>. The composite backend has the same shape.\<close>

record ('s, 'k) CompositeBackend =
  cb_TokenStore :: "'s TokenStore option"
  cb_ClusterStore :: "'s ClusterStore option"
  cb_RBACStore :: "'s RBACStore option"
  cb_KeyringStoreBroker :: "('s, 'k) KeyringStoreBroker option"
  cb_KeyValueStoreBroker :: "'s KeyValueStoreBroker option"

definition Use :: "('s, 'k) CompositeBackend \<Rightarrow> ('s, 'k) CompositeBackend \<Rightarrow> ('s, 'k) CompositeBackend" where
  "Use cb store =
     (let cb1 = (case cb_TokenStore store of Some ts \<Rightarrow> cb\<lparr> cb_TokenStore := Some ts \<rparr> | None \<Rightarrow> cb);
          cb2 = (case cb_ClusterStore store of Some cs \<Rightarrow> cb1\<lparr> cb_ClusterStore := Some cs \<rparr> | None \<Rightarrow> cb1);
          cb3 = (case cb_RBACStore store of Some rb \<Rightarrow> cb2\<lparr> cb_RBACStore := Some rb \<rparr> | None \<Rightarrow> cb2);
          cb4 = (case cb_KeyringStoreBroker store of
                   Some ks \<Rightarrow> cb3\<lparr> cb_KeyringStoreBroker := Some ks \<rparr> | None \<Rightarrow> cb3)
      in (case cb_KeyValueStoreBroker store of
            Some kv \<Rightarrow> cb4\<lparr> cb_KeyValueStoreBroker := Some kv \<rparr> | None \<Rightarrow> cb4))"

definition IsValid :: "('s, 'k) CompositeBackend \<Rightarrow> bool" where
  "IsValid cb \<longleftrightarrow> cb_TokenStore cb \<noteq> None \<and> cb_ClusterStore cb \<noteq> None \<and> cb_RBACStore cb \<noteq> None \<and>
     cb_KeyringStoreBroker cb \<noteq> None \<and> cb_KeyValueStoreBroker cb \<noteq> None"

lemma Use_fields:
  "cb_TokenStore (Use cb st) = (case cb_TokenStore st of None \<Rightarrow> cb_TokenStore cb | x \<Rightarrow> x)"
  "cb_ClusterStore (Use cb st) = (case cb_ClusterStore st of None \<Rightarrow> cb_ClusterStore cb | x \<Rightarrow> x)"
  "cb_RBACStore (Use cb st) = (case cb_RBACStore st of None \<Rightarrow> cb_RBACStore cb | x \<Rightarrow> x)"
  "cb_KeyringStoreBroker (Use cb st) =
     (case cb_KeyringStoreBroker st of None \<Rightarrow> cb_KeyringStoreBroker cb | x \<Rightarrow> x)"
  "cb_KeyValueStoreBroker (Use cb st) =
     (case cb_KeyValueStoreBroker st of None \<Rightarrow> cb_KeyValueStoreBroker cb | x \<Rightarrow> x)"
  by (auto simp: Use_def Let_def split: option.splits)

lemma Use_IsValid:
  "IsValid (fold (\<lambda>st cb. Use cb st) stores cb) \<longleftrightarrow>
     (\<exists>st \<in> set (cb # stores). cb_TokenStore st \<noteq> None) \<and>
     (\<exists>st \<in> set (cb # stores). cb_ClusterStore st \<noteq> None) \<and>
     (\<exists>st \<in> set (cb # stores). cb_RBACStore st \<noteq> None) \<and>
     (\<exists>st \<in> set (cb # stores). cb_KeyringStoreBroker st \<noteq> None) \<and>
     (\<exists>st \<in> set (cb # stores). cb_KeyValueStoreBroker st \<noteq> None)"
proof (induction stores arbitrary: cb)
  case Nil
  show ?case by (simp add: IsValid_def)
next
  case (Cons st sts)
  show ?case by (auto simp: Cons.IH Use_fields split: option.splits)
qed

section \<open>kvutil.go\<close>

definition NewKeyValueStoreWithPrefix ::
  "('s, 'v) KeyValueStoreT \<Rightarrow> string \<Rightarrow> ('s, 'v) KeyValueStoreT" where
  "NewKeyValueStoreWithPrefix base pfx = \<lparr>
     kv_Put = (\<lambda>key value. kv_Put base (pfx @ key) value),
     kv_Get = (\<lambda>key. kv_Get base (pfx @ key)),
     kv_Delete = (\<lambda>key. kv_Delete base (pfx @ key)),
     kv_ListKeys = (\<lambda>pre. kv_ListKeys base (pfx @ pre)) \<rparr>"

record ('s, 'v) ValueStoreT =
  vs_Put :: "'v \<Rightarrow> ('s, unit) prog"
  vs_Get :: "('s, 'v) prog"
  vs_Delete :: "('s, unit) prog"

definition NewValueStore :: "('s, 'v) KeyValueStoreT \<Rightarrow> string \<Rightarrow> ('s, 'v) ValueStoreT" where
  "NewValueStore base key = \<lparr> vs_Put = kv_Put base key, vs_Get = kv_Get base key,
     vs_Delete = kv_Delete base key \<rparr>"

section \<open>context.go\<close>

text \<open>What one \<^verbatim>\<open>select\<close> of \<^verbatim>\<open>watch\<close> can receive, and the loop over what it receives: \<^const>\<open>None\<close>
  while it is still waiting, otherwise the error stored when \<^verbatim>\<open>done\<close> is closed.\<close>

abbreviation "ErrEventChannelClosed \<equiv> ErrText ''event channel closed''"
abbreviation "ErrObjectDeleted \<equiv> ErrText ''object deleted''"

datatype 'o watch_input = BaseDone go_error | Received "'o WatchEvent" | ChannelClosed

fun watch :: "'o watch_input list \<Rightarrow> go_error option" where
  "watch [] = None"
| "watch (BaseDone e # rest) = Some e"
| "watch (ChannelClosed # rest) = Some ErrEventChannelClosed"
| "watch (Received ev # rest) =
     (if we_EventType ev = WatchEventDelete then Some ErrObjectDeleted else watch rest)"

lemma watch_append: "watch (xs @ ys) = (case watch xs of None \<Rightarrow> watch ys | Some e \<Rightarrow> Some e)"
  by (induction xs rule: watch.induct) auto

section \<open>taints.go\<close>

definition ApplyRoleBindingTaints ::
  "(Reference \<Rightarrow> ('s, Role) prog) \<Rightarrow> RoleBinding \<Rightarrow> ('s, RoleBinding) prog" where
  "ApplyRoleBindingTaints getRole rb =
     bind (catch (bind (getRole (RoleReference rb)) (\<lambda>_. return rb))
        (\<lambda>e. if errors_is e ErrNotFound
             then return (rb\<lparr> rb_taints := rb_taints rb @ [''role not found''] \<rparr>) else throw e))
     (\<lambda>rb. return (if rb_subjects rb = [] then rb\<lparr> rb_taints := rb_taints rb @ [''no subjects''] \<rparr> else rb))"

end
