(* ===== verification/Contracts.thy ===== *)
theory Contracts
  imports Storage
begin

text \<open>
  What a storage backend promises to its clients. A backend's state is observed through an abstraction
  \<open>\<alpha>\<close>, a finite map from object keys to objects. Other instances of the program may act on the same
  store between any two steps: \<open>R s u\<close> says that \<open>u\<close> can be reached from \<open>s\<close> by their steps only. An
  operation is \<open>atomic\<close> when it takes its whole effect in one step, from a state \<open>u\<close> that the others may
  have reached since it was called to a state \<open>v\<close> from which they may go on before it returns. The effects below are the contracts of the operations of \<^verbatim>\<open>stores.go\<close>: what they
  answer and what they change, on success, on the sentinel errors, and on any other error (after
  which a write may or may not have happened).
\<close>

datatype kind = KToken | KCluster | KRole | KRoleBinding | KKeyring string

type_synonym okey = "kind \<times> string"

datatype 'k stored =
    SToken BootstrapToken | SCluster Cluster | SRole Role | SRoleBinding RoleBinding | SKeyring 'k

section \<open>Atomic operations under interference\<close>

definition atomic ::
  "('s \<Rightarrow> bool) \<Rightarrow> ('s \<Rightarrow> 's \<Rightarrow> bool) \<Rightarrow> ('s, 'a) prog \<Rightarrow> ('s \<Rightarrow> 'a go \<Rightarrow> 's \<Rightarrow> bool) \<Rightarrow> bool" where
  "atomic I R m Q \<longleftrightarrow> (\<forall>s r t. I s \<longrightarrow> m s = (r, t) \<longrightarrow>
     (\<exists>u v. R s u \<and> I u \<and> Q u r v \<and> I v \<and> R v t \<and> I t))"

lemma atomicI:
  assumes "\<And>s r t. I s \<Longrightarrow> m s = (r, t) \<Longrightarrow> \<exists>u v. R s u \<and> I u \<and> Q u r v \<and> I v \<and> R v t \<and> I t"
  shows "atomic I R m Q"
  using assms unfolding atomic_def by blast

lemma atomicE:
  assumes "atomic I R m Q" and "I s" and "m s = (r, t)"
  obtains u v where "R s u" "I u" "Q u r v" "I v" "R v t" "I t"
  using assms unfolding atomic_def by blast

lemma atomic_weaken:
  assumes "atomic I R m Q" and "\<And>u r v. I u \<Longrightarrow> I v \<Longrightarrow> Q u r v \<Longrightarrow> P u r v"
  shows "atomic I R m P"
proof (rule atomicI)
  fix s r t assume "I s" "m s = (r, t)"
  with assms(1) show "\<exists>u v. R s u \<and> I u \<and> P u r v \<and> I v \<and> R v t \<and> I t"
    by (rule atomicE) (blast intro: assms(2))
qed

lemma atomic_preserves: "atomic I R m Q \<Longrightarrow> preserves I m"
  unfolding atomic_def preserves_def by (metis prod.collapse)

text \<open>What follows the one effect is a computation on its answer.\<close>

lemma atomic_bind_lift:
  assumes "atomic I R m Q"
  shows "atomic I R (bind m (\<lambda>x. lift (g x))) (\<lambda>u r v. \<exists>q. Q u q v \<and> r = go_bind q g)"
proof (rule atomicI)
  fix s r t assume I: "I s" and run: "bind m (\<lambda>x. lift (g x)) s = (r, t)"
  obtain q t' where m: "m s = (q, t')" by (cases "m s")
  obtain u v where "R s u" "I u" "Q u q v" "I v" "R v t'" "I t'"
    using assms I m by (rule atomicE)
  moreover have "r = go_bind q g \<and> t' = t"
    using run m by (cases q) (auto simp: bind_def)
  ultimately show "\<exists>u v. R s u \<and> I u \<and> (\<exists>q. Q u q v \<and> r = go_bind q g) \<and> I v \<and> R v t \<and> I t"
    by blast
qed

lemma atomic_map_err:
  assumes "atomic I R m Q"
  shows "atomic I R (map_err f m) (\<lambda>u r v. \<exists>q. Q u q v \<and> r = go_err q f)"
proof (rule atomicI)
  fix s r t assume I: "I s" and run: "map_err f m s = (r, t)"
  obtain q t' where m: "m s = (q, t')" by (cases "m s")
  obtain u v where "R s u" "I u" "Q u q v" "I v" "R v t'" "I t'"
    using assms I m by (rule atomicE)
  moreover have "r = go_err q f \<and> t' = t"
    using run m by (cases q) (auto simp: catch_def)
  ultimately show "\<exists>u v. R s u \<and> I u \<and> (\<exists>q. Q u q v \<and> r = go_err q f) \<and> I v \<and> R v t \<and> I t"
    by blast
qed

locale shared_state =
  fixes I :: "'s \<Rightarrow> bool" and R :: "'s \<Rightarrow> 's \<Rightarrow> bool"
  assumes R_refl: "I s \<Longrightarrow> R s s"
    and R_trans: "R s t \<Longrightarrow> R t u \<Longrightarrow> R s u"
    and R_keeps: "I s \<Longrightarrow> R s t \<Longrightarrow> I t"

section \<open>Effects\<close>

text \<open>\<open>norm\<close> forgets what a backend computes on every read (the remaining time to live of a token).\<close>

definition get_effect :: "('s \<Rightarrow> 'x \<Rightarrow> 'o option) \<Rightarrow> ('a \<Rightarrow> 'o) \<Rightarrow> 'x \<Rightarrow> 's \<Rightarrow> 'a go \<Rightarrow> 's \<Rightarrow> bool" where
  "get_effect \<alpha> norm k u r t \<longleftrightarrow> \<alpha> t = \<alpha> u \<and> (case r of
     Ret x \<Rightarrow> \<alpha> u k = Some (norm x)
   | Fail e \<Rightarrow> errors_is e ErrNotFound \<longrightarrow> e = ErrNotFound \<and> \<alpha> u k = None
   | Panic p \<Rightarrow> False)"

definition create_effect ::
  "('s \<Rightarrow> 'x \<Rightarrow> 'o option) \<Rightarrow> ('a \<Rightarrow> 'o) \<Rightarrow> 'x \<Rightarrow> ('a \<Rightarrow> bool) \<Rightarrow> 's \<Rightarrow> 'a go \<Rightarrow> 's \<Rightarrow> bool" where
  "create_effect \<alpha> norm k same u r t \<longleftrightarrow> (case r of
     Ret x \<Rightarrow> \<alpha> u k = None \<and> \<alpha> t = (\<alpha> u)(k \<mapsto> norm x) \<and> same x
   | Fail e \<Rightarrow> if e = ErrAlreadyExists then \<alpha> u k \<noteq> None \<and> \<alpha> t = \<alpha> u
       else \<alpha> t = \<alpha> u \<or> (\<exists>x. \<alpha> u k = None \<and> \<alpha> t = (\<alpha> u)(k \<mapsto> norm x) \<and> same x)
   | Panic p \<Rightarrow> False)"

definition update_effect ::
  "('s \<Rightarrow> 'x \<Rightarrow> 'o option) \<Rightarrow> ('a \<Rightarrow> 'o) \<Rightarrow> 'x \<Rightarrow> 'a MutatorFunc \<Rightarrow> ('a \<Rightarrow> 'a \<Rightarrow> bool) \<Rightarrow>
     's \<Rightarrow> 'a go \<Rightarrow> 's \<Rightarrow> bool" where
  "update_effect \<alpha> norm k mut same u r t \<longleftrightarrow> (case r of
     Ret y \<Rightarrow> \<exists>x z. \<alpha> u k = Some (norm x) \<and> mut x = Ret z \<and> same z y \<and> \<alpha> t = (\<alpha> u)(k \<mapsto> norm y)
   | Fail e \<Rightarrow> if errors_is e ErrNotFound then \<alpha> u k = None \<and> \<alpha> t = \<alpha> u
       else \<alpha> t = \<alpha> u \<or> (\<exists>x z y. \<alpha> u k = Some (norm x) \<and> mut x = Ret z \<and> same z y \<and>
              \<alpha> t = (\<alpha> u)(k \<mapsto> norm y))
   | Panic p \<Rightarrow> \<alpha> t = \<alpha> u \<and> (\<exists>x. \<alpha> u k = Some (norm x) \<and> mut x = Panic p))"

definition delete_effect :: "('s \<Rightarrow> 'x \<Rightarrow> 'o option) \<Rightarrow> 'x \<Rightarrow> 's \<Rightarrow> unit go \<Rightarrow> 's \<Rightarrow> bool" where
  "delete_effect \<alpha> k u r t \<longleftrightarrow> (case r of
     Ret _ \<Rightarrow> \<alpha> u k \<noteq> None \<and> \<alpha> t = (\<alpha> u)(k := None)
   | Fail e \<Rightarrow> if errors_is e ErrNotFound then \<alpha> u k = None \<and> \<alpha> t = \<alpha> u
       else \<alpha> t = \<alpha> u \<or> \<alpha> t = (\<alpha> u)(k := None)
   | Panic p \<Rightarrow> False)"

definition put_effect :: "('s \<Rightarrow> 'x \<Rightarrow> 'o option) \<Rightarrow> 'x \<Rightarrow> 'o \<Rightarrow> 's \<Rightarrow> unit go \<Rightarrow> 's \<Rightarrow> bool" where
  "put_effect \<alpha> k x u r t \<longleftrightarrow> (case r of
     Ret _ \<Rightarrow> \<alpha> t = (\<alpha> u)(k \<mapsto> x)
   | Fail e \<Rightarrow> \<alpha> t = \<alpha> u \<or> \<alpha> t = (\<alpha> u)(k \<mapsto> x)
   | Panic p \<Rightarrow> False)"

definition list_effect :: "('s \<Rightarrow> 'x \<Rightarrow> 'o option) \<Rightarrow> ('s \<Rightarrow> 'a set) \<Rightarrow> ('a \<Rightarrow> 'y) \<Rightarrow> 's \<Rightarrow> 'a list go \<Rightarrow> 's \<Rightarrow> bool" where
  "list_effect \<alpha> members ident u r t \<longleftrightarrow> \<alpha> t = \<alpha> u \<and> (case r of
     Ret xs \<Rightarrow> set xs = members u \<and> distinct (map ident xs)
   | Fail e \<Rightarrow> True
   | Panic p \<Rightarrow> False)"

lemmas effects = get_effect_def create_effect_def update_effect_def delete_effect_def put_effect_def
  list_effect_def

section \<open>Contracts\<close>

text \<open>The cluster store. The answer of \<^verbatim>\<open>CreateCluster\<close> and \<^verbatim>\<open>UpdateCluster\<close> is the object of the
  caller up to the fields the store manages.\<close>

definition managed_create :: "Cluster \<Rightarrow> Cluster \<Rightarrow> bool" where
  "managed_create c x \<longleftrightarrow> (\<exists>ts v. x = cluster_SetResourceVersion (cluster_SetCreationTimestamp c ts) v)"

definition managed_update :: "Cluster \<Rightarrow> Cluster \<Rightarrow> bool" where
  "managed_update z y \<longleftrightarrow> (\<exists>v. y = cluster_SetResourceVersion z v)"

text \<open>Mutators keep the id and have no way to fail other than a panic.\<close>

definition keeps_id :: "Cluster MutatorFunc \<Rightarrow> bool" where
  "keeps_id mut \<longleftrightarrow> (\<forall>c. (\<forall>d. mut c = Ret d \<longrightarrow> cl_id d = cl_id c) \<and> (\<forall>e. mut c \<noteq> Fail e))"

locale cluster_store = shared_state I R
  for I :: "'s \<Rightarrow> bool" and R :: "'s \<Rightarrow> 's \<Rightarrow> bool" +
  fixes store :: "'s ClusterStore" and \<alpha> :: "'s \<Rightarrow> okey \<Rightarrow> 'k stored option"
  assumes cluster_get: "ValidateID i = Ret () \<Longrightarrow>
      atomic I R (GetCluster store \<lparr> ref_id = i \<rparr>) (get_effect \<alpha> SCluster (KCluster, i))"
    and cluster_create: "ValidateID (cl_id c) = Ret () \<Longrightarrow>
      atomic I R (CreateCluster store c) (create_effect \<alpha> SCluster (KCluster, cl_id c) (managed_create c))"
    and cluster_update: "ValidateID i = Ret () \<Longrightarrow> keeps_id mut \<Longrightarrow>
      atomic I R (UpdateCluster store \<lparr> ref_id = i \<rparr> mut)
        (update_effect \<alpha> SCluster (KCluster, i) mut managed_update)"
    and cluster_delete: "ValidateID i = Ret () \<Longrightarrow>
      atomic I R (DeleteCluster store \<lparr> ref_id = i \<rparr>) (delete_effect \<alpha> (KCluster, i))"
    and cluster_list: "atomic I R (ListClusters store sel opts)
      (list_effect \<alpha> (\<lambda>u. {c. \<alpha> u (KCluster, cl_id c) = Some (SCluster c) \<and>
          cluster_selected \<lparr> cs_clusterIDs = [], cs_labelSelector = sel, cs_matchOptions = opts \<rparr> c}) cl_id)"
    and cluster_stored: "I s \<Longrightarrow> \<alpha> s (KCluster, i) = Some x \<Longrightarrow> \<exists>c. x = SCluster c \<and> cl_id c = i"

text \<open>The token store, for the operations the gateway uses concurrently.\<close>

definition forget_lease :: "BootstrapToken \<Rightarrow> BootstrapToken" where
  "forget_lease t = t\<lparr> bt_metadata := map_option (\<lambda>m. m\<lparr> bm_ttl := 0, bm_leaseID := 0 \<rparr>) (bt_metadata t) \<rparr>"

definition keeps_token :: "BootstrapToken MutatorFunc \<Rightarrow> bool" where
  "keeps_token mut \<longleftrightarrow> (\<forall>t. (\<forall>u. mut t = Ret u \<longrightarrow> bt_tokenID u = bt_tokenID t \<and>
     (bt_metadata t \<noteq> None \<longrightarrow> bt_metadata u \<noteq> None)) \<and> (\<forall>e. mut t \<noteq> Fail e))"

locale token_store = shared_state I R
  for I :: "'s \<Rightarrow> bool" and R :: "'s \<Rightarrow> 's \<Rightarrow> bool" +
  fixes store :: "'s TokenStore" and \<alpha> :: "'s \<Rightarrow> okey \<Rightarrow> 'k stored option"
  assumes token_get: "ValidateID i = Ret () \<Longrightarrow>
      atomic I R (GetToken store \<lparr> ref_id = i \<rparr>) (get_effect \<alpha> (SToken \<circ> forget_lease) (KToken, i))"
    and token_update: "ValidateID i = Ret () \<Longrightarrow> keeps_token mut \<Longrightarrow>
      atomic I R (UpdateToken store \<lparr> ref_id = i \<rparr> mut)
        (update_effect \<alpha> (SToken \<circ> forget_lease) (KToken, i) mut (=))"
    and token_stored: "I s \<Longrightarrow> \<alpha> s (KToken, i) = Some x \<Longrightarrow>
      \<exists>t. x = SToken t \<and> bt_tokenID t = i \<and> bt_metadata t \<noteq> None"

text \<open>What a keyring store keeps of a keyring is \<open>kabs\<close> of it; \<open>kok\<close> is the keyring's own invariant.\<close>

locale keyring_store = shared_state I R
  for I :: "'s \<Rightarrow> bool" and R :: "'s \<Rightarrow> 's \<Rightarrow> bool" +
  fixes broker :: "('s, 'r) KeyringStoreBroker" and \<alpha> :: "'s \<Rightarrow> okey \<Rightarrow> 'k stored option"
    and ns :: string and kabs :: "'r \<Rightarrow> 'k" and kok :: "'r \<Rightarrow> bool"
  assumes keyring_put: "ValidateID i = Ret () \<Longrightarrow> kok k \<Longrightarrow>
      atomic I R (keyring_Put (broker ns \<lparr> ref_id = i \<rparr>) k) (put_effect \<alpha> (KKeyring ns, i) (SKeyring (kabs k)))"
    and keyring_get: "ValidateID i = Ret () \<Longrightarrow>
      atomic I R (keyring_Get (broker ns \<lparr> ref_id = i \<rparr>))
        (\<lambda>u r v. get_effect \<alpha> (SKeyring \<circ> kabs) (KKeyring ns, i) u r v \<and> (\<forall>k. r = Ret k \<longrightarrow> kok k))"
    and keyring_delete: "ValidateID i = Ret () \<Longrightarrow>
      atomic I R (keyring_Delete (broker ns \<lparr> ref_id = i \<rparr>)) (delete_effect \<alpha> (KKeyring ns, i))"

text \<open>A key-value store whose keys satisfy \<open>valid\<close>.\<close>

locale kv_store = shared_state I R
  for I :: "'s \<Rightarrow> bool" and R :: "'s \<Rightarrow> 's \<Rightarrow> bool" +
  fixes store :: "('s, 'v) KeyValueStoreT" and kv\<alpha> :: "'s \<Rightarrow> string \<Rightarrow> 'v option"
    and valid :: "string \<Rightarrow> bool"
  assumes kv_put: "valid k \<Longrightarrow> atomic I R (kv_Put store k v) (put_effect kv\<alpha> k v)"
    and kv_get: "valid k \<Longrightarrow> atomic I R (kv_Get store k) (get_effect kv\<alpha> (\<lambda>x. x) k)"
    and kv_delete: "valid k \<Longrightarrow> atomic I R (kv_Delete store k) (delete_effect kv\<alpha> k)"

text \<open>The prefixed store of \<^verbatim>\<open>kvutil.go\<close> fulfils the same contract, on the keys under its prefix.\<close>

lemma shift_put_effect:
  "put_effect \<alpha> (p @ k) v u r t \<Longrightarrow> put_effect (\<lambda>s k. \<alpha> s (p @ k)) k v u r t"
  by (cases r) (auto simp: put_effect_def fun_eq_iff)

lemma shift_get_effect:
  "get_effect \<alpha> norm (p @ k) u r t \<Longrightarrow> get_effect (\<lambda>s k. \<alpha> s (p @ k)) norm k u r t"
  by (cases r) (auto simp: get_effect_def fun_eq_iff)

lemma shift_delete_effect:
  "delete_effect \<alpha> (p @ k) u r t \<Longrightarrow> delete_effect (\<lambda>s k. \<alpha> s (p @ k)) k u r t"
  by (cases r) (auto simp: delete_effect_def fun_eq_iff split: if_splits)

locale prefixed_kv_store = kv_store I R store kv\<alpha> valid
  for I :: "'s \<Rightarrow> bool" and R :: "'s \<Rightarrow> 's \<Rightarrow> bool" and store :: "('s, 'v) KeyValueStoreT"
    and kv\<alpha> :: "'s \<Rightarrow> string \<Rightarrow> 'v option" and valid :: "string \<Rightarrow> bool" +
  fixes pfx :: string

sublocale prefixed_kv_store \<subseteq> pre: kv_store I R "NewKeyValueStoreWithPrefix store pfx"
  "\<lambda>s k. kv\<alpha> s (pfx @ k)" "\<lambda>k. valid (pfx @ k)"
proof unfold_locales
  fix k v assume ok: "valid (pfx @ k)"
  show "atomic I R (kv_Put (NewKeyValueStoreWithPrefix store pfx) k v)
      (put_effect (\<lambda>s k. kv\<alpha> s (pfx @ k)) k v)"
    using atomic_weaken [OF kv_put [OF ok] shift_put_effect]
    by (simp add: NewKeyValueStoreWithPrefix_def)
next
  fix k assume ok: "valid (pfx @ k)"
  show "atomic I R (kv_Get (NewKeyValueStoreWithPrefix store pfx) k)
      (get_effect (\<lambda>s k. kv\<alpha> s (pfx @ k)) (\<lambda>x. x) k)"
    using atomic_weaken [OF kv_get [OF ok] shift_get_effect]
    by (simp add: NewKeyValueStoreWithPrefix_def)
  show "atomic I R (kv_Delete (NewKeyValueStoreWithPrefix store pfx) k)
      (delete_effect (\<lambda>s k. kv\<alpha> s (pfx @ k)) k)"
    using atomic_weaken [OF kv_delete [OF ok] shift_delete_effect]
    by (simp add: NewKeyValueStoreWithPrefix_def)
qed

section \<open>Undisturbed runs\<close>

text \<open>When the other instances change nothing (\<open>R\<close> keeps the abstraction), an atomic operation acts on
  the abstraction of its start state.\<close>

lemma atomic_quiet:
  assumes "atomic I R m Q" and "I s" and "m s = (r, t)" and "\<And>s u. R s u \<Longrightarrow> \<alpha> u = \<alpha> s"
  obtains u v where "\<alpha> u = \<alpha> s" "Q u r v" "\<alpha> t = \<alpha> v" "I t"
proof -
  obtain u v where "R s u" "Q u r v" "R v t" "I t"
    using assms(1-3) by (rule atomicE)
  then show thesis by (intro that [of u v] assms(4))
qed

text \<open>In particular reading back what was put gives it, and the other keys are as before.\<close>

context kv_store
begin

lemma put_quiet:
  assumes "\<And>s u. R s u \<Longrightarrow> kv\<alpha> u = kv\<alpha> s" and "valid k" and "I s"
    and "kv_Put store k v s = (Ret (), t)"
  shows "kv\<alpha> t = (kv\<alpha> s)(k \<mapsto> v) \<and> I t"
proof -
  obtain u w where "kv\<alpha> u = kv\<alpha> s" "put_effect kv\<alpha> k v u (Ret ()) w" "kv\<alpha> t = kv\<alpha> w" "I t"
    using kv_put [OF assms(2)] assms(3,4,1) by (rule atomic_quiet)
  then show ?thesis by (simp add: put_effect_def)
qed

lemma get_quiet:
  assumes "\<And>s u. R s u \<Longrightarrow> kv\<alpha> u = kv\<alpha> s" and "valid k" and "I s"
    and "kv_Get store k s = (Ret w, t)"
  shows "kv\<alpha> s k = Some w"
proof -
  obtain u v where "kv\<alpha> u = kv\<alpha> s" "get_effect kv\<alpha> (\<lambda>x. x) k u (Ret w) v"
    using kv_get [OF assms(2)] assms(3,4,1) by (rule atomic_quiet)
  then show ?thesis by (simp add: get_effect_def)
qed

lemma put_then_get:
  assumes "\<And>s u. R s u \<Longrightarrow> kv\<alpha> u = kv\<alpha> s" and "valid k" and "valid k'" and "I s"
    and "kv_Put store k v s = (Ret (), t)" and "kv_Get store k' t = (Ret w, u)"
  shows "if k' = k then w = v else kv\<alpha> s k' = Some w"
  using put_quiet [OF assms(1,2,4,5)] get_quiet [OF assms(1,3) _ assms(6)] by auto

end

end
