(* ===== verification/Pkp.thy ===== *)
theory Pkp
  imports Go_Prelude Go_Encoding
begin

text \<open>
  \<^verbatim>\<open>pkg/pkp\<close>: public key pins, their textual form, and the connection check that replaces the usual
  certificate verification when an agent joins. Parameters: the two digests, the certificates' raw
  public key and \<^verbatim>\<open>x509\<close>'s signature check.
\<close>

abbreviation "AlgSHA256 \<equiv> ''sha256''"
abbreviation "AlgB2B256 \<equiv> ''b2b256''"
abbreviation "ErrMissingAlgorithm \<equiv> ErrText ''missing algorithm''"
abbreviation "ErrUnsupportedAlgorithm \<equiv> ErrText ''unsupported algorithm''"
abbreviation "ErrMalformedPin \<equiv> ErrText ''malformed pin''"
abbreviation "ErrNoPins \<equiv> ErrText ''no pins provided''"
abbreviation "ErrCertValidationFailed \<equiv> ErrText ''peer certificate validation failed''"

record PublicKeyPin =
  pin_Algorithm :: string
  pin_Fingerprint :: string

definition pin_DeepCopy :: "PublicKeyPin \<Rightarrow> PublicKeyPin" where
  "pin_DeepCopy p = \<lparr> pin_Algorithm = pin_Algorithm p, pin_Fingerprint = [] @ pin_Fingerprint p \<rparr>"

definition pin_Validate :: "PublicKeyPin \<Rightarrow> unit go" where
  "pin_Validate p = (if pin_Algorithm p \<notin> {AlgSHA256, AlgB2B256} then Fail ErrUnsupportedAlgorithm
     else if length (pin_Fingerprint p) \<noteq> 32 then Fail ErrMalformedPin else Ret ())"

definition pin_Encode :: "PublicKeyPin \<Rightarrow> string" where
  "pin_Encode p = pin_Algorithm p @ '':'' @ RawURL_EncodeToString (pin_Fingerprint p)"

definition pin_Equal :: "PublicKeyPin \<Rightarrow> PublicKeyPin \<Rightarrow> bool" where
  "pin_Equal p other \<longleftrightarrow> pin_Algorithm p = pin_Algorithm other \<and> pin_Fingerprint p = pin_Fingerprint other"

text \<open>A certificate is what the code reads of it, \<^verbatim>\<open>RawSubjectPublicKeyInfo\<close>.\<close>

definition NewBlake2b256 :: "(string \<Rightarrow> string) \<Rightarrow> ('c \<Rightarrow> string) \<Rightarrow> 'c \<Rightarrow> PublicKeyPin" where
  "NewBlake2b256 b2b256 spki cert = \<lparr> pin_Algorithm = AlgB2B256, pin_Fingerprint = b2b256 (spki cert) \<rparr>"

definition NewSha256 :: "(string \<Rightarrow> string) \<Rightarrow> ('c \<Rightarrow> string) \<Rightarrow> 'c \<Rightarrow> PublicKeyPin" where
  "NewSha256 sha256 spki cert = \<lparr> pin_Algorithm = AlgSHA256, pin_Fingerprint = sha256 (spki cert) \<rparr>"

definition pin_New ::
  "(string \<Rightarrow> string) \<Rightarrow> (string \<Rightarrow> string) \<Rightarrow> ('c \<Rightarrow> string) \<Rightarrow> 'c \<Rightarrow> string \<Rightarrow> PublicKeyPin go" where
  "pin_New sha256 b2b256 spki cert alg =
     (if alg = AlgSHA256 then Ret (NewSha256 sha256 spki cert)
      else if alg = AlgB2B256 then Ret (NewBlake2b256 b2b256 spki cert)
      else Fail ErrUnsupportedAlgorithm)"

definition DecodePin :: "string \<Rightarrow> PublicKeyPin go" where
  "DecodePin pin = (let parts = split (CHR '':'') pin in
     if length parts = 1 then Fail ErrMissingAlgorithm
     else if length parts > 2 then Fail ErrMalformedPin
     else (case RawURL_DecodeString (parts ! 1) of
         None \<Rightarrow> Fail (Wrap ''base64'' ErrMalformedPin)
       | Some fp \<Rightarrow>
           if parts ! 0 = AlgSHA256 then Ret \<lparr> pin_Algorithm = AlgSHA256, pin_Fingerprint = fp \<rparr>
           else if parts ! 0 = AlgB2B256 then Ret \<lparr> pin_Algorithm = AlgB2B256, pin_Fingerprint = fp \<rparr>
           else Fail (Wrap (parts ! 0) ErrUnsupportedAlgorithm)))"

section \<open>tls.go\<close>

text \<open>The first loop of \<^verbatim>\<open>VerifyConnection\<close>: every certificate is signed by the next one.\<close>

fun check_chain :: "('c \<Rightarrow> 'c \<Rightarrow> bool) \<Rightarrow> 'c list \<Rightarrow> bool" where
  "check_chain signedBy (c # d # cs) = (if \<not> signedBy c d then False else check_chain signedBy (d # cs))"
| "check_chain signedBy _ = True"

text \<open>The labelled loop: the index of the first certificate with a matching pin. A \<^verbatim>\<open>nil\<close> pin of an
  unsupported algorithm would be dereferenced.\<close>

fun match_pins ::
  "(string \<Rightarrow> string) \<Rightarrow> (string \<Rightarrow> string) \<Rightarrow> ('c \<Rightarrow> string) \<Rightarrow> PublicKeyPin list \<Rightarrow> 'c \<Rightarrow> bool go" where
  "match_pins sha256 b2b256 spki [] cert = Ret False"
| "match_pins sha256 b2b256 spki (pin # pins) cert =
     (case pin_New sha256 b2b256 spki cert (pin_Algorithm pin) of
        Ret q \<Rightarrow> if pin_Equal pin q then Ret True else match_pins sha256 b2b256 spki pins cert
      | _ \<Rightarrow> Panic ''nil pointer dereference'')"

fun find_pinned ::
  "('c \<Rightarrow> bool go) \<Rightarrow> 'c list \<Rightarrow> bool go" where
  "find_pinned m [] = Ret False"
| "find_pinned m (c # cs) = go_bind (m c) (\<lambda>b. if b then Ret True else find_pinned m cs)"

definition VerifyConnection ::
  "(string \<Rightarrow> string) \<Rightarrow> (string \<Rightarrow> string) \<Rightarrow> ('c \<Rightarrow> string) \<Rightarrow> ('c \<Rightarrow> 'c \<Rightarrow> bool) \<Rightarrow>
     PublicKeyPin list \<Rightarrow> 'c list \<Rightarrow> unit go" where
  "VerifyConnection sha256 b2b256 spki signedBy pins peerCerts =
     (if \<not> check_chain signedBy peerCerts then Fail (Wrap ''signature'' ErrCertValidationFailed)
      else go_bind (find_pinned (match_pins sha256 b2b256 spki pins) peerCerts)
        (\<lambda>found. if \<not> found then Fail ErrCertValidationFailed else Ret ()))"

text \<open>\<^verbatim>\<open>TLSConfig\<close> answers a configuration, here its \<^verbatim>\<open>VerifyConnection\<close> callback.\<close>

definition TLSConfig ::
  "(string \<Rightarrow> string) \<Rightarrow> (string \<Rightarrow> string) \<Rightarrow> ('c \<Rightarrow> string) \<Rightarrow> ('c \<Rightarrow> 'c \<Rightarrow> bool) \<Rightarrow>
     PublicKeyPin list \<Rightarrow> ('c list \<Rightarrow> unit go) go" where
  "TLSConfig sha256 b2b256 spki signedBy pins =
     (if pins = [] then Fail ErrNoPins
      else go_bind (go_map (\<lambda>p. go_bind (pin_Validate p) (\<lambda>_. Ret (pin_DeepCopy p))) pins) (\<lambda>copiedPins.
        Ret (VerifyConnection sha256 b2b256 spki signedBy copiedPins)))"

section \<open>Lemmas\<close>

lemma pin_DeepCopy_id [simp]: "pin_DeepCopy p = p"
  by (simp add: pin_DeepCopy_def)

lemma pin_Validate_no_panic: "pin_Validate p \<noteq> Panic m"
  by (simp add: pin_Validate_def)

lemma RawURL_no_colon: "CHR '':'' \<notin> set (RawURL_EncodeToString s)"
  using set_RawURL_Encode [of s] by (auto simp: b64url_def)

lemma check_chain_iff:
  "check_chain signedBy cs \<longleftrightarrow> list_all (\<lambda>(c, d). signedBy c d) (zip cs (tl cs))"
  by (induction signedBy cs rule: check_chain.induct) auto

definition cert_pins :: "(string \<Rightarrow> string) \<Rightarrow> (string \<Rightarrow> string) \<Rightarrow> ('c \<Rightarrow> string) \<Rightarrow> 'c \<Rightarrow> PublicKeyPin set" where
  "cert_pins sha256 b2b256 spki c = {NewSha256 sha256 spki c, NewBlake2b256 b2b256 spki c}"

lemma match_pins_Ret:
  assumes "\<forall>p \<in> set pins. pin_Validate p = Ret ()"
  shows "match_pins sha256 b2b256 spki pins c = Ret (\<exists>p \<in> set pins. p \<in> cert_pins sha256 b2b256 spki c)"
  using assms
proof (induction pins)
  case (Cons p pins)
  then have "pin_Algorithm p \<in> {AlgSHA256, AlgB2B256}" by (auto simp: pin_Validate_def split: if_splits)
  with Cons show ?case
    by (cases p) (auto simp: pin_New_def pin_Equal_def cert_pins_def NewSha256_def NewBlake2b256_def)
qed simp

lemma find_pinned_Ret: "(\<And>c. m c = Ret (P c)) \<Longrightarrow> find_pinned m cs = Ret (\<exists>c \<in> set cs. P c)"
  by (induction cs) auto

lemma DecodePin_Encode:
  assumes "pin_Algorithm p \<in> {AlgSHA256, AlgB2B256}"
  shows "DecodePin (pin_Encode p) = Ret p"
proof -
  have "CHR '':'' \<notin> set (pin_Algorithm p)" using assms by auto
  then have "split (CHR '':'') (pin_Encode p) = [pin_Algorithm p, RawURL_EncodeToString (pin_Fingerprint p)]"
    by (simp add: pin_Encode_def RawURL_no_colon)
  with assms show ?thesis by (cases p) (auto simp: DecodePin_def)
qed

lemma DecodePin_parts:
  assumes "split (CHR '':'') s = [a, f]"
  shows "DecodePin s = Ret p \<longleftrightarrow>
    a \<in> {AlgSHA256, AlgB2B256} \<and> pin_Algorithm p = a \<and> RawURL_DecodeString f = Some (pin_Fingerprint p)"
  by (cases p; cases "RawURL_DecodeString f") (auto simp: DecodePin_def assms Let_def split: if_splits)

lemma DecodePin_two:
  assumes "DecodePin s = Ret p"
  obtains a f where "split (CHR '':'') s = [a, f]"
proof (cases "split (CHR '':'') s")
  case (Cons a r)
  then show thesis using that assms
    by (cases r; cases "tl r") (simp_all add: DecodePin_def)
qed simp

lemma split_two: "split c s = [a, f] \<longleftrightarrow> s = a @ c # f \<and> c \<notin> set a \<and> c \<notin> set f"
proof
  assume sp: "split c s = [a, f]"
  then have "c \<notin> set a" "c \<notin> set f" using split_seg_free [of _ c s] by simp_all
  then show "s = a @ c # f \<and> c \<notin> set a \<and> c \<notin> set f" using join_split [of c s] sp by simp
qed auto

lemma DecodePin_Ret:
  "DecodePin s = Ret p \<longleftrightarrow> pin_Algorithm p \<in> {AlgSHA256, AlgB2B256} \<and>
    (\<exists>f. s = pin_Algorithm p @ CHR '':'' # f \<and> CHR '':'' \<notin> set f \<and> RawURL_DecodeString f = Some (pin_Fingerprint p))"
  (is "_ \<longleftrightarrow> ?alg \<and> ?form")
proof
  assume dec: "DecodePin s = Ret p"
  then obtain a f where af: "split (CHR '':'') s = [a, f]" by (rule DecodePin_two)
  show "?alg \<and> ?form" using dec af by (auto simp: DecodePin_parts split_two)
next
  assume r: "?alg \<and> ?form"
  then obtain f where f: "s = pin_Algorithm p @ CHR '':'' # f" "CHR '':'' \<notin> set f"
    "RawURL_DecodeString f = Some (pin_Fingerprint p)" by blast
  have "split (CHR '':'') s = [pin_Algorithm p, f]" using r f by (auto simp: split_two)
  then show "DecodePin s = Ret p" using r f by (simp add: DecodePin_parts)
qed

section \<open>Properties\<close>

text \<open>The textual form of a pin of a supported algorithm decodes to that pin; conversely a string that
  decodes has the pin's algorithm before its only colon and base64 of the fingerprint after it.\<close>

theorem pin_roundtrip:
  assumes "pin_Validate p = Ret ()"
  shows "DecodePin (pin_Encode p) = Ret p \<and>
    (DecodePin s = Ret q \<longleftrightarrow> pin_Algorithm q \<in> {AlgSHA256, AlgB2B256} \<and>
       (\<exists>f. s = pin_Algorithm q @ '':'' @ f \<and> CHR '':'' \<notin> set f \<and>
          RawURL_DecodeString f = Some (pin_Fingerprint q)))"
  using assms DecodePin_Encode [of p] DecodePin_Ret [of s q]
  by (auto simp: pin_Validate_def split: if_splits)

text \<open>Witness: a SHA-256 pin of 32 zero bytes.\<close>

theorem pin_roundtrip_witness:
  "DecodePin (pin_Encode \<lparr> pin_Algorithm = AlgSHA256, pin_Fingerprint = replicate 32 (CHR 0x00) \<rparr>) =
     Ret \<lparr> pin_Algorithm = AlgSHA256, pin_Fingerprint = replicate 32 (CHR 0x00) \<rparr>"
proof -
  have "pin_Validate \<lparr> pin_Algorithm = AlgSHA256, pin_Fingerprint = replicate 32 (CHR 0x00) \<rparr> = Ret ()"
    by (simp add: pin_Validate_def)
  from pin_roundtrip [OF this] show ?thesis by blast
qed

text \<open>C18: a connection made with a configuration of \<^verbatim>\<open>TLSConfig\<close> is accepted exactly when every
  certificate of the peer is signed by the next one and at least one of them has a digest that was
  pinned; it never panics. No configuration is made from an empty list or from an invalid pin.\<close>

theorem TLSConfig_spec:
  "case TLSConfig sha256 b2b256 spki signedBy pins of
     Ret vc \<Rightarrow> pins \<noteq> [] \<and> list_all (\<lambda>p. pin_Validate p = Ret ()) pins \<and>
       vc = (\<lambda>certs.
         if \<not> list_all (\<lambda>(c, d). signedBy c d) (zip certs (tl certs))
         then Fail (Wrap ''signature'' ErrCertValidationFailed)
         else if list_ex (\<lambda>c. list_ex (\<lambda>p. p \<in> cert_pins sha256 b2b256 spki c) pins) certs then Ret ()
         else Fail ErrCertValidationFailed)
   | Fail e \<Rightarrow> pins = [] \<or> list_ex (\<lambda>p. pin_Validate p = Fail e) pins
   | Panic msg \<Rightarrow> False"
proof (cases "pins = [] \<or> (\<forall>p \<in> set pins. pin_Validate p = Ret ())")
  case True
  have copy: "go_map (\<lambda>p. go_bind (pin_Validate p) (\<lambda>_. Ret (pin_DeepCopy p))) pins = Ret pins"
    if "\<forall>p \<in> set pins. pin_Validate p = Ret ()"
    using go_map_total [of pins "\<lambda>p. go_bind (pin_Validate p) (\<lambda>_. Ret (pin_DeepCopy p))" "\<lambda>p. p"] that
    by simp
  show ?thesis using True copy
    by (auto simp: TLSConfig_def VerifyConnection_def check_chain_iff list_all_iff list_ex_iff fun_eq_iff
        find_pinned_Ret [OF match_pins_Ret])
next
  case False
  have "\<exists>e. go_map (\<lambda>p. go_bind (pin_Validate p) (\<lambda>_. Ret (pin_DeepCopy p))) qs = Fail e \<and>
      list_ex (\<lambda>p. pin_Validate p = Fail e) qs"
    if "\<not> (\<forall>p \<in> set qs. pin_Validate p = Ret ())" for qs
    using that
  proof (induction qs)
    case (Cons q qs)
    then show ?case using pin_Validate_no_panic [of q] by (cases "pin_Validate q") auto
  qed simp
  from this [of pins] False obtain e where
    "go_map (\<lambda>p. go_bind (pin_Validate p) (\<lambda>_. Ret (pin_DeepCopy p))) pins = Fail e"
    "list_ex (\<lambda>p. pin_Validate p = Fail e) pins" by blast
  with False show ?thesis by (simp add: TLSConfig_def)
qed

end
