(* ===== verification/Keyring.thy ===== *)
theory Keyring
  imports Pkp
begin

text \<open>
  \<^verbatim>\<open>pkg/keyring\<close> and \<^verbatim>\<open>pkg/ecdh\<close>: the keys two peers share, the keyring that holds them by type, and
  the key agreement they come from. A key is stored under its dynamic type (\<^verbatim>\<open>reflect.Type\<close>); a value
  of a type that is no key type is \<open>KOther\<close>. Parameters: X25519, BLAKE2b-512 and the Ed25519 key
  derivation, and the JSON text of a \<^verbatim>\<open>completeKeyring\<close>.
\<close>

section \<open>ecdh.go\<close>

record EphemeralKeyPair =
  kp_PrivateKey :: string
  kp_PublicKey :: string

datatype PeerType = PeerTypeClient | PeerTypeServer | PeerTypeOther int

record PeerPublicKey =
  pp_PublicKey :: string
  pp_PeerType :: PeerType

abbreviation "ErrInvalidPeerType \<equiv> ErrText ''invalid peer type''"

definition NewEphemeralKeyPair :: "(string \<Rightarrow> string \<Rightarrow> string go) \<Rightarrow> string \<Rightarrow> string \<Rightarrow> EphemeralKeyPair go" where
  "NewEphemeralKeyPair X25519 basepoint rand = (let priv = take 32 rand in
     (case X25519 priv basepoint of
        Ret pub \<Rightarrow> Ret \<lparr> kp_PrivateKey = priv, kp_PublicKey = pub \<rparr>
      | Fail e \<Rightarrow> Panic ''curve25519''
      | Panic p \<Rightarrow> Panic p))"

definition DeriveSharedSecret ::
  "(string \<Rightarrow> string \<Rightarrow> string go) \<Rightarrow> (string \<Rightarrow> string) \<Rightarrow> EphemeralKeyPair \<Rightarrow> PeerPublicKey \<Rightarrow> string go" where
  "DeriveSharedSecret X25519 b2b512 ours theirs =
     go_bind (X25519 (kp_PrivateKey ours) (pp_PublicKey theirs)) (\<lambda>q.
     case pp_PeerType theirs of
       PeerTypeClient \<Rightarrow> Ret (b2b512 (q @ pp_PublicKey theirs @ kp_PublicKey ours))
     | PeerTypeServer \<Rightarrow> Ret (b2b512 (q @ kp_PublicKey ours @ pp_PublicKey theirs))
     | PeerTypeOther n \<Rightarrow> Fail (Wrap ''peer type'' ErrInvalidPeerType))"

section \<open>keys.go and ephemeral.go\<close>

record SharedKeys =
  sk_ClientKey :: string
  sk_ServerKey :: string

record PKPKey =
  pk_PinnedKeys :: "PublicKeyPin list"

record CACertsKey =
  ca_CACerts :: "string list"

record EphemeralKey =
  ek_Usage :: string
  ek_Secret :: string
  ek_Labels :: "string gomap"

definition NewSharedKeys :: "(string \<Rightarrow> string) \<Rightarrow> string \<Rightarrow> SharedKeys go" where
  "NewSharedKeys keyFromSeed secret =
     (if length secret \<noteq> 64 then Panic ''shared secret must be 64 bytes''
      else Ret \<lparr> sk_ClientKey = keyFromSeed (take 32 secret), sk_ServerKey = keyFromSeed (drop 32 secret) \<rparr>)"

definition NewPKPKey :: "PublicKeyPin list \<Rightarrow> PKPKey" where
  "NewPKPKey pinnedKeys = \<lparr> pk_PinnedKeys = map pin_DeepCopy pinnedKeys \<rparr>"

definition NewCACertsKey :: "('c \<Rightarrow> string) \<Rightarrow> 'c list \<Rightarrow> CACertsKey" where
  "NewCACertsKey raw certs = \<lparr> ca_CACerts = map raw certs \<rparr>"

section \<open>keyring.go\<close>

datatype key = KShared SharedKeys | KPKP PKPKey | KCACerts CACertsKey | KEphemeral EphemeralKey | KOther

datatype ktype = TShared | TPKP | TCACerts | TEphemeral | TOther

fun type_of :: "key \<Rightarrow> ktype" where
  "type_of (KShared k) = TShared"
| "type_of (KPKP k) = TPKP"
| "type_of (KCACerts k) = TCACerts"
| "type_of (KEphemeral k) = TEphemeral"
| "type_of KOther = TOther"

text \<open>The fields of \<^verbatim>\<open>completeKeyring\<close>, in order.\<close>

definition allowedKeyTypes :: "ktype list" where
  "allowedKeyTypes = [TShared, TPKP, TCACerts, TEphemeral]"

text \<open>\<^verbatim>\<open>map[reflect.Type][]any\<close>, in iteration order.\<close>

type_synonym keyring = "(ktype \<times> key list) list"

definition keys_of :: "keyring \<Rightarrow> ktype \<Rightarrow> key list" where
  "keys_of kr t = (case map_of kr t of None \<Rightarrow> [] | Some ks \<Rightarrow> ks)"

fun add_keys :: "keyring \<Rightarrow> key list \<Rightarrow> keyring go" where
  "add_keys m [] = Ret m"
| "add_keys m (k # ks) =
     (if type_of k \<notin> set allowedKeyTypes then Panic ''invalid key type''
      else add_keys (AList.update (type_of k) (keys_of m (type_of k) @ [k]) m) ks)"

definition keyring_New :: "key list \<Rightarrow> keyring go" where
  "keyring_New ks = add_keys [] ks"

text \<open>\<^verbatim>\<open>ForEach\<close> with a callback that appends: the keys in iteration order.\<close>

definition ForEach :: "keyring \<Rightarrow> (key \<Rightarrow> 's \<Rightarrow> 's) \<Rightarrow> 's \<Rightarrow> 's" where
  "ForEach kr fn = fold (\<lambda>(t, l). fold fn l) kr"

definition Merge :: "keyring \<Rightarrow> keyring \<Rightarrow> keyring go" where
  "Merge kr other = (let ks = ForEach kr (\<lambda>k ks. ks @ [k]) []; ks = ForEach other (\<lambda>k ks. ks @ [k]) ks
     in keyring_New ks)"

text \<open>A \<^verbatim>\<open>UseKeyFn\<close> is any value; used as a function of one key it updates the state of its closure.\<close>

datatype 's UseKeyFn = NotAFunc | NotUnary | UseKey ktype "key \<Rightarrow> 's \<Rightarrow> 's"

fun Try :: "keyring \<Rightarrow> 's UseKeyFn list \<Rightarrow> bool \<Rightarrow> 's \<Rightarrow> (bool \<times> 's) go" where
  "Try kr [] found s = Ret (found, s)"
| "Try kr (NotAFunc # fns) found s = Panic ''invalid UseKeyFn''"
| "Try kr (NotUnary # fns) found s = Panic ''invalid UseKeyFn (requires one parameter)''"
| "Try kr (UseKey t fn # fns) found s = (case map_of kr t of
     Some f \<Rightarrow> Try kr fns True (fold fn f s)
   | None \<Rightarrow> Try kr fns found s)"

record completeKeyring =
  ck_SharedKeys :: "key list"
  ck_PKPKey :: "key list"
  ck_CACertsKey :: "key list"
  ck_EphemeralKey :: "key list"

text \<open>\<open>toJSON\<close> and \<open>ofJSON\<close> stand for \<^verbatim>\<open>encoding/json\<close> at this type; the last field is tagged
  \<^verbatim>\<open>json:"-"\<close> and not written.\<close>

definition keyring_Marshal :: "(completeKeyring \<Rightarrow> 'w go) \<Rightarrow> keyring \<Rightarrow> 'w go" where
  "keyring_Marshal toJSON kr = toJSON \<lparr> ck_SharedKeys = keys_of kr TShared, ck_PKPKey = keys_of kr TPKP,
     ck_CACertsKey = keys_of kr TCACerts, ck_EphemeralKey = keys_of kr TEphemeral \<rparr>"

definition keyring_Unmarshal :: "('w \<Rightarrow> completeKeyring go) \<Rightarrow> 'w \<Rightarrow> keyring go" where
  "keyring_Unmarshal ofJSON data = go_bind (ofJSON data) (\<lambda>c.
     keyring_New (ck_SharedKeys c @ ck_PKPKey c @ ck_CACertsKey c @ ck_EphemeralKey c))"

section \<open>The keyring invariant\<close>

definition keyring_ok :: "keyring \<Rightarrow> bool" where
  "keyring_ok kr \<longleftrightarrow> distinct (map fst kr) \<and>
     list_all (\<lambda>(t, ks). t \<in> set allowedKeyTypes \<and> ks \<noteq> [] \<and> list_all (\<lambda>k. type_of k = t) ks) kr"

abbreviation of_type :: "ktype \<Rightarrow> key list \<Rightarrow> key list" where
  "of_type t ks \<equiv> filter (\<lambda>k. type_of k = t) ks"

lemma keyring_okD:
  "keyring_ok kr \<Longrightarrow> map_of kr t = Some ks \<Longrightarrow>
     t \<in> set allowedKeyTypes \<and> ks \<noteq> [] \<and> (\<forall>k \<in> set ks. type_of k = t)"
  unfolding keyring_ok_def list_all_iff using map_of_SomeD by fastforce

lemma keyring_ok_update:
  assumes "keyring_ok kr" and "t \<in> set allowedKeyTypes" and "ks \<noteq> []" and "\<forall>k \<in> set ks. type_of k = t"
  shows "keyring_ok (AList.update t ks kr)"
proof -
  have "distinct (map fst (AList.update t ks kr))"
    using assms(1) by (intro distinct_update) (simp add: keyring_ok_def)
  moreover have "e = (t, ks) \<or> e \<in> set kr" if "e \<in> set (AList.update t ks kr)" for e
    using that by (induction kr) (auto split: if_splits)
  ultimately show ?thesis
    using assms unfolding keyring_ok_def list_all_iff by (auto split: prod.splits) blast+
qed

lemma keys_of_update: "keys_of (AList.update t ks kr) u = (if u = t then ks else keys_of kr u)"
  by (simp add: keys_of_def update_conv')

lemma keys_of_type: "keyring_ok kr \<Longrightarrow> k \<in> set (keys_of kr t) \<Longrightarrow> type_of k = t"
  using keyring_okD [of kr t] by (cases "map_of kr t") (auto simp: keys_of_def)

lemma add_keys_Ret:
  "keyring_ok kr \<Longrightarrow> \<forall>k \<in> set ks. type_of k \<in> set allowedKeyTypes \<Longrightarrow>
   \<exists>kr'. add_keys kr ks = Ret kr' \<and> keyring_ok kr' \<and> (\<forall>t. keys_of kr' t = keys_of kr t @ of_type t ks)"
proof (induction ks arbitrary: kr)
  case (Cons k ks)
  let ?kr = "AList.update (type_of k) (keys_of kr (type_of k) @ [k]) kr"
  have "keyring_ok ?kr"
    using Cons.prems keys_of_type [OF Cons.prems(1)] by (intro keyring_ok_update) auto
  with Cons.IH [of ?kr] Cons.prems obtain kr' where
    "add_keys ?kr ks = Ret kr'" "keyring_ok kr'" "\<forall>t. keys_of kr' t = keys_of ?kr t @ of_type t ks" by auto
  with Cons.prems show ?case by (auto simp: keys_of_update)
qed simp

lemma keyring_New_Ret:
  assumes "\<forall>k \<in> set ks. type_of k \<in> set allowedKeyTypes"
  shows "\<exists>kr. keyring_New ks = Ret kr \<and> keyring_ok kr \<and> (\<forall>t. keys_of kr t = of_type t ks)"
  using add_keys_Ret [of "[]" ks] assms by (auto simp: keyring_New_def keyring_ok_def keys_of_def)

lemma keyring_New_Panic:
  "k \<in> set ks \<Longrightarrow> type_of k \<notin> set allowedKeyTypes \<Longrightarrow> keyring_New ks = Panic ''invalid key type''"
  unfolding keyring_New_def by (induction ks arbitrary: k rule: add_keys.induct) auto

lemma ForEach_append: "ForEach kr (\<lambda>k ks. ks @ [k]) acc = acc @ concat (map snd kr)"
proof (induction kr arbitrary: acc)
  case (Cons e kr)
  have "fold (\<lambda>k ks. ks @ [k]) l a = a @ l" for l a :: "key list"
    by (induction l arbitrary: a) auto
  with Cons show ?case by (cases e) (simp add: ForEach_def)
qed (simp add: ForEach_def)

lemma keys_of_concat:
  assumes "keyring_ok kr"
  shows "of_type t (concat (map snd kr)) = keys_of kr t"
  using assms
proof (induction kr)
  case (Cons e kr)
  obtain u ks where e: "e = (u, ks)" by (cases e)
  have ok: "keyring_ok kr" and ks: "\<forall>k \<in> set ks. type_of k = u" and new: "u \<notin> fst ` set kr"
    using Cons.prems by (auto simp: keyring_ok_def e list_all_iff)
  have "map_of kr u = None" using new by (simp add: map_of_eq_None_iff)
  moreover have "of_type t ks = (if u = t then ks else [])" using ks by (auto simp: filter_id_conv filter_empty_conv)
  ultimately show ?case using Cons.IH [OF ok] by (auto simp: e keys_of_def)
qed (simp add: keys_of_def)

lemma concat_allowed:
  "keyring_ok kr \<Longrightarrow> k \<in> set (concat (map snd kr)) \<Longrightarrow> type_of k \<in> set allowedKeyTypes"
  by (fastforce simp: keyring_ok_def list_all_iff)

lemma Merge_Ret:
  assumes "keyring_ok a" and "keyring_ok b"
  shows "\<exists>kr. Merge a b = Ret kr \<and> keyring_ok kr \<and> (\<forall>t. keys_of kr t = keys_of a t @ keys_of b t)"
proof -
  have "Merge a b = keyring_New (concat (map snd a) @ concat (map snd b))"
    by (simp add: Merge_def ForEach_append)
  moreover have "\<forall>k \<in> set (concat (map snd a) @ concat (map snd b)). type_of k \<in> set allowedKeyTypes"
    using assms concat_allowed by auto
  ultimately show ?thesis
    using keyring_New_Ret [of "concat (map snd a) @ concat (map snd b)"] assms
    by (auto simp: keys_of_concat)
qed

lemma Try_one:
  assumes "keyring_ok kr"
  shows "Try kr [UseKey t fn] found s =
    Ret (found \<or> keys_of kr t \<noteq> [], fold fn (keys_of kr t) s)"
  using keyring_okD [OF assms, of t] by (auto simp: keys_of_def split: option.splits)

section \<open>Properties\<close>

text \<open>What \<^verbatim>\<open>encoding/json\<close> promises for \<^verbatim>\<open>completeKeyring\<close>: a document decodes to the value it was made
  from, except for the field that is not written.\<close>

definition json_laws :: "(completeKeyring \<Rightarrow> 'w go) \<Rightarrow> ('w \<Rightarrow> completeKeyring go) \<Rightarrow> bool" where
  "json_laws toJSON ofJSON \<longleftrightarrow>
     (\<forall>c w. toJSON c = Ret w \<longrightarrow> ofJSON w = Ret (c\<lparr> ck_EphemeralKey := [] \<rparr>))"

lemma keyring_roundtrip_aux:
  assumes "json_laws toJSON ofJSON" and "keyring_ok kr" and "keyring_Marshal toJSON kr = Ret w"
  shows "\<exists>kr'. keyring_Unmarshal ofJSON w = Ret kr' \<and> keyring_ok kr' \<and>
    (\<forall>t. keys_of kr' t = (if t = TEphemeral then [] else keys_of kr t))"
proof -
  have dec: "ofJSON w = Ret \<lparr> ck_SharedKeys = keys_of kr TShared, ck_PKPKey = keys_of kr TPKP,
      ck_CACertsKey = keys_of kr TCACerts, ck_EphemeralKey = [] \<rparr>"
    using assms(1,3) by (simp add: json_laws_def keyring_Marshal_def)
  let ?ks = "keys_of kr TShared @ keys_of kr TPKP @ keys_of kr TCACerts"
  have t: "type_of k = t" if "k \<in> set (keys_of kr t)" for k t using keys_of_type [OF assms(2) that] .
  then have "\<forall>k \<in> set ?ks. type_of k \<in> set allowedKeyTypes" by (auto simp: allowedKeyTypes_def)
  from keyring_New_Ret [OF this] obtain kr' where kr': "keyring_New ?ks = Ret kr'" "keyring_ok kr'"
    "\<forall>t. keys_of kr' t = of_type t ?ks" by blast
  have part: "of_type u (keys_of kr v) = (if u = v then keys_of kr v else [])" for u v
    using t by (auto simp: filter_id_conv filter_empty_conv)
  have "keys_of kr TOther = []"
    using keyring_okD [OF assms(2), of TOther] by (auto simp: keys_of_def allowedKeyTypes_def split: option.splits)
  then have "of_type u ?ks = (if u = TEphemeral then [] else keys_of kr u)" for u
    by (cases u) (simp_all add: part)
  with kr' dec show ?thesis by (auto simp: keyring_Unmarshal_def)
qed

text \<open>C22: a keyring that is written and read back holds the same keys of every persistent type, in the same
  order, and no ephemeral keys: these never reach storage.\<close>

theorem keyring_roundtrip:
  assumes "json_laws toJSON ofJSON" and "keyring_New ks = Ret kr" and "keyring_Marshal toJSON kr = Ret w"
  shows "\<exists>kr'. keyring_Unmarshal ofJSON w = Ret kr' \<and>
    (\<forall>t. keys_of kr' t = (if t = TEphemeral then [] else of_type t ks))"
proof -
  have ok: "\<forall>k \<in> set ks. type_of k \<in> set allowedKeyTypes"
    using assms(2) keyring_New_Panic [of _ ks] by fastforce
  with keyring_New_Ret assms(2) have "keyring_ok kr" "\<forall>t. keys_of kr t = of_type t ks" by fastforce+
  with keyring_roundtrip_aux [OF assms(1) _ assms(3)] show ?thesis by auto
qed

text \<open>Witness: with the record itself as the document, less the field that is not written.\<close>

theorem keyring_roundtrip_witness:
  "\<exists>kr'. keyring_Unmarshal Ret
      \<lparr> ck_SharedKeys = [KShared \<lparr> sk_ClientKey = ''c'', sk_ServerKey = ''s'' \<rparr>], ck_PKPKey = [], ck_CACertsKey = [],
        ck_EphemeralKey = [] \<rparr> = Ret kr' \<and>
    (\<forall>t. keys_of kr' t = (if t = TEphemeral then [] else of_type t
       [KShared \<lparr> sk_ClientKey = ''c'', sk_ServerKey = ''s'' \<rparr>, KEphemeral \<lparr> ek_Usage = ''signing'', ek_Secret = ''x'', ek_Labels = [] \<rparr>]))"
proof (rule keyring_roundtrip)
  show "json_laws (\<lambda>c. Ret (c\<lparr> ck_EphemeralKey := [] \<rparr>)) Ret" by (simp add: json_laws_def)
  let ?s = "KShared \<lparr> sk_ClientKey = ''c'', sk_ServerKey = ''s'' \<rparr>"
  let ?e = "KEphemeral \<lparr> ek_Usage = ''signing'', ek_Secret = ''x'', ek_Labels = [] \<rparr>"
  show "keyring_New [?s, ?e] = Ret [(TShared, [?s]), (TEphemeral, [?e])]"
    by (simp add: keyring_New_def allowedKeyTypes_def keys_of_def)
  show "keyring_Marshal (\<lambda>c. Ret (c\<lparr> ck_EphemeralKey := [] \<rparr>)) [(TShared, [?s]), (TEphemeral, [?e])] =
      Ret \<lparr> ck_SharedKeys = [?s], ck_PKPKey = [], ck_CACertsKey = [], ck_EphemeralKey = [] \<rparr>"
    by (simp add: keyring_Marshal_def keys_of_def)
qed

text \<open>Merging two keyrings never panics and gives, for every type, the keys of the first followed by the
  keys of the second; a function tried on the result sees exactly those, once each and in that order,
  and is reported as found unless there are none.\<close>

theorem Merge_Try:
  assumes "keyring_New as = Ret a" and "keyring_New bs = Ret b"
  shows "\<exists>kr. Merge a b = Ret kr \<and> (\<forall>t fn s. Try kr [UseKey t fn] False s =
    Ret (of_type t (as @ bs) \<noteq> [], fold fn (of_type t (as @ bs)) s))"
proof -
  have good: "keyring_ok kr \<and> (\<forall>t. keys_of kr t = of_type t ks)" if "keyring_New ks = Ret kr" for ks kr
  proof -
    have "\<forall>k \<in> set ks. type_of k \<in> set allowedKeyTypes"
      using that keyring_New_Panic [of _ ks] by fastforce
    with keyring_New_Ret that show ?thesis by fastforce
  qed
  obtain kr where "Merge a b = Ret kr" "keyring_ok kr" "\<forall>t. keys_of kr t = keys_of a t @ keys_of b t"
    using Merge_Ret good [OF assms(1)] good [OF assms(2)] by blast
  with good [OF assms(1)] good [OF assms(2)] show ?thesis by (auto simp: Try_one simp del: Try.simps)
qed

text \<open>Witness: two keyrings of one shared key each.\<close>

theorem Merge_Try_witness:
  "\<exists>kr. Merge [(TShared, [KShared \<lparr> sk_ClientKey = ''a'', sk_ServerKey = ''s'' \<rparr>])]
              [(TShared, [KShared \<lparr> sk_ClientKey = ''b'', sk_ServerKey = ''s'' \<rparr>])] = Ret kr \<and>
     Try kr [UseKey TShared (\<lambda>k n. Suc n)] False 0 = Ret (True, 2)"
proof -
  let ?a = "KShared \<lparr> sk_ClientKey = ''a'', sk_ServerKey = ''s'' \<rparr>"
  let ?b = "KShared \<lparr> sk_ClientKey = ''b'', sk_ServerKey = ''s'' \<rparr>"
  have "keyring_New [k] = Ret [(TShared, [k])]" if "type_of k = TShared" for k
    using that by (simp add: keyring_New_def allowedKeyTypes_def keys_of_def)
  then have "keyring_New [?a] = Ret [(TShared, [?a])]" "keyring_New [?b] = Ret [(TShared, [?b])]" by simp_all
  from Merge_Try [OF this] obtain kr where kr: "Merge [(TShared, [?a])] [(TShared, [?b])] = Ret kr"
    "\<forall>t fn s. Try kr [UseKey t fn] False (s :: nat) =
      Ret (of_type t ([?a] @ [?b]) \<noteq> [], fold fn (of_type t ([?a] @ [?b])) s)" by blast
  then have "Try kr [UseKey TShared (\<lambda>k n. Suc n)] False 0 = Ret (True, 2)" by (simp del: Try.simps)
  with kr(1) show ?thesis by blast
qed

text \<open>What is documented of X25519 (the two ways to the shared point agree) and of BLAKE2b-512.\<close>

definition x25519_laws :: "(string \<Rightarrow> string \<Rightarrow> string go) \<Rightarrow> string \<Rightarrow> bool" where
  "x25519_laws X25519 basepoint \<longleftrightarrow> (\<forall>a b A B. X25519 a basepoint = Ret A \<longrightarrow> X25519 b basepoint = Ret B \<longrightarrow>
     X25519 a B = X25519 b A)"

lemma ecdh_same:
  assumes "x25519_laws X25519 basepoint" and "\<And>s. length (b2b512 s) = 64"
    and "NewEphemeralKeyPair X25519 basepoint r1 = Ret client" and "NewEphemeralKeyPair X25519 basepoint r2 = Ret server"
    and "DeriveSharedSecret X25519 b2b512 client \<lparr> pp_PublicKey = kp_PublicKey server, pp_PeerType = PeerTypeServer \<rparr> = Ret sec"
  shows "DeriveSharedSecret X25519 b2b512 server \<lparr> pp_PublicKey = kp_PublicKey client, pp_PeerType = PeerTypeClient \<rparr> = Ret sec \<and>
    (\<exists>sk. NewSharedKeys keyFromSeed sec = Ret sk)"
proof -
  have "X25519 (kp_PrivateKey client) basepoint = Ret (kp_PublicKey client)"
    "X25519 (kp_PrivateKey server) basepoint = Ret (kp_PublicKey server)"
    using assms(3,4) by (auto simp: NewEphemeralKeyPair_def Let_def split: go.splits)
  then have same: "X25519 (kp_PrivateKey server) (kp_PublicKey client) = X25519 (kp_PrivateKey client) (kp_PublicKey server)"
    using assms(1) unfolding x25519_laws_def by blast
  obtain q where q: "X25519 (kp_PrivateKey client) (kp_PublicKey server) = Ret q"
    "sec = b2b512 (q @ kp_PublicKey client @ kp_PublicKey server)"
    using assms(5) by (auto simp: DeriveSharedSecret_def)
  have "length sec = 64" unfolding q(2) by (rule assms(2))
  then have "\<exists>sk. NewSharedKeys keyFromSeed sec = Ret sk" by (simp add: NewSharedKeys_def)
  moreover have "DeriveSharedSecret X25519 b2b512 server \<lparr> pp_PublicKey = kp_PublicKey client, pp_PeerType = PeerTypeClient \<rparr> = Ret sec"
    unfolding DeriveSharedSecret_def by (simp add: same q)
  ultimately show ?thesis by blast
qed

text \<open>C21: after exchanging public keys, the client and the server derive the same secret, of 64 bytes, and
  therefore the same pair of signing keys, with no panic on either side.\<close>

theorem ecdh_agreement:
  assumes "x25519_laws X25519 basepoint" and "\<And>s. length (b2b512 s) = 64"
    and "NewEphemeralKeyPair X25519 basepoint r1 = Ret client" and "NewEphemeralKeyPair X25519 basepoint r2 = Ret server"
    and "DeriveSharedSecret X25519 b2b512 client \<lparr> pp_PublicKey = kp_PublicKey server, pp_PeerType = PeerTypeServer \<rparr> = Ret sec"
  shows "DeriveSharedSecret X25519 b2b512 server \<lparr> pp_PublicKey = kp_PublicKey client, pp_PeerType = PeerTypeClient \<rparr> = Ret sec \<and>
    (\<exists>sk. NewSharedKeys keyFromSeed sec = Ret sk)"
  using ecdh_same [OF assms] .

definition toy_dh :: "string \<Rightarrow> string \<Rightarrow> string go" where
  "toy_dh a b = Ret (replicate (length a * length b) (CHR ''x''))"

text \<open>Witness: key agreement by multiplication.\<close>

theorem ecdh_agreement_witness:
  "\<exists>sec. DeriveSharedSecret toy_dh (\<lambda>s. replicate 64 (CHR ''h''))
     \<lparr> kp_PrivateKey = ''abc'', kp_PublicKey = ''xxx'' \<rparr> \<lparr> pp_PublicKey = ''xx'', pp_PeerType = PeerTypeClient \<rparr> = Ret sec"
proof -
  have "x25519_laws toy_dh ''g''" by (simp add: x25519_laws_def toy_dh_def mult.commute)
  moreover have "NewEphemeralKeyPair toy_dh ''g'' ''ab'' = Ret \<lparr> kp_PrivateKey = ''ab'', kp_PublicKey = ''xx'' \<rparr>"
    "NewEphemeralKeyPair toy_dh ''g'' ''abc'' = Ret \<lparr> kp_PrivateKey = ''abc'', kp_PublicKey = ''xxx'' \<rparr>"
    "DeriveSharedSecret toy_dh (\<lambda>s. replicate 64 (CHR ''h'')) \<lparr> kp_PrivateKey = ''ab'', kp_PublicKey = ''xx'' \<rparr>
      \<lparr> pp_PublicKey = kp_PublicKey \<lparr> kp_PrivateKey = ''abc'', kp_PublicKey = ''xxx'' \<rparr>, pp_PeerType = PeerTypeServer \<rparr> =
      Ret (replicate 64 (CHR ''h''))"
    by (simp_all add: NewEphemeralKeyPair_def DeriveSharedSecret_def toy_dh_def numeral_eq_Suc)
  ultimately show ?thesis
    using ecdh_agreement [of toy_dh "''g''" "\<lambda>s. replicate 64 (CHR ''h'')" "''ab''" _ "''abc''"]
    by (metis length_replicate EphemeralKeyPair.select_convs(2))
qed

end
