(* ===== verification/B2mac.thy ===== *)
theory B2mac
  imports Go_Prelude Go_Encoding
begin

text \<open>
  \<^verbatim>\<open>pkg/b2mac\<close>: the keyed BLAKE2b-512 authentication code of a request and the \<^verbatim>\<open>Authorization\<close> header it
  travels in. The \<^verbatim>\<open>uuid\<close> package and keyed BLAKE2b are parameters.
\<close>

record 'u uuid_pkg =
  uuid_String :: "'u \<Rightarrow> string"
  uuid_Parse :: "string \<Rightarrow> 'u go"
  uuid_Version :: "'u \<Rightarrow> nat"
  uuid_RFC4122 :: "'u \<Rightarrow> bool"
  uuid_Nil :: 'u
  uuid_bytes :: "'u \<Rightarrow> string"

text \<open>What the package documents: the canonical form is made of hexadecimal digits and dashes and parses
  back; the nil UUID has no version; a UUID is its bytes.\<close>

definition uuid_laws :: "'u uuid_pkg \<Rightarrow> bool" where
  "uuid_laws U \<longleftrightarrow> (\<forall>u. uuid_Parse U (uuid_String U u) = Ret u \<and>
     (\<forall>c \<in> set (uuid_String U u). is_hex c \<or> c = CHR ''-'')) \<and>
     uuid_Version U (uuid_Nil U) = 0 \<and> (\<forall>u v. uuid_bytes U u = uuid_bytes U v \<longrightarrow> u = v)"

section \<open>mac.go\<close>

definition New512 ::
  "'u uuid_pkg \<Rightarrow> (string \<Rightarrow> string \<Rightarrow> string go) \<Rightarrow> string \<Rightarrow> 'u \<Rightarrow> string \<Rightarrow> string \<Rightarrow> string go" where
  "New512 U blake2b ident nonce payload key = blake2b key (ident @ uuid_bytes U nonce @ payload)"

definition Verify ::
  "'u uuid_pkg \<Rightarrow> (string \<Rightarrow> string \<Rightarrow> string go) \<Rightarrow> string \<Rightarrow> string \<Rightarrow> 'u \<Rightarrow> string \<Rightarrow> string \<Rightarrow> unit go" where
  "Verify U blake2b mac ident nonce payload key =
     go_bind (blake2b key (ident @ uuid_bytes U nonce @ payload)) (\<lambda>m.
       if m = mac then Ret () else Fail (ErrText ''verification failed''))"

section \<open>header.go\<close>

definition EncodeAuthHeader :: "'u uuid_pkg \<Rightarrow> string \<Rightarrow> 'u \<Rightarrow> string \<Rightarrow> string go" where
  "EncodeAuthHeader U ident nonce mac =
     (if uuid_Version U nonce \<noteq> 4 \<or> \<not> uuid_RFC4122 U nonce then Fail (ErrText ''nonce is not a v4 UUID'')
      else Ret (''MAC id='' @ [CHR 0x22] @ RawURL_EncodeToString ident @ [CHR 0x22] @ '',nonce='' @ [CHR 0x22] @
        uuid_String U nonce @ [CHR 0x22] @ '',mac='' @ [CHR 0x22] @ RawURL_EncodeToString mac @ [CHR 0x22]))"

text \<open>The variables of the loop over the key-value pairs.\<close>

record 'u header_state =
  hd_id :: string
  hd_nonce :: 'u
  hd_mac :: string
  hd_found :: "string set"

definition decode_pair :: "'u uuid_pkg \<Rightarrow> string \<Rightarrow> 'u header_state \<Rightarrow> 'u header_state go" where
  "decode_pair U pair st = (case split (CHR ''='') pair of
     [k, v] \<Rightarrow>
       if length v < 2 \<or> v ! 0 \<noteq> CHR 0x22 \<or> v ! (length v - 1) \<noteq> CHR 0x22
       then Fail (ErrText ''expected quoted string'')
       else (let v = take (length v - 2) (drop 1 v); key = TrimSpace k in
         if key \<in> hd_found st then Fail (ErrText (''duplicate key: '' @ key))
         else (let st = st\<lparr> hd_found := insert key (hd_found st) \<rparr> in
           if key = ''id'' then
             (case RawURL_DecodeString v of None \<Rightarrow> Fail (ErrText ''malformed id'') | Some i \<Rightarrow> Ret (st\<lparr> hd_id := i \<rparr>))
           else if key = ''nonce'' then
             go_bind (uuid_Parse U v) (\<lambda>n.
               if uuid_Version U n \<noteq> 4 \<or> \<not> uuid_RFC4122 U n then Fail (ErrText ''nonce is not a v4 UUID'')
               else Ret (st\<lparr> hd_nonce := n \<rparr>))
           else if key = ''mac'' then
             (case RawURL_DecodeString v of None \<Rightarrow> Fail (ErrText ''illegal base64 data'') | Some m \<Rightarrow> Ret (st\<lparr> hd_mac := m \<rparr>))
           else Fail (ErrText ''unknown key'')))
   | _ \<Rightarrow> Fail (ErrText ''malformed key-value pair''))"

fun decode_pairs :: "'u uuid_pkg \<Rightarrow> string list \<Rightarrow> 'u header_state \<Rightarrow> 'u header_state go" where
  "decode_pairs U [] st = Ret st"
| "decode_pairs U (p # ps) st = go_bind (decode_pair U p st) (decode_pairs U ps)"

text \<open>The three checks at the end overwrite each other's error; the last one set is returned.\<close>

definition DecodeAuthHeader :: "'u uuid_pkg \<Rightarrow> string \<Rightarrow> (string \<times> 'u \<times> string) go" where
  "DecodeAuthHeader U header =
     (if \<not> HasPrefix header ''MAC '' then Fail (ErrText ''incorrect authorization type'')
      else let trimmed = TrimSpace (TrimPrefix header ''MAC'') in
       go_bind (decode_pairs U (split (CHR '','') trimmed)
          \<lparr> hd_id = [], hd_nonce = uuid_Nil U, hd_mac = [], hd_found = {} \<rparr>) (\<lambda>st.
        let err = (if hd_id st = [] then Some ''Header is missing id'' else None);
            err = (if hd_nonce st = uuid_Nil U then Some ''Header is missing nonce'' else err);
            err = (if hd_mac st = [] then Some ''Header is missing signature'' else err)
        in case err of Some e \<Rightarrow> Fail (ErrText e) | None \<Rightarrow> Ret (hd_id st, hd_nonce st, hd_mac st)))"

definition NewEncodedHeader ::
  "'u uuid_pkg \<Rightarrow> (string \<Rightarrow> string \<Rightarrow> string go) \<Rightarrow> string \<Rightarrow> 'u \<Rightarrow> string \<Rightarrow> string \<Rightarrow> string go" where
  "NewEncodedHeader U blake2b ident nonce payload key =
     go_bind (New512 U blake2b ident nonce payload key) (\<lambda>mac. EncodeAuthHeader U ident nonce mac)"

section \<open>Lemmas\<close>

definition plain_value :: "string \<Rightarrow> bool" where
  "plain_value v \<longleftrightarrow> CHR ''='' \<notin> set v \<and> CHR '','' \<notin> set v"

lemma plain_RawURL: "plain_value (RawURL_EncodeToString s)"
  using set_RawURL_Encode [of s] b64url_mem by (auto simp: plain_value_def)

lemma plain_uuid: "uuid_laws U \<Longrightarrow> plain_value (uuid_String U u)"
  by (fastforce simp: uuid_laws_def plain_value_def is_hex_def)

text \<open>A quoted pair \<open>k="v"\<close> as the encoder writes it.\<close>

definition pair_text :: "string \<Rightarrow> string \<Rightarrow> string" where
  "pair_text k v = k @ CHR ''='' # [CHR 0x22] @ v @ [CHR 0x22]"

lemma split_pair_text:
  "CHR ''='' \<notin> set k \<Longrightarrow> plain_value v \<Longrightarrow>
   split (CHR ''='') (pair_text k v) = [k, [CHR 0x22] @ v @ [CHR 0x22]]"
  by (simp add: pair_text_def plain_value_def)

lemma unquote:
  "(let w = [CHR 0x22] @ v @ [CHR 0x22] in length w < 2 \<or> w ! 0 \<noteq> CHR 0x22 \<or> w ! (length w - 1) \<noteq> CHR 0x22) = False"
  "take (length ([CHR 0x22] @ v @ [CHR 0x22]) - 2) (drop 1 ([CHR 0x22] @ v @ [CHR 0x22])) = v"
  by (simp_all add: Let_def nth_append)

lemma trim_keys [simp]: "TrimSpace ''id'' = ''id''" "TrimSpace ''nonce'' = ''nonce''" "TrimSpace ''mac'' = ''mac''"
proof -
  have "space_free ''id''" "space_free ''nonce''" "space_free ''mac''" by code_simp+
  then show "TrimSpace ''id'' = ''id''" "TrimSpace ''nonce'' = ''nonce''" "TrimSpace ''mac'' = ''mac''"
    by (simp_all add: TrimSpace_id)
qed

lemma decode_pair_text:
  assumes "k \<in> {''id'', ''nonce'', ''mac''}" and "plain_value v" and "k \<notin> hd_found st"
  shows "decode_pair U (pair_text k v) st = (let st = st\<lparr> hd_found := insert k (hd_found st) \<rparr> in
     if k = ''id'' then
       (case RawURL_DecodeString v of None \<Rightarrow> Fail (ErrText ''malformed id'') | Some i \<Rightarrow> Ret (st\<lparr> hd_id := i \<rparr>))
     else if k = ''nonce'' then
       go_bind (uuid_Parse U v) (\<lambda>n.
         if uuid_Version U n \<noteq> 4 \<or> \<not> uuid_RFC4122 U n then Fail (ErrText ''nonce is not a v4 UUID'')
         else Ret (st\<lparr> hd_nonce := n \<rparr>))
     else (case RawURL_DecodeString v of None \<Rightarrow> Fail (ErrText ''illegal base64 data'') | Some m \<Rightarrow> Ret (st\<lparr> hd_mac := m \<rparr>)))"
proof -
  have k: "CHR ''='' \<notin> set k" "TrimSpace k = k" using assms(1) by auto
  have "decode_pair U (pair_text k v) st = (case [k, [CHR 0x22] @ v @ [CHR 0x22]] of
     [k, v] \<Rightarrow>
       if length v < 2 \<or> v ! 0 \<noteq> CHR 0x22 \<or> v ! (length v - 1) \<noteq> CHR 0x22
       then Fail (ErrText ''expected quoted string'')
       else (let v = take (length v - 2) (drop 1 v); key = TrimSpace k in
         if key \<in> hd_found st then Fail (ErrText (''duplicate key: '' @ key))
         else (let st = st\<lparr> hd_found := insert key (hd_found st) \<rparr> in
           if key = ''id'' then
             (case RawURL_DecodeString v of None \<Rightarrow> Fail (ErrText ''malformed id'') | Some i \<Rightarrow> Ret (st\<lparr> hd_id := i \<rparr>))
           else if key = ''nonce'' then
             go_bind (uuid_Parse U v) (\<lambda>n.
               if uuid_Version U n \<noteq> 4 \<or> \<not> uuid_RFC4122 U n then Fail (ErrText ''nonce is not a v4 UUID'')
               else Ret (st\<lparr> hd_nonce := n \<rparr>))
           else if key = ''mac'' then
             (case RawURL_DecodeString v of None \<Rightarrow> Fail (ErrText ''illegal base64 data'') | Some m \<Rightarrow> Ret (st\<lparr> hd_mac := m \<rparr>))
           else Fail (ErrText ''unknown key'')))
   | _ \<Rightarrow> Fail (ErrText ''malformed key-value pair''))"
    unfolding decode_pair_def split_pair_text [OF k(1) assms(2)] by simp
  then show ?thesis using assms(1,3) k(2) by (auto simp: Let_def nth_append)
qed

lemma last_quote: "last (s @ [CHR 0x22]) \<notin> set (map last spaces)"
proof -
  have "CHR 0x22 \<notin> set (map last spaces)" by code_simp
  then show ?thesis by simp
qed

lemma header_split:
  assumes "plain_value a" "plain_value b" "plain_value c"
  shows "split (CHR '','') (pair_text ''id'' a @ CHR '','' # pair_text ''nonce'' b @ CHR '','' # pair_text ''mac'' c) =
    [pair_text ''id'' a, pair_text ''nonce'' b, pair_text ''mac'' c]"
proof -
  have "CHR '','' \<notin> set (pair_text k v)" if "plain_value v" "CHR '','' \<notin> set k" for k v
    using that by (simp add: pair_text_def plain_value_def)
  then show ?thesis using assms by simp
qed

lemma decode_encode:
  assumes U: "uuid_laws U" and ne: "ident \<noteq> []" "mac \<noteq> []" and enc: "EncodeAuthHeader U ident nonce mac = Ret h"
  shows "DecodeAuthHeader U h = Ret (ident, nonce, mac)"
proof -
  have v4: "uuid_Version U nonce = 4" "uuid_RFC4122 U nonce"
    using enc by (auto simp: EncodeAuthHeader_def split: if_splits)
  have nonnil: "nonce \<noteq> uuid_Nil U" using U v4(1) by (auto simp: uuid_laws_def)
  let ?a = "RawURL_EncodeToString ident" and ?b = "uuid_String U nonce" and ?c = "RawURL_EncodeToString mac"
  let ?t = "pair_text ''id'' ?a @ CHR '','' # pair_text ''nonce'' ?b @ CHR '','' # pair_text ''mac'' ?c"
  have h: "h = ''MAC'' @ CHR '' '' # ?t"
    using enc v4 by (simp add: EncodeAuthHeader_def pair_text_def)
  have "CHR ''i'' \<notin> set (map hd spaces)" by code_simp
  moreover have "last ?t = CHR 0x22" by (simp add: pair_text_def)
  moreover have "CHR 0x22 \<notin> set (map last spaces)" by code_simp
  ultimately have "space_free ?t" by (simp add: space_free_def pair_text_def)
  then have trimmed: "TrimSpace (TrimPrefix h ''MAC'') = ?t"
    by (simp add: h TrimPrefix_def TrimSpace_leading)
  have pv: "plain_value ?a" "plain_value ?b" "plain_value ?c" using plain_RawURL plain_uuid [OF U] by auto
  have parse: "uuid_Parse U ?b = Ret nonce" using U by (simp add: uuid_laws_def)
  have "HasPrefix h ''MAC ''" by (simp add: h)
  then show ?thesis
    unfolding DecodeAuthHeader_def trimmed Let_def header_split [OF pv]
    using ne nonnil v4 by (simp add: decode_pair_text pv parse)
qed

section \<open>Properties\<close>

text \<open>A header written for a version 4 nonce and a nonempty id and code decodes to exactly these; a
  nonce of another version or variant is refused when writing.\<close>

theorem auth_header_roundtrip:
  assumes "uuid_laws U" and "ident \<noteq> []" and "mac \<noteq> []"
  shows "if uuid_Version U nonce = 4 \<and> uuid_RFC4122 U nonce
    then go_bind (EncodeAuthHeader U ident nonce mac) (DecodeAuthHeader U) = Ret (ident, nonce, mac)
    else EncodeAuthHeader U ident nonce mac = Fail (ErrText ''nonce is not a v4 UUID'')"
proof (cases "uuid_Version U nonce = 4 \<and> uuid_RFC4122 U nonce")
  case True
  then obtain h where "EncodeAuthHeader U ident nonce mac = Ret h" by (simp add: EncodeAuthHeader_def)
  with True decode_encode [OF assms this] show ?thesis by simp
qed (auto simp: EncodeAuthHeader_def)

text \<open>A one-element stand-in for the UUID package: the nil value and one version 4 UUID.\<close>

definition toy_uuid :: "bool uuid_pkg" where
  "toy_uuid = \<lparr> uuid_String = (\<lambda>u. if u then ''a1-b2'' else ''0''),
     uuid_Parse = (\<lambda>s. if s = ''a1-b2'' then Ret True else if s = ''0'' then Ret False else Fail (ErrText ''invalid UUID'')),
     uuid_Version = (\<lambda>u. if u then 4 else 0), uuid_RFC4122 = (\<lambda>u. u), uuid_Nil = False,
     uuid_bytes = (\<lambda>u. if u then ''1'' else ''0'') \<rparr>"

lemma toy_uuid_laws: "uuid_laws toy_uuid"
  by (auto simp: uuid_laws_def toy_uuid_def is_hex_def split: if_splits)

text \<open>Witness: the header of an agent called \<^verbatim>\<open>c1\<close>.\<close>

theorem auth_header_roundtrip_witness:
  "go_bind (EncodeAuthHeader toy_uuid ''c1'' True ''code'') (DecodeAuthHeader toy_uuid) = Ret (''c1'', True, ''code'')"
  using auth_header_roundtrip [OF toy_uuid_laws, of "''c1''" "''code''" True] by (simp add: toy_uuid_def)

text \<open>A header that decodes has a nonempty id and code and a version 4 nonce: a missing, duplicated or
  unknown field is always an error.\<close>

lemma decode_pair_nonce:
  "decode_pair U p st = Ret st' \<Longrightarrow>
   hd_nonce st' = hd_nonce st \<or> uuid_Version U (hd_nonce st') = 4 \<and> uuid_RFC4122 U (hd_nonce st')"
  by (auto simp: decode_pair_def Let_def split: list.splits if_splits option.splits)

lemma decode_pairs_nonce:
  "decode_pairs U ps st = Ret st' \<Longrightarrow>
   hd_nonce st' = hd_nonce st \<or> uuid_Version U (hd_nonce st') = 4 \<and> uuid_RFC4122 U (hd_nonce st')"
proof (induction ps arbitrary: st)
  case (Cons p ps)
  then obtain s1 where "decode_pair U p st = Ret s1" "decode_pairs U ps s1 = Ret st'" by auto
  with Cons.IH [of s1] decode_pair_nonce [of U p st s1] show ?case by auto
qed simp

lemma DecodeAuthHeader_wf:
  assumes "DecodeAuthHeader U h = Ret (ident, nonce, mac)"
  shows "HasPrefix h ''MAC '' \<and> ident \<noteq> [] \<and> mac \<noteq> [] \<and> uuid_Version U nonce = 4 \<and> uuid_RFC4122 U nonce"
  using assms decode_pairs_nonce
  by (fastforce simp: DecodeAuthHeader_def Let_def split: if_splits option.splits)

end
