(* ===== verification/Grpc_Util.thy ===== *)
theory Grpc_Util
  imports Go_Strings
begin

text \<open>
  \<^verbatim>\<open>pkg/util/grpc.go\<close>: status errors, and the metadata of a gRPC call as its package documents it: keys are
  lower-cased, a key has a list of values, and appending keeps the values already there.
\<close>

fun code_String :: "code \<Rightarrow> string" where
  "code_String OK = ''OK''"
| "code_String Canceled = ''Canceled''"
| "code_String Unknown = ''Unknown''"
| "code_String InvalidArgument = ''InvalidArgument''"
| "code_String DeadlineExceeded = ''DeadlineExceeded''"
| "code_String NotFound = ''NotFound''"
| "code_String AlreadyExists = ''AlreadyExists''"
| "code_String PermissionDenied = ''PermissionDenied''"
| "code_String ResourceExhausted = ''ResourceExhausted''"
| "code_String FailedPrecondition = ''FailedPrecondition''"
| "code_String Aborted = ''Aborted''"
| "code_String OutOfRange = ''OutOfRange''"
| "code_String Unimplemented = ''Unimplemented''"
| "code_String Internal = ''Internal''"
| "code_String Unavailable = ''Unavailable''"
| "code_String DataLoss = ''DataLoss''"
| "code_String Unauthenticated = ''Unauthenticated''"

definition StatusError :: "code \<Rightarrow> go_error" where
  "StatusError c = ErrStatus c (code_String c)"

text \<open>\<^verbatim>\<open>errors.As\<close>: the first error of the chain with a \<^verbatim>\<open>GRPCStatus\<close> method.\<close>

fun StatusCode :: "go_error \<Rightarrow> code" where
  "StatusCode (Wrap m e) = StatusCode e"
| "StatusCode e = (case grpc_status e of Some c \<Rightarrow> c | None \<Rightarrow> Unknown)"

lemma StatusCode_StatusError [simp]: "StatusCode (StatusError c) = c"
  by (simp add: StatusError_def)

lemma StatusError_inject [simp]: "StatusError c = StatusError d \<longleftrightarrow> c = d"
  by (auto simp: StatusError_def)

definition HashStrings :: "(string \<Rightarrow> nat) \<Rightarrow> string list \<Rightarrow> string" where
  "HashStrings xxh3 strings = show_nat (xxh3 (concat (map (\<lambda>s. s @ ''-'') strings)))"

text \<open>The message of an error, \<^verbatim>\<open>err.Error()\<close>; a wrapped error is shown after the text around it.\<close>

abbreviation "nameConstraint \<equiv>
  ''can only contain alphanumeric characters, '' @ [CHR 0x27] @ ''-'' @ [CHR 0x27] @ '', '' @ [CHR 0x27] @ ''_'' @ [CHR 0x27] @
  '', and '' @ [CHR 0x27] @ ''.'' @ [CHR 0x27] @ '', must start with an alphanumeric character''"

fun err_Error :: "go_error \<Rightarrow> string" where
  "err_Error ErrNotFound = ''not found''"
| "err_Error ErrAlreadyExists = ''already exists''"
| "err_Error ErrMissingRequiredField = ''missing required field''"
| "err_Error ErrInvalidValue = ''invalid value''"
| "err_Error ErrDuplicate = ''duplicate value in list''"
| "err_Error ErrReadOnlyField = ''field is read-only''"
| "err_Error ErrInvalidLabelName = ''label names '' @ nameConstraint @ '', and must be between 1-64 characters in length''"
| "err_Error ErrInvalidLabelValue = ''label values '' @ nameConstraint @ '', and must be between 1-64 characters in length''"
| "err_Error ErrInvalidName = ''names '' @ nameConstraint @ '', and must be between 1-64 characters in length''"
| "err_Error ErrInvalidSubjectName = ''subject names must be between 1-256 characters in length and cannot contain '' @
     [CHR 0x27, CHR 0x5C, CHR 0x27] @ '', '' @ [CHR 0x27, CHR 0x2A, CHR 0x27] @ '', '' @ [CHR 0x27, CHR 0x22, CHR 0x27] @ '', '' @
     [CHR 0x27, CHR 0x27, CHR 0x27] @ '', or '' @ [CHR 0x27, CHR 0x20, CHR 0x27]"
| "err_Error ErrInvalidID = ''ids '' @ nameConstraint @ '', and must be between 1-128 characters in length''"
| "err_Error ErrInternalLabelInSelector = ''cannot use internal label in label selector''"
| "err_Error (ErrValidation m) = m"
| "err_Error (ErrStatus c m) = ''rpc error: code = '' @ code_String c @ '' desc = '' @ m"
| "err_Error (ErrText m) = m"
| "err_Error (Wrap m e) = m @ '': '' @ err_Error e"

section \<open>Metadata\<close>

type_synonym MD = "string list gomap"

definition md_Get :: "MD \<Rightarrow> string \<Rightarrow> string list" where
  "md_Get md k = (case lookup md k of None \<Rightarrow> [] | Some vs \<Rightarrow> vs)"

definition md_Append :: "MD \<Rightarrow> string \<Rightarrow> string \<Rightarrow> MD" where
  "md_Append md k v = AList.update k (md_Get md k @ [v]) md"

lemma md_Get_Append: "md_Get (md_Append md k v) j = (if j = k then md_Get md k @ [v] else md_Get md j)"
  by (simp add: md_Get_def md_Append_def)

end
