(* ===== verification/ClusterAuth.thy ===== *)
theory ClusterAuth
  imports Contracts Keyring B2mac Grpc_Util
begin

text \<open>
  \<^verbatim>\<open>pkg/auth/cluster/cluster.go\<close>: how an agent proves to the gateway which cluster it is. The gateway sends a
  fresh nonce; the agent answers with its id, the nonce and a keyed hash of both and of the method; the
  gateway looks up the keyring of the id and recomputes the hash with the keys it holds. The stream, the
  nonce, the UUID package and keyed BLAKE2b are parameters.
\<close>

abbreviation "ClusterIDKey \<equiv> ''cluster_auth_cluster_id''"
abbreviation "ChallengeKey \<equiv> ''x-challenge''"

record ('s) ClusterMiddleware =
  keyringStoreBroker :: "('s, keyring) KeyringStoreBroker"
  fakeKeyringStore :: "('s, keyring) KeyringStore"
  headerKey :: string

section \<open>Setting up\<close>

definition fake_keyring ::
  "(string \<Rightarrow> string \<Rightarrow> string go) \<Rightarrow> string \<Rightarrow> (string \<Rightarrow> string) \<Rightarrow> (string \<Rightarrow> string) \<Rightarrow> string \<Rightarrow> string \<Rightarrow> keyring go" where
  "fake_keyring X25519 basepoint b2b512 keyFromSeed rand1 rand2 =
     go_bind (NewEphemeralKeyPair X25519 basepoint rand1) (\<lambda>kp1.
     go_bind (NewEphemeralKeyPair X25519 basepoint rand2) (\<lambda>kp2.
     go_bind (DeriveSharedSecret X25519 b2b512 kp1 \<lparr> pp_PublicKey = kp_PublicKey kp2, pp_PeerType = PeerTypeClient \<rparr>) (\<lambda>sec.
     go_bind (NewSharedKeys keyFromSeed sec) (\<lambda>sk. keyring_New [KShared sk]))))"

text \<open>The goroutine that stores it: \<open>n\<close> attempts of the unlimited retries, up to the first that succeeds. The
  answer is the number of failed attempts, or \<^const>\<open>None\<close> while it goes on.\<close>

fun put_fake :: "nat \<Rightarrow> ('s, keyring) KeyringStore \<Rightarrow> keyring \<Rightarrow> nat \<Rightarrow> ('s, nat option) prog" where
  "put_fake 0 store kr failed s = (Ret None, s)"
| "put_fake (Suc n) store kr failed s = (case keyring_Put store kr s of
     (Ret _, t) \<Rightarrow> (Ret (Some failed), t)
   | (Fail e, t) \<Rightarrow> put_fake n store kr (failed + 1) t
   | (Panic p, t) \<Rightarrow> (Panic p, t))"

definition fake_store :: "('s, keyring) KeyringStoreBroker \<Rightarrow> ('s, keyring) KeyringStore" where
  "fake_store broker = broker ''gateway-internal'' \<lparr> ref_id = ''fake'' \<rparr>"

definition NewClusterMiddleware :: "('s, keyring) KeyringStoreBroker \<Rightarrow> string \<Rightarrow> keyring go \<Rightarrow> 's ClusterMiddleware go" where
  "NewClusterMiddleware broker hk fake = go_bind (go_err fake (Wrap ''failed to set up keyring store''))
     (\<lambda>_. Ret \<lparr> keyringStoreBroker = broker, fakeKeyringStore = fake_store broker, headerKey = hk \<rparr>)"

section \<open>The identity in a context\<close>

definition AuthorizedOutgoingContext :: "string \<Rightarrow> MD \<Rightarrow> MD" where
  "AuthorizedOutgoingContext authorizedID md = md_Append md ClusterIDKey authorizedID"

definition AuthorizedIDFromIncomingContext :: "MD option \<Rightarrow> string \<times> bool" where
  "AuthorizedIDFromIncomingContext md = (case md of None \<Rightarrow> ('''', False)
     | Some m \<Rightarrow> (case md_Get m ClusterIDKey of [] \<Rightarrow> ('''', False) | i # is \<Rightarrow> (i, True)))"

section \<open>VerifyKeyring\<close>

text \<open>The closure given to \<^verbatim>\<open>Try\<close>, with \<^verbatim>\<open>sharedKeys\<close> nil (\<^const>\<open>None\<close>) as long as \<^verbatim>\<open>authorized\<close> is false.\<close>

definition try_shared ::
  "'u uuid_pkg \<Rightarrow> (string \<Rightarrow> string \<Rightarrow> string go) \<Rightarrow> string \<Rightarrow> string \<Rightarrow> 'u \<Rightarrow> string \<Rightarrow>
   key \<Rightarrow> SharedKeys option \<Rightarrow> SharedKeys option" where
  "try_shared U blake2b mac clusterID nonce msgBody k authorized = (case k of
     KShared shared \<Rightarrow> (case Verify U blake2b mac clusterID nonce msgBody (sk_ClientKey shared) of
        Ret _ \<Rightarrow> Some shared | _ \<Rightarrow> authorized)
   | _ \<Rightarrow> authorized)"

definition VerifyKeyring ::
  "'u uuid_pkg \<Rightarrow> (string \<Rightarrow> string \<Rightarrow> string go) \<Rightarrow> 's ClusterMiddleware \<Rightarrow> string \<Rightarrow> 'u \<Rightarrow> string \<Rightarrow>
   ('s, string \<times> SharedKeys) prog" where
  "VerifyKeyring U blake2b m authHeader expectedNonce msgBody = (case DecodeAuthHeader U authHeader of
     Ret (clusterID, headerNonce, mac) \<Rightarrow>
       if uuid_bytes U headerNonce \<noteq> uuid_bytes U expectedNonce then throw (StatusError Unauthenticated)
       else (\<lambda>s. case keyring_Get (keyringStoreBroker m ''gateway'' \<lparr> ref_id = clusterID \<rparr>) s of
          (Ret kr, t) \<Rightarrow>
            (case Try kr [UseKey TShared (try_shared U blake2b mac clusterID expectedNonce msgBody)] False None of
               Ret (ok, authorized) \<Rightarrow>
                 if \<not> ok then (Fail (StatusError Internal), t)
                 else (case authorized of None \<Rightarrow> (Fail (StatusError Unauthenticated), t)
                       | Some sharedKeys \<Rightarrow> (Ret (clusterID, sharedKeys), t))
             | Fail e \<Rightarrow> (Fail e, t) | Panic p \<Rightarrow> (Panic p, t))
        | (Panic p, t) \<Rightarrow> (Panic p, t)
        | (Fail e, t) \<Rightarrow>
            (case keyring_Get (fakeKeyringStore m) t of
               (Ret kr, t') \<Rightarrow>
                 (case Try kr [UseKey TShared (try_shared U blake2b mac clusterID expectedNonce msgBody)] False None of
                    Panic p \<Rightarrow> (Panic p, t') | _ \<Rightarrow> (Fail (StatusError Unauthenticated), t'))
             | (Fail e, t') \<Rightarrow> (Fail (StatusError Internal), t')
             | (Panic p, t') \<Rightarrow> (Panic p, t')))
   | Fail e \<Rightarrow> throw (StatusError InvalidArgument)
   | Panic p \<Rightarrow> panic p)"

section \<open>The interceptors\<close>

text \<open>What the \<^verbatim>\<open>select\<close> of the server can choose: the context ends, a second passes, or a message (its
  authorization and the number of unknown bytes) or an error is received.\<close>

datatype challenge_event = ContextDone go_error | TimedOut | RecvError go_error | RecvResponse string nat

record 's server_stream =
  SendHeader :: "MD \<Rightarrow> ('s, unit) prog"
  AwaitResponse :: "('s, challenge_event) prog"

definition check_response :: "challenge_event \<Rightarrow> string go" where
  "check_response ev = (case ev of
     ContextDone e \<Rightarrow> Fail e
   | TimedOut \<Rightarrow> Fail (ErrStatus DeadlineExceeded ''timed out waiting for challenge response'')
   | RecvError e \<Rightarrow> Fail (ErrStatus Aborted ''error receiving challenge response'')
   | RecvResponse authorization unknown \<Rightarrow>
       if unknown > 0 then Fail (ErrStatus InvalidArgument ''expected challenge response, but received incorrect message data'')
       else if authorization = '''' then Fail (ErrStatus InvalidArgument ''empty challenge response received'')
       else Ret authorization)"

text \<open>The handler runs with the shared keys and the id in its context.\<close>

definition StreamServerInterceptor ::
  "'u uuid_pkg \<Rightarrow> (string \<Rightarrow> string \<Rightarrow> string go) \<Rightarrow> 's ClusterMiddleware \<Rightarrow> 'u \<Rightarrow> 's server_stream \<Rightarrow> string \<Rightarrow>
   (string \<times> SharedKeys \<Rightarrow> ('s, unit) prog) \<Rightarrow> ('s, unit) prog" where
  "StreamServerInterceptor U blake2b m nonce ss fullMethod handler =
     bind (map_err (\<lambda>e. ErrStatus Aborted ''failed to send challenge'') (SendHeader ss [(ChallengeKey, [uuid_String U nonce])])) (\<lambda>_.
     bind (AwaitResponse ss) (\<lambda>ev.
     bind (lift (check_response ev)) (\<lambda>authorization.
     bind (VerifyKeyring U blake2b m authorization nonce fullMethod) handler)))"

record 's client_stream =
  ReadHeader :: "('s, MD) prog"
  SendResponse :: "string \<Rightarrow> ('s, unit) prog"

definition challenge_response ::
  "'u uuid_pkg \<Rightarrow> (string \<Rightarrow> string \<Rightarrow> string go) \<Rightarrow> string \<Rightarrow> SharedKeys \<Rightarrow> string \<Rightarrow> MD \<Rightarrow> string go" where
  "challenge_response U blake2b ident sharedKeys method headerMd = (case md_Get headerMd ChallengeKey of
     [challenge] \<Rightarrow>
       (case uuid_Parse U challenge of
          Ret nonce \<Rightarrow>
            go_bind (New512 U blake2b ident nonce method (sk_ClientKey sharedKeys)) (\<lambda>mac.
            EncodeAuthHeader U ident nonce mac)
        | Fail e \<Rightarrow> Fail (ErrStatus Internal ''server sent an invalid challenge header'')
        | Panic p \<Rightarrow> Panic p)
   | _ \<Rightarrow> Fail (ErrStatus Internal ''server did not send a challenge header''))"

definition NewClientStreamInterceptor ::
  "'u uuid_pkg \<Rightarrow> (string \<Rightarrow> string \<Rightarrow> string go) \<Rightarrow> string \<Rightarrow> SharedKeys \<Rightarrow>
   (string \<Rightarrow> ('s, 's client_stream) prog) \<Rightarrow> string \<Rightarrow> ('s, 's client_stream) prog" where
  "NewClientStreamInterceptor U blake2b ident sharedKeys streamer method =
     bind (streamer method) (\<lambda>clientStream.
     bind (map_err (\<lambda>e. ErrStatus Internal ''failed to read stream header'') (ReadHeader clientStream)) (\<lambda>headerMd.
     bind (lift (challenge_response U blake2b ident sharedKeys method headerMd)) (\<lambda>authHeader.
     bind (SendResponse clientStream authHeader) (\<lambda>_.
     return clientStream))))"

section \<open>What verification means\<close>

lemma Try_shared:
  "Try kr [UseKey TShared (try_shared U blake2b mac i n body)] False None =
     Ret (map_of kr TShared \<noteq> None, fold (try_shared U blake2b mac i n body) (keys_of kr TShared) None)"
  by (auto simp: keys_of_def split: option.splits)

lemma try_shared_cases:
  "try_shared U blake2b mac i n body k a = a \<and> (\<forall>sk. k = KShared sk \<longrightarrow> Verify U blake2b mac i n body (sk_ClientKey sk) \<noteq> Ret ()) \<or>
   (\<exists>sk. k = KShared sk \<and> Verify U blake2b mac i n body (sk_ClientKey sk) = Ret () \<and> try_shared U blake2b mac i n body k a = Some sk)"
  by (auto simp: try_shared_def split: key.splits go.splits)

lemma fold_try_Some:
  "fold (try_shared U blake2b mac i n body) ks a = Some k \<Longrightarrow>
   a = Some k \<or> KShared k \<in> set ks \<and> Verify U blake2b mac i n body (sk_ClientKey k) = Ret ()"
proof (induction ks arbitrary: a)
  case (Cons x ks)
  then have "fold (try_shared U blake2b mac i n body) ks (try_shared U blake2b mac i n body x a) = Some k" by simp
  from Cons.IH [OF this] try_shared_cases [of U blake2b mac i n body x a] show ?case by auto
qed simp

lemma fold_try_None:
  "fold (try_shared U blake2b mac i n body) ks a = None \<longleftrightarrow>
   a = None \<and> (\<forall>sk. KShared sk \<in> set ks \<longrightarrow> Verify U blake2b mac i n body (sk_ClientKey sk) \<noteq> Ret ())"
proof (induction ks arbitrary: a)
  case (Cons x ks)
  show ?case using try_shared_cases [of U blake2b mac i n body x a] by (auto simp: Cons.IH)
qed simp

text \<open>C3: who is authenticated holds the key. When \<^verbatim>\<open>VerifyKeyring\<close> answers an id and shared keys, the header
  carried this id and the very nonce that was sent in the challenge, the keys are in the keyring that the
  store has for the id, and the code in the header is the keyed hash of id, nonce and method under the
  client key of these keys.\<close>

theorem VerifyKeyring_sound:
  assumes "VerifyKeyring U blake2b m authHeader expectedNonce msgBody s = (Ret (clusterID, sharedKeys), t)"
  shows "\<exists>headerNonce mac kr. DecodeAuthHeader U authHeader = Ret (clusterID, headerNonce, mac) \<and>
    uuid_bytes U headerNonce = uuid_bytes U expectedNonce \<and>
    keyring_Get (keyringStoreBroker m ''gateway'' \<lparr> ref_id = clusterID \<rparr>) s = (Ret kr, t) \<and>
    KShared sharedKeys \<in> set (keys_of kr TShared) \<and>
    blake2b (sk_ClientKey sharedKeys) (clusterID @ uuid_bytes U expectedNonce @ msgBody) = Ret mac"
proof -
  obtain i hn mac where dec: "DecodeAuthHeader U authHeader = Ret (i, hn, mac)" and n: "uuid_bytes U hn = uuid_bytes U expectedNonce"
    using assms by (auto simp: VerifyKeyring_def split: go.splits if_splits)
  let ?f = "fold (try_shared U blake2b mac i expectedNonce msgBody)"
  obtain kr where kr: "keyring_Get (keyringStoreBroker m ''gateway'' \<lparr> ref_id = i \<rparr>) s = (Ret kr, t)"
    "?f (keys_of kr TShared) None = Some sharedKeys" "i = clusterID"
    using assms dec n by (auto simp: VerifyKeyring_def Try_shared simp del: Try.simps split: prod.splits go.splits if_splits option.splits)
  from fold_try_Some [OF kr(2)] have "KShared sharedKeys \<in> set (keys_of kr TShared)"
    "blake2b (sk_ClientKey sharedKeys) (i @ uuid_bytes U expectedNonce @ msgBody) = Ret mac"
    by (auto simp: Verify_def split: if_splits)
  with dec n kr show ?thesis by blast
qed



text \<open>The handler of a stream runs only for an authenticated peer: the result of the interceptor is that of
  the handler on the verified id and keys, or the handler was not run at all.\<close>

theorem handler_needs_verification:
  "(\<exists>authorization i k u t. VerifyKeyring U blake2b m authorization nonce fullMethod u = (Ret (i, k), t) \<and>
      StreamServerInterceptor U blake2b m nonce ss fullMethod handler s = handler (i, k) t) \<or>
   (\<forall>handler'. StreamServerInterceptor U blake2b m nonce ss fullMethod handler' s =
      StreamServerInterceptor U blake2b m nonce ss fullMethod handler s)"
proof -
  let ?first = "bind (map_err (\<lambda>e. ErrStatus Aborted ''failed to send challenge'') (SendHeader ss [(ChallengeKey, [uuid_String U nonce])])) (\<lambda>_.
     bind (AwaitResponse ss) (\<lambda>ev. lift (check_response ev)))"
  have run: "StreamServerInterceptor U blake2b m nonce ss fullMethod h s =
      bind ?first (\<lambda>a. bind (VerifyKeyring U blake2b m a nonce fullMethod) h) s" for h
    by (simp add: StreamServerInterceptor_def bind_def split: prod.splits go.splits)
  obtain r u where first: "?first s = (r, u)" by (cases "?first s")
  show ?thesis
  proof (cases r)
    case (Ret a)
    obtain q t where q: "VerifyKeyring U blake2b m a nonce fullMethod u = (q, t)" by (cases "VerifyKeyring U blake2b m a nonce fullMethod u")
    have step: "StreamServerInterceptor U blake2b m nonce ss fullMethod h s = bind (VerifyKeyring U blake2b m a nonce fullMethod) h u" for h
      unfolding run using first Ret by (simp add: bind_eval(1))
    show ?thesis
    proof (cases q)
      case (Ret x)
      obtain i k where x: "x = (i, k)" by (cases x)
      have "StreamServerInterceptor U blake2b m nonce ss fullMethod handler s = handler (i, k) t"
        using q Ret x step by (simp add: bind_def)
      then show ?thesis using q Ret x by blast
    qed (use q step in \<open>auto simp: bind_def\<close>)
  qed (use first run in \<open>auto simp: bind_eval(2,3)\<close>)
qed

text \<open>A middleware over a store with one cluster, for the witnesses: the keyed hash appends key and message.\<close>

definition toy_hash :: "string \<Rightarrow> string \<Rightarrow> string go" where
  "toy_hash key msg = Ret (key @ ''#'' @ msg)"

definition agent_keys :: SharedKeys where
  "agent_keys = \<lparr> sk_ClientKey = ''ck'', sk_ServerKey = ''sk'' \<rparr>"

definition toy_broker :: "(unit, keyring) KeyringStoreBroker" where
  "toy_broker ns ref = \<lparr> keyring_Put = (\<lambda>k. return ()),
     keyring_Get = (if ns = ''gateway'' \<and> ref_id ref = ''c1'' then return [(TShared, [KShared agent_keys])]
        else if ns = ''gateway-internal'' then return [(TShared, [KShared \<lparr> sk_ClientKey = ''f'', sk_ServerKey = ''g'' \<rparr>])]
        else throw ErrNotFound),
     keyring_Delete = return () \<rparr>"

definition toy_middleware :: "unit ClusterMiddleware" where
  "toy_middleware = \<lparr> keyringStoreBroker = toy_broker, fakeKeyringStore = fake_store toy_broker, headerKey = '''' \<rparr>"

lemma toy_bytes: "uuid_bytes toy_uuid True = ''1''"
  by (simp add: toy_uuid_def)

lemma toy_accepts:
  "\<exists>h. challenge_response toy_uuid toy_hash ''c1'' agent_keys ''/Connect'' [(ChallengeKey, [uuid_String toy_uuid True])] = Ret h \<and>
     DecodeAuthHeader toy_uuid h = Ret (''c1'', True, ''ck#c11/Connect'')"
proof -
  have parse: "uuid_Parse toy_uuid (uuid_String toy_uuid True) = Ret True" using toy_uuid_laws by (simp add: uuid_laws_def)
  have "New512 toy_uuid toy_hash ''c1'' True ''/Connect'' (sk_ClientKey agent_keys) = Ret ''ck#c11/Connect''"
    by (simp add: New512_def toy_hash_def agent_keys_def toy_uuid_def)
  moreover obtain h where h: "EncodeAuthHeader toy_uuid ''c1'' True ''ck#c11/Connect'' = Ret h"
    by (simp add: EncodeAuthHeader_def toy_uuid_def)
  ultimately have "challenge_response toy_uuid toy_hash ''c1'' agent_keys ''/Connect'' [(ChallengeKey, [uuid_String toy_uuid True])] = Ret h"
    by (simp add: challenge_response_def md_Get_def parse)
  moreover have "DecodeAuthHeader toy_uuid h = Ret (''c1'', True, ''ck#c11/Connect'')"
    by (rule decode_encode [OF toy_uuid_laws _ _ h]) simp_all
  ultimately show ?thesis by blast
qed


text \<open>Witness: the keys answered to it.\<close>

theorem VerifyKeyring_sound_witness:
  "\<exists>h mac kr. VerifyKeyring toy_uuid toy_hash toy_middleware h True ''/Connect'' () = (Ret (''c1'', agent_keys), ()) \<and>
     KShared agent_keys \<in> set (keys_of kr TShared) \<and>
     toy_hash (sk_ClientKey agent_keys) (''c1'' @ uuid_bytes toy_uuid True @ ''/Connect'') = Ret mac"
proof -
  obtain h where h: "DecodeAuthHeader toy_uuid h = Ret (''c1'', True, ''ck#c11/Connect'')" using toy_accepts by blast
  have run: "VerifyKeyring toy_uuid toy_hash toy_middleware h True ''/Connect'' () = (Ret (''c1'', agent_keys), ())"
    by (simp add: VerifyKeyring_def h toy_middleware_def toy_broker_def try_shared_def Verify_def toy_hash_def agent_keys_def toy_bytes)
  from VerifyKeyring_sound [OF run] run show ?thesis by blast
qed


end
