(* ===== verification/Capabilities.thy ===== *)
theory Capabilities
  imports Storage
begin

text \<open>
  \<^verbatim>\<open>pkg/capabilities\<close> and the lock map of \<^verbatim>\<open>pkg/util/generic.go\<close>: membership of a capability, the store of
  capability backends, the context that ends when a watched object loses a capability, and the
  arguments of installer templates. A backend is a gRPC client and so a parameter: a record of its calls.
  The template engine and \<^verbatim>\<open>encoding/json\<close> are arguments.
\<close>

section \<open>capabilities.go, cluster.go, token.go\<close>

definition Has :: "('o \<Rightarrow> 'c list) \<Rightarrow> ('c \<Rightarrow> 'c \<Rightarrow> bool) \<Rightarrow> 'o \<Rightarrow> 'c \<Rightarrow> bool" where
  "Has getCaps eq accessor capability = list_ex (\<lambda>c. eq c capability) (getCaps accessor)"

definition capabilities_Cluster :: "string \<Rightarrow> ClusterCapability" where
  "capabilities_Cluster name = \<lparr> cc_name = name, cc_deletionTimestamp = None \<rparr>"

abbreviation "JoinExistingCluster \<equiv> ''join_existing_cluster''"

definition capability_For :: "string \<Rightarrow> Reference \<Rightarrow> TokenCapability" where
  "capability_For tc ref = \<lparr> tc_type = tc, tc_reference = Some ref \<rparr>"

abbreviation cluster_Has :: "Cluster \<Rightarrow> ClusterCapability \<Rightarrow> bool" where
  "cluster_Has \<equiv> Has cluster_GetCapabilities clusterCapability_Equal"

abbreviation token_Has :: "BootstrapToken \<Rightarrow> TokenCapability \<Rightarrow> bool" where
  "token_Has \<equiv> Has token_GetCapabilities tokenCapability_Equal"

lemma Has_iff: "Has getCaps eq x c \<longleftrightarrow> (\<exists>d \<in> set (getCaps x). eq d c)"
  by (simp add: Has_def list_ex_iff)

section \<open>store.go\<close>

abbreviation "ErrBackendNotFound \<equiv> ErrText ''capability backend not found''"
abbreviation "ErrBackendAlreadyExists \<equiv> ErrText ''capability backend already exists''"

datatype InstallResponseStatus = ISUnknown | ISSuccess | ISWarning | ISError

record InstallResponse =
  irs_status :: InstallResponseStatus
  irs_message :: string

record Details =
  dt_name :: string
  dt_source :: string
  dt_drivers :: "string list"

record NodeCapabilityStatus =
  ncs_enabled :: bool
  ncs_lastSync :: "time option"

record ('s, 'st) BackendClient =
  bc_Info :: "('s, Details) prog"
  CanInstall :: "('s, unit) prog"
  Install :: "InstallRequest \<Rightarrow> ('s, InstallResponse) prog"
  bc_Status :: "Reference \<Rightarrow> ('s, NodeCapabilityStatus) prog"
  Uninstall :: "UninstallRequest \<Rightarrow> ('s, unit) prog"
  UninstallStatus :: "Reference \<Rightarrow> ('s, 'st) prog"
  CancelUninstall :: "Reference \<Rightarrow> ('s, unit) prog"
  InstallerTemplate :: "('s, string) prog"

record UserInstallerTemplateSpec =
  us_Token :: string
  us_Pin :: string

record ServerInstallerTemplateSpec =
  ss_Address :: string
  ss_Port :: string

type_synonym InstallerTemplateSpec = "UserInstallerTemplateSpec \<times> ServerInstallerTemplateSpec"

record ('s, 'st) backendStore =
  bs_serverSpec :: ServerInstallerTemplateSpec
  bs_backends :: "('s, 'st) BackendClient gomap"

definition NewBackendStore :: "ServerInstallerTemplateSpec \<Rightarrow> ('s, 'st) backendStore" where
  "NewBackendStore serverSpec = \<lparr> bs_serverSpec = serverSpec, bs_backends = [] \<rparr>"

definition backend_Get :: "('s, 'st) backendStore \<Rightarrow> string \<Rightarrow> ('s, 'st) BackendClient go" where
  "backend_Get s name = (case lookup (bs_backends s) name of
     None \<Rightarrow> Fail (Wrap name ErrBackendNotFound) | Some backend \<Rightarrow> Ret backend)"

definition backend_Add :: "string \<Rightarrow> ('s, 'st) BackendClient \<Rightarrow> (('s, 'st) backendStore, unit) prog" where
  "backend_Add name backend s = (case lookup (bs_backends s) name of
     Some _ \<Rightarrow> (Fail (Wrap name ErrBackendAlreadyExists), s)
   | None \<Rightarrow> (Ret (), s\<lparr> bs_backends := AList.update name backend (bs_backends s) \<rparr>))"

definition backend_List :: "('s, 'st) backendStore \<Rightarrow> string list" where
  "backend_List s = keys (bs_backends s)"

definition RenderInstaller ::
  "(string \<Rightarrow> InstallerTemplateSpec \<Rightarrow> string go) \<Rightarrow> ('s, 'st) backendStore \<Rightarrow> string \<Rightarrow> UserInstallerTemplateSpec \<Rightarrow> ('s, string) prog" where
  "RenderInstaller RenderInstallerCommand s name spec =
     bind (lift (backend_Get s name)) (\<lambda>backend.
     bind (InstallerTemplate backend) (\<lambda>tmpl.
     lift (let templateSpec = (spec, bs_serverSpec s) in
       go_bind (RenderInstallerCommand tmpl templateSpec) (\<lambda>result. RenderInstallerCommand result templateSpec))))"

definition backends_ok :: "('s, 'st) backendStore \<Rightarrow> bool" where
  "backends_ok s \<longleftrightarrow> gomap_ok (bs_backends s)"

lemma backends_ok_New [simp]: "backends_ok (NewBackendStore spec)"
  by (simp add: backends_ok_def NewBackendStore_def gomap_ok_def)

lemma preserves_backend_Add: "preserves backends_ok (backend_Add name backend)"
  by (auto simp: preserves_def backend_Add_def backends_ok_def split: option.splits)

section \<open>context.go\<close>

abbreviation "ErrCapabilityNotFound \<equiv> ErrText ''capability not found''"

text \<open>The accessors answer the empty list for a nil object.\<close>

definition lost_capability ::
  "('o option \<Rightarrow> 'c list) \<Rightarrow> ('c \<Rightarrow> 'c \<Rightarrow> bool) \<Rightarrow> 'c list \<Rightarrow> 'o WatchEvent \<Rightarrow> 'c option" where
  "lost_capability getCaps eq capabilities event =
     (if capabilities = [] then
        List.find (\<lambda>c. \<not> Has getCaps eq (we_Current event) c) (getCaps (we_Previous event))
      else
        List.find (\<lambda>c. Has getCaps eq (we_Previous event) c \<and> \<not> Has getCaps eq (we_Current event) c) capabilities)"

fun capability_watch ::
  "('o option \<Rightarrow> 'c list) \<Rightarrow> ('c \<Rightarrow> 'c \<Rightarrow> bool) \<Rightarrow> 'c list \<Rightarrow> 'o watch_input list \<Rightarrow> go_error option" where
  "capability_watch getCaps eq caps [] = None"
| "capability_watch getCaps eq caps (BaseDone e # rest) = Some e"
| "capability_watch getCaps eq caps (ChannelClosed # rest) = Some ErrEventChannelClosed"
| "capability_watch getCaps eq caps (Received ev # rest) = (case we_EventType ev of
     WatchEventDelete \<Rightarrow> Some ErrObjectDeleted
   | WatchEventUpdate \<Rightarrow> (case lost_capability getCaps eq caps ev of
        Some c \<Rightarrow> Some (Wrap ''lost'' ErrCapabilityNotFound)
      | None \<Rightarrow> capability_watch getCaps eq caps rest)
   | _ \<Rightarrow> capability_watch getCaps eq caps rest)"

lemma capability_watch_append:
  "capability_watch g eq caps (xs @ ys) =
     (case capability_watch g eq caps xs of None \<Rightarrow> capability_watch g eq caps ys | Some e \<Rightarrow> Some e)"
  by (induction g eq caps xs rule: capability_watch.induct) (auto split: WatchEventType.splits option.splits)

definition keeps_watched :: "('o option \<Rightarrow> 'c list) \<Rightarrow> ('c \<Rightarrow> 'c \<Rightarrow> bool) \<Rightarrow> 'c list \<Rightarrow> 'o WatchEvent \<Rightarrow> bool" where
  "keeps_watched getCaps eq caps ev \<longleftrightarrow>
     (\<forall>c. (if caps = [] then c \<in> set (getCaps (we_Previous ev)) else c \<in> set caps \<and> Has getCaps eq (we_Previous ev) c) \<longrightarrow>
        Has getCaps eq (we_Current ev) c)"

lemma lost_capability_None: "lost_capability getCaps eq caps ev = None \<longleftrightarrow> keeps_watched getCaps eq caps ev"
  by (auto simp: lost_capability_def keeps_watched_def find_None_iff)

text \<open>C32: a capability context stays open exactly as long as its base does, its channel is open, and no event
  it received deletes the object or takes a watched capability from it (any capability, when none is
  named); in particular it is not closed by a capability that the object never had.\<close>

theorem capability_context_open:
  "capability_watch getCaps eq caps inputs = None \<longleftrightarrow>
   (\<forall>i \<in> set inputs. \<exists>ev. i = Received ev \<and> we_EventType ev \<noteq> WatchEventDelete \<and>
      (we_EventType ev = WatchEventUpdate \<longrightarrow> keeps_watched getCaps eq caps ev))"
proof (induction getCaps eq caps inputs rule: capability_watch.induct)
  case (4 getCaps eq caps ev rest)
  then show ?case
    using lost_capability_None [of getCaps eq caps ev] by (cases "we_EventType ev") (auto split: option.splits)
qed simp_all

text \<open>Witness: the metrics capability is removed from a cluster that had it.\<close>

theorem capability_context_open_witness:
  "capability_watch (\<lambda>c. case c of None \<Rightarrow> [] | Some x \<Rightarrow> x) (=) [] [Received \<lparr> we_EventType = WatchEventUpdate,
     we_Current = Some [''logs''], we_Previous = Some [''logs'', ''metrics''] \<rparr>] \<noteq> None"
  unfolding capability_context_open by (auto simp: keeps_watched_def Has_def)

section \<open>template.go\<close>

datatype ArgKind = ArgKindInput | ArgKindSelect | ArgKindToggle | ArgKindOther string

record OptionSpec =
  os_Name :: string
  os_Value :: string

record SelectSpec =
  sel_Label :: string
  sel_Items :: "string list"

record ArgSpec =
  as_Kind :: ArgKind
  as_Input :: "string option"
  as_Select :: "SelectSpec option"
  as_Toggle :: "string option"
  as_Options :: "OptionSpec list"

text \<open>\<^verbatim>\<open>strings.Cut(s, ":")\<close>: the text after the first separator, if there is one.\<close>

definition cut_colon :: "string \<Rightarrow> string option" where
  "cut_colon s = (if CHR '':'' \<in> set s then Some (tl (dropWhile (\<lambda>c. c \<noteq> CHR '':'') s)) else None)"

definition parse_option :: "string \<Rightarrow> OptionSpec go" where
  "parse_option option' =
     (if HasPrefix option' ''required'' then
        (if CHR '':'' \<in> set option' then Fail (ErrText ''option does not accept a value'') else Ret \<lparr> os_Name = ''required'', os_Value = '''' \<rparr>)
      else if HasPrefix option' ''omitEmpty'' then
        (if CHR '':'' \<in> set option' then Fail (ErrText ''option does not accept a value'') else Ret \<lparr> os_Name = ''omitEmpty'', os_Value = '''' \<rparr>)
      else if HasPrefix option' ''default'' then
        (case cut_colon option' of None \<Rightarrow> Fail (ErrText ''usage: +default:value'') | Some v \<Rightarrow> Ret \<lparr> os_Name = ''default'', os_Value = v \<rparr>)
      else if HasPrefix option' ''format'' then
        (case cut_colon option' of None \<Rightarrow> Fail (ErrText ''usage: +format:value'') | Some v \<Rightarrow> Ret \<lparr> os_Name = ''format'', os_Value = v \<rparr>)
      else Fail (ErrText ''unknown option''))"

fun extractOptions :: "string list \<Rightarrow> OptionSpec list \<Rightarrow> string list \<Rightarrow> (OptionSpec list \<times> string list) go" where
  "extractOptions [] specs remaining = Ret (specs, remaining)"
| "extractOptions (op # ops) specs remaining =
     (if op \<noteq> '''' \<and> op ! 0 = CHR ''+''
      then go_bind (parse_option (drop 1 op)) (\<lambda>spec. extractOptions ops (specs @ [spec]) remaining)
      else extractOptions ops specs (remaining @ [op]))"

definition arg_spec :: "ArgKind \<Rightarrow> OptionSpec list \<Rightarrow> string list \<Rightarrow> ArgSpec go" where
  "arg_spec kind opts args =
     (let spec = \<lparr> as_Kind = kind, as_Input = None, as_Select = None, as_Toggle = None, as_Options = opts \<rparr> in
      case kind of
        ArgKindInput \<Rightarrow> if args = [] then Fail (ErrText ''usage: arg input'') else Ret (spec\<lparr> as_Input := Some (hd args) \<rparr>)
      | ArgKindSelect \<Rightarrow> if length args < 2 then Fail (ErrText ''usage: arg select'')
          else Ret (spec\<lparr> as_Select := Some \<lparr> sel_Label = hd args, sel_Items = tl args \<rparr> \<rparr>)
      | ArgKindToggle \<Rightarrow> if args = [] then Fail (ErrText ''usage: arg toggle'') else Ret (spec\<lparr> as_Toggle := Some (hd args) \<rparr>)
      | ArgKindOther k \<Rightarrow> Ret spec)"

definition Arg :: "(ArgSpec \<Rightarrow> string go) \<Rightarrow> ArgKind \<Rightarrow> string list \<Rightarrow> string go" where
  "Arg toJSON kind args =
     go_bind (extractOptions args [] []) (\<lambda>(opts, remaining).
     go_bind (arg_spec kind opts remaining) (\<lambda>argSpec.
     go_bind (go_err (toJSON argSpec) (Wrap ''failed to marshal arg spec'')) (\<lambda>argJson.
     Ret (''%'' @ argJson @ ''%''))))"

section \<open>LockMap\<close>

text \<open>The locks are allocated in sequence, so a lock is known by its number.\<close>

record lockMap =
  lm_locks :: "nat gomap"
  lm_next :: nat

definition NewLockMap :: lockMap where
  "NewLockMap = \<lparr> lm_locks = [], lm_next = 0 \<rparr>"

definition lockMap_Get :: "string \<Rightarrow> lockMap \<Rightarrow> nat \<times> lockMap" where
  "lockMap_Get key lm = (case lookup (lm_locks lm) key of Some l \<Rightarrow> (l, lm)
     | None \<Rightarrow> (lm_next lm, lm\<lparr> lm_locks := AList.update key (lm_next lm) (lm_locks lm), lm_next := Suc (lm_next lm) \<rparr>))"

definition lockMap_Delete :: "string \<Rightarrow> lockMap \<Rightarrow> lockMap" where
  "lockMap_Delete key lm = lm\<lparr> lm_locks := AList.delete key (lm_locks lm) \<rparr>"

definition lockMap_ok :: "lockMap \<Rightarrow> bool" where
  "lockMap_ok lm \<longleftrightarrow> gomap_ok (lm_locks lm) \<and> inj_on (lookup (lm_locks lm)) (dom (lookup (lm_locks lm))) \<and>
     (\<forall>k l. lookup (lm_locks lm) k = Some l \<longrightarrow> l < lm_next lm)"

lemma lockMap_ok_New: "lockMap_ok NewLockMap"
  by (simp add: lockMap_ok_def NewLockMap_def gomap_ok_def)

lemma lockMap_ok_Get: "lockMap_ok lm \<Longrightarrow> lockMap_ok (snd (lockMap_Get key lm))"
  unfolding lockMap_ok_def lockMap_Get_def
  by (auto simp: inj_on_def less_Suc_eq dom_def split: option.splits if_splits) (metis less_irrefl)+

lemma lockMap_ok_Delete: "lockMap_ok lm \<Longrightarrow> lockMap_ok (lockMap_Delete key lm)"
  unfolding lockMap_ok_def lockMap_Delete_def by (auto simp: inj_on_def dom_def)

text \<open>The lock map gives one lock per key: asked again it answers the same lock, and two keys never share
  one, as long as no entry is deleted in between.\<close>

theorem lockMap_one_per_key:
  assumes "lockMap_ok lm" and "lockMap_Get k lm = (l, lm1)" and "lockMap_Get k' lm1 = (l', lm2)"
  shows "lockMap_ok lm2 \<and> (l = l' \<longleftrightarrow> k = k') \<and> lockMap_Get k lm2 = (l, lm2)"
proof -
  have ok: "lockMap_ok lm1" "lockMap_ok lm2" using lockMap_ok_Get assms by (metis snd_conv)+
  have l: "lookup (lm_locks lm1) k = Some l" using assms(2) by (auto simp: lockMap_Get_def split: option.splits)
  have l': "lookup (lm_locks lm2) k' = Some l'" using assms(3) by (auto simp: lockMap_Get_def split: option.splits)
  have keep: "lookup (lm_locks lm2) k = Some l" using assms(3) l by (auto simp: lockMap_Get_def split: option.splits)
  have "l = l' \<longleftrightarrow> k = k'" using ok(2) keep l' by (auto simp: lockMap_ok_def inj_on_def dom_def)
  with ok(2) keep show ?thesis by (simp add: lockMap_Get_def)
qed

theorem lockMap_one_per_key_witness:
  "lockMap_Get ''c1'' NewLockMap = (0, snd (lockMap_Get ''c1'' NewLockMap)) \<and>
   fst (lockMap_Get ''c2'' (snd (lockMap_Get ''c1'' NewLockMap))) \<noteq> 0"
  using lockMap_one_per_key [OF lockMap_ok_New, of "''c1''" 0 "snd (lockMap_Get ''c1'' NewLockMap)" "''c2''"
      "fst (lockMap_Get ''c2'' (snd (lockMap_Get ''c1'' NewLockMap)))" "snd (lockMap_Get ''c2'' (snd (lockMap_Get ''c1'' NewLockMap)))"]
  by (simp add: lockMap_Get_def NewLockMap_def)

end
