(* ===== verification/Tokens.thy ===== *)
theory Tokens
  imports Core_V1
begin

text \<open>
  \<^verbatim>\<open>pkg/tokens\<close>: bootstrap tokens, their hexadecimal form, the conversion to and from the stored
  message, and the detached signatures that the join handshake is built on. Parameters: \<^verbatim>\<open>sha256\<close>
  (a digest of 32 bytes) and the \<^verbatim>\<open>jws\<close> package's \<^verbatim>\<open>Sign\<close> and \<^verbatim>\<open>Verify\<close>.
\<close>

record Token =
  tok_ID :: string
  tok_Secret :: string

abbreviation "ErrMalformedToken \<equiv> ErrText ''malformed token''"

definition NewToken :: "(string \<Rightarrow> string) \<Rightarrow> string \<Rightarrow> Token" where
  "NewToken sha256 entropy = (let sum = sha256 (take 256 entropy) in
     \<lparr> tok_ID = take 6 sum, tok_Secret = drop 6 sum \<rparr>)"

text \<open>\<^verbatim>\<open>json.Marshal\<close> of the two fields: byte slices in padded base64, the empty secret omitted.\<close>

definition EncodeJSON :: "Token \<Rightarrow> string" where
  "EncodeJSON t = ''{'' @ [CHR 0x22] @ ''id'' @ [CHR 0x22] @ '':'' @ [CHR 0x22] @
     Std_EncodeToString (tok_ID t) @ [CHR 0x22] @
     (if tok_Secret t = [] then []
      else '','' @ [CHR 0x22] @ ''secret'' @ [CHR 0x22] @ '':'' @ [CHR 0x22] @
        Std_EncodeToString (tok_Secret t) @ [CHR 0x22]) @ ''}''"

definition EncodeHex :: "Token \<Rightarrow> string" where
  "EncodeHex t = hex_EncodeToString (tok_ID t) @ ''.'' @ hex_EncodeToString (tok_Secret t)"

definition HexID :: "Token \<Rightarrow> string" where
  "HexID t = hex_EncodeToString (tok_ID t)"

definition HexSecret :: "Token \<Rightarrow> string" where
  "HexSecret t = hex_EncodeToString (tok_Secret t)"

definition Token_Reference :: "Token \<Rightarrow> Reference" where
  "Token_Reference t = \<lparr> ref_id = HexID t \<rparr>"

definition ParseHex :: "string \<Rightarrow> Token go" where
  "ParseHex str = (case split (CHR ''.'') str of
     [p0, p1] \<Rightarrow>
       if length p0 \<noteq> 12 \<or> length p1 \<noteq> 52 then Fail ErrMalformedToken
       else (case hex_DecodeString p0 of None \<Rightarrow> Fail ErrMalformedToken | Some i \<Rightarrow>
         if length i \<noteq> 6 then Fail ErrMalformedToken
         else (case hex_DecodeString p1 of None \<Rightarrow> Fail ErrMalformedToken | Some s \<Rightarrow>
           if length s \<noteq> 26 then Fail ErrMalformedToken
           else Ret \<lparr> tok_ID = i, tok_Secret = s \<rparr>))
   | _ \<Rightarrow> Fail ErrMalformedToken)"

section \<open>conversion.go\<close>

definition FromBootstrapToken :: "BootstrapToken \<Rightarrow> Token go" where
  "FromBootstrapToken t =
     (case hex_DecodeString (bt_tokenID t) of None \<Rightarrow> Fail (ErrText ''encoding/hex'') | Some i \<Rightarrow>
     (case hex_DecodeString (bt_secret t) of None \<Rightarrow> Fail (ErrText ''encoding/hex'') | Some s \<Rightarrow>
        Ret \<lparr> tok_ID = i, tok_Secret = s \<rparr>))"

definition ToBootstrapToken :: "Token \<Rightarrow> BootstrapToken" where
  "ToBootstrapToken t = \<lparr> bt_tokenID = HexID t, bt_secret = HexSecret t,
     bt_metadata = Some (zero_BootstrapTokenMetadata\<lparr> bm_labels := [] \<rparr>) \<rparr>"

section \<open>Detached signatures\<close>

definition IndexByte :: "string \<Rightarrow> char \<Rightarrow> nat option" where
  "IndexByte s c = (if c \<in> set s then Some (length (takeWhile (\<lambda>d. d \<noteq> c) s)) else None)"

definition LastIndexByte :: "string \<Rightarrow> char \<Rightarrow> nat option" where
  "LastIndexByte s c =
     (if c \<in> set s then Some (length s - 1 - length (takeWhile (\<lambda>d. d \<noteq> c) (rev s))) else None)"

text \<open>A signing key is an \<^verbatim>\<open>ed25519.PrivateKey\<close> or something else. Without a dot in the signature both
  indices are -1: the first slice is empty and the second one panics.\<close>

datatype 'k signing_key = Ed25519PrivateKey 'k | OtherKey

definition SignDetached :: "(string \<Rightarrow> 'k \<Rightarrow> string go) \<Rightarrow> Token \<Rightarrow> 'k signing_key \<Rightarrow> string go" where
  "SignDetached jws_Sign t key = (case key of
     OtherKey \<Rightarrow> Fail (ErrText ''invalid key type, expected ed25519.PrivateKey'')
   | Ed25519PrivateKey k \<Rightarrow> go_bind (jws_Sign (EncodeJSON t) k) (\<lambda>sig.
       case (IndexByte sig (CHR ''.''), LastIndexByte sig (CHR ''.'')) of
         (Some f, Some l) \<Rightarrow> Ret (take (f + 1) sig @ drop l sig)
       | _ \<Rightarrow> Panic ''slice bounds out of range''))"

definition VerifyDetached :: "(string \<Rightarrow> 'p \<Rightarrow> string go) \<Rightarrow> Token \<Rightarrow> string \<Rightarrow> 'p \<Rightarrow> string go" where
  "VerifyDetached jws_Verify t sig key =
     (case (IndexByte sig (CHR ''.''), LastIndexByte sig (CHR ''.'')) of
        (Some f, Some l) \<Rightarrow>
          (let fullToken = take (f + 1) sig @ RawURL_EncodeToString (EncodeJSON t) @ drop l sig
           in go_bind (jws_Verify fullToken key) (\<lambda>_. Ret fullToken))
      | _ \<Rightarrow> Fail ErrMalformedToken)"

section \<open>Lemmas\<close>

definition token_ok :: "Token \<Rightarrow> bool" where
  "token_ok t \<longleftrightarrow> length (tok_ID t) = 6 \<and> length (tok_Secret t) = 26"

text \<open>\<^verbatim>\<open>ToLower\<close> on the letters of a hexadecimal string.\<close>

definition lower_hex :: "char \<Rightarrow> char" where
  "lower_hex c = (if 65 \<le> (of_char c :: nat) \<and> of_char c \<le> (70 :: nat) then char_of (of_char c + 32 :: nat) else c)"

lemma hex_char_of: "n < 16 \<Longrightarrow> hex_char n = char_of (if n < 10 then 48 + n else 87 + n)"
proof -
  have "\<forall>n \<in> set [0..<16]. hex_char n = char_of (if n < 10 then 48 + n else 87 + n)"
    unfolding list_all_iff [symmetric] by code_simp
  then show "n < 16 \<Longrightarrow> ?thesis" by simp
qed

lemma hex_val_lower: "hex_val c = Some n \<longleftrightarrow> n < 16 \<and> lower_hex c = hex_char n"
proof -
  let ?m = "of_char c :: nat" and ?h = "if n < 10 then 48 + n else 87 + n"
  have "lower_hex c = char_of ?h \<longleftrightarrow> (if 65 \<le> ?m \<and> ?m \<le> 70 then ?m + 32 = ?h else ?m = ?h)" if "n < 16"
    using that unfolding lower_hex_def
    by (auto simp: char_of_eq_iff take_bit_eq_mod eq_commute [of c])
  then have "n < 16 \<and> lower_hex c = hex_char n \<longleftrightarrow>
      n < 16 \<and> (if 65 \<le> ?m \<and> ?m \<le> 70 then ?m + 32 = ?h else ?m = ?h)"
    using hex_char_of by auto
  then show ?thesis by (auto simp: hex_val_def Let_def)
qed

lemma hex_char_inject: "h < 16 \<Longrightarrow> k < 16 \<Longrightarrow> hex_char h = hex_char k \<longleftrightarrow> h = k"
  by (metis hex_val_char option.inject)

lemma hex_Decode_iff: "hex_DecodeString s = Some b \<longleftrightarrow> map lower_hex s = hex_EncodeToString b"
proof (induction s arbitrary: b rule: hex_DecodeString.induct)
  case 1
  show ?case by (cases b) auto
next
  case (2 c)
  show ?case by (cases b) auto
next
  case (3 c d cs)
  have split: "hex_DecodeString (c # d # cs) = Some y \<longleftrightarrow>
      (\<exists>h l r. hex_val c = Some h \<and> hex_val d = Some l \<and> hex_DecodeString cs = Some r \<and>
         y = char_of (16 * h + l) # r)" for y
    by (auto split: option.splits)
  show ?case
  proof (cases b)
    case Nil
    then show ?thesis unfolding split by auto
  next
    case (Cons x r)
    have byte: "x = char_of (16 * h + l) \<longleftrightarrow> of_char x div 16 = h \<and> of_char x mod 16 = l"
      if "h < 16" "l < 16" for h l :: nat
      using that by (auto simp: char_of_eq_iff take_bit_eq_mod)
    have div: "of_char x div 16 < (16::nat)" and mod: "of_char x mod 16 < (16::nat)"
      by (simp_all add: div_less_iff_less_mult)
    have "hex_DecodeString (c # d # cs) = Some b \<longleftrightarrow>
        lower_hex c = hex_char (of_char x div 16) \<and> lower_hex d = hex_char (of_char x mod 16) \<and>
        hex_DecodeString cs = Some r"
      (is "?l \<longleftrightarrow> ?r")
    proof
      assume ?l
      then obtain h l where "h < 16" "l < 16" "lower_hex c = hex_char h" "lower_hex d = hex_char l"
        "x = char_of (16 * h + l)" "hex_DecodeString cs = Some r"
        unfolding Cons split hex_val_lower by blast
      then show ?r using byte [of h l] by simp
    next
      assume ?r
      then have "hex_val c = Some (of_char x div 16)" "hex_val d = Some (of_char x mod 16)"
        using div mod by (simp_all add: hex_val_lower)
      then show ?l
        using \<open>?r\<close> byte [OF div mod] unfolding Cons split by blast
    qed
    then show ?thesis by (simp add: Cons "3" del: hex_DecodeString.simps)
  qed
qed

lemma hex_no_dot: "CHR ''.'' \<notin> set (hex_EncodeToString s)"
  using set_hex_Encode by (auto simp: is_hex_def)

lemma lower_hex_dot: "lower_hex c = CHR ''.'' \<longleftrightarrow> c = CHR ''.''"
  by (auto simp: lower_hex_def char_of_eq_iff take_bit_eq_mod)

lemma HexID_valid: "token_ok t \<Longrightarrow> ValidateID (HexID t) = Ret ()"
  unfolding token_ok_def HexID_def by (intro ValidateID_hex) simp_all

lemma NewToken_ok: "(\<And>s. length (sha256 s) = 32) \<Longrightarrow> token_ok (NewToken sha256 e)"
  by (simp add: NewToken_def token_ok_def Let_def)

lemma IndexByte_first: "c \<notin> set a \<Longrightarrow> IndexByte (a @ c # b) c = Some (length a)"
  unfolding IndexByte_def by (subst takeWhile_append2) auto

lemma LastIndexByte_last: "c \<notin> set b \<Longrightarrow> LastIndexByte (a @ c # b) c = Some (length a)"
  unfolding LastIndexByte_def rev_append rev.simps append_assoc by (subst takeWhile_append2) auto

section \<open>Properties\<close>

text \<open>C40: \<^verbatim>\<open>ParseHex\<close> accepts exactly the hexadecimal form of the tokens with a 6-byte id and a 26-byte
  secret, in either case of the letters, and answers that token; every other string is rejected as
  malformed, and nothing makes it panic.\<close>

theorem ParseHex_spec:
  "(ParseHex s = Ret t \<longleftrightarrow> token_ok t \<and> map lower_hex s = EncodeHex t) \<and>
   (ParseHex s = Fail ErrMalformedToken \<or> (\<exists>u. ParseHex s = Ret u))"
proof
  show "ParseHex s = Fail ErrMalformedToken \<or> (\<exists>u. ParseHex s = Ret u)"
    by (auto simp: ParseHex_def split: list.splits option.splits)
  have "ParseHex s = Ret t \<longleftrightarrow> (\<exists>p0 p1. split (CHR ''.'') s = [p0, p1] \<and> token_ok t \<and>
      map lower_hex p0 = hex_EncodeToString (tok_ID t) \<and> map lower_hex p1 = hex_EncodeToString (tok_Secret t))"
    (is "_ \<longleftrightarrow> ?parts")
    by (cases t) (auto simp: ParseHex_def token_ok_def hex_Decode_iff [symmetric] split: list.splits option.splits
        dest: length_hex_Decode)
  also have "?parts \<longleftrightarrow> token_ok t \<and> map lower_hex s = EncodeHex t"
  proof
    assume ?parts
    then obtain p0 p1 where p: "split (CHR ''.'') s = [p0, p1]" "token_ok t"
      "map lower_hex p0 = hex_EncodeToString (tok_ID t)" "map lower_hex p1 = hex_EncodeToString (tok_Secret t)"
      by blast
    have "s = p0 @ ''.'' @ p1" using join_split [of "CHR ''.''" s] p(1) by simp
    then show "token_ok t \<and> map lower_hex s = EncodeHex t"
      using p by (simp add: EncodeHex_def lower_hex_dot)
  next
    assume r: "token_ok t \<and> map lower_hex s = EncodeHex t"
    then obtain p0 q where q: "s = p0 @ q" "map lower_hex p0 = hex_EncodeToString (tok_ID t)"
      "map lower_hex q = ''.'' @ hex_EncodeToString (tok_Secret t)"
      by (auto simp: EncodeHex_def map_eq_append_conv)
    then obtain p1 where p1: "q = CHR ''.'' # p1" "map lower_hex p1 = hex_EncodeToString (tok_Secret t)"
      by (auto simp: lower_hex_dot)
    have "CHR ''.'' \<notin> set p" if "map lower_hex p = hex_EncodeToString b" for p b
      using that hex_no_dot [of b] lower_hex_dot by (metis image_eqI set_map)
    then have "split (CHR ''.'') s = [p0, p1]" using q p1 by simp
    then show ?parts using r q p1 by blast
  qed
  finally show "ParseHex s = Ret t \<longleftrightarrow> token_ok t \<and> map lower_hex s = EncodeHex t" .
qed

text \<open>A token becomes a bootstrap token message and back without loss, and the stored id is a valid
  object id of 12 hexadecimal digits, so that it is usable as a storage key.\<close>

theorem FromBootstrapToken_roundtrip:
  "FromBootstrapToken (ToBootstrapToken t) = Ret t \<and>
   length (bt_tokenID (ToBootstrapToken t)) = 2 * length (tok_ID t) \<and>
   (FromBootstrapToken b = Ret t \<longleftrightarrow>
      map lower_hex (bt_tokenID b) = HexID t \<and> map lower_hex (bt_secret b) = HexSecret t)"
proof -
  have "FromBootstrapToken b = Ret t \<longleftrightarrow>
      hex_DecodeString (bt_tokenID b) = Some (tok_ID t) \<and> hex_DecodeString (bt_secret b) = Some (tok_Secret t)"
    by (cases t) (auto simp: FromBootstrapToken_def split: option.splits)
  then show ?thesis
    by (simp add: hex_Decode_iff HexID_def HexSecret_def) (simp add: FromBootstrapToken_def ToBootstrapToken_def
        HexID_def HexSecret_def)
qed

text \<open>What the compact serialisation of a JWS promises: three segments, the middle one being the payload,
  and verification with the matching public key answers the payload.\<close>

definition jws_laws ::
  "(string \<Rightarrow> 'k \<Rightarrow> string go) \<Rightarrow> (string \<Rightarrow> 'p \<Rightarrow> string go) \<Rightarrow> ('k \<Rightarrow> 'p) \<Rightarrow> bool" where
  "jws_laws jws_Sign jws_Verify pub \<longleftrightarrow> (\<forall>payload k sig. jws_Sign payload k = Ret sig \<longrightarrow>
     (\<exists>h s. CHR ''.'' \<notin> set h \<and> CHR ''.'' \<notin> set s \<and>
        sig = h @ ''.'' @ RawURL_EncodeToString payload @ ''.'' @ s \<and>
        jws_Verify sig (pub k) = Ret payload))"

lemma SignDetached_Ret:
  assumes "jws_laws jws_Sign jws_Verify pub" and "SignDetached jws_Sign t (Ed25519PrivateKey k) = Ret d"
  obtains h s where "CHR ''.'' \<notin> set h" "CHR ''.'' \<notin> set s" "d = h @ ''..'' @ s"
    "jws_Sign (EncodeJSON t) k = Ret (h @ ''.'' @ RawURL_EncodeToString (EncodeJSON t) @ ''.'' @ s)"
    "jws_Verify (h @ ''.'' @ RawURL_EncodeToString (EncodeJSON t) @ ''.'' @ s) (pub k) = Ret (EncodeJSON t)"
proof -
  obtain sig where sig: "jws_Sign (EncodeJSON t) k = Ret sig"
    using assms(2) by (auto simp: SignDetached_def)
  then obtain h s where hs: "CHR ''.'' \<notin> set h" "CHR ''.'' \<notin> set s"
      "sig = h @ ''.'' @ RawURL_EncodeToString (EncodeJSON t) @ ''.'' @ s"
      "jws_Verify sig (pub k) = Ret (EncodeJSON t)"
    using assms(1) unfolding jws_laws_def by blast
  let ?m = "h @ ''.'' @ RawURL_EncodeToString (EncodeJSON t)"
  have "IndexByte sig (CHR ''.'') = Some (length h)" "LastIndexByte sig (CHR ''.'') = Some (length ?m)"
    using IndexByte_first [OF hs(1)] LastIndexByte_last [OF hs(2), of ?m] hs(3) by simp_all
  then have "d = h @ ''..'' @ s" using assms(2) sig hs(3) by (simp add: SignDetached_def)
  then show thesis using that hs sig by simp
qed

lemma VerifyDetached_attach:
  assumes "CHR ''.'' \<notin> set h" and "CHR ''.'' \<notin> set s"
  shows "VerifyDetached v t (h @ ''..'' @ s) key =
    (let full = h @ ''.'' @ RawURL_EncodeToString (EncodeJSON t) @ ''.'' @ s in go_bind (v full key) (\<lambda>_. Ret full))"
  using IndexByte_first [OF assms(1), of "CHR ''.'' # s"] LastIndexByte_last [OF assms(2), of "h @ ''.''"]
  by (simp add: VerifyDetached_def)

lemma EncodeJSON_inject: "EncodeJSON t = EncodeJSON u \<longleftrightarrow> t = u"
proof
  assume eq: "EncodeJSON t = EncodeJSON u"
  have quote: "a @ CHR 0x22 # b = c @ CHR 0x22 # d \<Longrightarrow> CHR 0x22 \<notin> set a \<Longrightarrow> CHR 0x22 \<notin> set c \<Longrightarrow> a = c \<and> b = d"
    for a b c d :: string
    by (induction a arbitrary: c; case_tac c) auto
  define r where "r = (\<lambda>t :: Token. (if tok_Secret t = [] then []
      else '','' @ [CHR 0x22] @ ''secret'' @ [CHR 0x22] @ '':'' @ [CHR 0x22] @
        Std_EncodeToString (tok_Secret t) @ [CHR 0x22]) @ ''}'')"
  have "Std_EncodeToString (tok_ID t) @ CHR 0x22 # r t = Std_EncodeToString (tok_ID u) @ CHR 0x22 # r u"
    using eq by (simp add: EncodeJSON_def r_def)
  from quote [OF this Std_no_quote Std_no_quote]
  have "tok_ID t = tok_ID u" and "r t = r u" by simp_all
  moreover from \<open>r t = r u\<close> have "tok_Secret t = tok_Secret u" by (auto simp: r_def split: if_splits)
  ultimately show "t = u" by simp
qed simp

text \<open>The detached signature of a token shows no payload, and the holder of the token reassembles and
  verifies the signer's message from it: \<^verbatim>\<open>VerifyDetached\<close> answers exactly what was signed.\<close>

theorem detached_roundtrip:
  assumes "jws_laws jws_Sign jws_Verify pub" and "SignDetached jws_Sign t (Ed25519PrivateKey k) = Ret d"
  shows "VerifyDetached jws_Verify t d (pub k) = jws_Sign (EncodeJSON t) k \<and>
    (\<exists>h s. split (CHR ''.'') d = [h, [], s])"
proof -
  obtain h s where hs: "CHR ''.'' \<notin> set h" "CHR ''.'' \<notin> set s" "d = h @ ''..'' @ s"
    "jws_Sign (EncodeJSON t) k = Ret (h @ ''.'' @ RawURL_EncodeToString (EncodeJSON t) @ ''.'' @ s)"
    "jws_Verify (h @ ''.'' @ RawURL_EncodeToString (EncodeJSON t) @ ''.'' @ s) (pub k) = Ret (EncodeJSON t)"
    by (rule SignDetached_Ret [OF assms])
  have "split (CHR ''.'') (h @ CHR ''.'' # [] @ CHR ''.'' # s) = [h, [], s]"
    using hs(1,2) by (subst split_free_append) simp_all
  then have "split (CHR ''.'') d = [h, [], s]" using hs(3) by simp
  moreover have "VerifyDetached jws_Verify t d (pub k) = jws_Sign (EncodeJSON t) k"
    unfolding hs(3,4) VerifyDetached_attach [OF hs(1,2)] Let_def hs(5) by simp
  ultimately show ?thesis by blast
qed

definition toy_sign :: "string \<Rightarrow> unit \<Rightarrow> string go" where
  "toy_sign payload k = Ret (''hdr.'' @ RawURL_EncodeToString payload @ ''.sig'')"

definition toy_verify :: "string \<Rightarrow> unit \<Rightarrow> string go" where
  "toy_verify msg p = (case split (CHR ''.'') msg of
     [h, pl, s] \<Rightarrow> (case RawURL_DecodeString pl of Some x \<Rightarrow> Ret x | None \<Rightarrow> Fail (ErrText ''payload''))
   | _ \<Rightarrow> Fail (ErrText ''segments''))"

lemma RawURL_no_dot: "CHR ''.'' \<notin> set (RawURL_EncodeToString s)"
  using set_RawURL_Encode [of s] by (auto simp: b64url_def)

lemma toy_verify_sign: "toy_verify (''hdr.'' @ RawURL_EncodeToString payload @ ''.sig'') k = Ret payload"
proof -
  have "split (CHR ''.'') (''hdr'' @ CHR ''.'' # RawURL_EncodeToString payload @ CHR ''.'' # ''sig'') =
      [''hdr'', RawURL_EncodeToString payload, ''sig'']"
    by (subst split_free_append, simp, subst split_free_append) (simp_all add: RawURL_no_dot)
  then show ?thesis by (simp add: toy_verify_def)
qed

lemma toy_jws: "jws_laws toy_sign toy_verify id"
  unfolding jws_laws_def
proof (intro allI impI)
  fix payload k sig assume "toy_sign payload k = Ret sig"
  then have "sig = ''hdr'' @ ''.'' @ RawURL_EncodeToString payload @ ''.'' @ ''sig''"
    by (simp add: toy_sign_def)
  moreover have "toy_verify sig (id k) = Ret payload"
    using calculation toy_verify_sign [of payload "id k"] by simp
  ultimately show "\<exists>h s. CHR ''.'' \<notin> set h \<and> CHR ''.'' \<notin> set s \<and>
      sig = h @ ''.'' @ RawURL_EncodeToString payload @ ''.'' @ s \<and> toy_verify sig (id k) = Ret payload"
    by (intro exI [of _ "''hdr''"] exI [of _ "''sig''"]) simp
qed

text \<open>Witness: with a concrete signature scheme a signed token verifies.\<close>

theorem detached_roundtrip_witness:
  "\<exists>d. SignDetached toy_sign \<lparr> tok_ID = ''abcdef'', tok_Secret = ''s'' \<rparr> (Ed25519PrivateKey ()) = Ret d \<and>
     VerifyDetached toy_verify \<lparr> tok_ID = ''abcdef'', tok_Secret = ''s'' \<rparr> d () =
     toy_sign (EncodeJSON \<lparr> tok_ID = ''abcdef'', tok_Secret = ''s'' \<rparr>) ()"
proof -
  let ?t = "\<lparr> tok_ID = ''abcdef'', tok_Secret = ''s'' \<rparr>"
  have "SignDetached toy_sign ?t (Ed25519PrivateKey ()) = Ret ''hdr..sig''" by code_simp
  from detached_roundtrip [OF toy_jws this] this show ?thesis by auto
qed

lemma IndexByte_Some:
  assumes "IndexByte s c = Some f"
  shows "\<exists>h r. s = h @ c # r \<and> c \<notin> set h \<and> f = length h"
proof -
  from assms have "c \<in> set s" by (simp add: IndexByte_def split: if_splits)
  then obtain h r where "s = h @ c # r" "c \<notin> set h" by (meson split_list_first)
  with assms IndexByte_first [of c h r] show ?thesis by auto
qed

lemma LastIndexByte_Some:
  assumes "LastIndexByte s c = Some l"
  shows "\<exists>h r. s = h @ c # r \<and> c \<notin> set r \<and> l = length h"
proof -
  from assms have "c \<in> set s" by (simp add: LastIndexByte_def split: if_splits)
  then obtain h r where "s = h @ c # r" "c \<notin> set r" by (meson split_list_last)
  with assms LastIndexByte_last [of c r h] show ?thesis by auto
qed

lemma VerifyDetached_Ret:
  assumes "VerifyDetached jws_Verify t d key = Ret full"
  shows "\<exists>h s p. split (CHR ''.'') full = [h, RawURL_EncodeToString (EncodeJSON t), s] \<and>
    jws_Verify full key = Ret p"
proof -
  obtain f l where fl: "IndexByte d (CHR ''.'') = Some f" "LastIndexByte d (CHR ''.'') = Some l"
    using assms by (auto simp: VerifyDetached_def split: option.splits)
  obtain h r where h: "d = h @ CHR ''.'' # r" "CHR ''.'' \<notin> set h" "f = length h"
    using IndexByte_Some [OF fl(1)] by blast
  obtain g s where g: "d = g @ CHR ''.'' # s" "CHR ''.'' \<notin> set s" "l = length g"
    using LastIndexByte_Some [OF fl(2)] by blast
  have "take (f + 1) d = h @ ''.''" "drop l d = CHR ''.'' # s"
    using h(1,3) g(1,3) by (simp, metis append_eq_conv_conj)
  then have full: "full = h @ CHR ''.'' # RawURL_EncodeToString (EncodeJSON t) @ CHR ''.'' # s"
    and "\<exists>p. jws_Verify full key = Ret p"
    using assms fl by (auto simp: VerifyDetached_def Let_def)
  moreover have "split (CHR ''.'') full = [h, RawURL_EncodeToString (EncodeJSON t), s]"
    unfolding full using h(2) g(2) by (simp add: RawURL_no_dot)
  ultimately show ?thesis by blast
qed

text \<open>C17: what \<^verbatim>\<open>VerifyDetached\<close> answers was accepted by the signature check and carries the token's own
  JSON as its payload, so that one signed message is never accepted for two different tokens.\<close>

theorem VerifyDetached_sound:
  assumes "VerifyDetached jws_Verify t d key = Ret full" and "VerifyDetached jws_Verify u e key' = Ret full"
  shows "(\<exists>h s p. split (CHR ''.'') full = [h, RawURL_EncodeToString (EncodeJSON t), s] \<and>
    jws_Verify full key = Ret p) \<and> u = t"
proof
  show "\<exists>h s p. split (CHR ''.'') full = [h, RawURL_EncodeToString (EncodeJSON t), s] \<and>
      jws_Verify full key = Ret p"
    by (rule VerifyDetached_Ret [OF assms(1)])
  have "RawURL_EncodeToString (EncodeJSON u) = RawURL_EncodeToString (EncodeJSON t)"
    using VerifyDetached_Ret [OF assms(1)] VerifyDetached_Ret [OF assms(2)] by auto
  then have "EncodeJSON u = EncodeJSON t" by (metis RawURL_roundtrip option.inject)
  then show "u = t" by (simp add: EncodeJSON_inject)
qed

text \<open>Witness: the reassembled message of a token is its own.\<close>

theorem VerifyDetached_sound_witness:
  "\<exists>h s p. split (CHR ''.'') (''hdr.'' @ RawURL_EncodeToString (EncodeJSON \<lparr> tok_ID = ''abcdef'', tok_Secret = ''s'' \<rparr>) @ ''.sig'') =
      [h, RawURL_EncodeToString (EncodeJSON \<lparr> tok_ID = ''abcdef'', tok_Secret = ''s'' \<rparr>), s] \<and>
    toy_verify (''hdr.'' @ RawURL_EncodeToString (EncodeJSON \<lparr> tok_ID = ''abcdef'', tok_Secret = ''s'' \<rparr>) @ ''.sig'') () = Ret p"
proof -
  let ?t = "\<lparr> tok_ID = ''abcdef'', tok_Secret = ''s'' \<rparr>"
  have "VerifyDetached toy_verify ?t (''hdr'' @ ''..'' @ ''sig'') () =
      Ret (''hdr.'' @ RawURL_EncodeToString (EncodeJSON ?t) @ ''.sig'')"
    by (subst VerifyDetached_attach) (use toy_verify_sign [of "EncodeJSON ?t" "()"] in \<open>simp_all add: Let_def\<close>)
  from VerifyDetached_sound [OF this this] show ?thesis by blast
qed

end
