(* ===== verification/Bootstrap_Server.thy ===== *)
theory Bootstrap_Server
  imports ClusterAuth Capabilities Tokens
begin

text \<open>
  \<^verbatim>\<open>pkg/bootstrap/server.go\<close> and \<^verbatim>\<open>server_v2.go\<close>: the gateway's side of the bootstrap protocol. \<^verbatim>\<open>Join\<close> publishes a
  detached signature of every bootstrap token; \<^verbatim>\<open>Auth\<close> accepts a client that returns one of them completed
  with the token, agrees on shared keys with it and registers its cluster. The signature scheme, the
  JSON reader for tokens and the curve are a record of parameters; the state \<open>'s\<close> is that of the storage.
  A handler is modelled from the moment it holds the lock of its cluster id; other gateways, which do not
  share that lock, are part of the interference the storage contracts allow for.
\<close>

record ('k, 'p) crypto =
  cr_Sign :: "string \<Rightarrow> 'k \<Rightarrow> string go"
  cr_Verify :: "string \<Rightarrow> 'p \<Rightarrow> string go"
  cr_Public :: "'k signing_key \<Rightarrow> 'p"
  cr_ParseJSON :: "string \<Rightarrow> Token go"
  cr_X25519 :: "string \<Rightarrow> string \<Rightarrow> string go"
  cr_basepoint :: string
  cr_b2b512 :: "string \<Rightarrow> string"
  cr_keyFromSeed :: "string \<Rightarrow> string"

text \<open>\<^verbatim>\<open>types.go\<close>: what the servers need of a storage backend.\<close>

record 's StorageConfig =
  st_tokens :: "'s TokenStore"
  st_clusters :: "'s ClusterStore"
  st_keyrings :: "('s, keyring) KeyringStoreBroker"

record ('s, 'k, 'st) Server =
  sv_privateKey :: "'k signing_key"
  sv_storage :: "'s StorageConfig"
  sv_capBackendStore :: "('s, 'st) backendStore"

record ('s, 'k) ServerV2 =
  sv2_privateKey :: "'k signing_key"
  sv2_storage :: "'s StorageConfig"

section \<open>Join\<close>

fun join_signatures :: "('k, 'p) crypto \<Rightarrow> 'k signing_key \<Rightarrow> BootstrapToken list \<Rightarrow> string gomap \<Rightarrow> string gomap go" where
  "join_signatures C privateKey [] signatures = Ret signatures"
| "join_signatures C privateKey (token # tokenList) signatures =
     go_bind (FromBootstrapToken token) (\<lambda>rawToken.
     go_bind (go_err (SignDetached (cr_Sign C) rawToken privateKey) (Wrap ''error signing token'')) (\<lambda>sig.
     join_signatures C privateKey tokenList (AList.update (HexID rawToken) sig signatures)))"

definition join :: "('k, 'p) crypto \<Rightarrow> 'k signing_key \<Rightarrow> 's StorageConfig \<Rightarrow> ('s, string gomap) prog" where
  "join C privateKey storage =
     bind (ListTokens (st_tokens storage)) (\<lambda>tokenList.
     bind (lift (join_signatures C privateKey tokenList [])) (\<lambda>signatures.
     if signatures = [] then throw (ErrStatus Unavailable ''server is not accepting bootstrap requests'')
     else return signatures))"

definition Server_Join :: "('k, 'p) crypto \<Rightarrow> ('s, 'k, 'st) Server \<Rightarrow> ('s, string gomap) prog" where
  "Server_Join C h = join C (sv_privateKey h) (sv_storage h)"

definition ServerV2_Join :: "('k, 'p) crypto \<Rightarrow> ('s, 'k) ServerV2 \<Rightarrow> ('s, string gomap) prog" where
  "ServerV2_Join C h = join C (sv2_privateKey h) (sv2_storage h)"

section \<open>The steps that both versions of Auth share\<close>

abbreviation "AuthorizationKey \<equiv> ''authorization''"

definition bearer_token :: "MD option \<Rightarrow> string go" where
  "bearer_token md = (case md of None \<Rightarrow> Fail (StatusError Unauthenticated)
     | Some m \<Rightarrow> (case md_Get m AuthorizationKey of [] \<Rightarrow> Fail (StatusError Unauthenticated)
       | v # vs \<Rightarrow> (let authHeader = TrimSpace v in
           if authHeader = '''' then Fail (StatusError Unauthenticated)
           else Ret (TrimSpace (TrimPrefix authHeader ''Bearer'')))))"

definition verified_token :: "('k, 'p) crypto \<Rightarrow> 'k signing_key \<Rightarrow> MD option \<Rightarrow> Token go" where
  "verified_token C privateKey md =
     go_bind (bearer_token md) (\<lambda>bearerToken.
     go_bind (go_err (cr_Verify C bearerToken (cr_Public C privateKey)) (\<lambda>_. StatusError PermissionDenied)) (\<lambda>payload.
     case cr_ParseJSON C payload of
       Ret token \<Rightarrow> Ret token
     | Fail e \<Rightarrow> Panic ''bug: jws.Verify returned a malformed token''
     | Panic p \<Rightarrow> Panic p))"

definition stored_token :: "'s StorageConfig \<Rightarrow> Token \<Rightarrow> ('s, BootstrapToken) prog" where
  "stored_token storage token =
     map_err (\<lambda>e. if errors_is e ErrNotFound then StatusError PermissionDenied else StatusError Unavailable)
       (GetToken (st_tokens storage) (Token_Reference token))"

text \<open>The cluster with the requested id, if there is one.\<close>

definition existing_cluster :: "'s StorageConfig \<Rightarrow> Reference \<Rightarrow> ('s, Cluster option) prog" where
  "existing_cluster storage existing =
     catch (bind (GetCluster (st_clusters storage) existing) (\<lambda>c. return (Some c)))
       (\<lambda>e. if errors_is e ErrNotFound then return None else throw (ErrStatus Unavailable (err_Error e)))"

text \<open>The server's public key and the keyring with the agreed keys.\<close>

definition server_keys :: "('k, 'p) crypto \<Rightarrow> string \<Rightarrow> string \<Rightarrow> (string \<times> keyring) go" where
  "server_keys C rand clientPubKey =
     go_bind (NewEphemeralKeyPair (cr_X25519 C) (cr_basepoint C) rand) (\<lambda>ekp.
     go_bind (go_err (DeriveSharedSecret (cr_X25519 C) (cr_b2b512 C) ekp \<lparr> pp_PublicKey = clientPubKey, pp_PeerType = PeerTypeClient \<rparr>)
       (\<lambda>e. ErrStatus InvalidArgument (err_Error e))) (\<lambda>sharedSecret.
     go_bind (NewSharedKeys (cr_keyFromSeed C) sharedSecret) (\<lambda>sk.
     go_bind (keyring_New [KShared sk]) (\<lambda>kr. Ret (kp_PublicKey ekp, kr)))))"

abbreviation "AgentVersion \<equiv> ''opni.io/agent-version''"
abbreviation "Version1 \<equiv> ''v1''"
abbreviation "Version2 \<equiv> ''v2''"

definition token_labels :: "BootstrapToken \<Rightarrow> string \<Rightarrow> string gomap" where
  "token_labels bootstrapToken version = AList.update AgentVersion version (AList.delete NameLabel (token_GetLabels bootstrapToken))"

section \<open>server_v2.go: Auth\<close>

definition newClusterV2 :: "BootstrapAuthRequestV2 \<Rightarrow> BootstrapToken \<Rightarrow> Cluster" where
  "newClusterV2 authReq bootstrapToken =
     (let labels = token_labels bootstrapToken Version2;
          labels = (case ba2_friendlyName authReq of None \<Rightarrow> labels | Some n \<Rightarrow> AList.update NameLabel n labels)
      in \<lparr> cl_id = ba2_clientId authReq, cl_metadata = Some (zero_ClusterMetadata\<lparr> cm_labels := labels \<rparr>) \<rparr>)"

definition registerV2 :: "'s StorageConfig \<Rightarrow> Token \<Rightarrow> Cluster \<Rightarrow> keyring \<Rightarrow> ('s, unit) prog" where
  "registerV2 storage token newCluster kr =
     bind (map_err (\<lambda>e. ErrStatus Internal (''error creating cluster: '' @ err_Error e))
       (CreateCluster (st_clusters storage) newCluster)) (\<lambda>newCluster.
     bind (map_err (\<lambda>e. ErrStatus Internal (''error incrementing usage count: '' @ err_Error e))
       (UpdateToken (st_tokens storage) (Token_Reference token) (NewCompositeMutator [NewIncrementUsageCountMutator]))) (\<lambda>_.
     map_err (\<lambda>e. ErrStatus Internal (''error storing keyring: '' @ err_Error e))
       (keyring_Put (st_keyrings storage ''gateway'' (cluster_Reference newCluster)) kr)))"

definition ServerV2_Auth ::
  "('k, 'p) crypto \<Rightarrow> string \<Rightarrow> ('s, 'k) ServerV2 \<Rightarrow> MD option \<Rightarrow> BootstrapAuthRequestV2 \<Rightarrow> ('s, string) prog" where
  "ServerV2_Auth C rand h md authReq =
     bind (lift (verified_token C (sv2_privateKey h) md)) (\<lambda>token.
     bind (stored_token (sv2_storage h) token) (\<lambda>bootstrapToken.
     bind (lift (go_err (bootstrapAuthV2_Validate authReq) (\<lambda>e. ErrStatus InvalidArgument (err_Error e)))) (\<lambda>_.
     bind (existing_cluster (sv2_storage h) \<lparr> ref_id = ba2_clientId authReq \<rparr>) (\<lambda>cluster.
     case cluster of
       Some c \<Rightarrow> throw (ErrStatus AlreadyExists (''cluster '' @ cl_id c @ '' already exists''))
     | None \<Rightarrow>
        bind (lift (server_keys C rand (ba2_clientPubKey authReq))) (\<lambda>(serverPubKey, kr).
        bind (registerV2 (sv2_storage h) token (newClusterV2 authReq bootstrapToken) kr) (\<lambda>_.
        return serverPubKey))))))"

section \<open>server.go: Auth\<close>

text \<open>The result of \<^verbatim>\<open>Install\<close> is dropped.\<close>

definition ignore :: "('s, 'a) prog \<Rightarrow> ('s, unit) prog" where
  "ignore m = catch (bind m (\<lambda>_. return ())) (\<lambda>_. return ())"

definition handleCreate ::
  "'s StorageConfig \<Rightarrow> Cluster \<Rightarrow> ('s, 'st) BackendClient \<Rightarrow> BootstrapToken \<Rightarrow> keyring \<Rightarrow> ('s, unit) prog" where
  "handleCreate storage newCluster newCapability token kr =
     bind (map_err (Wrap ''error creating cluster'') (CreateCluster (st_clusters storage) newCluster)) (\<lambda>newCluster.
     bind (map_err (Wrap ''error incrementing usage count'') (UpdateToken (st_tokens storage) (token_Reference token)
       (NewCompositeMutator [NewIncrementUsageCountMutator,
          add_token_capability (capability_For JoinExistingCluster (cluster_Reference newCluster))]))) (\<lambda>_.
     bind (map_err (Wrap ''error storing keyring'') (keyring_Put (st_keyrings storage ''gateway'' (cluster_Reference newCluster)) kr)) (\<lambda>_.
     ignore (Install newCapability \<lparr> ir_cluster = Some (cluster_Reference newCluster), ir_ignoreWarnings = False \<rparr>))))"

definition handleEdit ::
  "'s StorageConfig \<Rightarrow> Reference \<Rightarrow> ('s, 'st) BackendClient \<Rightarrow> BootstrapToken \<Rightarrow> keyring \<Rightarrow> ('s, unit) prog" where
  "handleEdit storage existingCluster newCapability token keyring' =
     (let krStore = st_keyrings storage ''gateway'' existingCluster in
     bind (map_err (Wrap ''error incrementing usage count'')
       (UpdateToken (st_tokens storage) (token_Reference token) NewIncrementUsageCountMutator)) (\<lambda>_.
     bind (map_err (Wrap ''error getting existing keyring'') (keyring_Get krStore)) (\<lambda>kr.
     bind (lift (Merge keyring' kr)) (\<lambda>merged.
     bind (map_err (Wrap ''error storing keyring'') (keyring_Put krStore merged)) (\<lambda>_.
     bind (Install newCapability \<lparr> ir_cluster = Some existingCluster, ir_ignoreWarnings = False \<rparr>) (\<lambda>_.
     return ()))))))"

text \<open>Whether the existing cluster may be edited; without one it is created.\<close>

definition shouldEditExisting :: "BootstrapAuthRequestV1 \<Rightarrow> BootstrapToken \<Rightarrow> Cluster option \<Rightarrow> bool go" where
  "shouldEditExisting authReq bootstrapToken cluster = (case cluster of
     None \<Rightarrow> Ret False
   | Some c \<Rightarrow>
       if cluster_Has c (capabilities_Cluster (ba1_capability authReq))
       then Fail (ErrStatus AlreadyExists ''capability is already installed on this cluster'')
       else if token_Has bootstrapToken (capability_For JoinExistingCluster \<lparr> ref_id = ba1_clientID authReq \<rparr>) then Ret True
       else Fail (ErrStatus PermissionDenied ''insufficient permissions for this cluster''))"

definition usable_backend :: "('s, 'st) backendStore \<Rightarrow> string \<Rightarrow> ('s, ('s, 'st) BackendClient) prog" where
  "usable_backend store name =
     bind (lift (go_err (backend_Get store name)
       (\<lambda>e. if errors_is e ErrBackendNotFound then ErrStatus NotFound (err_Error e) else ErrStatus Internal (err_Error e)))) (\<lambda>backendClient.
     bind (map_err (\<lambda>e. ErrStatus Unavailable (''capability '' @ name @ '' cannot be installed: '' @ err_Error e)) (CanInstall backendClient)) (\<lambda>_.
     return backendClient))"

definition newClusterV1 :: "BootstrapAuthRequestV1 \<Rightarrow> BootstrapToken \<Rightarrow> Cluster" where
  "newClusterV1 authReq bootstrapToken = \<lparr> cl_id = ba1_clientID authReq,
     cl_metadata = Some (zero_ClusterMetadata\<lparr> cm_labels := token_labels bootstrapToken Version1,
       cm_capabilities := [capabilities_Cluster (ba1_capability authReq)] \<rparr>) \<rparr>"

definition Server_Auth ::
  "('k, 'p) crypto \<Rightarrow> string \<Rightarrow> ('s, 'k, 'st) Server \<Rightarrow> MD option \<Rightarrow> BootstrapAuthRequestV1 \<Rightarrow> ('s, string) prog" where
  "Server_Auth C rand h md authReq =
     (let storage = sv_storage h; existing = \<lparr> ref_id = ba1_clientID authReq \<rparr>;
          failed = (\<lambda>e. ErrStatus Internal (''error installing capability '' @ ba1_capability authReq @ '': '' @ err_Error e)) in
     bind (lift (verified_token C (sv_privateKey h) md)) (\<lambda>token.
     bind (stored_token storage token) (\<lambda>bootstrapToken.
     bind (lift (go_err (bootstrapAuthV1_Validate authReq) (\<lambda>e. ErrStatus InvalidArgument (err_Error e)))) (\<lambda>_.
     bind (existing_cluster storage existing) (\<lambda>cluster.
     bind (lift (shouldEditExisting authReq bootstrapToken cluster)) (\<lambda>edit.
     bind (lift (server_keys C rand (ba1_clientPubKey authReq))) (\<lambda>(serverPubKey, kr).
     bind (usable_backend (sv_capBackendStore h) (ba1_capability authReq)) (\<lambda>backendClient.
     bind (map_err failed
       (if edit then handleEdit storage existing backendClient bootstrapToken kr
        else handleCreate storage (newClusterV1 authReq bootstrapToken) backendClient bootstrapToken kr)) (\<lambda>_.
     return serverPubKey)))))))))"

end
