(* ===== verification/Bootstrap_Props.thy ===== *)
theory Bootstrap_Props
  imports Bootstrap_Server
begin

text \<open>
  What the bootstrap server guarantees, proved once over the contracts of the three stores it uses
  (locale \<open>bootstrap_storage\<close>), whatever other instances do to the same storage in the meantime.
\<close>

section \<open>Results of the pure steps\<close>

lemma server_keys_Ret:
  assumes "server_keys C rand clientPubKey = Ret (pub, kr)"
  obtains ekp sec sk where "NewEphemeralKeyPair (cr_X25519 C) (cr_basepoint C) rand = Ret ekp" "pub = kp_PublicKey ekp"
    "DeriveSharedSecret (cr_X25519 C) (cr_b2b512 C) ekp \<lparr> pp_PublicKey = clientPubKey, pp_PeerType = PeerTypeClient \<rparr> = Ret sec"
    "NewSharedKeys (cr_keyFromSeed C) sec = Ret sk" "kr = [(TShared, [KShared sk])]"
  using assms by (auto simp: server_keys_def keyring_New_def allowedKeyTypes_def keys_of_def)

lemma keyring_ok_shared: "keyring_ok [(TShared, [KShared sk])]"
  by (simp add: keyring_ok_def allowedKeyTypes_def)

lemma server_keys_ok: "server_keys C rand p = Ret (pub, kr) \<Longrightarrow> keyring_ok kr"
  using keyring_ok_shared by (metis server_keys_Ret)

lemma Validate_ids:
  "bootstrapAuthV2_Validate r2 = Ret () \<Longrightarrow> ValidateID (ba2_clientId r2) = Ret ()"
  "bootstrapAuthV1_Validate r1 = Ret () \<Longrightarrow> ValidateID (ba1_clientID r1) = Ret ()"
  by (auto simp: bootstrapAuthV2_Validate_def bootstrapAuthV1_Validate_def split: if_splits)

lemma keeps_increment_use: "keeps_token NewIncrementUsageCountMutator"
  "keeps_token (NewCompositeMutator [NewIncrementUsageCountMutator])"
  by (auto simp: keeps_token_def NewIncrementUsageCountMutator_def split: option.splits)

lemma keeps_use_and_grant: "keeps_token (NewCompositeMutator [NewIncrementUsageCountMutator, add_token_capability c])"
  by (auto simp: keeps_token_def NewIncrementUsageCountMutator_def NewAddCapabilityMutator_def Let_def token_SetCapabilities_def
      split: option.splits if_splits)

lemma new_cluster_ids [simp]:
  "cl_id (newClusterV2 r2 bt) = ba2_clientId r2" "cl_id (newClusterV1 r1 bt) = ba1_clientID r1"
  by (simp_all add: newClusterV2_def newClusterV1_def Let_def)

lemma managed_create_id: "managed_create c x \<Longrightarrow> cl_id x = cl_id c"
  by (auto simp: managed_create_def)

section \<open>Registration\<close>

text \<open>What registering a cluster leaves behind: at three moments of the call, one after the other and each
  in one step, the cluster is stored where there was none, the token's record is changed by \<open>mut\<close>, and the
  keyring is stored.\<close>

definition registered ::
  "('s \<Rightarrow> 's \<Rightarrow> bool) \<Rightarrow> ('s \<Rightarrow> okey \<Rightarrow> 'k stored option) \<Rightarrow> (keyring \<Rightarrow> 'k) \<Rightarrow> Cluster \<Rightarrow> string \<Rightarrow>
   BootstrapToken MutatorFunc \<Rightarrow> keyring \<Rightarrow> 's \<Rightarrow> 's \<Rightarrow> bool" where
  "registered R \<alpha> kabs c0 tokenID mut kr s t \<longleftrightarrow> (\<exists>u1 v1 c u2 v2 x y u3 v3.
     R s u1 \<and> \<alpha> u1 (KCluster, cl_id c0) = None \<and> managed_create c0 c \<and>
       \<alpha> v1 = (\<alpha> u1)((KCluster, cl_id c0) \<mapsto> SCluster c) \<and>
     R v1 u2 \<and> \<alpha> u2 (KToken, tokenID) = Some (SToken (forget_lease x)) \<and> mut x = Ret y \<and>
       \<alpha> v2 = (\<alpha> u2)((KToken, tokenID) \<mapsto> SToken (forget_lease y)) \<and>
     R v2 u3 \<and> \<alpha> v3 = (\<alpha> u3)((KKeyring ''gateway'', cl_id c0) \<mapsto> SKeyring (kabs kr)) \<and> R v3 t)"

locale bootstrap_storage =
  tk: token_store I R "st_tokens st" \<alpha> +
  cl: cluster_store I R "st_clusters st" \<alpha> +
  kr: keyring_store I R "st_keyrings st" \<alpha> "''gateway''" kabs keyring_ok
  for I :: "'s \<Rightarrow> bool" and R :: "'s \<Rightarrow> 's \<Rightarrow> bool" and st :: "'s StorageConfig"
    and \<alpha> :: "'s \<Rightarrow> okey \<Rightarrow> 'k stored option" and kabs :: "keyring \<Rightarrow> 'k"
begin

lemma create_moment:
  assumes "I s" and "ValidateID (cl_id c0) = Ret ()" and "CreateCluster (st_clusters st) c0 s = (Ret c, t)"
  obtains u v where "R s u" "\<alpha> u (KCluster, cl_id c0) = None" "managed_create c0 c"
    "\<alpha> v = (\<alpha> u)((KCluster, cl_id c0) \<mapsto> SCluster c)" "R v t" "I t"
proof -
  obtain u v where "R s u" "create_effect \<alpha> SCluster (KCluster, cl_id c0) (managed_create c0) u (Ret c) v" "R v t" "I t"
    using cl.cluster_create [OF assms(2)] assms(1,3) by (rule atomicE)
  then show thesis by (auto simp: create_effect_def intro!: that)
qed

lemma use_moment:
  assumes "I s" and "ValidateID i = Ret ()" and "keeps_token mut" and "UpdateToken (st_tokens st) \<lparr> ref_id = i \<rparr> mut s = (Ret y, t)"
  obtains u v x where "R s u" "\<alpha> u (KToken, i) = Some (SToken (forget_lease x))" "mut x = Ret y"
    "\<alpha> v = (\<alpha> u)((KToken, i) \<mapsto> SToken (forget_lease y))" "R v t" "I t"
proof -
  obtain u v where uv: "R s u" "update_effect \<alpha> (SToken \<circ> forget_lease) (KToken, i) mut (=) u (Ret y) v" "R v t" "I t"
    using tk.token_update [OF assms(2,3)] assms(1,4) by (rule atomicE)
  then obtain x where "\<alpha> u (KToken, i) = Some (SToken (forget_lease x))" "mut x = Ret y"
    "\<alpha> v = (\<alpha> u)((KToken, i) \<mapsto> SToken (forget_lease y))" by (auto simp: update_effect_def)
  with uv show thesis by (intro that)
qed

lemma put_moment:
  assumes "I s" and "ValidateID i = Ret ()" and "keyring_ok k" and "keyring_Put (st_keyrings st ''gateway'' \<lparr> ref_id = i \<rparr>) k s = (Ret (), t)"
  obtains u v where "R s u" "\<alpha> v = (\<alpha> u)((KKeyring ''gateway'', i) \<mapsto> SKeyring (kabs k))" "R v t" "I t"
proof -
  obtain u v where "R s u" "put_effect \<alpha> (KKeyring ''gateway'', i) (SKeyring (kabs k)) u (Ret ()) v" "R v t" "I t"
    using kr.keyring_put [OF assms(2,3)] assms(1,4) by (rule atomicE)
  then show thesis by (auto simp: put_effect_def intro!: that)
qed

lemma known_moment:
  assumes "I s" and "ValidateID (HexID token) = Ret ()" and "stored_token st token s = (Ret bt, t)"
  obtains u where "R s u" "\<alpha> u (KToken, HexID token) = Some (SToken (forget_lease bt))" "I t"
proof -
  have "GetToken (st_tokens st) \<lparr> ref_id = HexID token \<rparr> s = (Ret bt, t)"
    using assms(3) by (simp add: stored_token_def map_err_eq_Ret Token_Reference_def)
  then obtain u v where "R s u" "get_effect \<alpha> (SToken \<circ> forget_lease) (KToken, HexID token) u (Ret bt) v" "I t"
    using tk.token_get [OF assms(2)] assms(1) by (elim atomicE) blast
  then show thesis by (auto simp: get_effect_def intro!: that)
qed

lemma existing_I:
  assumes "I s" and "ValidateID i = Ret ()" and "existing_cluster st \<lparr> ref_id = i \<rparr> s = (r, t)"
  shows "I t"
proof -
  obtain q t' where get: "GetCluster (st_clusters st) \<lparr> ref_id = i \<rparr> s = (q, t')" by (cases "GetCluster (st_clusters st) \<lparr> ref_id = i \<rparr> s")
  have "I t'" using cl.cluster_get [OF assms(2)] assms(1) get by (rule atomicE)
  moreover have "t' = t" using assms(3) get by (cases q) (auto simp: existing_cluster_def bind_def catch_def split: if_splits)
  ultimately show ?thesis by simp
qed

text \<open>The three writes, in the order both versions make them.\<close>

lemma three_writes:
  assumes "I s" and ids: "ValidateID (cl_id c0) = Ret ()" "ValidateID i = Ret ()" and "keeps_token mut" and "keyring_ok k"
    and "CreateCluster (st_clusters st) c0 s = (Ret c, s1)"
    and "UpdateToken (st_tokens st) \<lparr> ref_id = i \<rparr> mut s1 = (Ret y, s2)"
    and "keyring_Put (st_keyrings st ''gateway'' (cluster_Reference c)) k s2 = (Ret (), t)"
  shows "registered R \<alpha> kabs c0 i mut k s t \<and> I t"
proof -
  obtain u1 v1 where 1: "R s u1" "\<alpha> u1 (KCluster, cl_id c0) = None" "managed_create c0 c"
    "\<alpha> v1 = (\<alpha> u1)((KCluster, cl_id c0) \<mapsto> SCluster c)" "R v1 s1" "I s1"
    using create_moment [OF assms(1) ids(1) assms(6)] .
  obtain u2 v2 x where 2: "R s1 u2" "\<alpha> u2 (KToken, i) = Some (SToken (forget_lease x))" "mut x = Ret y"
    "\<alpha> v2 = (\<alpha> u2)((KToken, i) \<mapsto> SToken (forget_lease y))" "R v2 s2" "I s2"
    using use_moment [OF 1(6) ids(2) assms(4,7)] .
  have ref: "cluster_Reference c = \<lparr> ref_id = cl_id c0 \<rparr>" using managed_create_id [OF 1(3)] by (simp add: cluster_Reference_def)
  obtain u3 v3 where 3: "R s2 u3" "\<alpha> v3 = (\<alpha> u3)((KKeyring ''gateway'', cl_id c0) \<mapsto> SKeyring (kabs k))" "R v3 t" "I t"
    using put_moment [OF 2(6) ids(1) assms(5) assms(8) [unfolded ref]] .
  have "R v1 u2" "R v2 u3" using tk.R_trans 1(5) 2(1,5) 3(1) by blast+
  then show ?thesis unfolding registered_def
    by (intro conjI exI [of _ u1] exI [of _ v1] exI [of _ c] exI [of _ u2] exI [of _ v2] exI [of _ x] exI [of _ y] exI [of _ u3] exI [of _ v3] 1 2 3)
qed

lemma registerV2_success:
  assumes "I s" and "ValidateID (cl_id c0) = Ret ()" and "ValidateID (HexID token) = Ret ()" and "keyring_ok k"
    and "registerV2 st token c0 k s = (Ret x, t)"
  shows "registered R \<alpha> kabs c0 (HexID token) (NewCompositeMutator [NewIncrementUsageCountMutator]) k s t \<and> I t"
proof -
  obtain c s1 y s2 where "CreateCluster (st_clusters st) c0 s = (Ret c, s1)"
    "UpdateToken (st_tokens st) \<lparr> ref_id = HexID token \<rparr> (NewCompositeMutator [NewIncrementUsageCountMutator]) s1 = (Ret y, s2)"
    "keyring_Put (st_keyrings st ''gateway'' (cluster_Reference c)) k s2 = (Ret (), t)"
    using assms(5) by (auto simp: registerV2_def bind_eq_Ret map_err_eq_Ret Token_Reference_def)
  then show ?thesis by (rule three_writes [OF assms(1-3) keeps_increment_use(2) assms(4)])
qed

lemma AuthV2_success:
  assumes "I s" and "sv2_storage h = st"
    and ids: "\<And>token. verified_token C (sv2_privateKey h) md = Ret token \<Longrightarrow> ValidateID (HexID token) = Ret ()"
    and "ServerV2_Auth C rand h md req s = (Ret pub, t)"
  shows "\<exists>token bt k u s'. verified_token C (sv2_privateKey h) md = Ret token \<and> bootstrapAuthV2_Validate req = Ret () \<and>
    R s u \<and> \<alpha> u (KToken, HexID token) = Some (SToken (forget_lease bt)) \<and>
    server_keys C rand (ba2_clientPubKey req) = Ret (pub, k) \<and>
    registered R \<alpha> kabs (newClusterV2 req bt) (HexID token) (NewCompositeMutator [NewIncrementUsageCountMutator]) k s' t \<and> I t"
proof -
  obtain token bt s1 s2 k x where run: "verified_token C (sv2_privateKey h) md = Ret token" "stored_token st token s = (Ret bt, s1)"
    "bootstrapAuthV2_Validate req = Ret ()" "existing_cluster st \<lparr> ref_id = ba2_clientId req \<rparr> s1 = (Ret None, s2)"
    "server_keys C rand (ba2_clientPubKey req) = Ret (pub, k)"
    "registerV2 st token (newClusterV2 req bt) k s2 = (Ret x, t)"
    using assms(4) unfolding assms(2) [symmetric]
    by (auto simp: ServerV2_Auth_def bind_eq_Ret split: option.splits)
  have id: "ValidateID (ba2_clientId req) = Ret ()" using Validate_ids(1) [OF run(3)] .
  obtain u where u: "R s u" "\<alpha> u (KToken, HexID token) = Some (SToken (forget_lease bt))" "I s1"
    using known_moment [OF assms(1) ids [OF run(1)] run(2)] .
  have "I s2" using existing_I [OF u(3) id run(4)] .
  then have "registered R \<alpha> kabs (newClusterV2 req bt) (HexID token) (NewCompositeMutator [NewIncrementUsageCountMutator]) k s2 t \<and> I t"
    using id by (intro registerV2_success [OF _ _ ids [OF run(1)] server_keys_ok [OF run(5)] run(6)]) simp_all
  with run u show ?thesis by blast
qed

end


section \<open>The first version\<close>

text \<open>What bootstrapping another capability of an existing cluster leaves behind: the use of the token is
  counted, and the new keys are stored in front of those of the keyring that was read.\<close>

definition rekeyed ::
  "('s \<Rightarrow> 's \<Rightarrow> bool) \<Rightarrow> ('s \<Rightarrow> okey \<Rightarrow> 'k stored option) \<Rightarrow> (keyring \<Rightarrow> 'k) \<Rightarrow> string \<Rightarrow> string \<Rightarrow> keyring \<Rightarrow> 's \<Rightarrow> 's \<Rightarrow> bool" where
  "rekeyed R \<alpha> kabs i tokenID kr s t \<longleftrightarrow> (\<exists>u1 v1 x y u2 kr0 merged u3 v3.
     R s u1 \<and> \<alpha> u1 (KToken, tokenID) = Some (SToken (forget_lease x)) \<and> NewIncrementUsageCountMutator x = Ret y \<and>
       \<alpha> v1 = (\<alpha> u1)((KToken, tokenID) \<mapsto> SToken (forget_lease y)) \<and>
     R v1 u2 \<and> \<alpha> u2 (KKeyring ''gateway'', i) = Some (SKeyring (kabs kr0)) \<and>
       (\<forall>ty. keys_of merged ty = keys_of kr ty @ keys_of kr0 ty) \<and>
     \<alpha> v3 = (\<alpha> u3)((KKeyring ''gateway'', i) \<mapsto> SKeyring (kabs merged)) \<and> R v3 t)"

context bootstrap_storage
begin

lemma handleCreate_success:
  assumes "I s" and "ValidateID (cl_id c0) = Ret ()" and "ValidateID (bt_tokenID bt) = Ret ()" and "keyring_ok k"
    and "handleCreate st c0 b bt k s = (Ret x, t)"
  shows "\<exists>t' r. registered R \<alpha> kabs c0 (bt_tokenID bt)
      (NewCompositeMutator [NewIncrementUsageCountMutator, add_token_capability (capability_For JoinExistingCluster \<lparr> ref_id = cl_id c0 \<rparr>)]) k s t' \<and>
    Install b \<lparr> ir_cluster = Some \<lparr> ref_id = cl_id c0 \<rparr>, ir_ignoreWarnings = False \<rparr> t' = (r, t)"
proof -
  let ?mut = "\<lambda>c. NewCompositeMutator [NewIncrementUsageCountMutator, add_token_capability (capability_For JoinExistingCluster (cluster_Reference c))]"
  obtain c s1 y s2 t' where run: "CreateCluster (st_clusters st) c0 s = (Ret c, s1)"
    "UpdateToken (st_tokens st) \<lparr> ref_id = bt_tokenID bt \<rparr> (?mut c) s1 = (Ret y, s2)"
    "keyring_Put (st_keyrings st ''gateway'' (cluster_Reference c)) k s2 = (Ret (), t')"
    "ignore (Install b \<lparr> ir_cluster = Some (cluster_Reference c), ir_ignoreWarnings = False \<rparr>) t' = (Ret (), t)"
    using assms(5) by (auto simp: handleCreate_def bind_eq_Ret map_err_eq_Ret token_Reference_def)
  obtain u v where "managed_create c0 c" using create_moment [OF assms(1,2) run(1)] .
  then have ref: "cluster_Reference c = \<lparr> ref_id = cl_id c0 \<rparr>" using managed_create_id by (simp add: cluster_Reference_def)
  have "registered R \<alpha> kabs c0 (bt_tokenID bt) (?mut c) k s t' \<and> I t'"
    by (rule three_writes [OF assms(1-3) keeps_use_and_grant assms(4) run(1-3)])
  moreover obtain r where "Install b \<lparr> ir_cluster = Some (cluster_Reference c), ir_ignoreWarnings = False \<rparr> t' = (r, t)"
    using run(4) by (auto simp: ignore_def bind_def catch_def split: prod.splits go.splits)
  ultimately show ?thesis unfolding ref by blast
qed

lemma handleEdit_success:
  assumes "I s" and id: "ValidateID i = Ret ()" and "ValidateID (bt_tokenID bt) = Ret ()" and "keyring_ok k"
    and "handleEdit st \<lparr> ref_id = i \<rparr> b bt k s = (Ret x, t)"
  shows "\<exists>t' r. rekeyed R \<alpha> kabs i (bt_tokenID bt) k s t' \<and>
    Install b \<lparr> ir_cluster = Some \<lparr> ref_id = i \<rparr>, ir_ignoreWarnings = False \<rparr> t' = (Ret r, t)"
proof -
  let ?store = "st_keyrings st ''gateway'' \<lparr> ref_id = i \<rparr>"
  obtain y s1 k0 s2 m t' r where run:
    "UpdateToken (st_tokens st) \<lparr> ref_id = bt_tokenID bt \<rparr> NewIncrementUsageCountMutator s = (Ret y, s1)"
    "keyring_Get ?store s1 = (Ret k0, s2)" "Merge k k0 = Ret m" "keyring_Put ?store m s2 = (Ret (), t')"
    "Install b \<lparr> ir_cluster = Some \<lparr> ref_id = i \<rparr>, ir_ignoreWarnings = False \<rparr> t' = (Ret r, t)"
    using assms(5) by (auto simp: handleEdit_def Let_def bind_eq_Ret map_err_eq_Ret token_Reference_def)
  obtain u1 v1 y0 where 1: "R s u1" "\<alpha> u1 (KToken, bt_tokenID bt) = Some (SToken (forget_lease y0))"
    "NewIncrementUsageCountMutator y0 = Ret y" "\<alpha> v1 = (\<alpha> u1)((KToken, bt_tokenID bt) \<mapsto> SToken (forget_lease y))" "R v1 s1" "I s1"
    using use_moment [OF assms(1,3) keeps_increment_use(1) run(1)] .
  obtain u2 v2 where got: "R s1 u2" "I s2"
    "get_effect \<alpha> (SKeyring \<circ> kabs) (KKeyring ''gateway'', i) u2 (Ret k0) v2 \<and> (\<forall>k. Ret k0 = Ret k \<longrightarrow> keyring_ok k)"
    using kr.keyring_get [OF id] 1(6) run(2) by (rule atomicE)
  then have 2: "R s1 u2" "get_effect \<alpha> (SKeyring \<circ> kabs) (KKeyring ''gateway'', i) u2 (Ret k0) v2" "keyring_ok k0" "I s2" by simp_all
  have g: "\<alpha> u2 (KKeyring ''gateway'', i) = Some (SKeyring (kabs k0))" using 2(2) by (simp add: get_effect_def)
  have m: "keyring_ok m" "\<forall>ty. keys_of m ty = keys_of k ty @ keys_of k0 ty" using Merge_Ret [OF assms(4) 2(3)] run(3) by auto
  obtain u3 v3 where 3: "\<alpha> v3 = (\<alpha> u3)((KKeyring ''gateway'', i) \<mapsto> SKeyring (kabs m))" "R v3 t'"
    using put_moment [OF 2(4) id m(1) run(4)] .
  have "R v1 u2" using tk.R_trans 1(5) 2(1) by blast
  then have "rekeyed R \<alpha> kabs i (bt_tokenID bt) k s t'" unfolding rekeyed_def
    by (intro conjI exI [of _ u1] exI [of _ v1] exI [of _ y0] exI [of _ y] exI [of _ u2] exI [of _ k0] exI [of _ m] exI [of _ u3] exI [of _ v3] 1 g m 3)
  with run(5) show ?thesis by blast
qed

lemma existing_moment:
  assumes "I s" and "ValidateID i = Ret ()" and "existing_cluster st \<lparr> ref_id = i \<rparr> s = (Ret c, t)"
  obtains u where "R s u" "\<alpha> u (KCluster, i) = map_option SCluster c" "I t"
proof -
  obtain q t' where get: "GetCluster (st_clusters st) \<lparr> ref_id = i \<rparr> s = (q, t')" by (cases "GetCluster (st_clusters st) \<lparr> ref_id = i \<rparr> s")
  obtain u v where uv: "R s u" "get_effect \<alpha> SCluster (KCluster, i) u q v" "I t'"
    using cl.cluster_get [OF assms(2)] assms(1) get by (rule atomicE)
  have "\<alpha> u (KCluster, i) = map_option SCluster c \<and> t' = t"
    using assms(3) get uv(2) by (cases q) (auto simp: existing_cluster_def bind_def catch_def get_effect_def split: if_splits)
  with uv show thesis by (intro that) auto
qed

lemma AuthV1_success:
  assumes "I s" and st: "sv_storage h = st"
    and ids: "\<And>token. verified_token C (sv_privateKey h) md = Ret token \<Longrightarrow> ValidateID (HexID token) = Ret ()"
    and backend: "\<And>b. backend_Get (sv_capBackendStore h) (ba1_capability req) = Ret b \<Longrightarrow> preserves I (CanInstall b)"
    and "Server_Auth C rand h md req s = (Ret pub, t)"
  shows "\<exists>token bt k b u cluster s' t' r. verified_token C (sv_privateKey h) md = Ret token \<and> bootstrapAuthV1_Validate req = Ret () \<and>
    \<alpha> u (KCluster, ba1_clientID req) = map_option SCluster cluster \<and> bt_tokenID bt = HexID token \<and>
    server_keys C rand (ba1_clientPubKey req) = Ret (pub, k) \<and> backend_Get (sv_capBackendStore h) (ba1_capability req) = Ret b \<and>
    (case cluster of
       None \<Rightarrow> registered R \<alpha> kabs (newClusterV1 req bt) (HexID token)
         (NewCompositeMutator [NewIncrementUsageCountMutator,
            add_token_capability (capability_For JoinExistingCluster \<lparr> ref_id = ba1_clientID req \<rparr>)]) k s' t'
     | Some c \<Rightarrow> \<not> cluster_Has c (capabilities_Cluster (ba1_capability req)) \<and>
         token_Has bt (capability_For JoinExistingCluster \<lparr> ref_id = ba1_clientID req \<rparr>) \<and>
         rekeyed R \<alpha> kabs (ba1_clientID req) (HexID token) k s' t') \<and>
    Install b \<lparr> ir_cluster = Some \<lparr> ref_id = ba1_clientID req \<rparr>, ir_ignoreWarnings = False \<rparr> t' = (r, t)"
proof -
  obtain token bt s1 cluster s2 edit k b s3 x where run: "verified_token C (sv_privateKey h) md = Ret token" "stored_token st token s = (Ret bt, s1)"
    "bootstrapAuthV1_Validate req = Ret ()" "existing_cluster st \<lparr> ref_id = ba1_clientID req \<rparr> s1 = (Ret cluster, s2)"
    "shouldEditExisting req bt cluster = Ret edit" "server_keys C rand (ba1_clientPubKey req) = Ret (pub, k)"
    "usable_backend (sv_capBackendStore h) (ba1_capability req) s2 = (Ret b, s3)"
    "(if edit then handleEdit st \<lparr> ref_id = ba1_clientID req \<rparr> b bt k else handleCreate st (newClusterV1 req bt) b bt k) s3 = (Ret x, t)"
    using assms(5) unfolding st [symmetric] by (auto simp: Server_Auth_def Let_def bind_eq_Ret map_err_eq_Ret)
  have id: "ValidateID (ba1_clientID req) = Ret ()" using Validate_ids(2) [OF run(3)] .
  obtain u0 where u0: "R s u0" "\<alpha> u0 (KToken, HexID token) = Some (SToken (forget_lease bt))" "I s1"
    using known_moment [OF assms(1) ids [OF run(1)] run(2)] .
  have "I u0" using tk.R_keeps [OF assms(1) u0(1)] .
  then have tid: "bt_tokenID bt = HexID token" using tk.token_stored [OF _ u0(2)] by (simp add: forget_lease_def)
  obtain u where u: "\<alpha> u (KCluster, ba1_clientID req) = map_option SCluster cluster" "I s2"
    using existing_moment [OF u0(3) id run(4)] .
  have b: "backend_Get (sv_capBackendStore h) (ba1_capability req) = Ret b" "CanInstall b s2 = (Ret (), s3)"
    using run(7) by (auto simp: usable_backend_def bind_eq_Ret map_err_eq_Ret)
  have I3: "I s3" using preservesD [OF backend [OF b(1)] u(2) b(2)] .
  have ok: "keyring_ok k" using server_keys_ok [OF run(6)] .
  show ?thesis
  proof (cases cluster)
    case None
    then have "handleCreate st (newClusterV1 req bt) b bt k s3 = (Ret x, t)" using run(5,8) by (simp add: shouldEditExisting_def)
    from handleCreate_success [OF I3 _ _ ok this] show ?thesis
      using None id ids [OF run(1)] tid run(1,3,6) b(1) u(1) by fastforce
  next
    case (Some c)
    then have e: "\<not> cluster_Has c (capabilities_Cluster (ba1_capability req))"
      "token_Has bt (capability_For JoinExistingCluster \<lparr> ref_id = ba1_clientID req \<rparr>)"
      "handleEdit st \<lparr> ref_id = ba1_clientID req \<rparr> b bt k s3 = (Ret x, t)"
      using run(5,8) by (auto simp: shouldEditExisting_def split: if_splits)
    from handleEdit_success [OF I3 id _ ok e(3)] show ?thesis
      using Some e(1,2) ids [OF run(1)] tid run(1,3,6) b(1) u(1) by fastforce
  qed
qed

end

end
