(* ===== verification/Trust.thy ===== *)
theory Trust
  imports Keyring
begin

text \<open>
  \<^verbatim>\<open>pkg/trust\<close>: how an agent decides whether to trust the gateway's certificates, from its flags, its
  configuration or the keyring it saved. Certificates are the parameter \<open>'c\<close>, with their DER form, the
  parsing of it, and the system's certificate pool.
\<close>

section \<open>strategy.go\<close>

type_synonym 'a source = "'a list go"

text \<open>The closures given to \<^verbatim>\<open>Try\<close> keep the last key and remember that there was more than one.\<close>

fun take_pkp :: "key \<Rightarrow> PKPKey option \<times> bool \<Rightarrow> PKPKey option \<times> bool" where
  "take_pkp (KPKP pk) (pkpKey, err) = (Some pk, err \<or> pkpKey \<noteq> None)"
| "take_pkp k st = st"

definition NewKeyringPinSource :: "keyring \<Rightarrow> PublicKeyPin source" where
  "NewKeyringPinSource kr = go_bind (Try kr [UseKey TPKP take_pkp] False (None, False)) (\<lambda>(_, pkpKey, err).
     if err then Fail (ErrText ''keyring contains multiple PKP key sets'')
     else case pkpKey of None \<Rightarrow> Fail (ErrText ''keyring is missing PKP key'') | Some pk \<Rightarrow> Ret (pk_PinnedKeys pk))"

definition NewPinSource :: "PublicKeyPin list \<Rightarrow> PublicKeyPin source" where
  "NewPinSource pins = Ret pins"

fun take_cacerts :: "key \<Rightarrow> CACertsKey option \<times> bool \<Rightarrow> CACertsKey option \<times> bool" where
  "take_cacerts (KCACerts ca) (caCertsKey, err) = (Some ca, err \<or> caCertsKey \<noteq> None)"
| "take_cacerts k st = st"

definition NewKeyringCACertsSource :: "(string \<Rightarrow> 'c go) \<Rightarrow> keyring \<Rightarrow> 'c source" where
  "NewKeyringCACertsSource ParseCertificate kr = go_bind (Try kr [UseKey TCACerts take_cacerts] False (None, False)) (\<lambda>(_, caCertsKey, err).
     if err then Fail (ErrText ''keyring contains multiple CA certs key sets'')
     else case caCertsKey of None \<Rightarrow> Fail (ErrText ''keyring is missing CA certs key'')
       | Some ca \<Rightarrow> go_map (\<lambda>der. go_err (ParseCertificate der) (Wrap ''failed to parse CA cert'')) (ca_CACerts ca))"

definition NewCACertsSource :: "'c list \<Rightarrow> 'c source" where
  "NewCACertsSource certs = Ret certs"

text \<open>The three optional parts; a nil source is \<^const>\<open>None\<close> inside.\<close>

record 'c StrategyConfig =
  sc_PKP :: "PublicKeyPin source option option"
  sc_CACerts :: "'c source option option"
  sc_Insecure :: "unit option"

datatype 'c strategy = pkpTrustStrategy "PublicKeyPin list" | caCertsTrustStrategy "'c list" | insecureTrustStrategy

definition Build :: "'c StrategyConfig \<Rightarrow> 'c strategy go" where
  "Build c = (case sc_PKP c of
     Some None \<Rightarrow> Fail (ErrText ''no pin source provided for PKP trust strategy'')
   | Some (Some pins) \<Rightarrow> go_bind pins (\<lambda>pins. Ret (pkpTrustStrategy pins))
   | None \<Rightarrow> (case sc_CACerts c of
       Some None \<Rightarrow> Ret (caCertsTrustStrategy [])
     | Some (Some certs) \<Rightarrow> go_bind certs (\<lambda>certs. Ret (caCertsTrustStrategy certs))
     | None \<Rightarrow> (case sc_Insecure c of
         Some _ \<Rightarrow> Ret insecureTrustStrategy
       | None \<Rightarrow> Fail (ErrText ''no trust strategy configured''))))"

fun PersistentKey :: "('c \<Rightarrow> string) \<Rightarrow> 'c strategy \<Rightarrow> key option" where
  "PersistentKey raw (pkpTrustStrategy pins) = Some (KPKP (NewPKPKey pins))"
| "PersistentKey raw (caCertsTrustStrategy caCerts) = Some (KCACerts (NewCACertsKey raw caCerts))"
| "PersistentKey raw insecureTrustStrategy = None"

record 'c tls_config =
  InsecureSkipVerify :: bool
  verify_connection :: "('c list \<Rightarrow> unit go) option"
  RootCAs :: "'c list option"

text \<open>\<open>pinned\<close> is \<^verbatim>\<open>pkp.TLSConfig\<close> with its hash functions applied.\<close>

fun strategy_TLSConfig ::
  "(PublicKeyPin list \<Rightarrow> ('c list \<Rightarrow> unit go) go) \<Rightarrow> 'c list go \<Rightarrow> 'c strategy \<Rightarrow> 'c tls_config go" where
  "strategy_TLSConfig pinned SystemCertPool (pkpTrustStrategy pins) =
     go_bind (pinned pins) (\<lambda>verify. Ret \<lparr> InsecureSkipVerify = True, verify_connection = Some verify, RootCAs = None \<rparr>)"
| "strategy_TLSConfig pinned SystemCertPool (caCertsTrustStrategy caCerts) =
     go_bind (if length caCerts > 0 then Ret caCerts else SystemCertPool) (\<lambda>pool.
     Ret \<lparr> InsecureSkipVerify = False, verify_connection = None, RootCAs = Some pool \<rparr>)"
| "strategy_TLSConfig pinned SystemCertPool insecureTrustStrategy =
     Ret \<lparr> InsecureSkipVerify = True, verify_connection = None, RootCAs = None \<rparr>"

section \<open>flags.go\<close>

record trust_flags =
  tf_strategy :: string
  tf_pins :: "string list"
  tf_cacerts :: "string list"
  tf_confirm_insecure :: bool

definition BuildConfigFromFlags ::
  "(string \<Rightarrow> string go) \<Rightarrow> (string \<Rightarrow> 'c go) \<Rightarrow> trust_flags \<Rightarrow> 'c StrategyConfig go" where
  "BuildConfigFromFlags ReadFile ParsePEMEncodedCert flags =
     (let none = \<lparr> sc_PKP = None, sc_CACerts = None, sc_Insecure = None \<rparr> in
      if tf_strategy flags = ''pkp'' then
        (if tf_pins flags = [] then Fail (ErrText ''no pins provided'')
         else go_bind (go_map DecodePin (tf_pins flags)) (\<lambda>pinnedKeys. Ret (none\<lparr> sc_PKP := Some (Some (NewPinSource pinnedKeys)) \<rparr>)))
      else if tf_strategy flags = ''cacerts'' then
        go_bind (go_map (\<lambda>cacert. go_bind (ReadFile cacert) (\<lambda>data.
            go_err (ParsePEMEncodedCert data) (Wrap ''failed to parse CA cert''))) (tf_cacerts flags))
          (\<lambda>certs. Ret (none\<lparr> sc_CACerts := Some (Some (NewCACertsSource certs)) \<rparr>))
      else if tf_strategy flags = ''insecure'' then
        (if \<not> tf_confirm_insecure flags then Fail (ErrText ''the insecure trust strategy is highly discouraged'')
         else Ret (none\<lparr> sc_Insecure := Some () \<rparr>))
      else Fail (ErrText ''invalid trust strategy''))"

section \<open>Properties\<close>

text \<open>The configuration with which an agent rebuilds its strategy from its keyring.\<close>

fun keyring_config :: "(string \<Rightarrow> 'c go) \<Rightarrow> keyring \<Rightarrow> 'c strategy \<Rightarrow> 'c StrategyConfig" where
  "keyring_config parse kr (pkpTrustStrategy pins) =
     \<lparr> sc_PKP = Some (Some (NewKeyringPinSource kr)), sc_CACerts = None, sc_Insecure = None \<rparr>"
| "keyring_config parse kr (caCertsTrustStrategy certs) =
     \<lparr> sc_PKP = None, sc_CACerts = Some (Some (NewKeyringCACertsSource parse kr)), sc_Insecure = None \<rparr>"
| "keyring_config parse kr insecureTrustStrategy = \<lparr> sc_PKP = None, sc_CACerts = None, sc_Insecure = Some () \<rparr>"

lemma keys_of_two:
  assumes "keyring_New (KShared sk # (case p of None \<Rightarrow> [] | Some k \<Rightarrow> [k])) = Ret kr"
  shows "keyring_ok kr \<and> keys_of kr t = of_type t (KShared sk # (case p of None \<Rightarrow> [] | Some k \<Rightarrow> [k]))"
proof -
  let ?ks = "KShared sk # (case p of None \<Rightarrow> [] | Some k \<Rightarrow> [k])"
  have "\<forall>k \<in> set ?ks. type_of k \<in> set allowedKeyTypes"
    using keyring_New_Panic [of _ ?ks] assms by fastforce
  with keyring_New_Ret [of ?ks] assms show ?thesis by fastforce
qed



text \<open>C20: a flag set gives a strategy with the certificates or pins named by it, never fewer: a pin that does not
  decode, a file that cannot be read or parsed, no pin at all, or an unconfirmed insecure strategy is an
  error, not a weaker strategy.\<close>

theorem flags_not_weakened:
  assumes "BuildConfigFromFlags ReadFile parse flags = Ret c" and "Build c = Ret st"
  shows "case st of
     pkpTrustStrategy pins \<Rightarrow> tf_strategy flags = ''pkp'' \<and> pins \<noteq> [] \<and> list_all2 (\<lambda>s p. DecodePin s = Ret p) (tf_pins flags) pins
   | caCertsTrustStrategy certs \<Rightarrow> tf_strategy flags = ''cacerts'' \<and>
       list_all2 (\<lambda>f c. \<exists>d. ReadFile f = Ret d \<and> parse d = Ret c) (tf_cacerts flags) certs
   | insecureTrustStrategy \<Rightarrow> tf_strategy flags = ''insecure'' \<and> tf_confirm_insecure flags"
  using assms by (auto simp: BuildConfigFromFlags_def Build_def Let_def NewPinSource_def NewCACertsSource_def go_map_Ret split: if_splits)

theorem flags_not_weakened_witness:
  "BuildConfigFromFlags (\<lambda>f. Ret f) Ret \<lparr> tf_strategy = ''cacerts'', tf_pins = [], tf_cacerts = [''ca.pem''], tf_confirm_insecure = False \<rparr> =
     Ret \<lparr> sc_PKP = None, sc_CACerts = Some (Some (Ret [''ca.pem''])), sc_Insecure = None \<rparr> \<and>
   list_all2 (\<lambda>f c. \<exists>d. (Ret f :: string go) = Ret d \<and> (Ret d :: string go) = Ret c) [''ca.pem''] [''ca.pem'']"
proof -
  let ?fl = "\<lparr> tf_strategy = ''cacerts'', tf_pins = [], tf_cacerts = [''ca.pem''], tf_confirm_insecure = False \<rparr>"
  let ?c = "\<lparr> sc_PKP = None, sc_CACerts = Some (Some (Ret [''ca.pem''])), sc_Insecure = None \<rparr>"
  have run: "BuildConfigFromFlags (\<lambda>f. Ret f) Ret ?fl = Ret ?c" "Build ?c = Ret (caCertsTrustStrategy [''ca.pem''])"
    by (simp_all add: BuildConfigFromFlags_def Build_def Let_def NewCACertsSource_def)
  from flags_not_weakened [OF run] run(1) show ?thesis by simp
qed

end
