(* ===== verification/Etcd_Client.thy ===== *)
theory Etcd_Client
  imports Contracts
begin

text \<open>
  The etcd client as a parameter: a record of the calls the store makes, together with the view of the
  service that their documented behaviour is stated on (the key space, the revision of the last write,
  and the keys used so far). \<open>etcd_laws\<close> says that every call takes its effect in one step, that any
  number of other clients may act before and after it (\<open>rely\<close>), and that a failed call may or may not
  have had its effect.
\<close>

record 'w etcd_kv =
  ev_value :: 'w
  ev_version :: nat
  ev_create :: nat
  ev_mod :: nat
  ev_lease :: int

datatype etcd_cmp = CmpVersion nat | CmpModRevision nat
datatype lease_opt = NoLease | WithLease int | IgnoreLease

record ('s, 'w) etcd =
  e_db :: "'s \<Rightarrow> string \<Rightarrow> 'w etcd_kv option"
  e_rev :: "'s \<Rightarrow> nat"
  e_used :: "'s \<Rightarrow> string set"
  c_Get :: "string \<Rightarrow> ('s, 'w etcd_kv option) prog"
  c_GetPrefix :: "string \<Rightarrow> ('s, (string \<times> 'w etcd_kv) list \<times> nat) prog"
  c_Txn :: "string \<Rightarrow> etcd_cmp \<Rightarrow> 'w \<Rightarrow> lease_opt \<Rightarrow> ('s, bool \<times> nat) prog"
  c_Put :: "string \<Rightarrow> 'w \<Rightarrow> lease_opt \<Rightarrow> ('s, unit) prog"
  c_Delete :: "string \<Rightarrow> ('s, nat) prog"
  c_Grant :: "int \<Rightarrow> ('s, int) prog"
  c_Revoke :: "int \<Rightarrow> ('s, unit) prog"
  c_TimeToLive :: "int \<Rightarrow> ('s, int) prog"

section \<open>The service\<close>

definition etcd_put :: "lease_opt \<Rightarrow> nat \<Rightarrow> 'w \<Rightarrow> 'w etcd_kv option \<Rightarrow> 'w etcd_kv" where
  "etcd_put l n w old = (case old of
     None \<Rightarrow> \<lparr> ev_value = w, ev_version = 1, ev_create = n, ev_mod = n,
       ev_lease = (case l of WithLease i \<Rightarrow> i | _ \<Rightarrow> 0) \<rparr>
   | Some v \<Rightarrow> \<lparr> ev_value = w, ev_version = ev_version v + 1, ev_create = ev_create v, ev_mod = n,
       ev_lease = (case l of WithLease i \<Rightarrow> i | IgnoreLease \<Rightarrow> ev_lease v | NoLease \<Rightarrow> 0) \<rparr>)"

fun cmp_holds :: "etcd_cmp \<Rightarrow> 'w etcd_kv option \<Rightarrow> bool" where
  "cmp_holds (CmpVersion n) v = ((case v of None \<Rightarrow> 0 | Some v \<Rightarrow> ev_version v) = n)"
| "cmp_holds (CmpModRevision n) v = ((case v of None \<Rightarrow> 0 | Some v \<Rightarrow> ev_mod v) = n)"

definition kv_ok :: "nat \<Rightarrow> 'w etcd_kv \<Rightarrow> bool" where
  "kv_ok n v \<longleftrightarrow> 1 \<le> ev_version v \<and> 1 \<le> ev_create v \<and> ev_create v \<le> ev_mod v \<and> ev_mod v \<le> n"

definition etcd_ok :: "('s, 'w) etcd \<Rightarrow> 's \<Rightarrow> bool" where
  "etcd_ok E s \<longleftrightarrow> e_rev E s < 2 ^ 63 \<and> dom (e_db E s) \<subseteq> e_used E s \<and>
     (\<forall>k v. e_db E s k = Some v \<longrightarrow> kv_ok (e_rev E s) v)"

section \<open>Rely\<close>

text \<open>What other clients can do between two moments: the revision grows with every write, a key whose
  modification revision is old is unchanged, a key that still has its creation revision has only been
  put (so its version tells whether it changed), used keys stay used, and a key for which \<open>once\<close> holds
  (a random identifier) is not created a second time. \<open>K\<close> is what all the clients maintain.\<close>

definition rely :: "('s, 'w) etcd \<Rightarrow> (string \<Rightarrow> bool) \<Rightarrow> ((string \<Rightarrow> 'w etcd_kv option) \<Rightarrow> bool) \<Rightarrow> 's \<Rightarrow> 's \<Rightarrow> bool" where
  "rely E once K s t \<longleftrightarrow> e_rev E s \<le> e_rev E t \<and> e_used E s \<subseteq> e_used E t \<and>
     (\<forall>k w. e_db E t k = Some w \<longrightarrow> ev_mod w \<le> e_rev E s \<longrightarrow> e_db E s k = Some w) \<and>
     (\<forall>k w. e_db E t k = Some w \<longrightarrow> ev_create w \<le> e_rev E s \<longrightarrow>
        (\<exists>v. e_db E s k = Some v \<and> ev_create v = ev_create w \<and> ev_version v \<le> ev_version w \<and>
             (ev_version v = ev_version w \<longrightarrow> v = w))) \<and>
     (\<forall>k w. once k \<longrightarrow> e_db E t k = Some w \<longrightarrow> e_rev E s < ev_create w \<longrightarrow> k \<notin> e_used E s) \<and>
     (K (e_db E s) \<longrightarrow> K (e_db E t))"

lemma rely_refl: "etcd_ok E s \<Longrightarrow> rely E once K s s"
  by (fastforce simp: rely_def etcd_ok_def kv_ok_def)

lemma rely_same:
  "etcd_ok E s \<Longrightarrow> e_db E t = e_db E s \<Longrightarrow> e_rev E t = e_rev E s \<Longrightarrow> e_used E t = e_used E s \<Longrightarrow> rely E once K s t"
  by (fastforce simp: rely_def etcd_ok_def kv_ok_def)

lemma rely_mod:
  "rely E once K s t \<Longrightarrow> e_db E t k = Some w \<Longrightarrow> ev_mod w \<le> e_rev E s \<Longrightarrow> e_db E s k = Some w"
  by (simp add: rely_def)

lemma rely_create:
  "rely E once K s t \<Longrightarrow> e_db E t k = Some w \<Longrightarrow> ev_create w \<le> e_rev E s \<Longrightarrow>
   \<exists>v. e_db E s k = Some v \<and> ev_create v = ev_create w \<and> ev_version v \<le> ev_version w \<and>
     (ev_version v = ev_version w \<longrightarrow> v = w)"
  by (simp add: rely_def)

lemma rely_once:
  "rely E once K s t \<Longrightarrow> once k \<Longrightarrow> e_db E t k = Some w \<Longrightarrow> k \<in> e_used E s \<Longrightarrow> ev_create w \<le> e_rev E s"
  using not_less by (auto simp: rely_def)

lemma rely_trans:
  assumes st: "rely E once K s t" and tu: "rely E once K t u"
  shows "rely E once K s u"
  unfolding rely_def
proof (intro conjI allI impI)
  show rev: "e_rev E s \<le> e_rev E u" using st tu by (simp add: rely_def)
  have le: "e_rev E s \<le> e_rev E t" using st by (simp add: rely_def)
  show used: "e_used E s \<subseteq> e_used E u" using st tu by (auto simp: rely_def)
  show "e_db E s k = Some w" if "e_db E u k = Some w" "ev_mod w \<le> e_rev E s" for k w
    using that le by (intro rely_mod [OF st] rely_mod [OF tu]) auto
  show "\<exists>v. e_db E s k = Some v \<and> ev_create v = ev_create w \<and> ev_version v \<le> ev_version w \<and>
      (ev_version v = ev_version w \<longrightarrow> v = w)"
    if w: "e_db E u k = Some w" "ev_create w \<le> e_rev E s" for k w
  proof -
    obtain x where x: "e_db E t k = Some x" "ev_create x = ev_create w" "ev_version x \<le> ev_version w"
      "ev_version x = ev_version w \<longrightarrow> x = w"
      using rely_create [OF tu w(1)] w(2) le by auto
    obtain v where "e_db E s k = Some v" "ev_create v = ev_create x" "ev_version v \<le> ev_version x"
      "ev_version v = ev_version x \<longrightarrow> v = x"
      using rely_create [OF st x(1)] w(2) x(2) by auto
    with x show ?thesis by auto
  qed
  show "k \<notin> e_used E s" if o: "once k" "e_db E u k = Some w" "e_rev E s < ev_create w" for k w
  proof
    assume used: "k \<in> e_used E s"
    then have "k \<in> e_used E t" using st by (auto simp: rely_def)
    then have "ev_create w \<le> e_rev E t" by (rule rely_once [OF tu o(1,2)])
    then obtain x where "e_db E t k = Some x" "ev_create x = ev_create w"
      using rely_create [OF tu o(2)] by auto
    with rely_once [OF st o(1) _ used] o(3) show False by auto
  qed
  show "K (e_db E u)" if "K (e_db E s)" using that st tu by (simp add: rely_def)
qed

section \<open>The laws of the client\<close>

text \<open>Errors of the client are its own: none of them is one of the store's sentinel errors, and none is the
  store's retry request.\<close>

abbreviation "errRetry \<equiv> ErrText ''the object has been modified, retrying''"

definition foreign :: "go_error \<Rightarrow> bool" where
  "foreign e \<longleftrightarrow> \<not> errors_is e ErrNotFound \<and> \<not> errors_is e ErrAlreadyExists \<and> \<not> errors_is e errRetry"

definition same :: "('s, 'w) etcd \<Rightarrow> 's \<Rightarrow> 's \<Rightarrow> bool" where
  "same E u v \<longleftrightarrow> e_db E v = e_db E u \<and> e_rev E v = e_rev E u \<and> e_used E v = e_used E u"

definition did_put :: "('s, 'w) etcd \<Rightarrow> string \<Rightarrow> 'w \<Rightarrow> lease_opt \<Rightarrow> 's \<Rightarrow> 's \<Rightarrow> bool" where
  "did_put E k w l u v \<longleftrightarrow> e_rev E v = Suc (e_rev E u) \<and> e_used E v = insert k (e_used E u) \<and>
     e_db E v = (e_db E u)(k \<mapsto> etcd_put l (Suc (e_rev E u)) w (e_db E u k))"

definition did_delete :: "('s, 'w) etcd \<Rightarrow> string \<Rightarrow> 's \<Rightarrow> 's \<Rightarrow> bool" where
  "did_delete E k u v \<longleftrightarrow> e_db E v = (e_db E u)(k := None) \<and> e_used E v = e_used E u \<and>
     e_rev E v = (if e_db E u k = None then e_rev E u else Suc (e_rev E u))"

definition read_effect :: "('s, 'w) etcd \<Rightarrow> ('s \<Rightarrow> 'a \<Rightarrow> bool) \<Rightarrow> 's \<Rightarrow> 'a go \<Rightarrow> 's \<Rightarrow> bool" where
  "read_effect E P u r v \<longleftrightarrow> same E u v \<and>
     (case r of Ret x \<Rightarrow> P u x | Fail e \<Rightarrow> foreign e | Panic p \<Rightarrow> False)"

definition txn_effect :: "('s, 'w) etcd \<Rightarrow> string \<Rightarrow> etcd_cmp \<Rightarrow> 'w \<Rightarrow> lease_opt \<Rightarrow> 's \<Rightarrow> (bool \<times> nat) go \<Rightarrow> 's \<Rightarrow> bool" where
  "txn_effect E k c w l u r v \<longleftrightarrow> (case r of
     Ret (succeeded, n) \<Rightarrow> succeeded = cmp_holds c (e_db E u k) \<and>
       (if succeeded then did_put E k w l u v \<and> n = e_rev E v else same E u v)
   | Fail e \<Rightarrow> foreign e \<and> (same E u v \<or> cmp_holds c (e_db E u k) \<and> did_put E k w l u v)
   | Panic p \<Rightarrow> False)"

definition put_call_effect :: "('s, 'w) etcd \<Rightarrow> string \<Rightarrow> 'w \<Rightarrow> lease_opt \<Rightarrow> 's \<Rightarrow> unit go \<Rightarrow> 's \<Rightarrow> bool" where
  "put_call_effect E k w l u r v \<longleftrightarrow> (case r of
     Ret _ \<Rightarrow> did_put E k w l u v
   | Fail e \<Rightarrow> foreign e \<and> (same E u v \<or> did_put E k w l u v)
   | Panic p \<Rightarrow> False)"

definition delete_call_effect :: "('s, 'w) etcd \<Rightarrow> string \<Rightarrow> 's \<Rightarrow> nat go \<Rightarrow> 's \<Rightarrow> bool" where
  "delete_call_effect E k u r v \<longleftrightarrow> (case r of
     Ret n \<Rightarrow> did_delete E k u v \<and> n = (if e_db E u k = None then 0 else 1)
   | Fail e \<Rightarrow> foreign e \<and> (same E u v \<or> did_delete E k u v)
   | Panic p \<Rightarrow> False)"

text \<open>Revoking a lease deletes the keys attached to it.\<close>

definition revoke_effect :: "('s, 'w) etcd \<Rightarrow> int \<Rightarrow> 's \<Rightarrow> unit go \<Rightarrow> 's \<Rightarrow> bool" where
  "revoke_effect E i u r v \<longleftrightarrow> (case r of Panic p \<Rightarrow> False | _ \<Rightarrow>
     same E u v \<or> e_used E v = e_used E u \<and> e_rev E v = Suc (e_rev E u) \<and>
       e_db E v = (\<lambda>k. case e_db E u k of Some x \<Rightarrow> if ev_lease x = i then None else Some x | None \<Rightarrow> None))"

definition prefix_answer :: "('s, 'w) etcd \<Rightarrow> string \<Rightarrow> 's \<Rightarrow> (string \<times> 'w etcd_kv) list \<times> nat \<Rightarrow> bool" where
  "prefix_answer E p u x \<longleftrightarrow> snd x = e_rev E u \<and> distinct (map fst (fst x)) \<and>
     set (fst x) = {(k, v). e_db E u k = Some v \<and> prefix p k}"

definition etcd_laws ::
  "('s, 'w) etcd \<Rightarrow> (string \<Rightarrow> bool) \<Rightarrow> ((string \<Rightarrow> 'w etcd_kv option) \<Rightarrow> bool) \<Rightarrow> bool" where
  "etcd_laws E once K \<longleftrightarrow>
     (\<forall>k. atomic (etcd_ok E) (rely E once K) (c_Get E k) (read_effect E (\<lambda>u x. x = e_db E u k))) \<and>
     (\<forall>p. atomic (etcd_ok E) (rely E once K) (c_GetPrefix E p) (read_effect E (prefix_answer E p))) \<and>
     (\<forall>k c w l. atomic (etcd_ok E) (rely E once K) (c_Txn E k c w l) (txn_effect E k c w l)) \<and>
     (\<forall>k w l. atomic (etcd_ok E) (rely E once K) (c_Put E k w l) (put_call_effect E k w l)) \<and>
     (\<forall>k. atomic (etcd_ok E) (rely E once K) (c_Delete E k) (delete_call_effect E k)) \<and>
     (\<forall>i. atomic (etcd_ok E) (rely E once K) (c_Revoke E i) (revoke_effect E i)) \<and>
     (\<forall>n. atomic (etcd_ok E) (rely E once K) (c_Grant E n) (read_effect E (\<lambda>u x. True))) \<and>
     (\<forall>i. atomic (etcd_ok E) (rely E once K) (c_TimeToLive E i) (read_effect E (\<lambda>u x. True)))"

lemma etcd_lawsD:
  assumes "etcd_laws E once K"
  shows "atomic (etcd_ok E) (rely E once K) (c_Get E k) (read_effect E (\<lambda>u x. x = e_db E u k))"
    "atomic (etcd_ok E) (rely E once K) (c_GetPrefix E p) (read_effect E (prefix_answer E p))"
    "atomic (etcd_ok E) (rely E once K) (c_Txn E k c w l) (txn_effect E k c w l)"
    "atomic (etcd_ok E) (rely E once K) (c_Put E k w l) (put_call_effect E k w l)"
    "atomic (etcd_ok E) (rely E once K) (c_Delete E k) (delete_call_effect E k)"
    "atomic (etcd_ok E) (rely E once K) (c_Revoke E i) (revoke_effect E i)"
    "atomic (etcd_ok E) (rely E once K) (c_Grant E n) (read_effect E (\<lambda>u x. True))"
    "atomic (etcd_ok E) (rely E once K) (c_TimeToLive E i) (read_effect E (\<lambda>u x. True))"
  using assms unfolding etcd_laws_def by blast+

section \<open>A stand-alone server\<close>

text \<open>A server with no other clients and no faults, as a concrete instance of the parameter: its state is
  the view itself.\<close>

record 'w server =
  sv_db :: "string \<Rightarrow> 'w etcd_kv option"
  sv_rev :: nat
  sv_keys :: "string list"

definition sv_put :: "string \<Rightarrow> 'w \<Rightarrow> lease_opt \<Rightarrow> 'w server \<Rightarrow> 'w server" where
  "sv_put k w l s = s\<lparr> sv_rev := Suc (sv_rev s),
     sv_keys := (if k \<in> set (sv_keys s) then sv_keys s else sv_keys s @ [k]),
     sv_db := (sv_db s)(k \<mapsto> etcd_put l (Suc (sv_rev s)) w (sv_db s k)) \<rparr>"

definition no_room :: go_error where
  "no_room = ErrText ''etcdserver: mvcc: database space exceeded''"

definition guarded :: "('w server \<Rightarrow> 'a \<times> 'w server) \<Rightarrow> ('w server, 'a) prog" where
  "guarded f s = (if sv_rev s + 1 < 2 ^ 63 then (Ret (fst (f s)), snd (f s)) else (Fail no_room, s))"

definition solo :: "('w server, 'w) etcd" where
  "solo = \<lparr> e_db = sv_db, e_rev = sv_rev, e_used = (\<lambda>s. set (sv_keys s)),
     c_Get = (\<lambda>k s. (Ret (sv_db s k), s)),
     c_GetPrefix = (\<lambda>p s. (Ret (map (\<lambda>k. (k, the (sv_db s k)))
        (filter (\<lambda>k. prefix p k \<and> sv_db s k \<noteq> None) (remdups (sv_keys s))), sv_rev s), s)),
     c_Txn = (\<lambda>k c w l s. if cmp_holds c (sv_db s k)
        then guarded (\<lambda>s. ((True, Suc (sv_rev s)), sv_put k w l s)) s else (Ret (False, sv_rev s), s)),
     c_Put = (\<lambda>k w l. guarded (\<lambda>s. ((), sv_put k w l s))),
     c_Delete = (\<lambda>k. guarded (\<lambda>s. if sv_db s k = None then (0, s)
        else (1, s\<lparr> sv_db := (sv_db s)(k := None), sv_rev := Suc (sv_rev s) \<rparr>))),
     c_Grant = (\<lambda>n s. (Ret 7, s)),
     c_Revoke = (\<lambda>i. guarded (\<lambda>s. ((), s\<lparr>
        sv_db := (\<lambda>k. case sv_db s k of Some x \<Rightarrow> if ev_lease x = i then None else Some x | None \<Rightarrow> None),
        sv_rev := Suc (sv_rev s) \<rparr>))),
     c_TimeToLive = (\<lambda>i s. (Ret 60, s)) \<rparr>"

lemma solo_view [simp]: "e_db solo = sv_db" "e_rev solo = sv_rev" "e_used solo = (\<lambda>s. set (sv_keys s))"
  by (simp_all add: solo_def)

lemma solo_ops:
  "c_Get solo k s = (Ret (sv_db s k), s)"
  "c_Txn solo k c w l s = (if cmp_holds c (sv_db s k)
     then guarded (\<lambda>s. ((True, Suc (sv_rev s)), sv_put k w l s)) s else (Ret (False, sv_rev s), s))"
  "c_Put solo k w l s = guarded (\<lambda>s. ((), sv_put k w l s)) s"
  "c_Delete solo k s = guarded (\<lambda>s. if sv_db s k = None then (0, s)
     else (1, s\<lparr> sv_db := (sv_db s)(k := None), sv_rev := Suc (sv_rev s) \<rparr>)) s"
  "c_Revoke solo i s = guarded (\<lambda>s. ((), s\<lparr>
     sv_db := (\<lambda>k. case sv_db s k of Some x \<Rightarrow> if ev_lease x = i then None else Some x | None \<Rightarrow> None),
     sv_rev := Suc (sv_rev s) \<rparr>)) s"
  "c_Grant solo n s = (Ret 7, s)" "c_TimeToLive solo i s = (Ret 60, s)"
  "c_GetPrefix solo p s = (Ret (map (\<lambda>k. (k, the (sv_db s k)))
     (filter (\<lambda>k. prefix p k \<and> sv_db s k \<noteq> None) (remdups (sv_keys s))), sv_rev s), s)"
  by (simp_all add: solo_def)

lemma atomic_alone:
  assumes "\<And>s r t. I s \<Longrightarrow> m s = (r, t) \<Longrightarrow> Q s r t \<and> I t" and "\<And>s. I s \<Longrightarrow> R s s"
  shows "atomic I R m Q"
  using assms by (intro atomicI) blast

lemma foreign_no_room: "foreign no_room"
  by (simp add: foreign_def no_room_def)

lemma kv_ok_Suc: "kv_ok n v \<Longrightarrow> kv_ok (Suc n) v"
  by (simp add: kv_ok_def)

lemma kv_ok_put: "(\<And>v. old = Some v \<Longrightarrow> kv_ok n v) \<Longrightarrow> kv_ok (Suc n) (etcd_put l (Suc n) w old)"
  by (cases old) (fastforce simp: etcd_put_def kv_ok_def)+

lemma ok_put: "etcd_ok solo s \<Longrightarrow> Suc (sv_rev s) < 2 ^ 63 \<Longrightarrow> etcd_ok solo (sv_put k w l s)"
  by (auto simp: etcd_ok_def sv_put_def kv_ok_Suc kv_ok_put)

lemma did_put_solo: "did_put solo k w l s (sv_put k w l s)"
  by (auto simp: did_put_def sv_put_def)

lemma solo_Get: "atomic (etcd_ok solo) (rely solo once K) (c_Get solo k) (read_effect solo (\<lambda>u x. x = e_db solo u k))"
  by (rule atomic_alone [OF _ rely_refl]) (auto simp: solo_ops read_effect_def same_def)

lemma solo_GetPrefix: "atomic (etcd_ok solo) (rely solo once K) (c_GetPrefix solo p) (read_effect solo (prefix_answer solo p))"
proof (rule atomic_alone [OF _ rely_refl])
  fix s r t assume ok: "etcd_ok solo s" and run: "c_GetPrefix solo p s = (r, t)"
  let ?ks = "filter (\<lambda>k. prefix p k \<and> sv_db s k \<noteq> None) (remdups (sv_keys s))"
  have dom: "dom (sv_db s) \<subseteq> set (sv_keys s)" using ok by (simp add: etcd_ok_def)
  have "r = Ret (map (\<lambda>k. (k, the (sv_db s k))) ?ks, sv_rev s)" "t = s" using run by (auto simp: solo_ops)
  moreover have "prefix_answer solo p s (map (\<lambda>k. (k, the (sv_db s k))) ?ks, sv_rev s)"
    using dom unfolding prefix_answer_def by (force simp: comp_def image_iff)
  ultimately show "read_effect solo (prefix_answer solo p) s r t \<and> etcd_ok solo t"
    using ok by (simp add: read_effect_def same_def)
qed

lemma solo_Txn: "atomic (etcd_ok solo) (rely solo once K) (c_Txn solo k c w l) (txn_effect solo k c w l)"
proof (rule atomic_alone [OF _ rely_refl])
  fix s r t assume "etcd_ok solo s" and "c_Txn solo k c w l s = (r, t)"
  then show "txn_effect solo k c w l s r t \<and> etcd_ok solo t"
    using did_put_solo [of k w l s] ok_put [of s k w l] foreign_no_room
    by (auto simp: solo_ops guarded_def txn_effect_def same_def sv_put_def split: if_splits)
qed

lemma solo_Put: "atomic (etcd_ok solo) (rely solo once K) (c_Put solo k w l) (put_call_effect solo k w l)"
proof (rule atomic_alone [OF _ rely_refl])
  fix s r t assume "etcd_ok solo s" and "c_Put solo k w l s = (r, t)"
  then show "put_call_effect solo k w l s r t \<and> etcd_ok solo t"
    using did_put_solo [of k w l s] ok_put [of s k w l] foreign_no_room
    by (auto simp: solo_ops guarded_def put_call_effect_def same_def split: if_splits)
qed

lemma ok_shrink:
  assumes "etcd_ok solo s" and "\<And>k v. d k = Some v \<Longrightarrow> sv_db s k = Some v" and "Suc (sv_rev s) < 2 ^ 63"
  shows "etcd_ok solo (s\<lparr> sv_db := d, sv_rev := Suc (sv_rev s) \<rparr>)"
  using assms by (force simp: etcd_ok_def kv_ok_Suc dom_def)

lemma solo_Delete: "atomic (etcd_ok solo) (rely solo once K) (c_Delete solo k) (delete_call_effect solo k)"
proof (rule atomic_alone [OF _ rely_refl])
  fix s r t assume ok: "etcd_ok solo s" and run: "c_Delete solo k s = (r, t)"
  have "etcd_ok solo (s\<lparr> sv_db := (sv_db s)(k := None), sv_rev := Suc (sv_rev s) \<rparr>)" if "Suc (sv_rev s) < 2 ^ 63"
    by (rule ok_shrink [OF ok _ that]) (simp split: if_splits)
  then show "delete_call_effect solo k s r t \<and> etcd_ok solo t"
    using ok run foreign_no_room
    by (auto simp: solo_ops guarded_def delete_call_effect_def same_def did_delete_def fun_eq_iff split: if_splits)
qed

lemma solo_Revoke: "atomic (etcd_ok solo) (rely solo once K) (c_Revoke solo i) (revoke_effect solo i)"
proof (rule atomic_alone [OF _ rely_refl])
  fix s r t assume ok: "etcd_ok solo s" and run: "c_Revoke solo i s = (r, t)"
  let ?d = "\<lambda>k. case sv_db s k of Some x \<Rightarrow> if ev_lease x = i then None else Some x | None \<Rightarrow> None"
  have "etcd_ok solo (s\<lparr> sv_db := ?d, sv_rev := Suc (sv_rev s) \<rparr>)" if "Suc (sv_rev s) < 2 ^ 63"
    by (rule ok_shrink [OF ok _ that]) (auto split: option.splits if_splits)
  then show "revoke_effect solo i s r t \<and> etcd_ok solo t"
    using ok run by (auto simp: solo_ops guarded_def revoke_effect_def same_def split: if_splits)
qed

lemma solo_Grant: "atomic (etcd_ok solo) (rely solo once K) (c_Grant solo n) (read_effect solo (\<lambda>u x. True))"
  by (rule atomic_alone [OF _ rely_refl]) (auto simp: solo_ops read_effect_def same_def)

lemma solo_TimeToLive: "atomic (etcd_ok solo) (rely solo once K) (c_TimeToLive solo i) (read_effect solo (\<lambda>u x. True))"
  by (rule atomic_alone [OF _ rely_refl]) (auto simp: solo_ops read_effect_def same_def)

lemma solo_laws: "etcd_laws solo once K"
  unfolding etcd_laws_def
  by (intro conjI allI solo_Get solo_GetPrefix solo_Txn solo_Put solo_Delete solo_Revoke solo_Grant solo_TimeToLive)

end
