(* ===== verification/EtcdStore.thy ===== *)
theory EtcdStore
  imports Etcd_Client Tokens Keyring
begin

text \<open>
  \<^verbatim>\<open>pkg/storage/etcd\<close>: the etcd backend, one definition per operation. The client, protojson and
  \<^verbatim>\<open>retry.OnError\<close> are parameters, collected in the record of the store; stored values have any type
  \<open>'w\<close> that the codecs read and write. Wall clock, entropy and the SHA-256 digest are arguments.
\<close>

record 'w codecs =
  mar_cluster :: "Cluster \<Rightarrow> 'w go"
  unm_cluster :: "'w \<Rightarrow> Cluster go"
  mar_token :: "BootstrapToken \<Rightarrow> 'w go"
  unm_token :: "'w \<Rightarrow> BootstrapToken go"
  mar_role :: "Role \<Rightarrow> 'w go"
  unm_role :: "'w \<Rightarrow> Role go"
  mar_roleBinding :: "RoleBinding \<Rightarrow> 'w go"
  unm_roleBinding :: "'w \<Rightarrow> RoleBinding go"
  mar_keyring :: "completeKeyring \<Rightarrow> 'w go"
  unm_keyring :: "'w \<Rightarrow> completeKeyring go"
  of_text :: "string \<Rightarrow> 'w"
  to_text :: "'w \<Rightarrow> string"

type_synonym ('s, 'a) on_error = "nat \<Rightarrow> (go_error \<Rightarrow> bool) \<Rightarrow> ('s, 'a) prog \<Rightarrow> ('s, 'a) prog"

record ('s, 'w) EtcdStore =
  es_Prefix :: string
  es_Client :: "('s, 'w) etcd"
  es_PJ :: "'w codecs"
  es_OnErrorC :: "('s, Cluster) on_error"
  es_OnErrorT :: "('s, BootstrapToken) on_error"

section \<open>etcd.go\<close>

definition backoffSteps :: nat where
  "backoffSteps = 20"

definition isRetryErr :: "go_error \<Rightarrow> bool" where
  "isRetryErr err = errors_is err errRetry"

abbreviation "tokensKey \<equiv> ''tokens''"
abbreviation "clusterKey \<equiv> ''clusters''"
abbreviation "keyringKey \<equiv> ''keyrings''"
abbreviation "roleKey \<equiv> ''roles''"
abbreviation "roleBindingKey \<equiv> ''rolebindings''"

section \<open>cluster\_store.go\<close>

text \<open>Nanoseconds since the epoch, truncated to seconds.\<close>

definition truncate_second :: "time \<Rightarrow> time" where
  "truncate_second t = t - t mod 1000000000"

definition Etcd_CreateCluster :: "time \<Rightarrow> ('s, 'w) EtcdStore \<Rightarrow> Cluster \<Rightarrow> ('s, Cluster) prog" where
  "Etcd_CreateCluster now e cluster =
     (let cluster = cluster_SetCreationTimestamp (cluster_SetResourceVersion cluster '''') (truncate_second now) in
      bind (lift (go_err (mar_cluster (es_PJ e) cluster) (Wrap ''failed to marshal cluster''))) (\<lambda>data.
      let key = path_Join [es_Prefix e, clusterKey, cl_id cluster] in
      bind (map_err (Wrap ''failed to create cluster'') (c_Txn (es_Client e) key (CmpVersion 0) data NoLease))
        (\<lambda>resp. lift (if \<not> fst resp then Fail ErrAlreadyExists
           else Ret (cluster_SetResourceVersion cluster (show_nat (snd resp)))))))"

definition Etcd_DeleteCluster :: "('s, 'w) EtcdStore \<Rightarrow> Reference \<Rightarrow> ('s, unit) prog" where
  "Etcd_DeleteCluster e ref =
     bind (map_err (Wrap ''failed to delete cluster'')
        (c_Delete (es_Client e) (path_Join [es_Prefix e, clusterKey, ref_id ref])))
     (\<lambda>deleted. lift (if deleted = 0 then Fail ErrNotFound else Ret ()))"

definition decode_cluster :: "'w codecs \<Rightarrow> 'w etcd_kv \<Rightarrow> Cluster go" where
  "decode_cluster PJ kv =
     go_bind (go_err (unm_cluster PJ (ev_value kv)) (Wrap ''failed to unmarshal cluster''))
       (\<lambda>c. Ret (cluster_SetResourceVersion c (show_nat (ev_mod kv))))"

text \<open>The loop of \<^verbatim>\<open>ListClusters\<close>: the predicate looks at the cluster before its version is set.\<close>

fun collect_clusters :: "'w codecs \<Rightarrow> (Cluster \<Rightarrow> bool) \<Rightarrow> (string \<times> 'w etcd_kv) list \<Rightarrow> Cluster list go" where
  "collect_clusters PJ p [] = Ret []"
| "collect_clusters PJ p ((k, kv) # kvs) =
     go_bind (go_err (unm_cluster PJ (ev_value kv)) (Wrap ''failed to unmarshal cluster'')) (\<lambda>c.
     go_bind (collect_clusters PJ p kvs) (\<lambda>cs.
       Ret (if p c then cluster_SetResourceVersion c (show_nat (ev_mod kv)) # cs else cs)))"

definition Etcd_ListClusters ::
  "('s, 'w) EtcdStore \<Rightarrow> LabelSelector option \<Rightarrow> int \<Rightarrow> ('s, Cluster list) prog" where
  "Etcd_ListClusters e matchLabels matchOptions =
     bind (map_err (Wrap ''failed to list clusters'')
        (c_GetPrefix (es_Client e) (path_Join [es_Prefix e, clusterKey])))
     (\<lambda>resp. lift (collect_clusters (es_PJ e)
        (cluster_selected \<lparr> cs_clusterIDs = [], cs_labelSelector = matchLabels, cs_matchOptions = matchOptions \<rparr>)
        (fst resp)))"

definition Etcd_GetCluster :: "('s, 'w) EtcdStore \<Rightarrow> Reference \<Rightarrow> ('s, Cluster) prog" where
  "Etcd_GetCluster e ref =
     bind (map_err (Wrap ''failed to get cluster'')
        (c_Get (es_Client e) (path_Join [es_Prefix e, clusterKey, ref_id ref])))
     (\<lambda>resp. lift (case resp of None \<Rightarrow> Fail ErrNotFound | Some kv \<Rightarrow> decode_cluster (es_PJ e) kv))"

text \<open>One attempt of \<^verbatim>\<open>UpdateCluster\<close>, the function given to \<^verbatim>\<open>retry.OnError\<close>.\<close>

definition updateCluster_attempt ::
  "('s, 'w) EtcdStore \<Rightarrow> Reference \<Rightarrow> Cluster MutatorFunc \<Rightarrow> ('s, Cluster) prog" where
  "updateCluster_attempt e ref mutator =
     (let key = path_Join [es_Prefix e, clusterKey, ref_id ref] in
      bind (map_err (Wrap ''failed to get cluster'') (Etcd_GetCluster e ref)) (\<lambda>cluster.
      case ParseInt (cluster_GetResourceVersion cluster) of
        None \<Rightarrow> throw (ErrText ''internal error: cluster has invalid resource version'')
      | Some revision \<Rightarrow>
          bind (lift (mutator cluster)) (\<lambda>cluster.
          let cluster = cluster_SetResourceVersion cluster '''' in
          bind (lift (go_err (mar_cluster (es_PJ e) cluster) (Wrap ''failed to marshal cluster''))) (\<lambda>data.
          bind (c_Txn (es_Client e) key (CmpModRevision (nat revision)) data NoLease) (\<lambda>txnResp.
          lift (if \<not> fst txnResp then Fail errRetry
                else Ret (cluster_SetResourceVersion cluster (show_nat (snd txnResp)))))))))"

definition Etcd_UpdateCluster ::
  "('s, 'w) EtcdStore \<Rightarrow> Reference \<Rightarrow> Cluster MutatorFunc \<Rightarrow> ('s, Cluster) prog" where
  "Etcd_UpdateCluster e ref mutator =
     es_OnErrorC e backoffSteps isRetryErr (updateCluster_attempt e ref mutator)"

section \<open>Watching clusters\<close>

text \<open>An event as the client delivers it, with the answers of its methods \<^verbatim>\<open>IsCreate\<close> and \<^verbatim>\<open>IsModify\<close>. The
  body of the loop over events answers the event it sends, if any.\<close>

datatype ev_type = EV_PUT | EV_DELETE | EV_OTHER

record 'w etcd_event =
  ee_Type :: ev_type
  ee_Kv :: "'w etcd_kv"
  ee_PrevKv :: "'w etcd_kv option"
  ee_IsCreate :: bool
  ee_IsModify :: bool

definition previous_cluster :: "'w codecs \<Rightarrow> 'w etcd_kv option \<Rightarrow> Cluster go" where
  "previous_cluster PJ prev = (case prev of None \<Rightarrow> Panic ''nil pointer dereference''
     | Some kv \<Rightarrow> decode_cluster PJ kv)"

definition watchCluster_event :: "'w codecs \<Rightarrow> 'w etcd_event \<Rightarrow> Cluster WatchEvent option go" where
  "watchCluster_event PJ ev = (case ee_Type ev of EV_OTHER \<Rightarrow> Ret None | ty \<Rightarrow>
     (let eventType = (if ty = EV_DELETE then WatchEventDelete else WatchEventUpdate);
          current = (if ev_version (ee_Kv ev) = 0 then Ret None
                     else go_bind (decode_cluster PJ (ee_Kv ev)) (\<lambda>c. Ret (Some c)))
      in case current of Fail err \<Rightarrow> Ret None | Panic p \<Rightarrow> Panic p
       | Ret cur \<Rightarrow> (case previous_cluster PJ (ee_PrevKv ev) of
            Fail err \<Rightarrow> Ret None | Panic p \<Rightarrow> Panic p
          | Ret prev \<Rightarrow> Ret (Some \<lparr> we_EventType = eventType, we_Current = cur, we_Previous = Some prev \<rparr>))))"

definition watchClusters_event :: "'w codecs \<Rightarrow> 'w etcd_event \<Rightarrow> Cluster WatchEvent option go" where
  "watchClusters_event PJ ev =
     (if ee_IsCreate ev then
        (case unm_cluster PJ (ev_value (ee_Kv ev)) of Fail err \<Rightarrow> Ret None | Panic p \<Rightarrow> Panic p
         | Ret c \<Rightarrow> Ret (Some \<lparr> we_EventType = WatchEventCreate,
             we_Current = Some (cluster_SetResourceVersion c (show_nat (ev_create (ee_Kv ev)))), we_Previous = None \<rparr>))
      else if ee_IsModify ev then
        (case decode_cluster PJ (ee_Kv ev) of Fail err \<Rightarrow> Ret None | Panic p \<Rightarrow> Panic p
         | Ret cur \<Rightarrow> (case previous_cluster PJ (ee_PrevKv ev) of Fail err \<Rightarrow> Ret None | Panic p \<Rightarrow> Panic p
            | Ret prev \<Rightarrow> Ret (Some \<lparr> we_EventType = WatchEventUpdate, we_Current = Some cur, we_Previous = Some prev \<rparr>)))
      else
        (case previous_cluster PJ (ee_PrevKv ev) of Fail err \<Rightarrow> Ret None | Panic p \<Rightarrow> Panic p
         | Ret prev \<Rightarrow> Ret (Some \<lparr>
             we_EventType = (if ee_Type ev = EV_DELETE then WatchEventDelete else WatchEventUnset),
             we_Current = None, we_Previous = Some prev \<rparr>)))"

fun initial_events ::
  "'w codecs \<Rightarrow> Cluster gomap \<Rightarrow> (string \<times> 'w etcd_kv) list \<Rightarrow> Cluster WatchEvent list go" where
  "initial_events PJ known [] = Ret []"
| "initial_events PJ known ((k, kv) # kvs) =
     go_bind (decode_cluster PJ kv) (\<lambda>c. go_bind (initial_events PJ known kvs) (\<lambda>evs.
       Ret (case lookup known (cl_id c) of
           None \<Rightarrow> \<lparr> we_EventType = WatchEventCreate, we_Current = Some c, we_Previous = None \<rparr> # evs
         | Some kc \<Rightarrow> if cluster_GetResourceVersion kc \<noteq> cluster_GetResourceVersion c
             then \<lparr> we_EventType = WatchEventUpdate, we_Current = Some c, we_Previous = Some kc \<rparr> # evs else evs)))"

text \<open>The doubling loop for the size of the event channel.\<close>

function grow_buffer :: "nat \<Rightarrow> nat \<Rightarrow> nat" where
  "grow_buffer n bufSize = (if bufSize = 0 then 0 else if n > bufSize then grow_buffer n (bufSize * 2) else bufSize)"
  by pat_completeness auto
termination by (relation "measure (\<lambda>(n, b). n - b)") auto

declare grow_buffer.simps [simp del]

definition known_map :: "Cluster list \<Rightarrow> Cluster gomap" where
  "known_map known = fold (\<lambda>c m. AList.update (cl_id c) c m) known []"

text \<open>\<^verbatim>\<open>WatchClusters\<close> up to the start of its goroutine: the events sent at once, the buffer they are sent
  into, and the revision the watch starts from.\<close>

definition Etcd_WatchClusters ::
  "('s, 'w) EtcdStore \<Rightarrow> Cluster list \<Rightarrow> ('s, Cluster WatchEvent list \<times> nat \<times> nat) prog" where
  "Etcd_WatchClusters e knownClusters =
     bind (map_err (Wrap ''failed to list clusters'')
        (c_GetPrefix (es_Client e) (path_Join [es_Prefix e, clusterKey])))
     (\<lambda>resp. lift (go_bind (initial_events (es_PJ e) (known_map knownClusters) (fst resp)) (\<lambda>evs.
        Ret (evs, grow_buffer (length evs) 100, snd resp + 1))))"

section \<open>token\_store.go\<close>

text \<open>\<^verbatim>\<open>int64(ttl.Seconds())\<close>: whole seconds, towards zero.\<close>

definition ttl_seconds :: "int \<Rightarrow> int" where
  "ttl_seconds ttl = (if ttl < 0 then - ((- ttl) div 1000000000) else ttl div 1000000000)"

definition Etcd_CreateToken ::
  "(string \<Rightarrow> string) \<Rightarrow> string \<Rightarrow> ('s, 'w) EtcdStore \<Rightarrow> int \<Rightarrow> TokenCreateOption list \<Rightarrow> ('s, BootstrapToken) prog" where
  "Etcd_CreateToken sha256 entropy e ttl opts =
     (let options = Apply opts NewTokenCreateOptions in
      bind (map_err (Wrap ''failed to create lease'') (c_Grant (es_Client e) (ttl_seconds ttl))) (\<lambda>lease.
      let meta = \<lparr> bm_leaseID = lease, bm_ttl = 0, bm_usageCount = 0, bm_labels = tco_Labels options,
            bm_capabilities = tco_Capabilities options, bm_resourceVersion = '''' \<rparr>;
          token = (ToBootstrapToken (NewToken sha256 entropy))\<lparr> bt_metadata := Some meta \<rparr> in
      bind (lift (go_err (mar_token (es_PJ e) token) (Wrap ''failed to marshal token''))) (\<lambda>data.
      bind (map_err (Wrap ''failed to create token'')
        (c_Put (es_Client e) (path_Join [es_Prefix e, tokensKey, bt_tokenID token]) data (WithLease lease))) (\<lambda>_.
      return (token_SetResourceVersion (token\<lparr> bt_metadata := Some (meta\<lparr> bm_ttl := ttl_seconds ttl \<rparr>) \<rparr>) ''1'')))))"

definition addLeaseMetadata :: "('s, 'w) EtcdStore \<Rightarrow> BootstrapToken \<Rightarrow> int \<Rightarrow> ('s, BootstrapToken) prog" where
  "addLeaseMetadata e token lease =
     (if lease \<noteq> 0 then
        (case bt_metadata token of None \<Rightarrow> panic ''nil Metadata''
         | Some m \<Rightarrow>
             bind (map_err (Wrap ''failed to get lease'') (c_TimeToLive (es_Client e) lease)) (\<lambda>ttl.
             return (token\<lparr> bt_metadata := Some (m\<lparr> bm_leaseID := lease, bm_ttl := ttl \<rparr>) \<rparr>)))
      else return token)"

definition getToken :: "('s, 'w) EtcdStore \<Rightarrow> Reference \<Rightarrow> ('s, BootstrapToken \<times> nat) prog" where
  "getToken e ref =
     bind (map_err (Wrap ''failed to get token'')
        (c_Get (es_Client e) (path_Join [es_Prefix e, tokensKey, ref_id ref]))) (\<lambda>resp.
     case resp of None \<Rightarrow> throw ErrNotFound
     | Some kv \<Rightarrow>
         bind (lift (go_err (unm_token (es_PJ e) (ev_value kv)) (Wrap ''failed to unmarshal token''))) (\<lambda>token.
         bind (addLeaseMetadata e token (ev_lease kv)) (\<lambda>token.
         return (token, ev_version kv))))"

definition Etcd_GetToken :: "('s, 'w) EtcdStore \<Rightarrow> Reference \<Rightarrow> ('s, BootstrapToken) prog" where
  "Etcd_GetToken e ref = bind (getToken e ref) (\<lambda>(t, v). return t)"

text \<open>The deferred revocation runs after the deletion, whatever it answered, and its error is logged.\<close>

definition Etcd_DeleteToken :: "('s, 'w) EtcdStore \<Rightarrow> Reference \<Rightarrow> ('s, unit) prog" where
  "Etcd_DeleteToken e ref =
     bind (Etcd_GetToken e ref) (\<lambda>t.
     case bt_metadata t of None \<Rightarrow> panic ''nil Metadata''
     | Some m \<Rightarrow>
         (let body = bind (map_err (Wrap ''failed to delete token'')
                (c_Delete (es_Client e) (path_Join [es_Prefix e, tokensKey, ref_id ref])))
                (\<lambda>deleted. lift (if deleted = 0 then Fail ErrNotFound else Ret ()))
          in if bm_leaseID m \<noteq> 0
             then (\<lambda>s. let (r, t) = body s in (r, snd (c_Revoke (es_Client e) (bm_leaseID m) t)))
             else body))"

fun collect_tokens :: "('s, 'w) EtcdStore \<Rightarrow> (string \<times> 'w etcd_kv) list \<Rightarrow> ('s, BootstrapToken list) prog" where
  "collect_tokens e [] = return []"
| "collect_tokens e ((k, kv) # kvs) =
     bind (lift (go_err (unm_token (es_PJ e) (ev_value kv)) (Wrap ''failed to unmarshal token''))) (\<lambda>token.
     bind (addLeaseMetadata e token (ev_lease kv)) (\<lambda>token.
     bind (collect_tokens e kvs) (\<lambda>ts. return (token # ts))))"

definition Etcd_ListTokens :: "('s, 'w) EtcdStore \<Rightarrow> ('s, BootstrapToken list) prog" where
  "Etcd_ListTokens e =
     bind (map_err (Wrap ''failed to list tokens'') (c_GetPrefix (es_Client e) (path_Join [es_Prefix e, tokensKey])))
     (\<lambda>resp. collect_tokens e (fst resp))"

definition updateToken_attempt ::
  "('s, 'w) EtcdStore \<Rightarrow> Reference \<Rightarrow> BootstrapToken MutatorFunc \<Rightarrow> ('s, BootstrapToken) prog" where
  "updateToken_attempt e ref mutator =
     (let key = path_Join [es_Prefix e, tokensKey, ref_id ref] in
      bind (getToken e ref) (\<lambda>(token, version).
      bind (lift (mutator token)) (\<lambda>token.
      bind (lift (go_err (mar_token (es_PJ e) token) (Wrap ''failed to marshal token''))) (\<lambda>data.
      bind (c_Txn (es_Client e) key (CmpVersion version) data IgnoreLease) (\<lambda>txnResp.
      lift (if \<not> fst txnResp then Fail errRetry else Ret token))))))"

definition Etcd_UpdateToken ::
  "('s, 'w) EtcdStore \<Rightarrow> Reference \<Rightarrow> BootstrapToken MutatorFunc \<Rightarrow> ('s, BootstrapToken) prog" where
  "Etcd_UpdateToken e ref mutator =
     es_OnErrorT e backoffSteps isRetryErr (updateToken_attempt e ref mutator)"

section \<open>rbac\_store.go\<close>

definition Etcd_CreateRole :: "('s, 'w) EtcdStore \<Rightarrow> Role \<Rightarrow> ('s, unit) prog" where
  "Etcd_CreateRole e role =
     bind (lift (go_err (mar_role (es_PJ e) role) (Wrap ''failed to marshal role''))) (\<lambda>data.
     bind (map_err (Wrap ''failed to create role'')
        (c_Txn (es_Client e) (path_Join [es_Prefix e, roleKey, role_id role]) (CmpVersion 0) data NoLease))
     (\<lambda>resp. lift (if \<not> fst resp then Fail ErrAlreadyExists else Ret ())))"

definition Etcd_DeleteRole :: "('s, 'w) EtcdStore \<Rightarrow> Reference \<Rightarrow> ('s, unit) prog" where
  "Etcd_DeleteRole e ref =
     bind (map_err (Wrap ''failed to delete role'')
        (c_Delete (es_Client e) (path_Join [es_Prefix e, roleKey, ref_id ref])))
     (\<lambda>deleted. lift (if deleted = 0 then Fail ErrNotFound else Ret ()))"

definition Etcd_GetRole :: "('s, 'w) EtcdStore \<Rightarrow> Reference \<Rightarrow> ('s, Role) prog" where
  "Etcd_GetRole e ref =
     bind (map_err (Wrap ''failed to get role'')
        (c_Get (es_Client e) (path_Join [es_Prefix e, roleKey, ref_id ref])))
     (\<lambda>resp. lift (case resp of None \<Rightarrow> Fail ErrNotFound
        | Some kv \<Rightarrow> go_err (unm_role (es_PJ e) (ev_value kv)) (Wrap ''failed to unmarshal role'')))"

definition Etcd_CreateRoleBinding :: "('s, 'w) EtcdStore \<Rightarrow> RoleBinding \<Rightarrow> ('s, unit) prog" where
  "Etcd_CreateRoleBinding e rb =
     bind (lift (go_err (mar_roleBinding (es_PJ e) rb) (Wrap ''failed to marshal role binding''))) (\<lambda>data.
     bind (map_err (Wrap ''failed to create role binding'')
        (c_Txn (es_Client e) (path_Join [es_Prefix e, roleBindingKey, rb_id rb]) (CmpVersion 0) data NoLease))
     (\<lambda>resp. lift (if \<not> fst resp then Fail ErrAlreadyExists else Ret ())))"

definition Etcd_DeleteRoleBinding :: "('s, 'w) EtcdStore \<Rightarrow> Reference \<Rightarrow> ('s, unit) prog" where
  "Etcd_DeleteRoleBinding e ref =
     bind (map_err (Wrap ''failed to delete role binding'')
        (c_Delete (es_Client e) (path_Join [es_Prefix e, roleBindingKey, ref_id ref])))
     (\<lambda>deleted. lift (if deleted = 0 then Fail ErrNotFound else Ret ()))"

definition Etcd_GetRoleBinding :: "('s, 'w) EtcdStore \<Rightarrow> Reference \<Rightarrow> ('s, RoleBinding) prog" where
  "Etcd_GetRoleBinding e ref =
     bind (bind (map_err (Wrap ''failed to get role binding'')
        (c_Get (es_Client e) (path_Join [es_Prefix e, roleBindingKey, ref_id ref])))
     (\<lambda>resp. lift (case resp of None \<Rightarrow> Fail ErrNotFound
        | Some kv \<Rightarrow> go_err (unm_roleBinding (es_PJ e) (ev_value kv)) (Wrap ''failed to unmarshal role binding''))))
     (ApplyRoleBindingTaints (Etcd_GetRole e))"

definition Etcd_ListRoles :: "('s, 'w) EtcdStore \<Rightarrow> ('s, Role list) prog" where
  "Etcd_ListRoles e =
     bind (map_err (Wrap ''failed to list roles'') (c_GetPrefix (es_Client e) (path_Join [es_Prefix e, roleKey])))
     (\<lambda>resp. lift (go_map (\<lambda>(k, kv). go_err (unm_role (es_PJ e) (ev_value kv)) (Wrap ''failed to unmarshal role''))
        (fst resp)))"

fun collect_roleBindings :: "('s, 'w) EtcdStore \<Rightarrow> (string \<times> 'w etcd_kv) list \<Rightarrow> ('s, RoleBinding list) prog" where
  "collect_roleBindings e [] = return []"
| "collect_roleBindings e ((k, kv) # kvs) =
     bind (lift (go_err (unm_roleBinding (es_PJ e) (ev_value kv)) (Wrap ''failed to decode role binding''))) (\<lambda>rb.
     bind (ApplyRoleBindingTaints (Etcd_GetRole e) rb) (\<lambda>rb.
     bind (collect_roleBindings e kvs) (\<lambda>rbs. return (rb # rbs))))"

definition Etcd_ListRoleBindings :: "('s, 'w) EtcdStore \<Rightarrow> ('s, RoleBinding list) prog" where
  "Etcd_ListRoleBindings e =
     bind (map_err (Wrap ''failed to list role bindings'')
        (c_GetPrefix (es_Client e) (path_Join [es_Prefix e, roleBindingKey])))
     (\<lambda>resp. collect_roleBindings e (fst resp))"

section \<open>keyring\_store.go and kv\_store.go\<close>

definition store_prefix :: "('s, 'w) EtcdStore \<Rightarrow> string \<Rightarrow> string" where
  "store_prefix e pfx = (if pfx \<noteq> '''' then pfx else es_Prefix e)"

definition Etcd_KeyringStore :: "('s, 'w) EtcdStore \<Rightarrow> string \<Rightarrow> Reference \<Rightarrow> ('s, keyring) KeyringStore" where
  "Etcd_KeyringStore e pfx ref = (let key = path_Join [store_prefix e pfx, keyringKey, ref_id ref] in \<lparr>
     keyring_Put = (\<lambda>kr.
       bind (lift (go_err (keyring_Marshal (mar_keyring (es_PJ e)) kr) (Wrap ''failed to marshal keyring''))) (\<lambda>k.
       map_err (Wrap ''failed to put keyring'') (c_Put (es_Client e) key k NoLease))),
     keyring_Get =
       bind (map_err (Wrap ''failed to get keyring'') (c_Get (es_Client e) key))
       (\<lambda>resp. lift (case resp of None \<Rightarrow> Fail ErrNotFound
          | Some kv \<Rightarrow> go_err (keyring_Unmarshal (unm_keyring (es_PJ e)) (ev_value kv)) (Wrap ''failed to unmarshal keyring''))),
     keyring_Delete =
       bind (map_err (Wrap ''failed to delete keyring'') (c_Delete (es_Client e) key))
       (\<lambda>deleted. lift (if deleted = 0 then Fail ErrNotFound else Ret ())) \<rparr>)"

definition validateKey :: "string \<Rightarrow> unit go" where
  "validateKey key = (if key = '''' then Fail (ErrText ''key cannot be empty'') else Ret ())"

definition Etcd_KeyValueStore :: "('s, 'w) EtcdStore \<Rightarrow> string \<Rightarrow> ('s, string) KeyValueStoreT" where
  "Etcd_KeyValueStore e pfx = (let pre = path_Join [store_prefix e pfx, ''kv''] in \<lparr>
     kv_Put = (\<lambda>key value. bind (lift (validateKey key)) (\<lambda>_.
       c_Put (es_Client e) (path_Join [pre, key]) (of_text (es_PJ e) (Std_EncodeToString value)) NoLease)),
     kv_Get = (\<lambda>key. bind (lift (validateKey key)) (\<lambda>_.
       bind (c_Get (es_Client e) (path_Join [pre, key])) (\<lambda>resp. lift (case resp of None \<Rightarrow> Fail ErrNotFound
         | Some kv \<Rightarrow> (case Std_DecodeString (to_text (es_PJ e) (ev_value kv)) of
              None \<Rightarrow> Fail (ErrText ''illegal base64 data'') | Some v \<Rightarrow> Ret v))))),
     kv_Delete = (\<lambda>key. bind (lift (validateKey key)) (\<lambda>_.
       bind (c_Delete (es_Client e) (path_Join [pre, key]))
         (\<lambda>deleted. lift (if deleted = 0 then Fail ErrNotFound else Ret ())))),
     kv_ListKeys = (\<lambda>p. bind (c_GetPrefix (es_Client e) (path_Join [pre, p]))
       (\<lambda>resp. lift (Ret (map (\<lambda>(k, kv). TrimPrefix k (pre @ ''/'')) (fst resp))))) \<rparr>)"

section \<open>The backend\<close>

definition Etcd_TokenStore :: "(string \<Rightarrow> string) \<Rightarrow> string \<Rightarrow> ('s, 'w) EtcdStore \<Rightarrow> 's TokenStore" where
  "Etcd_TokenStore sha256 entropy e = \<lparr> CreateToken = Etcd_CreateToken sha256 entropy e,
     DeleteToken = Etcd_DeleteToken e, GetToken = Etcd_GetToken e, UpdateToken = Etcd_UpdateToken e,
     ListTokens = Etcd_ListTokens e \<rparr>"

definition Etcd_ClusterStore :: "time \<Rightarrow> ('s, 'w) EtcdStore \<Rightarrow> 's ClusterStore" where
  "Etcd_ClusterStore now e = \<lparr> CreateCluster = Etcd_CreateCluster now e, DeleteCluster = Etcd_DeleteCluster e,
     GetCluster = Etcd_GetCluster e, UpdateCluster = Etcd_UpdateCluster e, ListClusters = Etcd_ListClusters e \<rparr>"

definition Etcd_RBACStore :: "('s, 'w) EtcdStore \<Rightarrow> 's RBACStore" where
  "Etcd_RBACStore e = \<lparr> CreateRole = Etcd_CreateRole e, DeleteRole = Etcd_DeleteRole e, GetRole = Etcd_GetRole e,
     CreateRoleBinding = Etcd_CreateRoleBinding e, DeleteRoleBinding = Etcd_DeleteRoleBinding e,
     GetRoleBinding = Etcd_GetRoleBinding e, ListRoles = Etcd_ListRoles e, ListRoleBindings = Etcd_ListRoleBindings e \<rparr>"

definition EtcdBackend ::
  "(string \<Rightarrow> string) \<Rightarrow> string \<Rightarrow> time \<Rightarrow> ('s, 'w) EtcdStore \<Rightarrow> ('s, keyring) Backend" where
  "EtcdBackend sha256 entropy now e = \<lparr> b_tokens = Etcd_TokenStore sha256 entropy e,
     b_clusters = Etcd_ClusterStore now e, b_rbac = Etcd_RBACStore e, b_keyrings = Etcd_KeyringStore e,
     b_kv = Etcd_KeyValueStore e \<rparr>"

end
