(* ===== verification/EtcdContract.thy ===== *)
theory EtcdContract
  imports EtcdStore
begin

text \<open>
  The etcd backend fulfils the storage contracts. The abstraction reads an object from the key space
  through the codecs; the invariant \<open>etcd_wf\<close> says that what is stored under a kind's directory decodes
  to an object of that kind whose id is the last segment of its key, which every instance of the
  program maintains. \<open>etcd_I\<close> and \<open>etcd_R\<close> collect the hypotheses on the parameters.
\<close>

section \<open>Keys\<close>

lemma kind_base:
  obtains B where "B = [] \<or> last B = slash" "\<And>k. plain k \<Longrightarrow> path_Join [p, k] = B @ k"
proof -
  let ?segs = "prefix_segs p"
  let ?B = "(if rooted p then [slash] else []) @ (if ?segs = [] then [] else join [slash] ?segs @ [slash])"
  have "path_Join [p, k] = ?B @ k" if "plain k" for k
    using join_append [of ?segs "[k]" "[slash]"] by (auto simp: path_Join_kind [OF that] key_of_def)
  then show thesis by (intro that [of ?B]) auto
qed

lemma plain_kinds: "plain ''tokens''" "plain ''clusters''" "plain ''keyrings''" "plain ''roles''" "plain ''rolebindings''"
  by (simp_all add: plain_def)

lemma first_segment:
  "x @ c # a = y @ c # b \<Longrightarrow> c \<notin> set x \<Longrightarrow> c \<notin> set y \<Longrightarrow> x = y \<and> a = b"
proof (induction x arbitrary: y)
  case Nil
  then show ?case by (cases y) auto
next
  case (Cons z x)
  then show ?case by (cases y) auto
qed

lemma last_segment:
  assumes "a @ slash # x = b @ slash # y" and "slash \<notin> set x" and "slash \<notin> set y"
  shows "a = b \<and> x = y"
proof -
  have "rev x @ slash # rev a = rev y @ slash # rev b" using arg_cong [OF assms(1), of rev] by simp
  from first_segment [OF this] assms(2,3) show ?thesis by simp
qed

lemma takeWhile_seg: "slash \<notin> set k \<Longrightarrow> takeWhile (\<lambda>c. c \<noteq> slash) (k @ slash # r) = k"
  by (induction k) auto

lemma takeWhile_all_seg: "slash \<notin> set k \<Longrightarrow> takeWhile (\<lambda>c. c \<noteq> slash) k = k"
  by (induction k) auto

lemma seg_of_base:
  assumes "B = [] \<or> last B = slash" and "slash \<notin> set k"
  shows "takeWhile (\<lambda>c. c \<noteq> slash) (rev (B @ k)) = rev k"
proof (cases B rule: rev_cases)
  case Nil
  with assms(2) show ?thesis by (simp add: takeWhile_all_seg)
next
  case (snoc B' c)
  with assms takeWhile_seg [of "rev k" "rev B'"] show ?thesis by simp
qed

lemma base_segment:
  assumes "B @ k = C @ l" and "B = [] \<or> last B = slash" and "C = [] \<or> last C = slash"
    and "slash \<notin> set k" and "slash \<notin> set l"
  shows "k = l"
  using seg_of_base [OF assms(2,4)] seg_of_base [OF assms(3,5)] assms(1) by (metis rev_rev_ident)

text \<open>Two keys agree only if their kinds and ids do, whatever their prefixes.\<close>

lemma path_Join_last2:
  assumes "plain k" "plain x" "plain l" "plain y" and "path_Join [p, k, x] = path_Join [q, l, y]"
  shows "k = l \<and> x = y"
proof -
  obtain B where B: "B = [] \<or> last B = slash" "\<And>k. plain k \<Longrightarrow> path_Join [p, k] = B @ k"
    by (rule kind_base [of p]) blast
  obtain C where C: "C = [] \<or> last C = slash" "\<And>k. plain k \<Longrightarrow> path_Join [q, k] = C @ k"
    by (rule kind_base [of q]) blast
  have free: "slash \<notin> set k" "slash \<notin> set l" "slash \<notin> set x" "slash \<notin> set y" using assms by (simp_all add: plain_def)
  have "(B @ k) @ slash # x = (C @ l) @ slash # y"
    using assms by (simp add: path_Join_snoc B C)
  from last_segment [OF this free(3,4)] base_segment [OF _ B(1) C(1) free(1,2)] show ?thesis by blast
qed

text \<open>A key of one kind is not in the directory of another, unless its name begins with the other's.\<close>

lemma dir_prefix:
  assumes "plain k" "plain l" "plain y" and "prefix (path_Join [p, k]) (path_Join [p, l, y])"
  shows "prefix k l"
proof -
  obtain B where B: "\<And>k. plain k \<Longrightarrow> path_Join [p, k] = B @ k" by (rule kind_base [of p]) blast
  have pre: "prefix k (l @ slash # y)" using assms by (simp add: path_Join_snoc B)
  obtain z where z: "l @ slash # y = k @ z" using pre by (auto simp: prefix_def)
  have "slash \<notin> set k" using assms(1) by (simp add: plain_def)
  with z have "\<exists>w. l = k @ w"
  proof (induction l arbitrary: k)
    case Nil
    then show ?case by (cases k) auto
  next
    case (Cons a l)
    then show ?case by (cases k) auto
  qed
  then show ?thesis by (auto simp: prefix_def)
qed

section \<open>Abstraction and invariant\<close>

text \<open>What is kept of a keyring: its persistent keys by type, or nothing when the value cannot be read.\<close>

type_synonym ring = "(ktype \<Rightarrow> key list) option"

definition ring_of :: "keyring \<Rightarrow> ring" where
  "ring_of kr = Some (\<lambda>t. if t = TEphemeral then [] else keys_of kr t)"

definition okey_path :: "('s, 'w) EtcdStore \<Rightarrow> string \<Rightarrow> okey \<Rightarrow> string" where
  "okey_path e ns ki = (case fst ki of
     KToken \<Rightarrow> path_Join [es_Prefix e, tokensKey, snd ki]
   | KCluster \<Rightarrow> path_Join [es_Prefix e, clusterKey, snd ki]
   | KRole \<Rightarrow> path_Join [es_Prefix e, roleKey, snd ki]
   | KRoleBinding \<Rightarrow> path_Join [es_Prefix e, roleBindingKey, snd ki]
   | KKeyring n \<Rightarrow> path_Join [store_prefix e ns, keyringKey, snd ki])"

definition go_option :: "'a go \<Rightarrow> 'a option" where
  "go_option r = (case r of Ret x \<Rightarrow> Some x | _ \<Rightarrow> None)"

definition obj_of :: "'w codecs \<Rightarrow> kind \<Rightarrow> 'w etcd_kv \<Rightarrow> ring stored option" where
  "obj_of PJ k kv = (case k of
     KToken \<Rightarrow> map_option (SToken \<circ> forget_lease) (go_option (unm_token PJ (ev_value kv)))
   | KCluster \<Rightarrow> map_option SCluster (go_option (decode_cluster PJ kv))
   | KRole \<Rightarrow> map_option SRole (go_option (unm_role PJ (ev_value kv)))
   | KRoleBinding \<Rightarrow> map_option SRoleBinding (go_option (unm_roleBinding PJ (ev_value kv)))
   | KKeyring n \<Rightarrow> Some (SKeyring (Option.bind (go_option (keyring_Unmarshal (unm_keyring PJ) (ev_value kv))) ring_of)))"

text \<open>Only the objects with valid ids, and the keyrings of the one namespace, are observed.\<close>

definition observed :: "string \<Rightarrow> okey \<Rightarrow> bool" where
  "observed ns ki \<longleftrightarrow> ValidateID (snd ki) = Ret () \<and> (\<forall>n. fst ki = KKeyring n \<longrightarrow> n = ns)"

definition etcd_abs :: "('s, 'w) EtcdStore \<Rightarrow> string \<Rightarrow> 's \<Rightarrow> okey \<Rightarrow> ring stored option" where
  "etcd_abs e ns s ki = (if observed ns ki
     then Option.bind (e_db (es_Client e) s (okey_path e ns ki)) (obj_of (es_PJ e) (fst ki)) else None)"

text \<open>The directories whose contents are listed, and what is well-formed in them.\<close>

definition dir_of :: "kind \<Rightarrow> string" where
  "dir_of k = (case k of KToken \<Rightarrow> tokensKey | KCluster \<Rightarrow> clusterKey | KRole \<Rightarrow> roleKey
     | KRoleBinding \<Rightarrow> roleBindingKey | KKeyring n \<Rightarrow> keyringKey)"

definition listed :: "kind \<Rightarrow> bool" where
  "listed k \<longleftrightarrow> (\<forall>n. k \<noteq> KKeyring n)"

definition well_typed :: "'w codecs \<Rightarrow> kind \<Rightarrow> string \<Rightarrow> 'w etcd_kv \<Rightarrow> bool" where
  "well_typed PJ k i kv = (case k of
     KToken \<Rightarrow> (\<exists>t. unm_token PJ (ev_value kv) = Ret t \<and> bt_tokenID t = i \<and> bt_metadata t \<noteq> None)
   | KCluster \<Rightarrow> (\<exists>c. unm_cluster PJ (ev_value kv) = Ret c \<and> cl_id c = i)
   | KRole \<Rightarrow> (\<exists>r. unm_role PJ (ev_value kv) = Ret r \<and> role_id r = i)
   | KRoleBinding \<Rightarrow> (\<exists>rb. unm_roleBinding PJ (ev_value kv) = Ret rb \<and> rb_id rb = i)
   | KKeyring n \<Rightarrow> True)"

definition etcd_wf :: "('s, 'w) EtcdStore \<Rightarrow> (string \<Rightarrow> 'w etcd_kv option) \<Rightarrow> bool" where
  "etcd_wf e db \<longleftrightarrow> (\<forall>k p kv. listed k \<longrightarrow> db p = Some kv \<longrightarrow> prefix (path_Join [es_Prefix e, dir_of k]) p \<longrightarrow>
     (\<exists>i. ValidateID i = Ret () \<and> p = path_Join [es_Prefix e, dir_of k, i] \<and> well_typed (es_PJ e) k i kv))"

text \<open>Keys of tokens are random and not used twice.\<close>

definition token_key :: "('s, 'w) EtcdStore \<Rightarrow> string \<Rightarrow> bool" where
  "token_key e p \<longleftrightarrow> prefix (path_Join [es_Prefix e, tokensKey]) p"

text \<open>The directories of the keyrings and of the plain values are not inside one of the listed directories.\<close>

definition kv_key :: "string \<Rightarrow> bool" where
  "kv_key key \<longleftrightarrow> list_all plain (split slash key)"

definition separate :: "('s, 'w) EtcdStore \<Rightarrow> string \<Rightarrow> bool" where
  "separate e ns \<longleftrightarrow> (\<forall>k i. listed k \<longrightarrow> ValidateID i = Ret () \<longrightarrow>
     \<not> prefix (path_Join [es_Prefix e, dir_of k]) (path_Join [store_prefix e ns, keyringKey, i])) \<and>
     (\<forall>k key. listed k \<longrightarrow> kv_key key \<longrightarrow>
     \<not> prefix (path_Join [es_Prefix e, dir_of k]) (path_Join [path_Join [store_prefix e ns, ''kv''], key]))"

text \<open>The laws of the codecs: what was marshalled unmarshals to the same message, and errors are their own.\<close>

definition codec_laws :: "'w codecs \<Rightarrow> bool" where
  "codec_laws PJ \<longleftrightarrow>
     (\<forall>x w. mar_cluster PJ x = Ret w \<longrightarrow> unm_cluster PJ w = Ret x) \<and>
     (\<forall>x w. mar_token PJ x = Ret w \<longrightarrow> unm_token PJ w = Ret x) \<and>
     (\<forall>x w. mar_role PJ x = Ret w \<longrightarrow> unm_role PJ w = Ret x) \<and>
     (\<forall>x w. mar_roleBinding PJ x = Ret w \<longrightarrow> unm_roleBinding PJ w = Ret x) \<and>
     json_laws (mar_keyring PJ) (unm_keyring PJ) \<and>
     (\<forall>x. to_text PJ (of_text PJ x) = x) \<and>
     (\<forall>x. (\<forall>e. mar_cluster PJ x = Fail e \<longrightarrow> foreign e) \<and> (\<forall>p. mar_cluster PJ x \<noteq> Panic p)) \<and>
     (\<forall>x. (\<forall>e. mar_token PJ x = Fail e \<longrightarrow> foreign e) \<and> (\<forall>p. mar_token PJ x \<noteq> Panic p)) \<and>
     (\<forall>x. (\<forall>e. mar_keyring PJ x = Fail e \<longrightarrow> foreign e) \<and> (\<forall>p. mar_keyring PJ x \<noteq> Panic p)) \<and>
     (\<forall>w. (\<forall>e. unm_keyring PJ w = Fail e \<longrightarrow> foreign e) \<and> (\<forall>p. unm_keyring PJ w \<noteq> Panic p)) \<and>
     (\<forall>w c. unm_keyring PJ w = Ret c \<longrightarrow> list_all (\<lambda>k. type_of k = TShared) (ck_SharedKeys c) \<and>
        list_all (\<lambda>k. type_of k = TPKP) (ck_PKPKey c) \<and> list_all (\<lambda>k. type_of k = TCACerts) (ck_CACertsKey c) \<and>
        ck_EphemeralKey c = [])"

text \<open>What \<^verbatim>\<open>retry.OnError\<close> documents: it calls the function until it succeeds, fails with an error that is
  not to be retried, or has been called as many times as the backoff has steps.\<close>

inductive attempts :: "(go_error \<Rightarrow> bool) \<Rightarrow> ('s, 'a) prog \<Rightarrow> nat \<Rightarrow> 's \<Rightarrow> 'a go \<times> 's \<Rightarrow> bool"
  for p :: "go_error \<Rightarrow> bool" and f :: "('s, 'a) prog" where
  last: "f s = res \<Longrightarrow> attempts p f 1 s res"
| again: "f s = (Fail e, t) \<Longrightarrow> p e \<Longrightarrow> attempts p f n t res \<Longrightarrow> attempts p f (Suc n) s res"

definition retry_laws :: "('s, 'a) on_error \<Rightarrow> bool" where
  "retry_laws OnError \<longleftrightarrow> (\<forall>n p f s. 0 < n \<longrightarrow> (\<exists>m \<le> n. attempts p f m s (OnError n p f s) \<and>
     (\<forall>e t. OnError n p f s = (Fail e, t) \<longrightarrow> p e \<longrightarrow> m = n)))"

definition etcd_params :: "('s, 'w) EtcdStore \<Rightarrow> string \<Rightarrow> bool" where
  "etcd_params e ns \<longleftrightarrow> etcd_laws (es_Client e) (token_key e) (etcd_wf e) \<and> codec_laws (es_PJ e) \<and>
     retry_laws (es_OnErrorC e) \<and> retry_laws (es_OnErrorT e) \<and> separate e ns"

definition etcd_I :: "('s, 'w) EtcdStore \<Rightarrow> string \<Rightarrow> 's \<Rightarrow> bool" where
  "etcd_I e ns s \<longleftrightarrow> etcd_params e ns \<and> etcd_ok (es_Client e) s \<and> etcd_wf e (e_db (es_Client e) s)"

definition etcd_R :: "('s, 'w) EtcdStore \<Rightarrow> string \<Rightarrow> 's \<Rightarrow> 's \<Rightarrow> bool" where
  "etcd_R e ns s t \<longleftrightarrow> etcd_ok (es_Client e) t \<and> rely (es_Client e) (token_key e) (etcd_wf e) s t"

interpretation etcd: shared_state "etcd_I e ns" "etcd_R e ns" for e ns
proof
  show "etcd_I e ns s \<Longrightarrow> etcd_R e ns s s" for s
    by (simp add: etcd_I_def etcd_R_def rely_refl)
  show "etcd_R e ns s t \<Longrightarrow> etcd_R e ns t u \<Longrightarrow> etcd_R e ns s u" for s t u
    unfolding etcd_R_def by (blast intro: rely_trans)
  show "etcd_I e ns s \<Longrightarrow> etcd_R e ns s t \<Longrightarrow> etcd_I e ns t" for s t
    by (auto simp: etcd_I_def etcd_R_def rely_def)
qed

text \<open>A call of the client, seen at the level of the store: its effect keeps the format if it writes
  well-typed values to well-formed keys.\<close>

lemma call_atomic:
  assumes "atomic (etcd_ok (es_Client e)) (rely (es_Client e) (token_key e) (etcd_wf e)) m Q"
    and "\<And>u r v. etcd_wf e (e_db (es_Client e) u) \<Longrightarrow> Q u r v \<Longrightarrow> etcd_wf e (e_db (es_Client e) v)"
  shows "atomic (etcd_I e ns) (etcd_R e ns) m Q"
proof (rule atomicI)
  fix s r t assume I: "etcd_I e ns s" and run: "m s = (r, t)"
  have ok: "etcd_ok (es_Client e) s" using I by (simp add: etcd_I_def)
  obtain u v where uv: "rely (es_Client e) (token_key e) (etcd_wf e) s u" "etcd_ok (es_Client e) u" "Q u r v"
    "etcd_ok (es_Client e) v" "rely (es_Client e) (token_key e) (etcd_wf e) v t" "etcd_ok (es_Client e) t"
    using assms(1) ok run by (rule atomicE)
  have R: "etcd_R e ns s u" "etcd_R e ns v t" using uv by (simp_all add: etcd_R_def)
  have Iu: "etcd_I e ns u" using etcd.R_keeps [OF I R(1)] .
  have Iv: "etcd_I e ns v" using Iu uv(3,4) assms(2) by (auto simp: etcd_I_def)
  have "etcd_I e ns t" using etcd.R_keeps [OF Iv R(2)] .
  with R Iu Iv uv(3) show "\<exists>u v. etcd_R e ns s u \<and> etcd_I e ns u \<and> Q u r v \<and> etcd_I e ns v \<and> etcd_R e ns v t \<and> etcd_I e ns t"
    by blast
qed

lemma under_params:
  "(etcd_params e ns \<Longrightarrow> atomic (etcd_I e ns) R m Q) \<Longrightarrow> atomic (etcd_I e ns) R m Q"
  by (auto simp: atomic_def etcd_I_def)

section \<open>Effects on the abstraction\<close>

lemma plain_dir: "plain (dir_of k)"
  by (cases k) (simp_all add: dir_of_def plain_kinds)

lemma dir_inject: "listed k \<Longrightarrow> dir_of k = dir_of l \<Longrightarrow> k = l"
  by (cases k; cases l) (simp_all add: dir_of_def listed_def)

lemma dir_not_prefix: "listed k \<Longrightarrow> prefix (dir_of k) (dir_of l) \<Longrightarrow> k = l"
  by (cases k; cases l) (simp_all add: dir_of_def listed_def)

lemma okey_path_dir:
  "okey_path e ns ki = path_Join [if listed (fst ki) then es_Prefix e else store_prefix e ns, dir_of (fst ki), snd ki]"
  by (cases "fst ki") (simp_all add: okey_path_def dir_of_def listed_def)

lemma okey_path_inject:
  assumes "observed ns a" and "observed ns b" and "okey_path e ns a = okey_path e ns b"
  shows "a = b"
proof -
  obtain p q where "path_Join [p, dir_of (fst a), snd a] = path_Join [q, dir_of (fst b), snd b]"
    using assms(3) unfolding okey_path_dir by blast
  from path_Join_last2 [OF plain_dir _ plain_dir _ this] assms(1,2)
  have eq: "dir_of (fst a) = dir_of (fst b)" "snd a = snd b"
    by (simp_all add: observed_def ValidateID_plain)
  have "fst a = fst b"
  proof (cases "listed (fst a) \<or> listed (fst b)")
    case True
    then show ?thesis using eq(1) dir_inject [of "fst a" "fst b"] dir_inject [of "fst b" "fst a"] by metis
  next
    case False
    then show ?thesis using assms(1,2) by (auto simp: observed_def listed_def)
  qed
  with eq(2) show ?thesis by (simp add: prod_eq_iff)
qed

lemma abs_same: "same (es_Client e) u v \<Longrightarrow> etcd_abs e ns v = etcd_abs e ns u"
  by (auto simp: same_def etcd_abs_def fun_eq_iff)

lemma abs_upd:
  assumes "observed ns ki" and "e_db (es_Client e) v = (e_db (es_Client e) u)(okey_path e ns ki := x)"
  shows "etcd_abs e ns v = (etcd_abs e ns u)(ki := Option.bind x (obj_of (es_PJ e) (fst ki)))"
proof
  fix lj
  show "etcd_abs e ns v lj = ((etcd_abs e ns u)(ki := Option.bind x (obj_of (es_PJ e) (fst ki)))) lj"
  proof (cases "lj = ki")
    case False
    then have "observed ns lj \<Longrightarrow> okey_path e ns lj \<noteq> okey_path e ns ki" using okey_path_inject assms(1) by blast
    then show ?thesis using False assms(2) by (simp add: etcd_abs_def)
  qed (use assms in \<open>simp add: etcd_abs_def\<close>)
qed

lemma abs_put:
  "did_put (es_Client e) (okey_path e ns ki) w l u v \<Longrightarrow> observed ns ki \<Longrightarrow>
   etcd_abs e ns v = (etcd_abs e ns u)(ki := obj_of (es_PJ e) (fst ki)
     (etcd_put l (e_rev (es_Client e) v) w (e_db (es_Client e) u (okey_path e ns ki))))"
  by (subst abs_upd) (auto simp: did_put_def)

lemma abs_delete:
  "did_delete (es_Client e) (okey_path e ns ki) u v \<Longrightarrow> observed ns ki \<Longrightarrow>
   etcd_abs e ns v = (etcd_abs e ns u)(ki := None)"
  by (subst abs_upd [where x = None]) (auto simp: did_delete_def)

lemma put_value [simp]:
  "ev_value (etcd_put l n w old) = w" "ev_mod (etcd_put l n w old) = n"
  by (cases old; simp add: etcd_put_def)+

lemma wf_delete: "etcd_wf e db \<Longrightarrow> etcd_wf e (db(p := None))"
  unfolding etcd_wf_def by (metis fun_upd_apply option.distinct(1))

lemma wf_put:
  assumes "etcd_wf e db" and "ValidateID (snd ki) = Ret ()" and "listed (fst ki) \<or> separate e ns"
    and "well_typed (es_PJ e) (fst ki) (snd ki) kv"
  shows "etcd_wf e (db(okey_path e ns ki \<mapsto> kv))"
  unfolding etcd_wf_def
proof (intro allI impI)
  fix k p x assume k: "listed k" and p: "(db(okey_path e ns ki \<mapsto> kv)) p = Some x"
    and pre: "prefix (path_Join [es_Prefix e, dir_of k]) p"
  show "\<exists>i. ValidateID i = Ret () \<and> p = path_Join [es_Prefix e, dir_of k, i] \<and> well_typed (es_PJ e) k i x"
  proof (cases "p = okey_path e ns ki")
    case True
    have "listed (fst ki)"
    proof (rule ccontr)
      assume "\<not> listed (fst ki)"
      moreover then have "p = path_Join [store_prefix e ns, keyringKey, snd ki]"
        by (auto simp: True okey_path_dir listed_def dir_of_def)
      ultimately show False using assms(2,3) k pre by (auto simp: separate_def)
    qed
    then have path: "p = path_Join [es_Prefix e, dir_of (fst ki), snd ki]" by (simp add: True okey_path_dir)
    have "k = fst ki"
      using dir_prefix [OF plain_dir plain_dir ValidateID_plain [OF assms(2)], of "es_Prefix e" k "fst ki"] pre path
        dir_not_prefix [OF k] by simp
    then show ?thesis using assms(2,4) path p True by auto
  next
    case False
    then show ?thesis using assms(1) k p pre unfolding etcd_wf_def by simp
  qed
qed

text \<open>What the invariant says of one observed key.\<close>

lemma wf_at:
  assumes "etcd_wf e db" and "listed (fst ki)" and "ValidateID (snd ki) = Ret ()"
    and "db (okey_path e ns ki) = Some kv"
  shows "well_typed (es_PJ e) (fst ki) (snd ki) kv"
proof -
  have path: "okey_path e ns ki = path_Join [es_Prefix e, dir_of (fst ki), snd ki]"
    using assms(2) by (simp add: okey_path_dir)
  have "prefix (path_Join [es_Prefix e, dir_of (fst ki)]) (okey_path e ns ki)"
    unfolding path by (simp add: path_Join_snoc plain_dir ValidateID_plain [OF assms(3)])
  then obtain i where i: "ValidateID i = Ret ()" "okey_path e ns ki = path_Join [es_Prefix e, dir_of (fst ki), i]"
    "well_typed (es_PJ e) (fst ki) i kv"
    using assms(1,2,4) unfolding etcd_wf_def by blast
  have "i = snd ki"
    using path_Join_last2 [OF plain_dir _ plain_dir _ trans [OF path [symmetric] i(2)]]
      ValidateID_plain [OF assms(3)] ValidateID_plain [OF i(1)] by auto
  with i(3) show ?thesis by simp
qed

section \<open>Single-call operations\<close>

lemma read_wf: "etcd_wf e (e_db E u) \<Longrightarrow> read_effect E P u r v \<Longrightarrow> etcd_wf e (e_db E v)"
  by (simp add: read_effect_def same_def)

lemma delete_wf: "etcd_wf e (e_db E u) \<Longrightarrow> delete_call_effect E k u r v \<Longrightarrow> etcd_wf e (e_db E v)"
  by (auto simp: delete_call_effect_def same_def did_delete_def wf_delete split: go.splits)

lemma params_laws: "etcd_params e ns \<Longrightarrow> etcd_laws (es_Client e) (token_key e) (etcd_wf e)"
  by (simp add: etcd_params_def)

lemma Get_atomic:
  "etcd_params e ns \<Longrightarrow> atomic (etcd_I e ns) (etcd_R e ns) (c_Get (es_Client e) k)
     (read_effect (es_Client e) (\<lambda>u x. x = e_db (es_Client e) u k))"
  by (rule call_atomic [OF etcd_lawsD(1) [OF params_laws] read_wf])

lemma GetPrefix_atomic:
  "etcd_params e ns \<Longrightarrow> atomic (etcd_I e ns) (etcd_R e ns) (c_GetPrefix (es_Client e) p)
     (read_effect (es_Client e) (prefix_answer (es_Client e) p))"
  by (rule call_atomic [OF etcd_lawsD(2) [OF params_laws] read_wf])

lemma TimeToLive_atomic:
  "etcd_params e ns \<Longrightarrow> atomic (etcd_I e ns) (etcd_R e ns) (c_TimeToLive (es_Client e) i)
     (read_effect (es_Client e) (\<lambda>u x. True))"
  by (rule call_atomic [OF etcd_lawsD(8) [OF params_laws] read_wf])

lemma Delete_atomic:
  "etcd_params e ns \<Longrightarrow> atomic (etcd_I e ns) (etcd_R e ns) (c_Delete (es_Client e) k) (delete_call_effect (es_Client e) k)"
  by (rule call_atomic [OF etcd_lawsD(5) [OF params_laws] delete_wf])

lemma Txn_atomic:
  assumes par: "etcd_params e ns" and id: "ValidateID (snd ki) = Ret ()"
    and typed: "\<And>kv. ev_value kv = w \<Longrightarrow> well_typed (es_PJ e) (fst ki) (snd ki) kv"
  shows "atomic (etcd_I e ns) (etcd_R e ns) (c_Txn (es_Client e) (okey_path e ns ki) c w l)
     (txn_effect (es_Client e) (okey_path e ns ki) c w l)"
proof (rule call_atomic [OF etcd_lawsD(3) [OF params_laws [OF par]]])
  fix u r v
  assume wf: "etcd_wf e (e_db (es_Client e) u)" and eff: "txn_effect (es_Client e) (okey_path e ns ki) c w l u r v"
  have sep: "listed (fst ki) \<or> separate e ns" using par by (simp add: etcd_params_def)
  have "etcd_wf e (e_db (es_Client e) v)" if "did_put (es_Client e) (okey_path e ns ki) w l u v"
    using wf_put [OF wf id sep typed] that by (simp add: did_put_def)
  then show "etcd_wf e (e_db (es_Client e) v)"
    using wf eff by (auto simp: txn_effect_def same_def split: go.splits if_splits)
qed

lemma Put_atomic:
  assumes par: "etcd_params e ns" and id: "ValidateID (snd ki) = Ret ()"
    and typed: "\<And>kv. ev_value kv = w \<Longrightarrow> well_typed (es_PJ e) (fst ki) (snd ki) kv"
  shows "atomic (etcd_I e ns) (etcd_R e ns) (c_Put (es_Client e) (okey_path e ns ki) w l)
     (put_call_effect (es_Client e) (okey_path e ns ki) w l)"
proof (rule call_atomic [OF etcd_lawsD(4) [OF params_laws [OF par]]])
  fix u r v
  assume wf: "etcd_wf e (e_db (es_Client e) u)" and eff: "put_call_effect (es_Client e) (okey_path e ns ki) w l u r v"
  have sep: "listed (fst ki) \<or> separate e ns" using par by (simp add: etcd_params_def)
  have "etcd_wf e (e_db (es_Client e) v)" if "did_put (es_Client e) (okey_path e ns ki) w l u v"
    using wf_put [OF wf id sep typed] that by (simp add: did_put_def)
  then show "etcd_wf e (e_db (es_Client e) v)"
    using wf eff by (auto simp: put_call_effect_def same_def split: go.splits)
qed

lemma foreign_Wrap [simp]: "foreign (Wrap m e) \<longleftrightarrow> foreign e"
  by (simp add: foreign_def)

lemma foreignD [dest]: "foreign e \<Longrightarrow> \<not> errors_is e ErrNotFound \<and> e \<noteq> ErrAlreadyExists \<and> e \<noteq> ErrNotFound"
  by (auto simp: foreign_def)

text \<open>The common shape of \<^verbatim>\<open>Get\<close>: one read, and a decoder whose errors are not the sentinel.\<close>

lemma get_shape:
  assumes par: "etcd_params e ns" and ob: "observed ns ki"
    and dec: "\<And>u kv. etcd_I e ns u \<Longrightarrow> e_db (es_Client e) u (okey_path e ns ki) = Some kv \<Longrightarrow>
      (case d kv of Ret x \<Rightarrow> obj_of (es_PJ e) (fst ki) kv = Some (norm x) | Fail err \<Rightarrow> foreign err | Panic p \<Rightarrow> False)"
  shows "atomic (etcd_I e ns) (etcd_R e ns)
    (bind (map_err (Wrap msg) (c_Get (es_Client e) (okey_path e ns ki)))
       (\<lambda>resp. lift (case resp of None \<Rightarrow> Fail ErrNotFound | Some kv \<Rightarrow> d kv)))
    (get_effect (etcd_abs e ns) norm ki)"
proof (rule atomic_weaken [OF atomic_bind_lift [OF atomic_map_err [OF Get_atomic [OF par]]]])
  fix u r v
  assume I: "etcd_I e ns u" and "\<exists>q. (\<exists>q'. read_effect (es_Client e) (\<lambda>u x. x = e_db (es_Client e) u (okey_path e ns ki)) u q' v \<and>
      q = go_err q' (Wrap msg)) \<and> r = go_bind q (\<lambda>resp. case resp of None \<Rightarrow> Fail ErrNotFound | Some kv \<Rightarrow> d kv)"
  then obtain q where q: "read_effect (es_Client e) (\<lambda>u x. x = e_db (es_Client e) u (okey_path e ns ki)) u q v"
    and r: "r = go_bind (go_err q (Wrap msg)) (\<lambda>resp. case resp of None \<Rightarrow> Fail ErrNotFound | Some kv \<Rightarrow> d kv)" by blast
  have abs: "etcd_abs e ns v = etcd_abs e ns u" using q abs_same by (auto simp: read_effect_def)
  have at: "etcd_abs e ns u ki = Option.bind (e_db (es_Client e) u (okey_path e ns ki)) (obj_of (es_PJ e) (fst ki))"
    using ob by (simp add: etcd_abs_def)
  show "get_effect (etcd_abs e ns) norm ki u r v"
  proof (cases q)
    case (Ret x)
    then have x: "x = e_db (es_Client e) u (okey_path e ns ki)" using q by (simp add: read_effect_def)
    show ?thesis
    proof (cases x)
      case None
      with r Ret x at abs show ?thesis by (simp add: get_effect_def)
    next
      case (Some kv)
      with dec [OF I, of kv] x have "case d kv of Ret y \<Rightarrow> obj_of (es_PJ e) (fst ki) kv = Some (norm y)
          | Fail err \<Rightarrow> foreign err | Panic p \<Rightarrow> False" by simp
      with r Ret Some x at abs show ?thesis by (cases "d kv") (auto simp: get_effect_def)
    qed
  qed (use q r abs in \<open>auto simp: get_effect_def read_effect_def\<close>)
qed

lemma delete_shape:
  assumes par: "etcd_params e ns" and ob: "observed ns ki"
    and some: "\<And>u kv. etcd_I e ns u \<Longrightarrow> e_db (es_Client e) u (okey_path e ns ki) = Some kv \<Longrightarrow> obj_of (es_PJ e) (fst ki) kv \<noteq> None"
  shows "atomic (etcd_I e ns) (etcd_R e ns)
    (bind (map_err (Wrap msg) (c_Delete (es_Client e) (okey_path e ns ki)))
       (\<lambda>deleted. lift (if deleted = 0 then Fail ErrNotFound else Ret ())))
    (delete_effect (etcd_abs e ns) ki)"
proof (rule atomic_weaken [OF atomic_bind_lift [OF atomic_map_err [OF Delete_atomic [OF par]]]])
  fix u r v
  assume I: "etcd_I e ns u" and "\<exists>q. (\<exists>q'. delete_call_effect (es_Client e) (okey_path e ns ki) u q' v \<and>
      q = go_err q' (Wrap msg)) \<and> r = go_bind q (\<lambda>deleted. if deleted = 0 then Fail ErrNotFound else Ret ())"
  then obtain q where q: "delete_call_effect (es_Client e) (okey_path e ns ki) u q v"
    and r: "r = go_bind (go_err q (Wrap msg)) (\<lambda>deleted. if deleted = 0 then Fail ErrNotFound else Ret ())" by blast
  let ?db = "e_db (es_Client e) u (okey_path e ns ki)"
  have at: "etcd_abs e ns u ki = Option.bind ?db (obj_of (es_PJ e) (fst ki))"
    using ob by (simp add: etcd_abs_def)
  then have none: "etcd_abs e ns u ki = None \<longleftrightarrow> ?db = None" using some [OF I] by (cases ?db) auto
  show "delete_effect (etcd_abs e ns) ki u r v"
  proof (cases q)
    case (Ret n)
    then have d: "did_delete (es_Client e) (okey_path e ns ki) u v" "n = (if ?db = None then 0 else 1)"
      using q by (simp_all add: delete_call_effect_def)
    have "etcd_abs e ns v = (etcd_abs e ns u)(ki := None)" using abs_delete [OF d(1) ob] .
    then show ?thesis using r Ret d(2) none by (auto simp: delete_effect_def)
  next
    case (Fail err)
    then have "foreign err" "etcd_abs e ns v = etcd_abs e ns u \<or> etcd_abs e ns v = (etcd_abs e ns u)(ki := None)"
      using q abs_same [of e u v ns] abs_delete [OF _ ob, of e u v] by (auto simp: delete_call_effect_def)
    then show ?thesis using r Fail by (auto simp: delete_effect_def)
  qed (use q in \<open>simp add: delete_call_effect_def\<close>)
qed

section \<open>The cluster store\<close>

lemma cluster_at:
  assumes "etcd_I e ns u" and "ValidateID i = Ret ()"
    and "e_db (es_Client e) u (okey_path e ns (KCluster, i)) = Some kv"
  obtains c where "decode_cluster (es_PJ e) kv = Ret c" "cl_id c = i" "obj_of (es_PJ e) KCluster kv = Some (SCluster c)"
proof -
  have "well_typed (es_PJ e) KCluster i kv"
    using wf_at [of e "e_db (es_Client e) u" "(KCluster, i)" ns kv] assms by (simp add: etcd_I_def listed_def)
  then obtain c where "unm_cluster (es_PJ e) (ev_value kv) = Ret c" "cl_id c = i" by (auto simp: well_typed_def)
  then show thesis
    using that [of "cluster_SetResourceVersion c (show_nat (ev_mod kv))"]
    by (simp add: decode_cluster_def obj_of_def go_option_def)
qed

lemma I_kv: "etcd_I e ns u \<Longrightarrow> e_db (es_Client e) u k = Some kv \<Longrightarrow> kv_ok (e_rev (es_Client e) u) kv"
  by (simp add: etcd_I_def etcd_ok_def)

lemma I_rev: "etcd_I e ns u \<Longrightarrow> e_rev (es_Client e) u < 2 ^ 63"
  by (simp add: etcd_I_def etcd_ok_def)

lemma observed_kind: "ValidateID i = Ret () \<Longrightarrow> listed k \<Longrightarrow> observed ns (k, i)"
  by (auto simp: observed_def listed_def)

lemma listed_simps [simp]: "listed KCluster" "listed KToken" "listed KRole" "listed KRoleBinding" "\<not> listed (KKeyring n)"
  by (auto simp: listed_def)

lemma okey_path_simps:
  "path_Join [es_Prefix e, clusterKey, i] = okey_path e ns (KCluster, i)"
  "path_Join [es_Prefix e, tokensKey, i] = okey_path e ns (KToken, i)"
  "path_Join [es_Prefix e, roleKey, i] = okey_path e ns (KRole, i)"
  "path_Join [es_Prefix e, roleBindingKey, i] = okey_path e ns (KRoleBinding, i)"
  "path_Join [store_prefix e ns, keyringKey, i] = okey_path e ns (KKeyring ns, i)"
  by (simp_all add: okey_path_def)

lemma cluster_abs_None:
  assumes "etcd_I e ns u" and "ValidateID i = Ret ()"
  shows "etcd_abs e ns u (KCluster, i) = None \<longleftrightarrow> e_db (es_Client e) u (okey_path e ns (KCluster, i)) = None"
proof (cases "e_db (es_Client e) u (okey_path e ns (KCluster, i))")
  case (Some kv)
  then obtain c where "obj_of (es_PJ e) KCluster kv = Some (SCluster c)" by (rule cluster_at [OF assms])
  with Some show ?thesis using assms(2) by (simp add: etcd_abs_def observed_kind)
qed (simp add: etcd_abs_def)

lemma GetCluster_atomic:
  assumes par: "etcd_params e ns" and id: "ValidateID i = Ret ()"
  shows "atomic (etcd_I e ns) (etcd_R e ns) (Etcd_GetCluster e \<lparr> ref_id = i \<rparr>)
    (get_effect (etcd_abs e ns) SCluster (KCluster, i))"
  unfolding Etcd_GetCluster_def Reference.simps okey_path_simps(1) [of e i ns]
proof (rule get_shape [OF par observed_kind [OF id]])
  fix u kv assume "etcd_I e ns u" "e_db (es_Client e) u (okey_path e ns (KCluster, i)) = Some kv"
  then obtain c where "decode_cluster (es_PJ e) kv = Ret c" "obj_of (es_PJ e) KCluster kv = Some (SCluster c)"
    by (rule cluster_at [OF _ id])
  then show "case decode_cluster (es_PJ e) kv of Ret x \<Rightarrow> obj_of (es_PJ e) (fst (KCluster, i)) kv = Some (SCluster x)
      | Fail err \<Rightarrow> foreign err | Panic p \<Rightarrow> False" by simp
qed simp

lemma DeleteCluster_atomic:
  assumes par: "etcd_params e ns" and id: "ValidateID i = Ret ()"
  shows "atomic (etcd_I e ns) (etcd_R e ns) (Etcd_DeleteCluster e \<lparr> ref_id = i \<rparr>)
    (delete_effect (etcd_abs e ns) (KCluster, i))"
  unfolding Etcd_DeleteCluster_def Reference.simps okey_path_simps(1) [of e i ns]
proof (rule delete_shape [OF par observed_kind [OF id]])
  fix u kv assume "etcd_I e ns u" "e_db (es_Client e) u (okey_path e ns (KCluster, i)) = Some kv"
  then obtain c where "obj_of (es_PJ e) KCluster kv = Some (SCluster c)" by (rule cluster_at [OF _ id])
  then show "obj_of (es_PJ e) (fst (KCluster, i)) kv \<noteq> None" by simp
qed simp

lemma codec_cluster:
  "etcd_params e ns \<Longrightarrow> mar_cluster (es_PJ e) x = Ret w \<Longrightarrow> unm_cluster (es_PJ e) w = Ret x"
  "etcd_params e ns \<Longrightarrow> mar_cluster (es_PJ e) x = Fail err \<Longrightarrow> foreign err"
  "etcd_params e ns \<Longrightarrow> mar_cluster (es_PJ e) x \<noteq> Panic p"
  by (simp_all add: etcd_params_def codec_laws_def)

text \<open>What a put of a marshalled cluster makes of the abstraction.\<close>

lemma abs_put_cluster:
  assumes "etcd_params e ns" and "ValidateID (cl_id c) = Ret ()" and "mar_cluster (es_PJ e) c = Ret w"
    and "did_put (es_Client e) (okey_path e ns (KCluster, cl_id c)) w l u v"
  shows "etcd_abs e ns v = (etcd_abs e ns u)((KCluster, cl_id c) \<mapsto>
    SCluster (cluster_SetResourceVersion c (show_nat (e_rev (es_Client e) v))))"
  using abs_put [OF assms(4) observed_kind [OF assms(2)]] codec_cluster(1) [OF assms(1,3)]
  by (simp add: obj_of_def decode_cluster_def go_option_def)

lemma cluster_typed:
  assumes "etcd_params e ns" and "mar_cluster (es_PJ e) c = Ret w" and "ev_value kv = w"
  shows "well_typed (es_PJ e) (fst (KCluster, cl_id c)) (snd (KCluster, cl_id c)) kv"
  using codec_cluster(1) [OF assms(1,2)] assms(3) by (simp add: well_typed_def)

lemma atomic_const:
  assumes "\<And>s. m s = (r, s)" and "\<And>s. etcd_I e ns s \<Longrightarrow> Q s r s"
  shows "atomic (etcd_I e ns) (etcd_R e ns) m Q"
proof (rule atomicI)
  fix s r' t assume "etcd_I e ns s" "m s = (r', t)"
  then show "\<exists>u v. etcd_R e ns s u \<and> etcd_I e ns u \<and> Q u r' v \<and> etcd_I e ns v \<and> etcd_R e ns v t \<and> etcd_I e ns t"
    using assms etcd.R_refl [of e ns s] by (intro exI [of _ s]) auto
qed

lemma CreateCluster_atomic:
  assumes par: "etcd_params e ns" and id: "ValidateID (cl_id c) = Ret ()"
  shows "atomic (etcd_I e ns) (etcd_R e ns) (Etcd_CreateCluster now e c)
    (create_effect (etcd_abs e ns) SCluster (KCluster, cl_id c) (managed_create c))"
proof -
  let ?c = "cluster_SetCreationTimestamp (cluster_SetResourceVersion c '''') (truncate_second now)"
  let ?ki = "(KCluster, cl_id ?c)"
  have cid: "cl_id ?c = cl_id c" by simp
  have managed: "managed_create c (cluster_SetResourceVersion ?c n)" for n
    unfolding managed_create_def
    by (intro exI [of _ "truncate_second now"] exI [of _ n]) (simp add: cluster_access)
  show ?thesis
  proof (cases "mar_cluster (es_PJ e) ?c")
    case (Ret w)
    let ?m = "bind (map_err (Wrap ''failed to create cluster'') (c_Txn (es_Client e) (okey_path e ns ?ki) (CmpVersion 0) w NoLease))
        (\<lambda>resp. lift (if \<not> fst resp then Fail ErrAlreadyExists else Ret (cluster_SetResourceVersion ?c (show_nat (snd resp)))))"
    have "Etcd_CreateCluster now e c = ?m"
      unfolding Etcd_CreateCluster_def Let_def Ret okey_path_simps(1) [of e "cl_id ?c" ns] by (simp add: fun_eq_iff)
    moreover have "atomic (etcd_I e ns) (etcd_R e ns) ?m
        (create_effect (etcd_abs e ns) SCluster (KCluster, cl_id c) (managed_create c))"
    proof (rule atomic_weaken [OF atomic_bind_lift [OF atomic_map_err [OF Txn_atomic [OF par _ cluster_typed [OF par Ret]]]]])
      show "ValidateID (snd ?ki) = Ret ()" using id by simp
      fix u r v
      assume Iu: "etcd_I e ns u" and "\<exists>q. (\<exists>q'. txn_effect (es_Client e) (okey_path e ns ?ki) (CmpVersion 0) w NoLease u q' v \<and>
          q = go_err q' (Wrap ''failed to create cluster'')) \<and>
          r = go_bind q (\<lambda>resp. if \<not> fst resp then Fail ErrAlreadyExists else Ret (cluster_SetResourceVersion ?c (show_nat (snd resp))))"
      then obtain q where q: "txn_effect (es_Client e) (okey_path e ns ?ki) (CmpVersion 0) w NoLease u q v"
        and r: "r = go_bind (go_err q (Wrap ''failed to create cluster''))
          (\<lambda>resp. if \<not> fst resp then Fail ErrAlreadyExists else Ret (cluster_SetResourceVersion ?c (show_nat (snd resp))))" by blast
      let ?db = "e_db (es_Client e) u (okey_path e ns ?ki)"
      have ok: "ev_version kv \<noteq> 0" if "?db = Some kv" for kv
        using I_kv [OF Iu that] by (simp add: kv_ok_def)
      then have cmp: "cmp_holds (CmpVersion 0) ?db \<longleftrightarrow> ?db = None" by (cases ?db) auto
      have none: "etcd_abs e ns u ?ki = None \<longleftrightarrow> ?db = None"
        by (rule cluster_abs_None [OF Iu]) (simp add: id)
      have put: "etcd_abs e ns v = (etcd_abs e ns u)(?ki \<mapsto> SCluster (cluster_SetResourceVersion ?c (show_nat (e_rev (es_Client e) v))))"
        if "did_put (es_Client e) (okey_path e ns ?ki) w NoLease u v"
        using abs_put_cluster [OF par _ Ret that] id by simp
      have sm: "etcd_abs e ns v = etcd_abs e ns u" if "same (es_Client e) u v" using abs_same [OF that] .
      show "create_effect (etcd_abs e ns) SCluster (KCluster, cl_id c) (managed_create c) u r v"
      proof (cases q)
        case (Ret x)
        then show ?thesis using q r cmp none put sm managed
          by (cases x) (auto simp: txn_effect_def create_effect_def split: if_splits)
      next
        case (Fail err)
        then have f: "foreign err" "same (es_Client e) u v \<or> ?db = None \<and> did_put (es_Client e) (okey_path e ns ?ki) w NoLease u v"
          using q cmp by (auto simp: txn_effect_def)
        then have "etcd_abs e ns v = etcd_abs e ns u \<or> (\<exists>x. etcd_abs e ns u (KCluster, cl_id c) = None \<and>
            etcd_abs e ns v = (etcd_abs e ns u)((KCluster, cl_id c) \<mapsto> SCluster x) \<and> managed_create c x)"
          using put sm none managed cid by metis
        then show ?thesis using Fail r f(1) by (auto simp: create_effect_def)
      qed (use q in \<open>simp add: txn_effect_def\<close>)
    qed
    ultimately show ?thesis by simp
  next
    case (Fail err)
    have "Etcd_CreateCluster now e c s = (Fail (Wrap ''failed to marshal cluster'' err), s)" for s
      by (simp add: Etcd_CreateCluster_def Let_def Fail)
    then show ?thesis by (rule atomic_const) (simp add: create_effect_def)
  qed (use codec_cluster(3) [OF par] in blast)
qed

lemma selected_version [simp]: "cluster_selected sel (cluster_SetResourceVersion c v) = cluster_selected sel c"
  by (simp add: cluster_selected_def)

definition decoded :: "'w codecs \<Rightarrow> 'w etcd_kv \<Rightarrow> Cluster" where
  "decoded PJ kv = (case decode_cluster PJ kv of Ret c \<Rightarrow> c)"

lemma collect_Ret:
  "\<forall>x \<in> set kvs. \<exists>c. decode_cluster PJ (snd x) = Ret c \<Longrightarrow>
   collect_clusters PJ (cluster_selected sel) kvs = Ret (filter (cluster_selected sel) (map (\<lambda>x. decoded PJ (snd x)) kvs))"
proof (induction kvs)
  case (Cons x kvs)
  obtain k kv where x: "x = (k, kv)" by (cases x)
  obtain c where "unm_cluster PJ (ev_value kv) = Ret c" using Cons.prems x by (auto simp: decode_cluster_def)
  with Cons x show ?case by (simp add: decoded_def decode_cluster_def)
qed simp

lemma listed_clusters:
  assumes "etcd_I e ns u" and "e_db (es_Client e) u k = Some kv" and "prefix (path_Join [es_Prefix e, clusterKey]) k"
  obtains c where "decode_cluster (es_PJ e) kv = Ret c" "ValidateID (cl_id c) = Ret ()"
    "k = okey_path e ns (KCluster, cl_id c)" "etcd_abs e ns u (KCluster, cl_id c) = Some (SCluster c)"
proof -
  have "etcd_wf e (e_db (es_Client e) u)" using assms(1) by (simp add: etcd_I_def)
  moreover have "dir_of KCluster = clusterKey" by (simp add: dir_of_def)
  ultimately obtain i where i: "ValidateID i = Ret ()" "k = path_Join [es_Prefix e, clusterKey, i]"
    using assms(2,3) listed_simps(1) unfolding etcd_wf_def by metis
  have k: "k = okey_path e ns (KCluster, i)" using i(2) by (simp add: okey_path_def)
  obtain c where "decode_cluster (es_PJ e) kv = Ret c" "cl_id c = i" "obj_of (es_PJ e) KCluster kv = Some (SCluster c)"
    using assms(2) unfolding k by (rule cluster_at [OF assms(1) i(1)])
  then show thesis using that [of c] i(1) k assms(2) by (simp add: etcd_abs_def observed_kind)
qed

text \<open>What the range read of the clusters answers, decoded: the stored clusters, each once.\<close>

lemma listing:
  assumes I: "etcd_I e ns u" and ans: "prefix_answer (es_Client e) (path_Join [es_Prefix e, clusterKey]) u x"
  shows "\<forall>y \<in> set (fst x). \<exists>c. decode_cluster (es_PJ e) (snd y) = Ret c"
    "distinct (map (\<lambda>y. cl_id (decoded (es_PJ e) (snd y))) (fst x))"
    "set (map (\<lambda>y. decoded (es_PJ e) (snd y)) (fst x)) = {c. etcd_abs e ns u (KCluster, cl_id c) = Some (SCluster c)}"
proof -
  let ?p = "path_Join [es_Prefix e, clusterKey]" and ?E = "es_Client e" and ?PJ = "es_PJ e"
  let ?kvs = "fst x" and ?f = "\<lambda>x. decoded (es_PJ e) (snd x)"
  have dist: "distinct (map fst ?kvs)" and kvs: "set ?kvs = {(k, v). e_db ?E u k = Some v \<and> prefix ?p k}"
    using ans by (simp_all add: prefix_answer_def)
  have each: "\<exists>c. decode_cluster ?PJ (snd y) = Ret c \<and> fst y = okey_path e ns (KCluster, cl_id c) \<and>
      etcd_abs e ns u (KCluster, cl_id c) = Some (SCluster c)" if "y \<in> set ?kvs" for y
  proof -
    have "e_db ?E u (fst y) = Some (snd y)" "prefix ?p (fst y)" using that kvs by auto
    then show ?thesis by (rule listed_clusters [OF I]) blast
  qed
  then show "\<forall>y \<in> set ?kvs. \<exists>c. decode_cluster ?PJ (snd y) = Ret c" by blast
  have f: "fst y = okey_path e ns (KCluster, cl_id (?f y)) \<and>
      etcd_abs e ns u (KCluster, cl_id (?f y)) = Some (SCluster (?f y))" if "y \<in> set ?kvs" for y
    using each [OF that] by (auto simp: decoded_def)
  have mem: "c \<in> ?f ` set ?kvs \<longleftrightarrow> etcd_abs e ns u (KCluster, cl_id c) = Some (SCluster c)" for c
  proof
    assume a: "etcd_abs e ns u (KCluster, cl_id c) = Some (SCluster c)"
    then have ob: "observed ns (KCluster, cl_id c)" by (auto simp: etcd_abs_def split: if_splits)
    from a ob obtain kv where kv: "e_db ?E u (okey_path e ns (KCluster, cl_id c)) = Some kv"
      "obj_of ?PJ KCluster kv = Some (SCluster c)"
      by (auto simp: etcd_abs_def bind_eq_Some_conv)
    have "prefix ?p (okey_path e ns (KCluster, cl_id c))"
      using ob by (simp add: okey_path_def path_Join_snoc plain_kinds observed_def ValidateID_plain)
    with kv(1) kvs have "(okey_path e ns (KCluster, cl_id c), kv) \<in> set ?kvs" by simp
    moreover have "decoded ?PJ kv = c"
      using kv(2) by (auto simp: obj_of_def go_option_def decoded_def split: go.splits)
    ultimately show "c \<in> ?f ` set ?kvs" by force
  qed (use f in auto)
  then show "set (map ?f ?kvs) = {c. etcd_abs e ns u (KCluster, cl_id c) = Some (SCluster c)}" unfolding set_map by blast
  have "inj_on (\<lambda>y. cl_id (?f y)) (set ?kvs)"
  proof (rule inj_onI)
    fix y z assume y: "y \<in> set ?kvs" and z: "z \<in> set ?kvs" and eq: "cl_id (?f y) = cl_id (?f z)"
    have "fst y = okey_path e ns (KCluster, cl_id (?f y))" using f [OF y] ..
    also have "\<dots> = fst z" unfolding eq using f [OF z] by (rule conjunct1 [THEN sym])
    finally have "fst y = fst z" .
    then show "y = z" using dist y z by (metis eq_key_imp_eq_value prod.collapse)
  qed
  moreover have "distinct ?kvs" using dist by (simp only: distinct_map)
  ultimately show "distinct (map (\<lambda>y. cl_id (?f y)) ?kvs)" by (simp only: distinct_map)
qed

lemma ListClusters_atomic:
  assumes par: "etcd_params e ns"
  shows "atomic (etcd_I e ns) (etcd_R e ns) (Etcd_ListClusters e sel opts)
    (list_effect (etcd_abs e ns) (\<lambda>u. {c. etcd_abs e ns u (KCluster, cl_id c) = Some (SCluster c) \<and>
       cluster_selected \<lparr> cs_clusterIDs = [], cs_labelSelector = sel, cs_matchOptions = opts \<rparr> c}) cl_id)"
  unfolding Etcd_ListClusters_def
proof (rule atomic_weaken [OF atomic_bind_lift [OF atomic_map_err [OF GetPrefix_atomic [OF par]]]])
  let ?p = "path_Join [es_Prefix e, clusterKey]" and ?E = "es_Client e" and ?PJ = "es_PJ e"
  let ?sel = "cluster_selected \<lparr> cs_clusterIDs = [], cs_labelSelector = sel, cs_matchOptions = opts \<rparr>"
  let ?msg = "Wrap ''failed to list clusters''"
  fix u r v
  assume I: "etcd_I e ns u" and "\<exists>q. (\<exists>q'. read_effect ?E (prefix_answer ?E ?p) u q' v \<and> q = go_err q' ?msg) \<and>
      r = go_bind q (\<lambda>resp. collect_clusters ?PJ ?sel (fst resp))"
  then obtain q where q: "read_effect ?E (prefix_answer ?E ?p) u q v"
    and r: "r = go_bind (go_err q ?msg) (\<lambda>resp. collect_clusters ?PJ ?sel (fst resp))" by blast
  have abs: "etcd_abs e ns v = etcd_abs e ns u" using q abs_same by (auto simp: read_effect_def)
  show "list_effect (etcd_abs e ns) (\<lambda>u. {c. etcd_abs e ns u (KCluster, cl_id c) = Some (SCluster c) \<and> ?sel c}) cl_id u r v"
  proof (cases q)
    case (Ret x)
    let ?cs = "map (\<lambda>y. decoded ?PJ (snd y)) (fst x)"
    have "prefix_answer ?E ?p u x" using q Ret by (simp add: read_effect_def)
    note l = listing [OF I this]
    have "r = Ret (filter ?sel ?cs)" using r Ret l(1) by (simp add: collect_Ret)
    moreover have "distinct (map cl_id (filter ?sel ?cs))"
      using l(2) by (intro distinct_map_filter) (simp add: comp_def)
    moreover have "set (filter ?sel ?cs) = {c. etcd_abs e ns u (KCluster, cl_id c) = Some (SCluster c) \<and> ?sel c}"
      unfolding set_filter l(3) by blast
    ultimately show ?thesis using abs by (simp add: list_effect_def)
  qed (use q r abs in \<open>auto simp: list_effect_def read_effect_def\<close>)
qed

end
