(* ===== verification/EtcdUpdate.thy ===== *)
theory EtcdUpdate
  imports EtcdContract
begin

text \<open>
  The read-modify-write operations of the etcd backend: each attempt reads an object, applies the mutator
  and writes the result on condition that the object was not changed in between, and is retried when it
  was. The lemmas show that the loop as a whole is one atomic update, in spite of the other clients that
  act between the read and the write, and that the backend fulfils the storage contracts.
\<close>

section \<open>The retry loop\<close>

definition retryable :: "'a go \<Rightarrow> bool" where
  "retryable r \<longleftrightarrow> (\<exists>err. r = Fail err \<and> isRetryErr err)"

definition attempt_ok ::
  "('s, 'w) EtcdStore \<Rightarrow> string \<Rightarrow> ('s, 'a) prog \<Rightarrow> ('s \<Rightarrow> 'a go \<Rightarrow> 's \<Rightarrow> bool) \<Rightarrow> bool" where
  "attempt_ok e ns f Q \<longleftrightarrow> (\<forall>s r t. etcd_I e ns s \<longrightarrow> f s = (r, t) \<longrightarrow>
     (if retryable r then etcd_R e ns s t
      else \<exists>u v. etcd_R e ns s u \<and> etcd_I e ns u \<and> Q u r v \<and> etcd_I e ns v \<and> etcd_R e ns v t \<and> etcd_I e ns t))"

lemma attempt_ok_retry:
  "attempt_ok e ns f Q \<Longrightarrow> etcd_I e ns s \<Longrightarrow> f s = (r, t) \<Longrightarrow> retryable r \<Longrightarrow> etcd_R e ns s t"
  by (simp add: attempt_ok_def)

lemma attempt_ok_done:
  assumes "attempt_ok e ns f Q" and "etcd_I e ns s" and "f s = (r, t)" and "\<not> retryable r"
  shows "\<exists>u v. etcd_R e ns s u \<and> etcd_I e ns u \<and> Q u r v \<and> etcd_I e ns v \<and> etcd_R e ns v t \<and> etcd_I e ns t"
proof -
  have "if retryable r then etcd_R e ns s t
      else \<exists>u v. etcd_R e ns s u \<and> etcd_I e ns u \<and> Q u r v \<and> etcd_I e ns v \<and> etcd_R e ns v t \<and> etcd_I e ns t"
    using assms(1-3) unfolding attempt_ok_def by blast
  with assms(4) show ?thesis by (simp only: if_False)
qed

definition settled :: "('s, 'w) EtcdStore \<Rightarrow> string \<Rightarrow> ('s \<Rightarrow> 'a go \<Rightarrow> 's \<Rightarrow> bool) \<Rightarrow> 's \<Rightarrow> 'a go \<Rightarrow> 's \<Rightarrow> bool" where
  "settled e ns Q s r t \<longleftrightarrow>
     (\<exists>u v. etcd_R e ns s u \<and> etcd_I e ns u \<and> Q u r v \<and> etcd_I e ns v \<and> etcd_R e ns v t \<and> etcd_I e ns t)"

lemma settled_before:
  assumes "etcd_R e ns s t" and "settled e ns Q t r w"
  shows "settled e ns Q s r w"
proof -
  obtain u v where uv: "etcd_R e ns t u" "etcd_I e ns u" "Q u r v" "etcd_I e ns v" "etcd_R e ns v w" "etcd_I e ns w"
    using assms(2) unfolding settled_def by (elim exE conjE)
  have "etcd_R e ns s u" by (rule etcd.R_trans [OF assms(1) uv(1)])
  with uv(2-6) show ?thesis unfolding settled_def by (intro exI conjI)
qed

lemma attempts_atomic:
  assumes ok: "attempt_ok e ns f Q" and gaveup: "\<And>u err. etcd_I e ns u \<Longrightarrow> isRetryErr err \<Longrightarrow> Q u (Fail err) u"
    and run: "attempts isRetryErr f n s res" and I: "etcd_I e ns s"
  shows "settled e ns Q s (fst res) (snd res)"
  using run I
proof (induction rule: attempts.induct)
  case (last s res)
  obtain r t where res: "res = (r, t)" by (cases res)
  have fs: "f s = (r, t)" using last.hyps res by (rule trans)
  show ?case
  proof (cases "retryable r")
    case True
    have R: "etcd_R e ns s t" by (rule attempt_ok_retry [OF ok last.prems fs True])
    have It: "etcd_I e ns t" by (rule etcd.R_keeps [OF last.prems R])
    obtain err where "r = Fail err" "isRetryErr err" using True unfolding retryable_def by (elim exE conjE)
    with gaveup [OF It] have "Q t r t" by (simp only:)
    then show ?thesis
      unfolding settled_def res fst_conv snd_conv using R It etcd.R_refl [OF It] by (intro exI conjI)
  next
    case False
    then show ?thesis
      unfolding settled_def res fst_conv snd_conv by (rule attempt_ok_done [OF ok last.prems fs])
  qed
next
  case (again s err t n res)
  have R: "etcd_R e ns s t"
    by (rule attempt_ok_retry [OF ok again.prems again.hyps(1)]) (use again.hyps(2) in \<open>simp add: retryable_def\<close>)
  have It: "etcd_I e ns t" by (rule etcd.R_keeps [OF again.prems R])
  show ?case by (rule settled_before [OF R again.IH [OF It]])
qed

lemma retry_atomic:
  assumes "retry_laws OnError" and "attempt_ok e ns f Q"
    and "\<And>u err. etcd_I e ns u \<Longrightarrow> isRetryErr err \<Longrightarrow> Q u (Fail err) u"
  shows "atomic (etcd_I e ns) (etcd_R e ns) (OnError backoffSteps isRetryErr f) Q"
proof (rule atomicI)
  fix s r t assume I: "etcd_I e ns s" and run: "OnError backoffSteps isRetryErr f s = (r, t)"
  have "0 < backoffSteps" by (simp add: backoffSteps_def)
  then have "\<exists>m \<le> backoffSteps. attempts isRetryErr f m s (OnError backoffSteps isRetryErr f s)"
    using assms(1) unfolding retry_laws_def by blast
  then obtain m where m: "attempts isRetryErr f m s (r, t)" unfolding run by blast
  have "settled e ns Q s (fst (r, t)) (snd (r, t))" by (rule attempts_atomic [OF assms(2,3) m I])
  then show "\<exists>u v. etcd_R e ns s u \<and> etcd_I e ns u \<and> Q u r v \<and> etcd_I e ns v \<and> etcd_R e ns v t \<and> etcd_I e ns t"
    unfolding settled_def fst_conv snd_conv .
qed

section \<open>UpdateCluster\<close>

lemma read_R:
  assumes "etcd_I e ns u" and "etcd_I e ns v" and "same (es_Client e) u v"
  shows "etcd_R e ns u v"
  using assms rely_same [of "es_Client e" u v] by (simp add: etcd_R_def etcd_I_def same_def)

lemma errRetry_retryable: "retryable (Fail errRetry)"
  by (simp add: retryable_def isRetryErr_def)

lemma foreign_not_retryable [simp]: "foreign err \<Longrightarrow> \<not> retryable (Fail err)"
  by (simp add: retryable_def isRetryErr_def foreign_def)

text \<open>The read of an attempt, with the value it saw and a moment at which that was the stored one.\<close>

lemma GetCluster_run:
  assumes I: "etcd_I e ns s" and id: "ValidateID i = Ret ()" and run: "Etcd_GetCluster e \<lparr> ref_id = i \<rparr> s = (r, t)"
  obtains u where "etcd_R e ns s u" "etcd_I e ns u" "etcd_R e ns u t" "etcd_I e ns t"
    "(\<exists>kv c. r = Ret c \<and> e_db (es_Client e) u (okey_path e ns (KCluster, i)) = Some kv \<and>
        decode_cluster (es_PJ e) kv = Ret c \<and> cl_id c = i) \<or>
     (r = Fail ErrNotFound \<and> e_db (es_Client e) u (okey_path e ns (KCluster, i)) = None) \<or>
     (\<exists>err. r = Fail err \<and> foreign err)"
proof -
  have par: "etcd_params e ns" using I by (simp add: etcd_I_def)
  let ?k = "okey_path e ns (KCluster, i)"
  obtain q t' where q: "c_Get (es_Client e) ?k s = (q, t')" by (cases "c_Get (es_Client e) ?k s")
  obtain u v where uv: "etcd_R e ns s u" "etcd_I e ns u"
    "read_effect (es_Client e) (\<lambda>u x. x = e_db (es_Client e) u ?k) u q v" "etcd_I e ns v" "etcd_R e ns v t'" "etcd_I e ns t'"
    using Get_atomic [OF par] I q by (rule atomicE)
  have uv_R: "etcd_R e ns u t'" using read_R [OF uv(2,4)] uv(3,5) etcd.R_trans by (auto simp: read_effect_def)
  have run': "r = go_bind (go_err q (Wrap ''failed to get cluster''))
      (\<lambda>resp. case resp of None \<Rightarrow> Fail ErrNotFound | Some kv \<Rightarrow> decode_cluster (es_PJ e) kv) \<and> t = t'"
    using run q okey_path_simps(1) [of e i ns] by (cases q) (auto simp: Etcd_GetCluster_def bind_def catch_def)
  have "(\<exists>kv c. r = Ret c \<and> e_db (es_Client e) u ?k = Some kv \<and> decode_cluster (es_PJ e) kv = Ret c \<and> cl_id c = i) \<or>
     (r = Fail ErrNotFound \<and> e_db (es_Client e) u ?k = None) \<or> (\<exists>err. r = Fail err \<and> foreign err)"
  proof (cases q)
    case (Ret x)
    then have x: "x = e_db (es_Client e) u ?k" using uv(3) by (simp add: read_effect_def)
    show ?thesis
    proof (cases x)
      case (Some kv)
      with x obtain c where "decode_cluster (es_PJ e) kv = Ret c" "cl_id c = i"
        using cluster_at [OF uv(2) id, of kv] by metis
      with Some x Ret run' show ?thesis by auto
    qed (use x Ret run' in auto)
  qed (use uv(3) run' in \<open>auto simp: read_effect_def\<close>)
  with uv(1,2,6) uv_R run' show thesis by (intro that [of u]) simp_all
qed

text \<open>The conditional write of an attempt, when the condition implies that the object is still the one read.\<close>

lemma write_run:
  assumes par: "etcd_params e ns" and id: "ValidateID (snd ki) = Ret ()"
    and typed: "\<And>kv. ev_value kv = w \<Longrightarrow> well_typed (es_PJ e) (fst ki) (snd ki) kv"
    and seen: "etcd_R e ns u t" and I: "etcd_I e ns t"
    and still: "\<And>u'. etcd_R e ns u u' \<Longrightarrow> etcd_I e ns u' \<Longrightarrow> cmp_holds c (e_db (es_Client e) u' (okey_path e ns ki)) \<Longrightarrow>
      e_db (es_Client e) u' (okey_path e ns ki) = Some kv"
    and run: "c_Txn (es_Client e) (okey_path e ns ki) c w l t = (q, t')"
  obtains (refused) n where "q = Ret (False, n)" "etcd_R e ns t t'"
  | (written) u' v' where "q = Ret (True, e_rev (es_Client e) v')" "etcd_R e ns u u'" "etcd_I e ns u'"
      "e_db (es_Client e) u' (okey_path e ns ki) = Some kv" "did_put (es_Client e) (okey_path e ns ki) w l u' v'"
      "etcd_I e ns v'" "etcd_R e ns v' t'" "etcd_I e ns t'"
  | (lost) err u' v' where "q = Fail err" "foreign err" "etcd_R e ns u u'" "etcd_I e ns u'"
      "same (es_Client e) u' v' \<or> e_db (es_Client e) u' (okey_path e ns ki) = Some kv \<and>
         did_put (es_Client e) (okey_path e ns ki) w l u' v'"
      "etcd_I e ns v'" "etcd_R e ns v' t'" "etcd_I e ns t'"
proof -
  obtain u' v' where uv: "etcd_R e ns t u'" "etcd_I e ns u'" "txn_effect (es_Client e) (okey_path e ns ki) c w l u' q v'"
    "etcd_I e ns v'" "etcd_R e ns v' t'" "etcd_I e ns t'"
    using Txn_atomic [OF par id typed] I run by (rule atomicE)
  have R: "etcd_R e ns u u'" by (rule etcd.R_trans [OF seen uv(1)])
  show thesis
  proof (cases q)
    case (Ret x)
    obtain b n where x: "x = (b, n)" by (cases x)
    show thesis
    proof (cases b)
      case True
      then have "cmp_holds c (e_db (es_Client e) u' (okey_path e ns ki))" "did_put (es_Client e) (okey_path e ns ki) w l u' v'"
        "n = e_rev (es_Client e) v'" using uv(3) Ret x by (simp_all add: txn_effect_def)
      then show thesis using written [of v' u'] Ret x True R uv(2,4-6) still [OF R uv(2)] by simp
    next
      case False
      then have "same (es_Client e) u' v'" using uv(3) Ret x by (simp add: txn_effect_def)
      then have "etcd_R e ns u' t'" using etcd.R_trans [OF read_R [OF uv(2,4)] uv(5)] by simp
      then show thesis using refused [of n] Ret x False etcd.R_trans [OF uv(1)] by simp
    qed
  next
    case (Fail err)
    then have "foreign err" "same (es_Client e) u' v' \<or> cmp_holds c (e_db (es_Client e) u' (okey_path e ns ki)) \<and>
        did_put (es_Client e) (okey_path e ns ki) w l u' v'" using uv(3) by (simp_all add: txn_effect_def)
    then show thesis using lost [of err u' v'] Fail R uv(2,4-6) still [OF R uv(2)] by blast
  qed (use uv(3) in \<open>simp add: txn_effect_def\<close>)
qed

text \<open>A revision that is compared equal is that of an unchanged object.\<close>

lemma same_revision:
  assumes "etcd_I e ns u" and "e_db (es_Client e) u k = Some kv" and "etcd_R e ns u u'" and "etcd_I e ns u'"
    and "cmp_holds (CmpModRevision (ev_mod kv)) (e_db (es_Client e) u' k)"
  shows "e_db (es_Client e) u' k = Some kv"
proof -
  have ok: "kv_ok (e_rev (es_Client e) u) kv" by (rule I_kv [OF assms(1,2)])
  then obtain kv' where kv': "e_db (es_Client e) u' k = Some kv'" "ev_mod kv' = ev_mod kv"
    using assms(5) by (cases "e_db (es_Client e) u' k") (auto simp: kv_ok_def)
  have "e_db (es_Client e) u k = Some kv'"
    using rely_mod [of "es_Client e" _ _ u u' k kv'] kv' ok assms(3) by (auto simp: etcd_R_def kv_ok_def)
  with assms(2) kv' show ?thesis by simp
qed

lemma settledI:
  "etcd_R e ns s u \<Longrightarrow> etcd_I e ns u \<Longrightarrow> Q u r v \<Longrightarrow> etcd_I e ns v \<Longrightarrow> etcd_R e ns v t \<Longrightarrow> etcd_I e ns t \<Longrightarrow> settled e ns Q s r t"
  unfolding settled_def by (intro exI conjI)

lemma attempt_okI:
  assumes "\<And>s r t. etcd_I e ns s \<Longrightarrow> f s = (r, t) \<Longrightarrow> retryable r \<and> etcd_R e ns s t \<or> \<not> retryable r \<and> settled e ns Q s r t"
  shows "attempt_ok e ns f Q"
  using assms unfolding attempt_ok_def settled_def by (metis (no_types, lifting))

lemma not_retryable [simp]: "\<not> retryable (Ret x)" "\<not> retryable (Panic p)"
  by (simp_all add: retryable_def)

text \<open>The conditional write, for the contract of an update: \<open>x\<close> is the object read, \<open>z\<close> what the mutator made
  of it, \<open>ans\<close> the answer at a revision.\<close>

lemma rmw_settled:
  assumes par: "etcd_params e ns" and id: "ValidateID (snd ki) = Ret ()"
    and typed: "\<And>kv. ev_value kv = w \<Longrightarrow> well_typed (es_PJ e) (fst ki) (snd ki) kv"
    and seen: "etcd_R e ns u t" and It: "etcd_I e ns t"
    and still: "\<And>u'. etcd_R e ns u u' \<Longrightarrow> etcd_I e ns u' \<Longrightarrow> cmp_holds c (e_db (es_Client e) u' (okey_path e ns ki)) \<Longrightarrow>
      e_db (es_Client e) u' (okey_path e ns ki) = Some kv"
    and at: "\<And>u'. e_db (es_Client e) u' (okey_path e ns ki) = Some kv \<Longrightarrow> etcd_abs e ns u' ki = Some (norm x)"
    and put: "\<And>u' v'. did_put (es_Client e) (okey_path e ns ki) w l u' v' \<Longrightarrow>
      etcd_abs e ns v' = (etcd_abs e ns u')(ki \<mapsto> norm (ans (e_rev (es_Client e) v')))"
    and mut: "mut x = Ret z" and ans: "\<And>n. same_up z (ans n)"
    and run: "bind (c_Txn (es_Client e) (okey_path e ns ki) c w l)
      (\<lambda>resp. lift (if \<not> fst resp then Fail errRetry else Ret (ans (snd resp)))) t = (r, t')"
  shows "retryable r \<and> etcd_R e ns u t' \<or> \<not> retryable r \<and>
    settled e ns (update_effect (etcd_abs e ns) norm ki mut same_up) u r t'"
proof -
  let ?Q = "update_effect (etcd_abs e ns) norm ki mut same_up" and ?k = "okey_path e ns ki"
  obtain q t'' where q: "c_Txn (es_Client e) ?k c w l t = (q, t'')" by (cases "c_Txn (es_Client e) ?k c w l t")
  have r: "r = go_bind q (\<lambda>resp. if \<not> fst resp then Fail errRetry else Ret (ans (snd resp)))" "t' = t''"
    using run q by (cases q; simp add: bind_def)+
  show ?thesis
  proof (rule write_run [OF par id typed seen It still q])
    fix n assume "q = Ret (False, n)" "etcd_R e ns t t''"
    then show ?thesis using r etcd.R_trans [OF seen] errRetry_retryable by auto
  next
    fix u' v' assume *: "q = Ret (True, e_rev (es_Client e) v')" "etcd_R e ns u u'" "etcd_I e ns u'"
      "e_db (es_Client e) u' ?k = Some kv" "did_put (es_Client e) ?k w l u' v'"
      "etcd_I e ns v'" "etcd_R e ns v' t''" "etcd_I e ns t''"
    have "?Q u' r v'" using r *(1) put [OF *(5)] at [OF *(4)] mut ans by (auto simp: update_effect_def)
    then show ?thesis using settledI [OF *(2,3) _ *(6,7,8), of ?Q r] r *(1) by simp
  next
    fix err u' v' assume *: "q = Fail err" "foreign err" "etcd_R e ns u u'" "etcd_I e ns u'"
      "same (es_Client e) u' v' \<or> e_db (es_Client e) u' ?k = Some kv \<and> did_put (es_Client e) ?k w l u' v'"
      "etcd_I e ns v'" "etcd_R e ns v' t''" "etcd_I e ns t''"
    have "etcd_abs e ns v' = etcd_abs e ns u' \<or> (etcd_abs e ns u' ki = Some (norm x) \<and>
        etcd_abs e ns v' = (etcd_abs e ns u')(ki \<mapsto> norm (ans (e_rev (es_Client e) v'))))"
      using *(5) abs_same [of e u' v' ns] put [of u' v'] at [of u'] by blast
    then have "?Q u' r v'" using r *(1) foreignD [OF *(2)] mut ans by (auto simp: update_effect_def)
    then show ?thesis using settledI [OF *(3,4) _ *(6,7,8), of ?Q r] r *(1,2) by simp
  qed
qed

lemma keeps_idD:
  "keeps_id mut \<Longrightarrow> mut c = Ret d \<Longrightarrow> cl_id d = cl_id c" "keeps_id mut \<Longrightarrow> mut c \<noteq> Fail err"
  by (simp_all add: keeps_id_def)

lemma cluster_seen:
  "ValidateID i = Ret () \<Longrightarrow> e_db (es_Client e) u (okey_path e ns (KCluster, i)) = Some kv \<Longrightarrow>
   decode_cluster (es_PJ e) kv = Ret c \<Longrightarrow> etcd_abs e ns u (KCluster, i) = Some (SCluster c)"
  by (simp add: etcd_abs_def observed_kind obj_of_def go_option_def)

lemma cluster_version: "decode_cluster PJ kv = Ret c \<Longrightarrow> cluster_GetResourceVersion c = show_nat (ev_mod kv)"
  by (auto simp: decode_cluster_def)

text \<open>The attempt after a successful read.\<close>

definition cluster_rest :: "('s, 'w) EtcdStore \<Rightarrow> string \<Rightarrow> 'w etcd_kv \<Rightarrow> Cluster \<Rightarrow> ('s, Cluster) prog" where
  "cluster_rest e key kv z = (let cluster = cluster_SetResourceVersion z '''' in
     bind (lift (go_err (mar_cluster (es_PJ e) cluster) (Wrap ''failed to marshal cluster''))) (\<lambda>data.
     bind (c_Txn (es_Client e) key (CmpModRevision (ev_mod kv)) data NoLease) (\<lambda>txnResp.
     lift (if \<not> fst txnResp then Fail errRetry
           else Ret (cluster_SetResourceVersion cluster (show_nat (snd txnResp)))))))"

lemma cluster_rest_settled:
  assumes par: "etcd_params e ns" and id: "ValidateID i = Ret ()" and mut: "mut c = Ret z" "cl_id z = i"
    and Iu: "etcd_I e ns u" and seen: "etcd_R e ns u t" and It: "etcd_I e ns t"
    and kv: "e_db (es_Client e) u (okey_path e ns (KCluster, i)) = Some kv" "decode_cluster (es_PJ e) kv = Ret c"
    and run: "cluster_rest e (okey_path e ns (KCluster, i)) kv z t = (r, t')"
  shows "retryable r \<and> etcd_R e ns u t' \<or> \<not> retryable r \<and>
    settled e ns (update_effect (etcd_abs e ns) SCluster (KCluster, i) mut managed_update) u r t'"
proof -
  let ?c = "cluster_SetResourceVersion z ''''" and ?ki = "(KCluster, i)"
  let ?Q = "update_effect (etcd_abs e ns) SCluster ?ki mut managed_update"
  have ci: "cl_id ?c = i" using mut(2) by simp
  show ?thesis
  proof (cases "mar_cluster (es_PJ e) ?c")
    case (Ret w)
    have typed: "well_typed (es_PJ e) (fst ?ki) (snd ?ki) x" if "ev_value x = w" for x
      using cluster_typed [OF par Ret that] ci by simp
    have still: "e_db (es_Client e) u' (okey_path e ns ?ki) = Some kv"
      if "etcd_R e ns u u'" "etcd_I e ns u'" "cmp_holds (CmpModRevision (ev_mod kv)) (e_db (es_Client e) u' (okey_path e ns ?ki))" for u'
      using same_revision [OF Iu kv(1) that] .
    have put: "etcd_abs e ns v' = (etcd_abs e ns u')(?ki \<mapsto> SCluster (cluster_SetResourceVersion ?c (show_nat (e_rev (es_Client e) v'))))"
      if "did_put (es_Client e) (okey_path e ns ?ki) w NoLease u' v'" for u' v'
      using abs_put_cluster [OF par _ Ret, of NoLease u' v'] that ci id by simp
    have man: "managed_update z (cluster_SetResourceVersion ?c (show_nat n))" for n
      unfolding managed_update_def by (intro exI [of _ "show_nat n"]) (simp add: cluster_access)
    have id': "ValidateID (snd ?ki) = Ret ()" using id by simp
    have run': "bind (c_Txn (es_Client e) (okey_path e ns ?ki) (CmpModRevision (ev_mod kv)) w NoLease)
      (\<lambda>resp. lift (if \<not> fst resp then Fail errRetry else Ret (cluster_SetResourceVersion ?c (show_nat (snd resp))))) t = (r, t')"
      using run by (simp add: cluster_rest_def Ret)
    show ?thesis
      by (rule rmw_settled [where norm = SCluster and mut = mut and same_up = managed_update and z = z and x = c and ans = "\<lambda>n. cluster_SetResourceVersion ?c (show_nat n)",
          OF par id' typed seen It still cluster_seen [OF id _ kv(2)] put mut(1) man run'])
  next
    case (Fail err)
    then have f: "foreign err" by (rule codec_cluster(2) [OF par])
    have r: "r = Fail (Wrap ''failed to marshal cluster'' err)" "t' = t" using run by (auto simp: cluster_rest_def Fail)
    have "?Q u r u" using r f by (auto simp: update_effect_def)
    then show ?thesis
      using settledI [OF etcd.R_refl [OF Iu] Iu _ Iu seen It, of ?Q r] r f
      by simp
  qed (use codec_cluster(3) [OF par] in blast)
qed

lemma updateCluster_attempt_run:
  assumes kv: "decode_cluster PJ kv = Ret c" and ok: "kv_ok n kv" "n < 2 ^ 63"
    and get: "Etcd_GetCluster e \<lparr> ref_id = i \<rparr> s = (Ret c, t)"
  shows "updateCluster_attempt e \<lparr> ref_id = i \<rparr> mut s =
    bind (lift (mut c)) (cluster_rest e (okey_path e ns (KCluster, i)) kv) t"
proof -
  have "ParseInt (cluster_GetResourceVersion c) = Some (int (ev_mod kv))"
    using ok by (simp add: cluster_version [OF kv] kv_ok_def)
  then show ?thesis
    by (cases "mut c")
      (simp_all add: updateCluster_attempt_def cluster_rest_def Let_def bind_def catch_def get okey_path_simps(1) [of e i ns])
qed

lemma updateCluster_attempt_fail:
  "Etcd_GetCluster e ref s = (Fail err, t) \<Longrightarrow>
   updateCluster_attempt e ref mut s = (Fail (Wrap ''failed to get cluster'' err), t)"
  by (simp add: updateCluster_attempt_def Let_def bind_def catch_def)

lemma updateCluster_attempt_ok:
  assumes par: "etcd_params e ns" and id: "ValidateID i = Ret ()" and keeps: "keeps_id mut"
  shows "attempt_ok e ns (updateCluster_attempt e \<lparr> ref_id = i \<rparr> mut)
    (update_effect (etcd_abs e ns) SCluster (KCluster, i) mut managed_update)"
proof (rule attempt_okI)
  let ?Q = "update_effect (etcd_abs e ns) SCluster (KCluster, i) mut managed_update"
  let ?k = "okey_path e ns (KCluster, i)"
  fix s r t assume I: "etcd_I e ns s" and run: "updateCluster_attempt e \<lparr> ref_id = i \<rparr> mut s = (r, t)"
  obtain r1 t1 where get: "Etcd_GetCluster e \<lparr> ref_id = i \<rparr> s = (r1, t1)" by (cases "Etcd_GetCluster e \<lparr> ref_id = i \<rparr> s")
  obtain u where u: "etcd_R e ns s u" "etcd_I e ns u" "etcd_R e ns u t1" "etcd_I e ns t1"
    and r1: "(\<exists>kv c. r1 = Ret c \<and> e_db (es_Client e) u ?k = Some kv \<and> decode_cluster (es_PJ e) kv = Ret c \<and> cl_id c = i) \<or>
     (r1 = Fail ErrNotFound \<and> e_db (es_Client e) u ?k = None) \<or> (\<exists>err. r1 = Fail err \<and> foreign err)"
    using I id get by (rule GetCluster_run)
  have now: "settled e ns ?Q s r t" if "?Q u r u" "t = t1"
    using settledI [OF u(1,2) _ u(2,3,4)] that by simp
  from r1 consider (found) kv c where "r1 = Ret c" "e_db (es_Client e) u ?k = Some kv" "decode_cluster (es_PJ e) kv = Ret c" "cl_id c = i"
    | (none) "r1 = Fail ErrNotFound" "e_db (es_Client e) u ?k = None" | (bad) err where "r1 = Fail err" "foreign err" by (elim disjE exE conjE) simp_all
  then show "retryable r \<and> etcd_R e ns s t \<or> \<not> retryable r \<and> settled e ns ?Q s r t"
  proof cases
    case found
    have run': "bind (lift (mut c)) (cluster_rest e ?k kv) t1 = (r, t)"
      using updateCluster_attempt_run [OF found(3) I_kv [OF u(2) found(2)] I_rev [OF u(2)] get [unfolded found(1)]] run by metis
    show ?thesis
    proof (cases "mut c")
      case (Ret z)
      have "cl_id z = i" using keeps_idD(1) [OF keeps Ret] found(4) by simp
      from cluster_rest_settled [where mut = mut, OF par id Ret this u(2-4) found(2,3)] run' Ret
      have "retryable r \<and> etcd_R e ns u t \<or> \<not> retryable r \<and> settled e ns ?Q u r t" by simp
      then show ?thesis using etcd.R_trans [OF u(1)] settled_before [OF u(1)] by blast
    next
      case (Panic p)
      then have r: "r = Panic p" "t = t1" using run' by simp_all
      then have "?Q u r u" using Panic cluster_seen [OF id found(2,3)] by (simp add: update_effect_def)
      with now r show ?thesis by simp
    qed (use keeps_idD(2) [OF keeps] in blast)
  next
    case none
    have "etcd_abs e ns u (KCluster, i) = None" using none(2) by (simp add: etcd_abs_def)
    moreover have "r = Fail (Wrap ''failed to get cluster'' ErrNotFound)" "t = t1"
      using updateCluster_attempt_fail [OF get [unfolded none(1)]] run by auto
    ultimately show ?thesis using now by (simp add: update_effect_def retryable_def isRetryErr_def)
  next
    case bad
    have r: "r = Fail (Wrap ''failed to get cluster'' err)" "t = t1"
      using updateCluster_attempt_fail [OF get [unfolded bad(1)]] run by auto
    with bad(2) have "?Q u r u" by (auto simp: update_effect_def)
    with now r bad(2) show ?thesis by simp
  qed
qed

lemma retry_not_NotFound: "isRetryErr err \<Longrightarrow> \<not> errors_is err ErrNotFound"
  by (induction err) (auto simp: isRetryErr_def)

lemma UpdateCluster_atomic:
  assumes par: "etcd_params e ns" and id: "ValidateID i = Ret ()" and keeps: "keeps_id mut"
  shows "atomic (etcd_I e ns) (etcd_R e ns) (Etcd_UpdateCluster e \<lparr> ref_id = i \<rparr> mut)
    (update_effect (etcd_abs e ns) SCluster (KCluster, i) mut managed_update)"
  unfolding Etcd_UpdateCluster_def
proof (rule retry_atomic [OF _ updateCluster_attempt_ok [OF assms]])
  show "retry_laws (es_OnErrorC e)" using par by (simp add: etcd_params_def)
  fix u err assume "isRetryErr err"
  then show "update_effect (etcd_abs e ns) SCluster (KCluster, i) mut managed_update u (Fail err) u"
    by (simp add: update_effect_def retry_not_NotFound)
qed

lemma cluster_abs_stored:
  assumes "etcd_I e ns s" and "etcd_abs e ns s (KCluster, i) = Some x"
  shows "\<exists>c. x = SCluster c \<and> cl_id c = i"
proof -
  have ob: "ValidateID i = Ret ()" using assms(2) by (auto simp: etcd_abs_def observed_def split: if_splits)
  obtain kv where kv: "e_db (es_Client e) s (okey_path e ns (KCluster, i)) = Some kv" "obj_of (es_PJ e) KCluster kv = Some x"
    using assms(2) by (auto simp: etcd_abs_def bind_eq_Some_conv split: if_splits)
  show ?thesis by (rule cluster_at [OF assms(1) ob kv(1)]) (use kv(2) in simp)
qed

interpretation etcd_clusters: cluster_store "etcd_I e ns" "etcd_R e ns" "Etcd_ClusterStore now e" "etcd_abs e ns" for e ns now
  by unfold_locales (auto simp: Etcd_ClusterStore_def intro: under_params GetCluster_atomic CreateCluster_atomic
      UpdateCluster_atomic DeleteCluster_atomic ListClusters_atomic dest: cluster_abs_stored)

end
