(* ===== verification/EtcdTokens.thy ===== *)
theory EtcdTokens
  imports EtcdUpdate
begin

text \<open>
  The token store of the etcd backend fulfils its contract. A token is read in two calls (the value, then
  the time its lease has left); what counts is the moment of the first. An update compares the version of
  the key, which starts again at one when a key is created anew: the proof needs that the id of a token
  is not used twice.
\<close>

lemma token_at:
  assumes "etcd_I e ns u" and "ValidateID i = Ret ()"
    and "e_db (es_Client e) u (okey_path e ns (KToken, i)) = Some kv"
  obtains t where "unm_token (es_PJ e) (ev_value kv) = Ret t" "bt_tokenID t = i" "bt_metadata t \<noteq> None"
    "obj_of (es_PJ e) KToken kv = Some (SToken (forget_lease t))"
proof -
  have "well_typed (es_PJ e) KToken i kv"
    using wf_at [of e "e_db (es_Client e) u" "(KToken, i)" ns kv] assms by (simp add: etcd_I_def listed_def)
  then obtain t where "unm_token (es_PJ e) (ev_value kv) = Ret t" "bt_tokenID t = i" "bt_metadata t \<noteq> None"
    by (auto simp: well_typed_def)
  then show thesis using that by (simp add: obj_of_def go_option_def)
qed

text \<open>The lease of a token only changes what \<^const>\<open>forget_lease\<close> forgets.\<close>

lemma addLeaseMetadata_run:
  assumes I: "etcd_I e ns s" and m: "bt_metadata tok \<noteq> None" and run: "addLeaseMetadata e tok l s = (r, t)"
  shows "etcd_R e ns s t \<and> ((\<exists>tok'. r = Ret tok' \<and> forget_lease tok' = forget_lease tok \<and> bt_tokenID tok' = bt_tokenID tok \<and>
      bt_metadata tok' \<noteq> None) \<or> (\<exists>err. r = Fail err \<and> foreign err))"
proof (cases "l = 0")
  case True
  then show ?thesis using run m etcd.R_refl [OF I] by (simp add: addLeaseMetadata_def) (metis option.distinct(1))
next
  case False
  obtain md where md: "bt_metadata tok = Some md" using m by blast
  have par: "etcd_params e ns" using I by (simp add: etcd_I_def)
  obtain q t' where q: "c_TimeToLive (es_Client e) l s = (q, t')" by (cases "c_TimeToLive (es_Client e) l s")
  obtain u v where uv: "etcd_R e ns s u" "etcd_I e ns u" "read_effect (es_Client e) (\<lambda>u x. True) u q v" "etcd_I e ns v" "etcd_R e ns v t'"
    using TimeToLive_atomic [OF par] I q by (rule atomicE)
  have R: "etcd_R e ns s t'"
    using etcd.R_trans [OF uv(1) etcd.R_trans [OF read_R [OF uv(2,4)] uv(5)]] uv(3) by (simp add: read_effect_def)
  show ?thesis
  proof (cases q)
    case (Ret x)
    then have "r = Ret (tok\<lparr> bt_metadata := Some (md\<lparr> bm_leaseID := l, bm_ttl := x \<rparr>) \<rparr>)" "t = t'"
      using run q md False by (auto simp: addLeaseMetadata_def bind_def catch_def)
    with R md show ?thesis by (simp add: forget_lease_def)
  next
    case (Fail err)
    then have "r = Fail (Wrap ''failed to get lease'' err)" "t = t'" "foreign err"
      using run q md False uv(3) by (auto simp: addLeaseMetadata_def bind_def catch_def read_effect_def)
    with R show ?thesis by simp
  qed (use uv(3) in \<open>simp add: read_effect_def\<close>)
qed

definition token_seen :: "('s, 'w) EtcdStore \<Rightarrow> string \<Rightarrow> string \<Rightarrow> 's \<Rightarrow> (BootstrapToken \<times> nat) go \<Rightarrow> bool" where
  "token_seen e ns i u r = (case r of
     Ret (tok, n) \<Rightarrow> \<exists>kv. e_db (es_Client e) u (okey_path e ns (KToken, i)) = Some kv \<and> n = ev_version kv \<and>
       obj_of (es_PJ e) KToken kv = Some (SToken (forget_lease tok)) \<and> bt_tokenID tok = i \<and> bt_metadata tok \<noteq> None
   | Fail err \<Rightarrow> err = ErrNotFound \<and> e_db (es_Client e) u (okey_path e ns (KToken, i)) = None \<or> foreign err
   | Panic p \<Rightarrow> False)"

lemma getToken_run:
  assumes I: "etcd_I e ns s" and id: "ValidateID i = Ret ()" and run: "getToken e \<lparr> ref_id = i \<rparr> s = (r, t)"
  obtains u where "etcd_R e ns s u" "etcd_I e ns u" "etcd_R e ns u t" "etcd_I e ns t" "token_seen e ns i u r"
proof -
  have par: "etcd_params e ns" using I by (simp add: etcd_I_def)
  let ?k = "okey_path e ns (KToken, i)"
  obtain q t' where q: "c_Get (es_Client e) ?k s = (q, t')" by (cases "c_Get (es_Client e) ?k s")
  obtain u v where uv: "etcd_R e ns s u" "etcd_I e ns u"
    "read_effect (es_Client e) (\<lambda>u x. x = e_db (es_Client e) u ?k) u q v" "etcd_I e ns v" "etcd_R e ns v t'" "etcd_I e ns t'"
    using Get_atomic [OF par] I q by (rule atomicE)
  have R: "etcd_R e ns u t'" using etcd.R_trans [OF read_R [OF uv(2,4)] uv(5)] uv(3) by (simp add: read_effect_def)
  note unfold = getToken_def bind_def catch_def okey_path_simps(2) [of e i ns]
  show thesis
  proof (cases q)
    case (Fail err)
    then have "r = Fail (Wrap ''failed to get token'' err)" "t = t'" "foreign err"
      using run q uv(3) by (auto simp: unfold read_effect_def)
    then show thesis using uv(1,2,6) R by (intro that [of u]) (simp_all add: token_seen_def)
  next
    case (Ret x)
    then have x: "x = e_db (es_Client e) u ?k" using uv(3) by (simp add: read_effect_def)
    show thesis
    proof (cases x)
      case None
      then have "r = Fail ErrNotFound" "t = t'" using run q Ret by (auto simp: unfold)
      then show thesis using uv(1,2,6) R x None by (intro that [of u]) (simp_all add: token_seen_def)
    next
      case (Some kv)
      obtain tok where tok: "unm_token (es_PJ e) (ev_value kv) = Ret tok" "bt_tokenID tok = i" "bt_metadata tok \<noteq> None"
        "obj_of (es_PJ e) KToken kv = Some (SToken (forget_lease tok))"
        using token_at [OF uv(2) id] x Some by metis
      obtain p t2 where p: "addLeaseMetadata e tok (ev_lease kv) t' = (p, t2)" by (cases "addLeaseMetadata e tok (ev_lease kv) t'")
      note lease = addLeaseMetadata_run [OF uv(6) tok(3) p]
      have r: "r = go_bind p (\<lambda>tok. Ret (tok, ev_version kv))" "t = t2"
        using run q Ret Some tok(1) p by (cases p; simp add: unfold)+
      have db: "e_db (es_Client e) u ?k = Some kv" using x Some by simp
      have "token_seen e ns i u r" using lease r(1) tok
        by (elim conjE disjE exE) (simp_all add: token_seen_def db)
      moreover have "etcd_R e ns u t" using etcd.R_trans [OF R] lease r by blast
      ultimately show thesis using uv(1,2) etcd.R_keeps [OF uv(2)] by (intro that [of u]) simp_all
    qed
  qed (use uv(3) in \<open>simp add: read_effect_def\<close>)
qed

lemma token_seen_abs:
  assumes "ValidateID i = Ret ()" and "token_seen e ns i u r"
  shows "get_effect (etcd_abs e ns) (SToken \<circ> forget_lease) (KToken, i) u (go_bind r (\<lambda>(t, v). Ret t)) u"
  using assms by (cases r) (auto simp: token_seen_def get_effect_def etcd_abs_def observed_kind split: prod.splits)

lemma GetToken_atomic:
  assumes id: "ValidateID i = Ret ()"
  shows "atomic (etcd_I e ns) (etcd_R e ns) (Etcd_GetToken e \<lparr> ref_id = i \<rparr>)
    (get_effect (etcd_abs e ns) (SToken \<circ> forget_lease) (KToken, i))"
proof (rule atomicI)
  fix s r t assume I: "etcd_I e ns s" and run: "Etcd_GetToken e \<lparr> ref_id = i \<rparr> s = (r, t)"
  obtain q t' where q: "getToken e \<lparr> ref_id = i \<rparr> s = (q, t')" by (cases "getToken e \<lparr> ref_id = i \<rparr> s")
  have r: "r = go_bind q (\<lambda>(t, v). Ret t)" "t = t'"
    using run q by (cases q; simp add: Etcd_GetToken_def bind_def split: prod.splits)+
  obtain u where u: "etcd_R e ns s u" "etcd_I e ns u" "etcd_R e ns u t'" "etcd_I e ns t'" "token_seen e ns i u q"
    using I id q by (rule getToken_run)
  from token_seen_abs [OF id u(5)] show "\<exists>u v. etcd_R e ns s u \<and> etcd_I e ns u \<and>
      get_effect (etcd_abs e ns) (SToken \<circ> forget_lease) (KToken, i) u r v \<and> etcd_I e ns v \<and> etcd_R e ns v t \<and> etcd_I e ns t"
    using u(1-4) r by (intro exI [of _ u]) simp
qed

section \<open>UpdateToken\<close>

text \<open>A version that is compared equal is that of an unchanged token, as its key was not created again.\<close>

lemma same_version:
  assumes "etcd_I e ns u" and "e_db (es_Client e) u k = Some kv" and "token_key e k"
    and "etcd_R e ns u u'" and "cmp_holds (CmpVersion (ev_version kv)) (e_db (es_Client e) u' k)"
  shows "e_db (es_Client e) u' k = Some kv"
proof -
  have ok: "kv_ok (e_rev (es_Client e) u) kv" by (rule I_kv [OF assms(1,2)])
  then obtain kv' where kv': "e_db (es_Client e) u' k = Some kv'" "ev_version kv' = ev_version kv"
    using assms(5) by (cases "e_db (es_Client e) u' k") (auto simp: kv_ok_def)
  have R: "rely (es_Client e) (token_key e) (etcd_wf e) u u'" using assms(4) by (simp add: etcd_R_def)
  have "k \<in> e_used (es_Client e) u" using assms(1,2) by (auto simp: etcd_I_def etcd_ok_def)
  then have "ev_create kv' \<le> e_rev (es_Client e) u" by (rule rely_once [OF R assms(3) kv'(1)])
  then obtain v where "e_db (es_Client e) u k = Some v" "ev_version v = ev_version kv' \<longrightarrow> v = kv'"
    using rely_create [OF R kv'(1)] by blast
  with assms(2) kv' show ?thesis by simp
qed

lemma token_key_path: "ValidateID i = Ret () \<Longrightarrow> token_key e (okey_path e ns (KToken, i))"
  by (simp add: token_key_def okey_path_def path_Join_snoc plain_kinds ValidateID_plain)

lemma codec_token:
  "etcd_params e ns \<Longrightarrow> mar_token (es_PJ e) x = Ret w \<Longrightarrow> unm_token (es_PJ e) w = Ret x"
  "etcd_params e ns \<Longrightarrow> mar_token (es_PJ e) x = Fail err \<Longrightarrow> foreign err"
  "etcd_params e ns \<Longrightarrow> mar_token (es_PJ e) x \<noteq> Panic p"
  by (simp_all add: etcd_params_def codec_laws_def)

lemma keeps_tokenD:
  "keeps_token mut \<Longrightarrow> mut t = Ret u \<Longrightarrow> bt_tokenID u = bt_tokenID t \<and> (bt_metadata t \<noteq> None \<longrightarrow> bt_metadata u \<noteq> None)"
  "keeps_token mut \<Longrightarrow> mut t \<noteq> Fail err"
  by (simp_all add: keeps_token_def)

lemma updateToken_attempt_ok:
  assumes par: "etcd_params e ns" and id: "ValidateID i = Ret ()" and keeps: "keeps_token mut"
  shows "attempt_ok e ns (updateToken_attempt e \<lparr> ref_id = i \<rparr> mut)
    (update_effect (etcd_abs e ns) (SToken \<circ> forget_lease) (KToken, i) mut (=))"
proof (rule attempt_okI)
  let ?ki = "(KToken, i)" and ?N = "SToken \<circ> forget_lease"
  let ?Q = "update_effect (etcd_abs e ns) ?N ?ki mut (=)" and ?k = "okey_path e ns ?ki"
  fix s r t assume I: "etcd_I e ns s" and run: "updateToken_attempt e \<lparr> ref_id = i \<rparr> mut s = (r, t)"
  obtain q t1 where q: "getToken e \<lparr> ref_id = i \<rparr> s = (q, t1)" by (cases "getToken e \<lparr> ref_id = i \<rparr> s")
  obtain u where u: "etcd_R e ns s u" "etcd_I e ns u" "etcd_R e ns u t1" "etcd_I e ns t1" "token_seen e ns i u q"
    using I id q by (rule getToken_run)
  have now: "settled e ns ?Q s r t" if "?Q u r u" "t = t1" using settledI [OF u(1,2) _ u(2,3,4)] that by simp
  note unfold = updateToken_attempt_def Let_def bind_def okey_path_simps(2) [of e i ns]
  show "retryable r \<and> etcd_R e ns s t \<or> \<not> retryable r \<and> settled e ns ?Q s r t"
  proof (cases q)
    case (Fail err)
    then have r: "r = Fail err" "t = t1" using run q by (auto simp: unfold)
    have seen: "err = ErrNotFound \<and> e_db (es_Client e) u ?k = None \<or> foreign err" using u(5) Fail by (simp add: token_seen_def)
    then have "?Q u r u" "\<not> retryable r"
      using r foreign_not_retryable [of err] by (auto simp: update_effect_def etcd_abs_def retryable_def isRetryErr_def)
    with now r show ?thesis by simp
  next
    case (Ret x)
    obtain tok n where x: "x = (tok, n)" by (cases x)
    obtain kv where kv: "e_db (es_Client e) u ?k = Some kv" "n = ev_version kv" "obj_of (es_PJ e) KToken kv = Some (?N tok)"
      "bt_tokenID tok = i" "bt_metadata tok \<noteq> None" using u(5) Ret x by (auto simp: token_seen_def)
    have at: "etcd_abs e ns u' ?ki = Some (?N tok)" if "e_db (es_Client e) u' ?k = Some kv" for u'
      using that kv(3) id by (simp add: etcd_abs_def observed_kind)
    show ?thesis
    proof (cases "mut tok")
      case (Ret z)
      have z: "bt_tokenID z = i" "bt_metadata z \<noteq> None" using keeps_tokenD(1) [OF keeps Ret] kv(4,5) by simp_all
      show ?thesis
      proof (cases "mar_token (es_PJ e) z")
        case (Ret w)
        have dec: "unm_token (es_PJ e) w = Ret z" by (rule codec_token(1) [OF par Ret])
        have typed: "well_typed (es_PJ e) (fst ?ki) (snd ?ki) y" if "ev_value y = w" for y
          using dec z that by (simp add: well_typed_def)
        have put: "etcd_abs e ns v' = (etcd_abs e ns u')(?ki \<mapsto> ?N z)" if "did_put (es_Client e) ?k w IgnoreLease u' v'" for u' v'
          using abs_put [OF that observed_kind [OF id]] dec by (simp add: obj_of_def go_option_def)
        have id': "ValidateID (snd ?ki) = Ret ()" using id by simp
        have run': "bind (c_Txn (es_Client e) ?k (CmpVersion (ev_version kv)) w IgnoreLease)
            (\<lambda>resp. lift (if \<not> fst resp then Fail errRetry else Ret z)) t1 = (r, t)"
          using run q \<open>q = Ret x\<close> x \<open>mut tok = Ret z\<close> Ret kv(2) by (simp add: unfold)
        have "retryable r \<and> etcd_R e ns u t \<or> \<not> retryable r \<and> settled e ns ?Q u r t"
          by (rule rmw_settled [where norm = ?N and mut = mut and same_up = "(=)" and z = z and x = tok and ans = "\<lambda>n. z",
              OF par id' typed u(3,4) same_version [OF u(2) kv(1) token_key_path [OF id]] at put \<open>mut tok = Ret z\<close> refl run'])
        then show ?thesis using etcd.R_trans [OF u(1)] settled_before [OF u(1)] by blast
      next
        case (Fail err)
        then have f: "foreign err" by (rule codec_token(2) [OF par])
        have r: "r = Fail (Wrap ''failed to marshal token'' err)" "t = t1"
          using run q \<open>q = Ret x\<close> x \<open>mut tok = Ret z\<close> Fail by (auto simp: unfold)
        with f have "?Q u r u" by (auto simp: update_effect_def)
        with now r f show ?thesis by simp
      qed (use codec_token(3) [OF par] in blast)
    next
      case (Panic p)
      then have r: "r = Panic p" "t = t1" using run q \<open>q = Ret x\<close> x by (simp_all add: unfold)
      then have "?Q u r u" using Panic at [OF kv(1)] by (auto simp: update_effect_def)
      with now r show ?thesis by simp
    qed (use keeps_tokenD(2) [OF keeps] in blast)
  qed (use u(5) in \<open>simp add: token_seen_def\<close>)
qed

lemma UpdateToken_atomic:
  assumes par: "etcd_params e ns" and id: "ValidateID i = Ret ()" and keeps: "keeps_token mut"
  shows "atomic (etcd_I e ns) (etcd_R e ns) (Etcd_UpdateToken e \<lparr> ref_id = i \<rparr> mut)
    (update_effect (etcd_abs e ns) (SToken \<circ> forget_lease) (KToken, i) mut (=))"
  unfolding Etcd_UpdateToken_def
proof (rule retry_atomic [OF _ updateToken_attempt_ok [OF assms]])
  show "retry_laws (es_OnErrorT e)" using par by (simp add: etcd_params_def)
  fix u err assume "isRetryErr err"
  then show "update_effect (etcd_abs e ns) (SToken \<circ> forget_lease) (KToken, i) mut (=) u (Fail err) u"
    by (simp add: update_effect_def retry_not_NotFound)
qed

lemma token_abs_stored:
  assumes "etcd_I e ns s" and "etcd_abs e ns s (KToken, i) = Some x"
  shows "\<exists>t. x = SToken t \<and> bt_tokenID t = i \<and> bt_metadata t \<noteq> None"
proof -
  have ob: "ValidateID i = Ret ()" using assms(2) by (auto simp: etcd_abs_def observed_def split: if_splits)
  obtain kv where kv: "e_db (es_Client e) s (okey_path e ns (KToken, i)) = Some kv" "obj_of (es_PJ e) KToken kv = Some x"
    using assms(2) by (auto simp: etcd_abs_def bind_eq_Some_conv split: if_splits)
  show ?thesis by (rule token_at [OF assms(1) ob kv(1)]) (use kv(2) in \<open>auto simp: forget_lease_def\<close>)
qed

interpretation etcd_tokens: token_store "etcd_I e ns" "etcd_R e ns" "Etcd_TokenStore sha entropy e" "etcd_abs e ns"
  for e ns sha entropy
proof unfold_locales
  fix i assume id: "ValidateID i = Ret ()"
  show "atomic (etcd_I e ns) (etcd_R e ns) (GetToken (Etcd_TokenStore sha entropy e) \<lparr> ref_id = i \<rparr>)
      (get_effect (etcd_abs e ns) (SToken \<circ> forget_lease) (KToken, i))"
    using GetToken_atomic [OF id] by (simp add: Etcd_TokenStore_def)
  show "atomic (etcd_I e ns) (etcd_R e ns) (UpdateToken (Etcd_TokenStore sha entropy e) \<lparr> ref_id = i \<rparr> mut)
      (update_effect (etcd_abs e ns) (SToken \<circ> forget_lease) (KToken, i) mut (=))" if "keeps_token mut" for mut
    using under_params [OF UpdateToken_atomic [OF _ id that]] by (simp add: Etcd_TokenStore_def)
qed (rule token_abs_stored)

end
