(* ===== verification/EtcdKeys.thy ===== *)
theory EtcdKeys
  imports EtcdUpdate
begin

text \<open>
  The keyring store and the key-value store of the etcd backend fulfil their contracts. Keyrings of a
  namespace are the objects \<open>(KKeyring ns, id)\<close> of the abstraction; the values of the key-value store
  have an abstraction of their own, on the keys that \<^verbatim>\<open>path.Join\<close> leaves as they are.
\<close>

section \<open>Keyrings\<close>

lemma codec_keyring:
  assumes "etcd_params e ns"
  shows "json_laws (mar_keyring (es_PJ e)) (unm_keyring (es_PJ e))"
    "mar_keyring (es_PJ e) c = Fail err \<Longrightarrow> foreign err" "mar_keyring (es_PJ e) c \<noteq> Panic p"
    "unm_keyring (es_PJ e) w = Fail err \<Longrightarrow> foreign err" "unm_keyring (es_PJ e) w \<noteq> Panic p"
  using assms by (simp_all add: etcd_params_def codec_laws_def)

lemma codec_keyring_types:
  assumes "etcd_params e ns" and "unm_keyring (es_PJ e) w = Ret c"
  shows "\<forall>k \<in> set (ck_SharedKeys c @ ck_PKPKey c @ ck_CACertsKey c @ ck_EphemeralKey c). type_of k \<in> set allowedKeyTypes"
proof -
  have "list_all (\<lambda>k. type_of k = TShared) (ck_SharedKeys c) \<and> list_all (\<lambda>k. type_of k = TPKP) (ck_PKPKey c) \<and>
      list_all (\<lambda>k. type_of k = TCACerts) (ck_CACertsKey c) \<and> ck_EphemeralKey c = []"
    using assms unfolding etcd_params_def codec_laws_def by blast
  then show ?thesis by (auto simp: list_all_iff allowedKeyTypes_def)
qed

lemma Unmarshal_cases:
  assumes "etcd_params e ns"
  shows "(\<exists>kr. keyring_Unmarshal (unm_keyring (es_PJ e)) w = Ret kr \<and> keyring_ok kr) \<or>
    (\<exists>err. keyring_Unmarshal (unm_keyring (es_PJ e)) w = Fail err \<and> foreign err)"
proof (cases "unm_keyring (es_PJ e) w")
  case (Ret c)
  obtain kr where "keyring_New (ck_SharedKeys c @ ck_PKPKey c @ ck_CACertsKey c @ ck_EphemeralKey c) = Ret kr" "keyring_ok kr"
    using keyring_New_Ret [OF codec_keyring_types [OF assms Ret]] by blast
  with Ret show ?thesis by (simp add: keyring_Unmarshal_def)
next
  case (Fail err)
  then show ?thesis using codec_keyring(4) [OF assms] by (simp add: keyring_Unmarshal_def)
qed (use codec_keyring(5) [OF assms] in blast)

lemma observed_keyring: "ValidateID i = Ret () \<Longrightarrow> observed ns (KKeyring ns, i)"
  by (simp add: observed_def)

lemma keyring_Get_Ret:
  assumes "etcd_params e ns" and "keyring_Get (Etcd_KeyringStore e ns ref) s = (Ret k, t)"
  shows "keyring_ok k"
proof -
  obtain w where "keyring_Unmarshal (unm_keyring (es_PJ e)) w = Ret k"
    using assms(2) by (auto simp: Etcd_KeyringStore_def Let_def bind_eq_Ret split: option.splits)
  then show ?thesis using Unmarshal_cases [OF assms(1), of w] by simp
qed

lemma keyring_get_atomic:
  assumes par: "etcd_params e ns" and id: "ValidateID i = Ret ()"
  shows "atomic (etcd_I e ns) (etcd_R e ns) (keyring_Get (Etcd_KeyringStore e ns \<lparr> ref_id = i \<rparr>))
    (get_effect (etcd_abs e ns) (SKeyring \<circ> ring_of) (KKeyring ns, i))"
proof -
  let ?d = "\<lambda>kv. go_err (keyring_Unmarshal (unm_keyring (es_PJ e)) (ev_value kv)) (Wrap ''failed to unmarshal keyring'')"
  have "keyring_Get (Etcd_KeyringStore e ns \<lparr> ref_id = i \<rparr>) =
      bind (map_err (Wrap ''failed to get keyring'') (c_Get (es_Client e) (okey_path e ns (KKeyring ns, i))))
       (\<lambda>resp. lift (case resp of None \<Rightarrow> Fail ErrNotFound | Some kv \<Rightarrow> ?d kv))"
    by (simp add: Etcd_KeyringStore_def Let_def okey_path_simps(5) [of e ns])
  moreover have "atomic (etcd_I e ns) (etcd_R e ns)
      (bind (map_err (Wrap ''failed to get keyring'') (c_Get (es_Client e) (okey_path e ns (KKeyring ns, i))))
       (\<lambda>resp. lift (case resp of None \<Rightarrow> Fail ErrNotFound | Some kv \<Rightarrow> ?d kv)))
      (get_effect (etcd_abs e ns) (SKeyring \<circ> ring_of) (KKeyring ns, i))"
  proof (rule get_shape [OF par observed_keyring [OF id]])
    fix u :: 'a and kv
    show "case ?d kv of Ret x \<Rightarrow> obj_of (es_PJ e) (fst (KKeyring ns, i)) kv = Some ((SKeyring \<circ> ring_of) x)
        | Fail err \<Rightarrow> foreign err | Panic p \<Rightarrow> False"
      using Unmarshal_cases [OF par, of "ev_value kv"] by (auto simp: obj_of_def go_option_def)
  qed
  ultimately show ?thesis by simp
qed

lemma keyring_delete_atomic:
  assumes par: "etcd_params e ns" and id: "ValidateID i = Ret ()"
  shows "atomic (etcd_I e ns) (etcd_R e ns) (keyring_Delete (Etcd_KeyringStore e ns \<lparr> ref_id = i \<rparr>))
    (delete_effect (etcd_abs e ns) (KKeyring ns, i))"
  using delete_shape [OF par observed_keyring [OF id], of "''failed to delete keyring''"]
  by (simp add: Etcd_KeyringStore_def Let_def okey_path_simps(5) [of e ns] obj_of_def)

lemma abs_put_keyring:
  assumes "etcd_params e ns" and "ValidateID i = Ret ()" and "keyring_ok k" and "keyring_Marshal (mar_keyring (es_PJ e)) k = Ret w"
    and "did_put (es_Client e) (okey_path e ns (KKeyring ns, i)) w l u v"
  shows "etcd_abs e ns v = (etcd_abs e ns u)((KKeyring ns, i) \<mapsto> SKeyring (ring_of k))"
proof -
  obtain kr where kr: "keyring_Unmarshal (unm_keyring (es_PJ e)) w = Ret kr"
    "\<forall>t. keys_of kr t = (if t = TEphemeral then [] else keys_of k t)"
    using keyring_roundtrip_aux [OF codec_keyring(1) [OF assms(1)] assms(3,4)] by blast
  then have "ring_of kr = ring_of k" by (auto simp: ring_of_def fun_eq_iff)
  with kr(1) show ?thesis using abs_put [OF assms(5) observed_keyring [OF assms(2)]] by (simp add: obj_of_def go_option_def)
qed

lemma keyring_put_atomic:
  assumes par: "etcd_params e ns" and id: "ValidateID i = Ret ()" and ok: "keyring_ok k"
  shows "atomic (etcd_I e ns) (etcd_R e ns) (keyring_Put (Etcd_KeyringStore e ns \<lparr> ref_id = i \<rparr>) k)
    (put_effect (etcd_abs e ns) (KKeyring ns, i) (SKeyring (ring_of k)))"
proof (cases "keyring_Marshal (mar_keyring (es_PJ e)) k")
  case (Ret w)
  let ?k = "okey_path e ns (KKeyring ns, i)" and ?W = "Wrap ''failed to put keyring''"
  have "keyring_Put (Etcd_KeyringStore e ns \<lparr> ref_id = i \<rparr>) k = map_err ?W (c_Put (es_Client e) ?k w NoLease)"
    by (simp add: Etcd_KeyringStore_def Let_def Ret fun_eq_iff okey_path_simps(5) [of e ns])
  moreover have "atomic (etcd_I e ns) (etcd_R e ns) (map_err ?W (c_Put (es_Client e) ?k w NoLease))
      (put_effect (etcd_abs e ns) (KKeyring ns, i) (SKeyring (ring_of k)))"
  proof (rule atomic_weaken [OF atomic_map_err [OF Put_atomic [OF par]]])
    fix u r v assume "\<exists>q. put_call_effect (es_Client e) ?k w NoLease u q v \<and> r = go_err q ?W"
    then obtain q where q: "put_call_effect (es_Client e) ?k w NoLease u q v" "r = go_err q ?W" by blast
    then show "put_effect (etcd_abs e ns) (KKeyring ns, i) (SKeyring (ring_of k)) u r v"
      using abs_put_keyring [OF par id ok Ret, of NoLease u v] abs_same [of e u v ns]
      by (cases q) (auto simp: put_call_effect_def put_effect_def)
  qed (simp_all add: id well_typed_def)
  ultimately show ?thesis by simp
next
  case (Fail err)
  have "keyring_Put (Etcd_KeyringStore e ns \<lparr> ref_id = i \<rparr>) k s = (Fail (Wrap ''failed to marshal keyring'' err), s)" for s
    by (simp add: Etcd_KeyringStore_def Let_def Fail)
  then show ?thesis by (rule atomic_const) (simp add: put_effect_def)
qed (use codec_keyring(3) [OF par] in \<open>auto simp: keyring_Marshal_def\<close>)

lemma atomic_result:
  assumes "atomic I R m Q" and "\<And>s r t. I s \<Longrightarrow> m s = (r, t) \<Longrightarrow> P r"
  shows "atomic I R m (\<lambda>u r v. Q u r v \<and> P r)"
proof (rule atomicI)
  fix s r t assume run: "I s" "m s = (r, t)"
  then obtain u v where "R s u" "I u" "Q u r v" "I v" "R v t" "I t" using assms(1) by (elim atomicE)
  then show "\<exists>u v. R s u \<and> I u \<and> (Q u r v \<and> P r) \<and> I v \<and> R v t \<and> I t"
    using assms(2) [OF run] by (intro exI conjI)
qed

interpretation etcd_keyrings: keyring_store "etcd_I e ns" "etcd_R e ns" "Etcd_KeyringStore e" "etcd_abs e ns" ns ring_of keyring_ok
  for e ns
proof unfold_locales
  fix i assume id: "ValidateID i = Ret ()"
  show "atomic (etcd_I e ns) (etcd_R e ns) (keyring_Put (Etcd_KeyringStore e ns \<lparr> ref_id = i \<rparr>) k)
      (put_effect (etcd_abs e ns) (KKeyring ns, i) (SKeyring (ring_of k)))" if "keyring_ok k" for k
    using keyring_put_atomic [OF _ id that] by (rule under_params)
  show "atomic (etcd_I e ns) (etcd_R e ns) (keyring_Delete (Etcd_KeyringStore e ns \<lparr> ref_id = i \<rparr>))
      (delete_effect (etcd_abs e ns) (KKeyring ns, i))"
    using keyring_delete_atomic [OF _ id] by (rule under_params)
  show "atomic (etcd_I e ns) (etcd_R e ns) (keyring_Get (Etcd_KeyringStore e ns \<lparr> ref_id = i \<rparr>))
      (\<lambda>u r v. get_effect (etcd_abs e ns) (SKeyring \<circ> ring_of) (KKeyring ns, i) u r v \<and> (\<forall>k. r = Ret k \<longrightarrow> keyring_ok k))"
  proof (rule under_params, rule atomic_result [OF keyring_get_atomic [OF _ id]])
    fix s r t assume "etcd_params e ns" and run: "keyring_Get (Etcd_KeyringStore e ns \<lparr> ref_id = i \<rparr>) s = (r, t)"
    then show "\<forall>k. r = Ret k \<longrightarrow> keyring_ok k" by (auto dest: keyring_Get_Ret)
  qed
qed

section \<open>Plain values\<close>

lemma clean_segs_all_plain:
  "list_all plain ys \<Longrightarrow> clean_segs r st (xs @ ys) = clean_segs r st xs @ ys"
proof (induction r st xs rule: clean_segs.induct)
  case (1 r st)
  then show ?case by (induction ys arbitrary: st) (auto simp: plain_def)
qed (auto simp: plain_def split: list.splits)

lemma kv_key_nonempty: "kv_key k \<Longrightarrow> k \<noteq> []"
  by (auto simp: kv_key_def plain_def)

lemma path_Join_kv:
  assumes "kv_key k" and "p \<noteq> []"
  shows "path_Join [p, k] = key_of (rooted p) (prefix_segs p @ split slash k)"
  using assms clean_segs_all_plain [of "split slash k" "rooted p" "[]" "split slash p"] kv_key_nonempty [OF assms(1)]
  by (simp add: path_Join_def path_Clean_def key_of_def prefix_segs_def Let_def split_append rooted_append kv_key_def)

lemma kv_dir_nonempty: "path_Join [p, ''kv''] \<noteq> []"
  using join_append [of "prefix_segs p" "[''kv'']" "[slash]"]
  by (cases "prefix_segs p = []") (simp_all add: path_Join_kind plain_def key_of_def)

lemma path_Join_kv_inject:
  assumes "kv_key k" and "kv_key l" and "path_Join [path_Join [p, ''kv''], k] = path_Join [path_Join [p, ''kv''], l]"
  shows "k = l"
proof -
  let ?pre = "path_Join [p, ''kv'']"
  have free: "\<forall>y \<in> set (prefix_segs ?pre @ split slash j). slash \<notin> set y" for j
    using prefix_segs_free by (auto dest: split_seg_free)
  have "key_of (rooted ?pre) (prefix_segs ?pre @ split slash k) = key_of (rooted ?pre) (prefix_segs ?pre @ split slash l)"
    using assms(3) unfolding path_Join_kv [OF assms(1) kv_dir_nonempty] path_Join_kv [OF assms(2) kv_dir_nonempty] .
  then have "prefix_segs ?pre @ split slash k = prefix_segs ?pre @ split slash l"
    by (subst (asm) key_of_inject [OF _ _ free free]) simp_all
  then have "split slash k = split slash l" by (simp only: same_append_eq)
  then have "join [slash] (split slash k) = join [slash] (split slash l)" by (rule arg_cong)
  then show ?thesis unfolding join_split .
qed

definition kv_path :: "('s, 'w) EtcdStore \<Rightarrow> string \<Rightarrow> string \<Rightarrow> string" where
  "kv_path e pfx key = path_Join [path_Join [store_prefix e pfx, ''kv''], key]"

text \<open>A value that is not in base 64, which the store never writes, counts as the empty one.\<close>

definition kv_value :: "'w codecs \<Rightarrow> 'w etcd_kv \<Rightarrow> string" where
  "kv_value PJ kv = (case Std_DecodeString (to_text PJ (ev_value kv)) of None \<Rightarrow> [] | Some v \<Rightarrow> v)"

definition etcd_kvs :: "('s, 'w) EtcdStore \<Rightarrow> string \<Rightarrow> 's \<Rightarrow> string \<Rightarrow> string option" where
  "etcd_kvs e pfx s key = (if kv_key key then map_option (kv_value (es_PJ e)) (e_db (es_Client e) s (kv_path e pfx key)) else None)"

lemma kvs_same: "same (es_Client e) u v \<Longrightarrow> etcd_kvs e pfx v = etcd_kvs e pfx u"
  by (auto simp: same_def etcd_kvs_def fun_eq_iff)

lemma kvs_upd:
  assumes "kv_key key" and "e_db (es_Client e) v = (e_db (es_Client e) u)(kv_path e pfx key := x)"
  shows "etcd_kvs e pfx v = (etcd_kvs e pfx u)(key := map_option (kv_value (es_PJ e)) x)"
proof
  fix l
  show "etcd_kvs e pfx v l = ((etcd_kvs e pfx u)(key := map_option (kv_value (es_PJ e)) x)) l"
  proof (cases "l = key")
    case False
    then have "kv_key l \<Longrightarrow> kv_path e pfx l \<noteq> kv_path e pfx key"
      unfolding kv_path_def using path_Join_kv_inject [OF _ assms(1)] by blast
    then show ?thesis using False assms(2) by (simp add: etcd_kvs_def)
  qed (use assms in \<open>simp add: etcd_kvs_def\<close>)
qed

lemma wf_other:
  "etcd_wf e db \<Longrightarrow> (\<And>k. listed k \<Longrightarrow> \<not> prefix (path_Join [es_Prefix e, dir_of k]) p) \<Longrightarrow> etcd_wf e (db(p := x))"
  unfolding etcd_wf_def fun_upd_apply by (metis (full_types))

lemma kv_Put_atomic:
  assumes par: "etcd_params e pfx" and key: "kv_key key"
  shows "atomic (etcd_I e pfx) (etcd_R e pfx) (c_Put (es_Client e) (kv_path e pfx key) w l)
    (put_call_effect (es_Client e) (kv_path e pfx key) w l)"
proof (rule call_atomic [OF etcd_lawsD(4) [OF params_laws [OF par]]])
  fix u r v assume wf: "etcd_wf e (e_db (es_Client e) u)" and eff: "put_call_effect (es_Client e) (kv_path e pfx key) w l u r v"
  have apart: "\<not> prefix (path_Join [es_Prefix e, dir_of k]) (kv_path e pfx key)" if "listed k" for k
    using par key that by (simp add: etcd_params_def separate_def kv_path_def)
  have "etcd_wf e (e_db (es_Client e) v)" if "did_put (es_Client e) (kv_path e pfx key) w l u v"
    using wf_other [OF wf apart] that by (simp add: did_put_def)
  then show "etcd_wf e (e_db (es_Client e) v)"
    using wf eff by (auto simp: put_call_effect_def same_def split: go.splits)
qed

lemma codec_text: "etcd_params e ns \<Longrightarrow> to_text (es_PJ e) (of_text (es_PJ e) x) = x"
  by (simp add: etcd_params_def codec_laws_def)

interpretation etcd_kv_store: kv_store "etcd_I e pfx" "etcd_R e pfx" "Etcd_KeyValueStore e pfx" "etcd_kvs e pfx" kv_key for e pfx
proof unfold_locales
  fix key assume key: "kv_key key"
  let ?k = "kv_path e pfx key" and ?E = "es_Client e"
  have vk: "validateKey key = Ret ()" using kv_key_nonempty [OF key] by (simp add: validateKey_def)
  show "atomic (etcd_I e pfx) (etcd_R e pfx) (kv_Put (Etcd_KeyValueStore e pfx) key x) (put_effect (etcd_kvs e pfx) key x)" for x
  proof (rule under_params)
    let ?w = "of_text (es_PJ e) (Std_EncodeToString x)"
    assume par: "etcd_params e pfx"
    have run: "kv_Put (Etcd_KeyValueStore e pfx) key x = c_Put ?E ?k ?w NoLease"
      by (simp add: Etcd_KeyValueStore_def Let_def vk kv_path_def fun_eq_iff)
    have put: "etcd_kvs e pfx v = (etcd_kvs e pfx u)(key \<mapsto> x)" if "did_put ?E ?k ?w NoLease u v" for u v
      using that by (subst kvs_upd [OF key]) (auto simp: did_put_def kv_value_def codec_text [OF par])
    show "atomic (etcd_I e pfx) (etcd_R e pfx) (kv_Put (Etcd_KeyValueStore e pfx) key x) (put_effect (etcd_kvs e pfx) key x)"
      unfolding run
    proof (rule atomic_weaken [OF kv_Put_atomic [OF par key]])
      fix u r v assume "put_call_effect ?E ?k ?w NoLease u r v"
      then show "put_effect (etcd_kvs e pfx) key x u r v"
        using put [of u v] kvs_same [of e u v pfx] by (cases r) (auto simp: put_call_effect_def put_effect_def)
    qed
  qed
  show "atomic (etcd_I e pfx) (etcd_R e pfx) (kv_Get (Etcd_KeyValueStore e pfx) key) (get_effect (etcd_kvs e pfx) (\<lambda>x. x) key)"
  proof (rule under_params)
    let ?d = "\<lambda>resp. case resp of None \<Rightarrow> Fail ErrNotFound | Some kv \<Rightarrow> (case Std_DecodeString (to_text (es_PJ e) (ev_value kv)) of
        None \<Rightarrow> Fail (ErrText ''illegal base64 data'') | Some v \<Rightarrow> Ret v)"
    assume par: "etcd_params e pfx"
    have run: "kv_Get (Etcd_KeyValueStore e pfx) key = bind (c_Get ?E ?k) (\<lambda>x. lift (?d x))"
      by (simp add: Etcd_KeyValueStore_def Let_def vk kv_path_def fun_eq_iff)
    show "atomic (etcd_I e pfx) (etcd_R e pfx) (kv_Get (Etcd_KeyValueStore e pfx) key) (get_effect (etcd_kvs e pfx) (\<lambda>x. x) key)"
      unfolding run
    proof (rule atomic_weaken [OF atomic_bind_lift [OF Get_atomic [OF par]]])
      fix u r v assume "\<exists>q. read_effect ?E (\<lambda>u x. x = e_db ?E u ?k) u q v \<and> r = go_bind q ?d"
      then obtain q where q: "read_effect ?E (\<lambda>u x. x = e_db ?E u ?k) u q v" "r = go_bind q ?d" by blast
      then show "get_effect (etcd_kvs e pfx) (\<lambda>x. x) key u r v"
        using kvs_same [of e u v pfx] key
        by (cases q) (auto simp: read_effect_def get_effect_def etcd_kvs_def kv_value_def split: option.splits)
    qed
  qed
  show "atomic (etcd_I e pfx) (etcd_R e pfx) (kv_Delete (Etcd_KeyValueStore e pfx) key) (delete_effect (etcd_kvs e pfx) key)"
  proof (rule under_params)
    let ?d = "\<lambda>deleted::nat. if deleted = 0 then Fail ErrNotFound else Ret ()"
    assume par: "etcd_params e pfx"
    have run: "kv_Delete (Etcd_KeyValueStore e pfx) key = bind (c_Delete ?E ?k) (\<lambda>x. lift (?d x))"
      by (simp add: Etcd_KeyValueStore_def Let_def vk kv_path_def fun_eq_iff)
    show "atomic (etcd_I e pfx) (etcd_R e pfx) (kv_Delete (Etcd_KeyValueStore e pfx) key) (delete_effect (etcd_kvs e pfx) key)"
      unfolding run
    proof (rule atomic_weaken [OF atomic_bind_lift [OF Delete_atomic [OF par]]])
      fix u r v assume "\<exists>q. delete_call_effect ?E ?k u q v \<and> r = go_bind q ?d"
      then obtain q where q: "delete_call_effect ?E ?k u q v" "r = go_bind q ?d" by blast
      have del: "etcd_kvs e pfx v = (etcd_kvs e pfx u)(key := None)" if "did_delete ?E ?k u v"
        using that by (subst kvs_upd [OF key, where x = None]) (auto simp: did_delete_def)
      have none: "etcd_kvs e pfx u key = None \<longleftrightarrow> e_db ?E u ?k = None" using key by (simp add: etcd_kvs_def)
      show "delete_effect (etcd_kvs e pfx) key u r v"
        using q del none kvs_same [of e u v pfx] by (cases q) (auto simp: delete_call_effect_def delete_effect_def split: if_splits)
    qed
  qed
qed

interpretation etcd_prefixed: prefixed_kv_store "etcd_I e pfx" "etcd_R e pfx" "Etcd_KeyValueStore e pfx" "etcd_kvs e pfx" kv_key q for e pfx q
  ..

end
