(* ===== verification/EtcdProps.thy ===== *)
theory EtcdProps
  imports EtcdTokens EtcdKeys
begin

text \<open>
  What the etcd backend guarantees, stated over its operations, and a concrete store on which the
  statements are exercised: a stand-alone server (\<^const>\<open>solo\<close>), a codec that keeps the messages as they are,
  and a retry loop without delays.
\<close>

section \<open>A concrete store\<close>

datatype wire = WCluster Cluster | WToken BootstrapToken | WRole Role | WRoleBinding RoleBinding
  | WKeyring completeKeyring | WText string

definition bad_wire :: go_error where
  "bad_wire = ErrText ''proto: syntax error''"

definition ck_wf :: "completeKeyring \<Rightarrow> bool" where
  "ck_wf c \<longleftrightarrow> list_all (\<lambda>k. type_of k = TShared) (ck_SharedKeys c) \<and> list_all (\<lambda>k. type_of k = TPKP) (ck_PKPKey c) \<and>
     list_all (\<lambda>k. type_of k = TCACerts) (ck_CACertsKey c)"

definition wire_codecs :: "wire codecs" where
  "wire_codecs = \<lparr>
     mar_cluster = (\<lambda>c. Ret (WCluster c)),
     unm_cluster = (\<lambda>w. case w of WCluster c \<Rightarrow> Ret c | _ \<Rightarrow> Fail bad_wire),
     mar_token = (\<lambda>c. Ret (WToken c)),
     unm_token = (\<lambda>w. case w of WToken c \<Rightarrow> Ret c | _ \<Rightarrow> Fail bad_wire),
     mar_role = (\<lambda>c. Ret (WRole c)),
     unm_role = (\<lambda>w. case w of WRole c \<Rightarrow> Ret c | _ \<Rightarrow> Fail bad_wire),
     mar_roleBinding = (\<lambda>c. Ret (WRoleBinding c)),
     unm_roleBinding = (\<lambda>w. case w of WRoleBinding c \<Rightarrow> Ret c | _ \<Rightarrow> Fail bad_wire),
     mar_keyring = (\<lambda>c. if ck_wf c then Ret (WKeyring (c\<lparr> ck_EphemeralKey := [] \<rparr>)) else Fail bad_wire),
     unm_keyring = (\<lambda>w. case w of WKeyring c \<Rightarrow> if ck_wf c then Ret (c\<lparr> ck_EphemeralKey := [] \<rparr>) else Fail bad_wire | _ \<Rightarrow> Fail bad_wire),
     of_text = WText,
     to_text = (\<lambda>w. case w of WText t \<Rightarrow> t | _ \<Rightarrow> []) \<rparr>"

fun on_error :: "nat \<Rightarrow> (go_error \<Rightarrow> bool) \<Rightarrow> ('s, 'a) prog \<Rightarrow> ('s, 'a) prog" where
  "on_error 0 p f s = f s"
| "on_error (Suc n) p f s = (case f s of (Fail e, t) \<Rightarrow> if p e \<and> n > 0 then on_error n p f t else (Fail e, t) | res \<Rightarrow> res)"

definition demo :: "(wire server, wire) EtcdStore" where
  "demo = \<lparr> es_Prefix = ''opni'', es_Client = solo, es_PJ = wire_codecs, es_OnErrorC = on_error, es_OnErrorT = on_error \<rparr>"

lemma wire_laws: "codec_laws wire_codecs"
  unfolding codec_laws_def json_laws_def wire_codecs_def
  by (auto simp: ck_wf_def bad_wire_def foreign_def split: wire.splits if_splits)

lemma on_error_attempts:
  "0 < n \<Longrightarrow> \<exists>m \<le> n. attempts p f m s (on_error n p f s) \<and> (\<forall>e t. on_error n p f s = (Fail e, t) \<longrightarrow> p e \<longrightarrow> m = n)"
proof (induction n arbitrary: s)
  case (Suc n)
  obtain r t where f: "f s = (r, t)" by (cases "f s")
  have one: "attempts p f (Suc 0) s (r, t)" using attempts.last [of f s _ p, OF f] by simp
  show ?case
  proof (cases "\<exists>e. r = Fail e \<and> p e \<and> 0 < n")
    case True
    then obtain e where e: "r = Fail e" "p e" "0 < n" by blast
    from Suc.IH [OF e(3), of t] obtain m where m: "m \<le> n" "attempts p f m t (on_error n p f t)"
      "\<forall>e u. on_error n p f t = (Fail e, u) \<longrightarrow> p e \<longrightarrow> m = n" by blast
    have run: "on_error (Suc n) p f s = on_error n p f t" using f e by simp
    have "attempts p f (Suc m) s (on_error n p f t)" using attempts.again [OF _ e(2) m(2)] f e(1) by simp
    with m show ?thesis unfolding run by (intro exI [of _ "Suc m"]) simp
  next
    case False
    then have run: "on_error (Suc n) p f s = (r, t)" using f by (cases r) auto
    show ?thesis unfolding run using one False by (intro exI [of _ "Suc 0"]) auto
  qed
qed simp

lemma on_error_laws: "retry_laws on_error"
  unfolding retry_laws_def using on_error_attempts by blast

text \<open>The keyrings and plain values of the default namespace lie beside the listed directories.\<close>

lemma demo_kv_path: "kv_key key \<Longrightarrow> path_Join [path_Join [''opni'', ''kv''], key] = ''opni/kv/'' @ key"
proof -
  assume key: "kv_key key"
  have pre: "path_Join [''opni'', ''kv''] = ''opni/kv''" by code_simp
  have segs: "prefix_segs ''opni/kv'' = [''opni'', ''kv'']" "rooted ''opni/kv'' = False" by code_simp+
  show "path_Join [path_Join [''opni'', ''kv''], key] = ''opni/kv/'' @ key"
    using join_append [of "[''opni'', ''kv'']" "split slash key" "[slash]"]
    unfolding pre by (subst path_Join_kv [OF key]) (simp_all add: segs key_of_def join_split)
qed

lemma demo_separate: "separate demo ''''"
proof -
  have dirs: "\<not> prefix (dir_of k) keyringKey" if "listed k" for k
    using that by (cases k; simp add: dir_of_def)
  have ring: "\<not> prefix (path_Join [''opni'', dir_of k]) (path_Join [''opni'', keyringKey, i])"
    if "listed k" "ValidateID i = Ret ()" for k i
    using dir_prefix [OF plain_dir plain_kinds(3) ValidateID_plain [OF that(2)]] dirs [OF that(1)] by blast
  have "plain ''opni''" by (simp add: plain_def)
  then have dir: "path_Join [''opni'', dir_of k] = ''opni/'' @ dir_of k" for k
    using path_Join2_key [OF plain_dir] by simp
  have kv: "\<not> prefix (path_Join [''opni'', dir_of k]) (path_Join [path_Join [''opni'', ''kv''], key])"
    if "listed k" "kv_key key" for k key
    unfolding dir demo_kv_path [OF that(2)] using that(1) by (cases k; simp add: dir_of_def)
  show ?thesis using ring kv by (simp add: separate_def store_prefix_def demo_def)
qed

lemma demo_fields [simp]:
  "es_Prefix demo = ''opni''" "es_Client demo = solo" "es_PJ demo = wire_codecs" "es_OnErrorC demo = on_error" "es_OnErrorT demo = on_error"
  by (simp_all add: demo_def)

lemma demo_params: "etcd_params demo ''''"
  by (simp add: etcd_params_def wire_laws on_error_laws demo_separate solo_laws)

definition empty_server :: "wire server" where
  "empty_server = \<lparr> sv_db = (\<lambda>k. None), sv_rev = 0, sv_keys = [] \<rparr>"

lemma demo_empty: "etcd_I demo '''' empty_server"
  by (simp add: etcd_I_def demo_params etcd_ok_def etcd_wf_def empty_server_def)

definition c1 :: Cluster where
  "c1 = \<lparr> cl_id = ''c1'', cl_metadata = None \<rparr>"

lemma c1_valid: "ValidateID ''c1'' = Ret ()" "ValidateID (cl_id c1) = Ret ()"
  by (simp_all add: c1_def) code_simp+

definition s1 :: "wire server" where
  "s1 = snd (Etcd_CreateCluster 0 demo c1 empty_server)"

lemma demo_s1: "etcd_I demo '''' s1"
proof -
  obtain r where "Etcd_CreateCluster 0 demo c1 empty_server = (r, s1)" by (cases "Etcd_CreateCluster 0 demo c1 empty_server") (simp add: s1_def)
  with CreateCluster_atomic [OF demo_params c1_valid(2)] demo_empty show ?thesis by (rule atomicE)
qed

section \<open>Clusters\<close>

lemma attempts_first: "attempts p f m s res \<Longrightarrow> f s = (Ret y, t) \<Longrightarrow> res = (Ret y, t)"
  by (induction rule: attempts.induct) simp_all

lemma retry_first:
  assumes "retry_laws OnError" and "f s = (Ret y, t)"
  shows "OnError backoffSteps p f s = (Ret y, t)"
proof -
  have "0 < backoffSteps" by (simp add: backoffSteps_def)
  then obtain m where "attempts p f m s (OnError backoffSteps p f s)" using assms(1) unfolding retry_laws_def by blast
  from attempts_first [OF this assms(2)] show ?thesis .
qed

lemma get_alone:
  assumes "es_Client e = solo" and "etcd_abs e ns s (KCluster, i) = Some (SCluster c)"
  shows "Etcd_GetCluster e \<lparr> ref_id = i \<rparr> s = (Ret c, s) \<and>
    (\<exists>kv. e_db (es_Client e) s (okey_path e ns (KCluster, i)) = Some kv \<and> decode_cluster (es_PJ e) kv = Ret c)"
proof -
  obtain kv where kv: "e_db (es_Client e) s (okey_path e ns (KCluster, i)) = Some kv" "obj_of (es_PJ e) KCluster kv = Some (SCluster c)"
    using assms(2) by (auto simp: etcd_abs_def bind_eq_Some_conv split: if_splits)
  then have dec: "decode_cluster (es_PJ e) kv = Ret c" by (auto simp: obj_of_def go_option_def split: go.splits)
  with kv(1) assms(1) show ?thesis by (simp add: Etcd_GetCluster_def okey_path_simps(1) [of e i ns] bind_def catch_def solo_ops)
qed

lemma update_alone:
  assumes "es_Client e = solo" and par: "etcd_params e ns" and I: "etcd_I e ns s" and id: "ValidateID i = Ret ()"
    and stored: "etcd_abs e ns s (KCluster, i) = Some (SCluster c)" and mut: "mut c = Ret z" "cl_id z = i"
    and mar: "mar_cluster (es_PJ e) (cluster_SetResourceVersion z '''') = Ret w" and room: "Suc (sv_rev s) < 2 ^ 63"
  shows "\<exists>y t. Etcd_UpdateCluster e \<lparr> ref_id = i \<rparr> mut s = (Ret y, t) \<and>
    y = cluster_SetResourceVersion z (show_nat (Suc (sv_rev s))) \<and>
    etcd_abs e ns t = (etcd_abs e ns s)((KCluster, i) \<mapsto> SCluster y)"
proof -
  let ?k = "okey_path e ns (KCluster, i)" and ?z = "cluster_SetResourceVersion z ''''"
  let ?y = "cluster_SetResourceVersion ?z (show_nat (Suc (sv_rev s)))" and ?t = "sv_put ?k w NoLease s"
  obtain kv where get: "Etcd_GetCluster e \<lparr> ref_id = i \<rparr> s = (Ret c, s)" and kv: "e_db (es_Client e) s ?k = Some kv" and dec: "decode_cluster (es_PJ e) kv = Ret c"
    using get_alone [OF assms(1) stored] by blast
  have "updateCluster_attempt e \<lparr> ref_id = i \<rparr> mut s = cluster_rest e ?k kv z s"
    using updateCluster_attempt_run [where ns = ns and mut = mut, OF dec I_kv [OF I kv] I_rev [OF I] get] mut(1) by simp
  also have "\<dots> = (Ret ?y, ?t)"
    using assms(1) mar room kv by (simp add: cluster_rest_def Let_def bind_def solo_ops guarded_def)
  finally have run: "updateCluster_attempt e \<lparr> ref_id = i \<rparr> mut s = (Ret ?y, ?t)" .
  have "retry_laws (es_OnErrorC e)" using par by (simp add: etcd_params_def)
  then have "Etcd_UpdateCluster e \<lparr> ref_id = i \<rparr> mut s = (Ret ?y, ?t)"
    unfolding Etcd_UpdateCluster_def using run by (rule retry_first)
  moreover have "?y = cluster_SetResourceVersion z (show_nat (Suc (sv_rev s)))" by (simp add: cluster_access)
  moreover have "etcd_abs e ns ?t = (etcd_abs e ns s)((KCluster, i) \<mapsto> SCluster ?y)"
    using abs_put_cluster [OF par _ mar, of NoLease s ?t] did_put_solo [of ?k w NoLease s] mut(2) id assms(1)
    by (simp add: sv_put_def)
  ultimately show ?thesis by metis
qed


text \<open>Witness: relabelling a cluster on the stand-alone server.\<close>

definition relabel :: "Cluster MutatorFunc" where
  "relabel c = Ret (cluster_SetLabels c [(''opni.io/name'', ''edge'')])"

lemma keeps_relabel: "keeps_id relabel"
  by (simp add: keeps_id_def relabel_def)

definition c1_stored :: Cluster where
  "c1_stored = cluster_SetResourceVersion (cluster_SetCreationTimestamp c1 0) ''1''"

lemma s1_eq: "s1 = sv_put (okey_path demo '''' (KCluster, ''c1'')) (WCluster (cluster_SetCreationTimestamp c1 0)) NoLease empty_server"
  by (simp add: s1_def Etcd_CreateCluster_def Let_def wire_codecs_def bind_def catch_def solo_ops guarded_def
      empty_server_def okey_path_def truncate_second_def c1_def cluster_access zero_ClusterMetadata_def)

lemma s1_stored: "etcd_abs demo '''' s1 (KCluster, ''c1'') = Some (SCluster c1_stored)" "sv_rev s1 = 1"
proof -
  have one: "show_nat 1 = ''1''" by code_simp
  show "sv_rev s1 = 1" by (simp add: s1_eq sv_put_def empty_server_def)
  show "etcd_abs demo '''' s1 (KCluster, ''c1'') = Some (SCluster c1_stored)"
    by (simp add: s1_eq sv_put_def empty_server_def etcd_abs_def observed_kind c1_valid obj_of_def go_option_def decode_cluster_def
        wire_codecs_def etcd_put_def c1_stored_def one [simplified])
qed

lemma relabel_run:
  "\<exists>y t. Etcd_UpdateCluster demo \<lparr> ref_id = ''c1'' \<rparr> relabel s1 = (Ret y, t) \<and> cluster_GetLabels y = [(''opni.io/name'', ''edge'')]"
  using update_alone [OF _ demo_params demo_s1 c1_valid(1) s1_stored(1), of relabel] s1_stored(2)
  by (fastforce simp: relabel_def wire_codecs_def c1_stored_def c1_def)


text \<open>C1: an update of a cluster takes effect as a whole at one moment of the call, whatever other instances
  do meanwhile: on success the mutator was applied to the cluster as it was stored at that moment, and
  the result, up to its resource version, is what is stored after it (no update is lost); when the
  cluster is not found it did not exist at that moment and nothing changed; a panic of the mutator
  changes nothing; any other error leaves the store as it was or with the complete update.\<close>

theorem UpdateCluster_no_lost_update:
  assumes "etcd_params e ns" and "ValidateID i = Ret ()" and "keeps_id mut"
  shows "atomic (etcd_I e ns) (etcd_R e ns) (Etcd_UpdateCluster e \<lparr> ref_id = i \<rparr> mut)
    (update_effect (etcd_abs e ns) SCluster (KCluster, i) mut managed_update)"
  using UpdateCluster_atomic [OF assms] .

theorem UpdateCluster_no_lost_update_witness:
  "\<exists>y t. Etcd_UpdateCluster demo \<lparr> ref_id = ''c1'' \<rparr> relabel s1 = (Ret y, t) \<and>
     cluster_GetLabels y = [(''opni.io/name'', ''edge'')] \<and>
     (\<exists>u v x. etcd_abs demo '''' u (KCluster, ''c1'') = Some (SCluster x) \<and> managed_update (cluster_SetLabels x [(''opni.io/name'', ''edge'')]) y \<and>
        etcd_abs demo '''' v = (etcd_abs demo '''' u)((KCluster, ''c1'') \<mapsto> SCluster y))"
proof -
  obtain r t where run: "Etcd_UpdateCluster demo \<lparr> ref_id = ''c1'' \<rparr> relabel s1 = (r, t)"
    by (cases "Etcd_UpdateCluster demo \<lparr> ref_id = ''c1'' \<rparr> relabel s1")
  have "\<exists>y. r = Ret y \<and> cluster_GetLabels y = [(''opni.io/name'', ''edge'')]"
    using relabel_run run by auto
  then obtain y where y: "r = Ret y" "cluster_GetLabels y = [(''opni.io/name'', ''edge'')]" by blast
  obtain u v where "update_effect (etcd_abs demo '''') SCluster (KCluster, ''c1'') relabel managed_update u r v"
    using UpdateCluster_no_lost_update [OF demo_params c1_valid(1) keeps_relabel] demo_s1 run by (rule atomicE)
  with y have "\<exists>x. etcd_abs demo '''' u (KCluster, ''c1'') = Some (SCluster x) \<and>
      managed_update (cluster_SetLabels x [(''opni.io/name'', ''edge'')]) y \<and>
      etcd_abs demo '''' v = (etcd_abs demo '''' u)((KCluster, ''c1'') \<mapsto> SCluster y)"
    by (auto simp: update_effect_def relabel_def)
  with run y show ?thesis by blast
qed

text \<open>C5: the other operations on clusters are atomic too: a read answers the cluster stored at one moment of
  the call, or that there is none; a creation succeeds only where no cluster was stored and stores the
  caller's cluster with its timestamp and version, and is refused only where one was; a deletion removes
  exactly that cluster, or there was none; a listing answers exactly the stored clusters that the
  selector selects, each once.\<close>

theorem cluster_operations:
  assumes "etcd_params e ns" and "ValidateID i = Ret ()" and "cl_id c = i"
  shows "atomic (etcd_I e ns) (etcd_R e ns) (Etcd_GetCluster e \<lparr> ref_id = i \<rparr>) (get_effect (etcd_abs e ns) SCluster (KCluster, i)) \<and>
    atomic (etcd_I e ns) (etcd_R e ns) (Etcd_CreateCluster now e c)
      (create_effect (etcd_abs e ns) SCluster (KCluster, i) (managed_create c)) \<and>
    atomic (etcd_I e ns) (etcd_R e ns) (Etcd_DeleteCluster e \<lparr> ref_id = i \<rparr>) (delete_effect (etcd_abs e ns) (KCluster, i)) \<and>
    atomic (etcd_I e ns) (etcd_R e ns) (Etcd_ListClusters e sel opts)
      (list_effect (etcd_abs e ns) (\<lambda>u. {d. etcd_abs e ns u (KCluster, cl_id d) = Some (SCluster d) \<and>
        cluster_selected \<lparr> cs_clusterIDs = [], cs_labelSelector = sel, cs_matchOptions = opts \<rparr> d}) cl_id)"
  using GetCluster_atomic [OF assms(1,2)] CreateCluster_atomic [OF assms(1), of c now] DeleteCluster_atomic [OF assms(1,2)]
    ListClusters_atomic [OF assms(1), of sel opts] assms(2,3) by simp

text \<open>Witness: deleting the cluster of the stand-alone server.\<close>

theorem cluster_operations_witness:
  "\<exists>r t u v. Etcd_DeleteCluster demo \<lparr> ref_id = ''c1'' \<rparr> s1 = (r, t) \<and> r = Ret () \<and>
     etcd_abs demo '''' u (KCluster, ''c1'') \<noteq> None \<and> etcd_abs demo '''' v = (etcd_abs demo '''' u)((KCluster, ''c1'') := None)"
proof -
  have "sv_db s1 (okey_path demo '''' (KCluster, ''c1'')) \<noteq> None" using s1_stored(1) by (auto simp: etcd_abs_def bind_eq_Some_conv split: if_splits)
  then have run: "\<exists>t. Etcd_DeleteCluster demo \<lparr> ref_id = ''c1'' \<rparr> s1 = (Ret (), t)"
    using s1_stored(2) by (simp add: Etcd_DeleteCluster_def bind_def catch_def solo_ops guarded_def okey_path_def)
  then obtain t where t: "Etcd_DeleteCluster demo \<lparr> ref_id = ''c1'' \<rparr> s1 = (Ret (), t)" by blast
  have "atomic (etcd_I demo '''') (etcd_R demo '''') (Etcd_DeleteCluster demo \<lparr> ref_id = ''c1'' \<rparr>) (delete_effect (etcd_abs demo '''') (KCluster, ''c1''))"
    using cluster_operations [OF demo_params c1_valid(1), of c1 0 None 0] by (simp add: c1_def)
  then obtain u v where "delete_effect (etcd_abs demo '''') (KCluster, ''c1'') u (Ret ()) v" using demo_s1 t by (rule atomicE)
  with t show ?thesis by (auto simp: delete_effect_def)
qed

section \<open>Watching clusters\<close>



text \<open>A client that keeps a copy of the clusters and applies the events it receives.\<close>

definition apply_event :: "Cluster WatchEvent \<Rightarrow> Cluster gomap \<Rightarrow> Cluster gomap" where
  "apply_event ev m = (case we_Current ev of Some c \<Rightarrow> AList.update (cl_id c) c m
     | None \<Rightarrow> (case we_Previous ev of Some c \<Rightarrow> AList.delete (cl_id c) m | None \<Rightarrow> m))"

definition up_to_date :: "Cluster gomap \<Rightarrow> Cluster \<Rightarrow> bool" where
  "up_to_date m c \<longleftrightarrow> (\<exists>d. lookup m (cl_id c) = Some d \<and> cluster_GetResourceVersion d = cluster_GetResourceVersion c)"

lemma up_to_date_update [simp]:
  "up_to_date (AList.update (cl_id d) d m) c \<longleftrightarrow>
   (if cl_id c = cl_id d then cluster_GetResourceVersion d = cluster_GetResourceVersion c else up_to_date m c)"
  by (simp add: up_to_date_def)

lemma initial_events_ids:
  "initial_events PJ known kvs = Ret evs \<Longrightarrow> ev \<in> set evs \<Longrightarrow>
   \<exists>c. we_Current ev = Some c \<and> c \<in> (\<lambda>y. decoded PJ (snd y)) ` set kvs"
proof (induction PJ known kvs arbitrary: evs rule: initial_events.induct)
  case (2 PJ known k kv kvs)
  then obtain c evs' where c: "decode_cluster PJ kv = Ret c" "initial_events PJ known kvs = Ret evs'" by auto
  have d: "decoded PJ kv = c" using c by (simp add: decoded_def)
  from "2.prems" c have "we_Current ev = Some c \<or> ev \<in> set evs'" by (auto split: option.splits if_splits)
  with "2.IH" [OF c(2)] d show ?case by auto
qed simp

lemma initial_events_Ret:
  "\<forall>y \<in> set kvs. \<exists>c. decode_cluster PJ (snd y) = Ret c \<Longrightarrow> \<exists>evs. initial_events PJ known kvs = Ret evs"
  by (induction PJ known kvs rule: initial_events.induct) auto

lemma fold_apply_other:
  "\<forall>ev \<in> set evs. \<exists>d. we_Current ev = Some d \<and> cl_id d \<noteq> i \<Longrightarrow> lookup (fold apply_event evs m) i = lookup m i"
  by (induction evs arbitrary: m) (auto simp: apply_event_def)

lemma initial_events_catch_up:
  assumes "initial_events PJ known kvs = Ret evs" and "distinct (map (\<lambda>y. cl_id (decoded PJ (snd y))) kvs)"
    and "\<forall>y \<in> set kvs. lookup m (cl_id (decoded PJ (snd y))) = lookup known (cl_id (decoded PJ (snd y)))"
    and "y \<in> set kvs"
  shows "up_to_date (fold apply_event evs m) (decoded PJ (snd y))"
  using assms
proof (induction PJ known kvs arbitrary: evs m rule: initial_events.induct)
  case (2 PJ known k kv kvs)
  obtain c evs' where c: "decode_cluster PJ kv = Ret c" and evs': "initial_events PJ known kvs = Ret evs'"
    using "2.prems"(1) by auto
  have d: "decoded PJ kv = c" using c by (simp add: decoded_def)
  obtain es where evs: "evs = es @ evs'" and es: "up_to_date (fold apply_event es m) c"
    "\<And>i. i \<noteq> cl_id c \<Longrightarrow> lookup (fold apply_event es m) i = lookup m i"
  proof -
    let ?es = "case lookup known (cl_id c) of None \<Rightarrow> [\<lparr> we_EventType = WatchEventCreate, we_Current = Some c, we_Previous = None \<rparr>]
      | Some kc \<Rightarrow> if cluster_GetResourceVersion kc \<noteq> cluster_GetResourceVersion c
          then [\<lparr> we_EventType = WatchEventUpdate, we_Current = Some c, we_Previous = Some kc \<rparr>] else []"
    have "evs = ?es @ evs'" using "2.prems"(1) c evs' by (auto split: option.splits)
    moreover have "up_to_date (fold apply_event ?es m) c"
      using "2.prems"(3) d by (auto simp: apply_event_def up_to_date_def split: option.splits)
    moreover have "lookup (fold apply_event ?es m) i = lookup m i" if "i \<noteq> cl_id c" for i
      using that by (auto simp: apply_event_def split: option.splits)
    ultimately show thesis by (rule that)
  qed
  let ?m = "fold apply_event es m"
  have ne: "cl_id (decoded PJ (snd z)) \<noteq> cl_id c" if "z \<in> set kvs" for z
    using "2.prems"(2) d that by (auto simp: image_iff)
  have keep: "\<forall>z \<in> set kvs. lookup ?m (cl_id (decoded PJ (snd z))) = lookup known (cl_id (decoded PJ (snd z)))"
    using "2.prems"(3) ne es(2) by simp
  show ?case
  proof (cases "y \<in> set kvs")
    case True
    then show ?thesis using "2.IH" [OF evs' _ keep] "2.prems"(2) evs by simp
  next
    case False
    then have y: "decoded PJ (snd y) = c" using "2.prems"(4) d by auto
    have "lookup (fold apply_event evs' ?m) (cl_id c) = lookup ?m (cl_id c)"
    proof (rule fold_apply_other, rule ballI)
      fix ev assume "ev \<in> set evs'"
      from initial_events_ids [OF evs' this] ne show "\<exists>d. we_Current ev = Some d \<and> cl_id d \<noteq> cl_id c" by blast
    qed
    then show ?thesis using es(1) evs y by (simp add: up_to_date_def)
  qed
qed simp

lemma grow_buffer_bound:
  "0 < b \<Longrightarrow> n \<le> grow_buffer n b \<and> (\<exists>k. grow_buffer n b = b * 2 ^ k) \<and> (grow_buffer n b = b \<or> grow_buffer n b < 2 * n)"
proof (induction n b rule: grow_buffer.induct)
  case (1 n b)
  show ?case
  proof (cases "n > b")
    case True
    then have IH: "n \<le> grow_buffer n (b * 2)" "\<exists>k. grow_buffer n (b * 2) = b * 2 * 2 ^ k"
      "grow_buffer n (b * 2) = b * 2 \<or> grow_buffer n (b * 2) < 2 * n" using 1 by auto
    have run: "grow_buffer n b = grow_buffer n (b * 2)" using True 1 by (subst grow_buffer.simps) simp
    obtain k where "grow_buffer n (b * 2) = b * 2 * 2 ^ k" using IH(2) by blast
    then show ?thesis unfolding run using IH(1,3) True by (intro conjI exI [of _ "Suc k"]) auto
  next
    case False
    then have run: "grow_buffer n b = b" using 1 by (subst grow_buffer.simps) simp
    show ?thesis unfolding run using False by (intro conjI exI [of _ 0]) simp_all
  qed
qed



section \<open>Tokens\<close>

lemma keeps_increment: "keeps_token NewIncrementUsageCountMutator"
  by (auto simp: keeps_token_def NewIncrementUsageCountMutator_def split: option.splits)

text \<open>C13: every counted use of a bootstrap token is counted once: when \<^verbatim>\<open>UpdateToken\<close> with the increment
  returns, there is one moment of the call at which the stored token had a usage count and after which
  it has the next one, with everything else unchanged, no matter how many other bootstraps use the
  token at the same time.\<close>

theorem token_use_counted:
  assumes "etcd_params e ns" and "ValidateID i = Ret ()" and "etcd_I e ns s"
    and "Etcd_UpdateToken e \<lparr> ref_id = i \<rparr> NewIncrementUsageCountMutator s = (Ret y, t)"
  shows "\<exists>u v x m. etcd_R e ns s u \<and> etcd_R e ns v t \<and> bt_metadata x = Some m \<and>
    y = x\<lparr> bt_metadata := Some (m\<lparr> bm_usageCount := int64 (bm_usageCount m + 1) \<rparr>) \<rparr> \<and>
    etcd_abs e ns u (KToken, i) = Some (SToken (forget_lease x)) \<and>
    etcd_abs e ns v = (etcd_abs e ns u)((KToken, i) \<mapsto> SToken (forget_lease y))"
proof -
  obtain u v where uv: "etcd_R e ns s u" "etcd_R e ns v t"
    "update_effect (etcd_abs e ns) (SToken \<circ> forget_lease) (KToken, i) NewIncrementUsageCountMutator (=) u (Ret y) v"
    using UpdateToken_atomic [OF assms(1,2) keeps_increment] assms(3,4) by (rule atomicE)
  then obtain x where x: "etcd_abs e ns u (KToken, i) = Some (SToken (forget_lease x))" "NewIncrementUsageCountMutator x = Ret y"
    "etcd_abs e ns v = (etcd_abs e ns u)((KToken, i) \<mapsto> SToken (forget_lease y))"
    by (auto simp: update_effect_def)
  obtain m where m: "bt_metadata x = Some m" "y = x\<lparr> bt_metadata := Some (m\<lparr> bm_usageCount := int64 (bm_usageCount m + 1) \<rparr>) \<rparr>"
    using x(2) by (auto simp: NewIncrementUsageCountMutator_def split: option.splits)
  show ?thesis by (intro exI [of _ u] exI [of _ v] exI [of _ x] exI [of _ m] conjI uv(1,2) m x(1,3))
qed

text \<open>Witness: a stored token that was used twice.\<close>

definition tok1 :: BootstrapToken where
  "tok1 = \<lparr> bt_tokenID = ''aabbcc'', bt_secret = ''00'', bt_metadata = Some \<lparr> bm_leaseID = 0, bm_ttl = 0, bm_usageCount = 2,
     bm_labels = [], bm_capabilities = [], bm_resourceVersion = '''' \<rparr> \<rparr>"

definition s2 :: "wire server" where
  "s2 = sv_put (okey_path demo '''' (KToken, ''aabbcc'')) (WToken tok1) NoLease empty_server"

lemma tok1_valid: "ValidateID ''aabbcc'' = Ret ()"
  by code_simp

lemma demo_s2: "etcd_I demo '''' s2"
proof -
  have run: "c_Put (es_Client demo) (okey_path demo '''' (KToken, ''aabbcc'')) (WToken tok1) NoLease empty_server = (Ret (), s2)"
    by (simp add: solo_ops guarded_def s2_def empty_server_def)
  have "atomic (etcd_I demo '''') (etcd_R demo '''') (c_Put (es_Client demo) (okey_path demo '''' (KToken, ''aabbcc'')) (WToken tok1) NoLease)
      (put_call_effect (es_Client demo) (okey_path demo '''' (KToken, ''aabbcc'')) (WToken tok1) NoLease)"
    by (rule Put_atomic [OF demo_params]) (auto simp: tok1_valid well_typed_def wire_codecs_def tok1_def)
  then show ?thesis using demo_empty run by (rule atomicE)
qed

theorem token_use_counted_witness:
  "\<exists>y t u v. Etcd_UpdateToken demo \<lparr> ref_id = ''aabbcc'' \<rparr> NewIncrementUsageCountMutator s2 = (Ret y, t) \<and>
     map_option bm_usageCount (bt_metadata y) = Some 3 \<and> etcd_R demo '''' s2 u \<and>
     etcd_abs demo '''' v = (etcd_abs demo '''' u)((KToken, ''aabbcc'') \<mapsto> SToken (forget_lease y))"
proof -
  let ?y = "tok1\<lparr> bt_metadata := map_option (\<lambda>m. m\<lparr> bm_usageCount := 3 \<rparr>) (bt_metadata tok1) \<rparr>"
  have "\<exists>t. updateToken_attempt demo \<lparr> ref_id = ''aabbcc'' \<rparr> NewIncrementUsageCountMutator s2 = (Ret ?y, t)"
    by (simp add: updateToken_attempt_def getToken_def addLeaseMetadata_def Let_def bind_def catch_def solo_ops guarded_def
        okey_path_simps(2) [of demo "''aabbcc''" "''''", simplified] s2_def sv_put_def empty_server_def etcd_put_def wire_codecs_def tok1_def
        NewIncrementUsageCountMutator_def int64_def)
  then obtain t where run: "Etcd_UpdateToken demo \<lparr> ref_id = ''aabbcc'' \<rparr> NewIncrementUsageCountMutator s2 = (Ret ?y, t)"
    unfolding Etcd_UpdateToken_def using retry_first [OF on_error_laws] by fastforce
  from token_use_counted [OF demo_params tok1_valid demo_s2 run] obtain u v where
    "etcd_R demo '''' s2 u" "etcd_abs demo '''' v = (etcd_abs demo '''' u)((KToken, ''aabbcc'') \<mapsto> SToken (forget_lease ?y))"
    by (elim exE conjE)
  moreover have "map_option bm_usageCount (bt_metadata ?y) = Some 3" by (simp add: tok1_def)
  ultimately show ?thesis using run by (intro exI conjI)
qed

section \<open>Keys\<close>



end
