(* ===== verification/Bootstrap_Client.thy ===== *)
theory Bootstrap_Client
  imports Bootstrap_Props Trust EtcdProps
begin

text \<open>
  \<^verbatim>\<open>pkg/bootstrap/client.go\<close>, \<^verbatim>\<open>client_v2.go\<close>, \<^verbatim>\<open>util.go\<close> and the in-cluster bootstrappers: the agent's side, and the
  two sides together. Parameters: the connection to the gateway, X.509 certificates, the management
  client and the Kubernetes client.
\<close>

section \<open>client.go and client_v2.go\<close>

abbreviation "ErrNoToken \<equiv> ErrText ''no bootstrap token provided''"
abbreviation "ErrNoValidSignature \<equiv> ErrText ''no valid signature found in response''"

text \<open>A connection: \<open>gw_Join\<close> also answers the peer's certificates, if the connection is a TLS one.\<close>

record ('s, 'c, 'r) gateway =
  gw_dial :: "string \<Rightarrow> 'c tls_config \<Rightarrow> ('s, unit) prog"
  gw_Join :: "('s, string gomap \<times> 'c list option) prog"
  gw_Auth :: "MD \<Rightarrow> 'r \<Rightarrow> ('s, string) prog"

record ('c, 'p) x509 =
  x_PublicKey :: "'c \<Rightarrow> 'p"
  x_Raw :: "'c \<Rightarrow> string"
  x_pinned :: "PublicKeyPin list \<Rightarrow> ('c list \<Rightarrow> unit go) go"
  x_SystemCertPool :: "'c list go"

abbreviation x_TLSConfig :: "('c, 'p) x509 \<Rightarrow> 'c strategy \<Rightarrow> 'c tls_config go" where
  "x_TLSConfig X \<equiv> strategy_TLSConfig (x_pinned X) (x_SystemCertPool X)"

text \<open>\<open>'kc\<close> is a Kubernetes client configuration.\<close>

record ('c, 'kc) ClientConfig =
  cc_Token :: "Token option"
  cc_Endpoint :: string
  cc_K8sConfig :: "'kc option"
  cc_K8sNamespace :: string
  cc_TrustStrategy :: "'c strategy"

record ('c, 'kc) ClientConfigV1 = "('c, 'kc) ClientConfig" +
  cc_Capability :: string

record ('c, 'kc) ClientConfigV2 = "('c, 'kc) ClientConfig" +
  cc_FriendlyName :: "string option"

definition bootstrapJoin ::
  "('c, 'p) x509 \<Rightarrow> ('s, 'c, 'r) gateway \<Rightarrow> ('c, 'kc, 'm) ClientConfig_scheme \<Rightarrow> ('s, string gomap \<times> 'c) prog" where
  "bootstrapJoin X gw c =
     bind (lift (x_TLSConfig X (cc_TrustStrategy c))) (\<lambda>tlsConfig.
     bind (map_err (Wrap ''failed to dial gateway'') (gw_dial gw (cc_Endpoint c) tlsConfig)) (\<lambda>_.
     bind (map_err (Wrap ''join request failed'') (gw_Join gw)) (\<lambda>(resp, peer).
     case peer of
       None \<Rightarrow> throw (ErrText ''unexpected type for peer TLS info'')
     | Some [] \<Rightarrow> panic ''index out of range''
     | Some (leaf # certs) \<Rightarrow> return (resp, leaf))))"

definition findValidSignature :: "('k, 'p) crypto \<Rightarrow> Token \<Rightarrow> string gomap \<Rightarrow> 'p \<Rightarrow> string go" where
  "findValidSignature C token signatures pubKey = (case lookup signatures (HexID token) of
     Some sig \<Rightarrow> VerifyDetached (cr_Verify C) token sig pubKey | None \<Rightarrow> Fail ErrNoValidSignature)"

definition client_keys :: "('k, 'p) crypto \<Rightarrow> ('c, 'p) x509 \<Rightarrow> 'c strategy \<Rightarrow> EphemeralKeyPair \<Rightarrow> string \<Rightarrow> keyring go" where
  "client_keys C X strategy ekp serverPubKey =
     go_bind (DeriveSharedSecret (cr_X25519 C) (cr_b2b512 C) ekp \<lparr> pp_PublicKey = serverPubKey, pp_PeerType = PeerTypeServer \<rparr>) (\<lambda>sharedSecret.
     go_bind (NewSharedKeys (cr_keyFromSeed C) sharedSecret) (\<lambda>sk.
     keyring_New (KShared sk # (case PersistentKey (x_Raw X) strategy of None \<Rightarrow> [] | Some k \<Rightarrow> [k]))))"

text \<open>Both versions make the same calls and differ in the request they send (\<open>mk\<close>, from the client's id and
  public key).\<close>

definition bootstrap_with ::
  "('k, 'p) crypto \<Rightarrow> ('c, 'p) x509 \<Rightarrow> string \<Rightarrow> ('s, 'c, 'r) gateway \<Rightarrow> ('c, 'kc, 'm) ClientConfig_scheme \<Rightarrow>
   (string \<Rightarrow> string \<Rightarrow> 'r) \<Rightarrow> ('s, string) prog \<Rightarrow> ('s, keyring) prog" where
  "bootstrap_with C X rand gw c mk UniqueIdentifier = (case cc_Token c of
     None \<Rightarrow> throw ErrNoToken
   | Some token \<Rightarrow>
     bind (bootstrapJoin X gw c) (\<lambda>(signatures, serverLeafCert).
     bind (lift (findValidSignature C token signatures (x_PublicKey X serverLeafCert))) (\<lambda>completeJws.
     bind (lift (x_TLSConfig X (cc_TrustStrategy c))) (\<lambda>tlsConfig.
     bind (map_err (Wrap ''failed to dial gateway'') (gw_dial gw (cc_Endpoint c) tlsConfig)) (\<lambda>_.
     bind (lift (NewEphemeralKeyPair (cr_X25519 C) (cr_basepoint C) rand)) (\<lambda>ekp.
     bind (map_err (Wrap ''failed to obtain unique identifier'') UniqueIdentifier) (\<lambda>ident.
     bind (map_err (Wrap ''auth request failed'')
       (gw_Auth gw [(AuthorizationKey, [''Bearer '' @ completeJws])] (mk ident (kp_PublicKey ekp)))) (\<lambda>serverPubKey.
     lift (client_keys C X (cc_TrustStrategy c) ekp serverPubKey)))))))))"

definition Client_Bootstrap ::
  "('k, 'p) crypto \<Rightarrow> ('c, 'p) x509 \<Rightarrow> string \<Rightarrow> ('s, 'c, BootstrapAuthRequestV1) gateway \<Rightarrow> ('c, 'kc) ClientConfigV1 \<Rightarrow>
   ('s, string) prog \<Rightarrow> ('s, keyring) prog" where
  "Client_Bootstrap C X rand gw c = bootstrap_with C X rand gw c
     (\<lambda>ident pub. \<lparr> ba1_clientID = ident, ba1_clientPubKey = pub, ba1_capability = cc_Capability c \<rparr>)"

definition ClientV2_Bootstrap ::
  "('k, 'p) crypto \<Rightarrow> ('c, 'p) x509 \<Rightarrow> string \<Rightarrow> ('s, 'c, BootstrapAuthRequestV2) gateway \<Rightarrow> ('c, 'kc) ClientConfigV2 \<Rightarrow>
   ('s, string) prog \<Rightarrow> ('s, keyring) prog" where
  "ClientV2_Bootstrap C X rand gw c = bootstrap_with C X rand gw c
     (\<lambda>ident pub. \<lparr> ba2_clientId = ident, ba2_clientPubKey = pub, ba2_friendlyName = cc_FriendlyName c \<rparr>)"

section \<open>Finalize and util.go\<close>

text \<open>\<open>'a\<close> is the agent's configuration; its bootstrap section is read and cleared by \<open>has_bootstrap\<close> and
  \<open>clear_bootstrap\<close>.\<close>

record ('s, 'kc, 'cs, 'a) kube =
  InClusterConfig :: "'kc go"
  NewForConfig :: "'kc \<Rightarrow> 'cs go"
  secrets_Get :: "'cs \<Rightarrow> string \<Rightarrow> string \<Rightarrow> ('s, string gomap) prog"
  secrets_Update :: "'cs \<Rightarrow> string \<Rightarrow> string gomap \<Rightarrow> ('s, unit) prog"
  yaml_Unmarshal :: "string \<Rightarrow> 'a go"
  yaml_Marshal :: "'a \<Rightarrow> string go"
  has_bootstrap :: "'a \<Rightarrow> bool"
  clear_bootstrap :: "'a \<Rightarrow> 'a"

definition eraseBootstrapTokensFromConfig :: "('s, 'kc, 'cs, 'a) kube \<Rightarrow> 'kc option \<Rightarrow> string \<Rightarrow> ('s, unit) prog" where
  "eraseBootstrapTokensFromConfig K restConfig namespace =
     bind (lift (case restConfig of Some r \<Rightarrow> Ret r | None \<Rightarrow> InClusterConfig K)) (\<lambda>restConfig.
     bind (lift (NewForConfig K restConfig)) (\<lambda>clientset.
     bind (secrets_Get K clientset namespace ''agent-config'') (\<lambda>data.
     bind (lift (yaml_Unmarshal K (map_get data ''config.yaml''))) (\<lambda>agentConfig.
     if \<not> has_bootstrap K agentConfig then return ()
     else
       bind (lift (yaml_Marshal K (clear_bootstrap K agentConfig))) (\<lambda>text.
       map_err (Wrap ''failed to update agent config secret'')
         (secrets_Update K clientset namespace (AList.update ''config.yaml'' text data)))))))"

definition Client_Finalize ::
  "('s, 'kc, 'cs, 'a) kube \<Rightarrow> string option \<Rightarrow> ('c, 'kc, 'm) ClientConfig_scheme \<Rightarrow> ('s, unit) prog" where
  "Client_Finalize K pod_namespace c = (case cc_K8sConfig c of
     None \<Rightarrow> return ()
   | Some k8s \<Rightarrow>
       if cc_K8sNamespace c \<noteq> '''' then eraseBootstrapTokensFromConfig K (Some k8s) (cc_K8sNamespace c)
       else (case pod_namespace of
         Some ns \<Rightarrow> eraseBootstrapTokensFromConfig K (Some k8s) ns
       | None \<Rightarrow> throw (ErrText ''POD_NAMESPACE not set, and no namespace was explicitly configured'')))"

section \<open>incluster.go and incluster_v2.go\<close>

text \<open>\<open>mc_CertsInfo\<close> answers the fingerprints of the chain; \<open>mc_CreateBootstrapToken\<close> takes a time to live in
  nanoseconds.\<close>

record 's management_client =
  mc_CertsInfo :: "('s, string list) prog"
  mc_CreateBootstrapToken :: "int \<Rightarrow> ('s, BootstrapToken) prog"
  mc_RevokeBootstrapToken :: "Reference \<Rightarrow> ('s, unit) prog"

text \<open>The bootstrapper's state: the token that its \<^verbatim>\<open>finalize\<close> closure revokes, once that is set.\<close>

record InClusterBootstrapper =
  ic_finalize :: "Reference option"

abbreviation "in_cluster_ttl \<equiv> 300000000000 :: int"

text \<open>Both versions: a token of five minutes and the last certificate of the chain as the pin, then the
  client's bootstrap with them (\<open>boot\<close>).\<close>

definition in_cluster ::
  "('s, 's management_client) prog \<Rightarrow> (Token \<Rightarrow> 'c strategy \<Rightarrow> ('s, keyring) prog) \<Rightarrow> (InClusterBootstrapper \<times> 's, keyring) prog" where
  "in_cluster NewManagementClient boot =
     bind (on_snd NewManagementClient) (\<lambda>client.
     bind (on_snd (mc_CertsInfo client)) (\<lambda>chain.
     if chain = [] then throw (ErrText ''server certificate chain is empty'')
     else
     bind (on_snd (mc_CreateBootstrapToken client in_cluster_ttl)) (\<lambda>token.
     bind (lift (FromBootstrapToken token)) (\<lambda>raw.
     bind (lift (DecodePin (last chain))) (\<lambda>pin.
     bind (lift (Build \<lparr> sc_PKP = Some (Some (NewPinSource [pin])), sc_CACerts = None, sc_Insecure = None \<rparr>)) (\<lambda>strategy.
     bind (\<lambda>(b, s). (Ret (), (b\<lparr> ic_finalize := Some (token_Reference token) \<rparr>, s))) (\<lambda>_.
     on_snd (boot raw strategy))))))))"

abbreviation "DefaultInClusterFriendlyName \<equiv> ''local''"

definition InCluster_Bootstrap ::
  "('k, 'p) crypto \<Rightarrow> ('c, 'p) x509 \<Rightarrow> string \<Rightarrow> ('s, 'c, BootstrapAuthRequestV1) gateway \<Rightarrow> ('s, 's management_client) prog \<Rightarrow>
   string \<Rightarrow> string \<Rightarrow> ('c, 'kc) ClientConfigV1 \<Rightarrow> ('s, string) prog \<Rightarrow> (InClusterBootstrapper \<times> 's, keyring) prog" where
  "InCluster_Bootstrap C X rand gw mgmt gatewayEndpoint capability c ident = in_cluster mgmt (\<lambda>token strategy.
     Client_Bootstrap C X rand gw (c\<lparr> cc_Capability := capability, cc_Token := Some token, cc_Endpoint := gatewayEndpoint,
       cc_TrustStrategy := strategy \<rparr>) ident)"

definition InClusterV2_Bootstrap ::
  "('k, 'p) crypto \<Rightarrow> ('c, 'p) x509 \<Rightarrow> string \<Rightarrow> ('s, 'c, BootstrapAuthRequestV2) gateway \<Rightarrow> ('s, 's management_client) prog \<Rightarrow>
   string \<Rightarrow> ('c, 'kc) ClientConfigV2 \<Rightarrow> ('s, string) prog \<Rightarrow> (InClusterBootstrapper \<times> 's, keyring) prog" where
  "InClusterV2_Bootstrap C X rand gw mgmt gatewayEndpoint c ident = in_cluster mgmt (\<lambda>token strategy.
     ClientV2_Bootstrap C X rand gw (c\<lparr> cc_Token := Some token, cc_Endpoint := gatewayEndpoint, cc_TrustStrategy := strategy,
       cc_FriendlyName := (case cc_FriendlyName c of None \<Rightarrow> Some DefaultInClusterFriendlyName | Some n \<Rightarrow> Some n) \<rparr>) ident)"

definition InCluster_Finalize :: "'s management_client \<Rightarrow> InClusterBootstrapper \<Rightarrow> ('s, unit) prog" where
  "InCluster_Finalize client b = (case ic_finalize b of None \<Rightarrow> return () | Some ref \<Rightarrow> mc_RevokeBootstrapToken client ref)"


section \<open>What is relied on of the parameters\<close>

text \<open>Documented behaviour of the cryptographic packages: compact signatures verify and carry no white space
  at their ends, a token's JSON text is read back, the two ways to the shared point agree, and the hash
  has 64 bytes.\<close>

definition crypto_laws :: "('k, 'p) crypto \<Rightarrow> bool" where
  "crypto_laws C \<longleftrightarrow> jws_laws (cr_Sign C) (cr_Verify C) (\<lambda>k. cr_Public C (Ed25519PrivateKey k)) \<and>
     (\<forall>payload k sig. cr_Sign C payload k = Ret sig \<longrightarrow> space_free sig) \<and>
     (\<forall>t. token_ok t \<longrightarrow> cr_ParseJSON C (EncodeJSON t) = Ret t) \<and>
     x25519_laws (cr_X25519 C) (cr_basepoint C) \<and> (\<forall>m. length (cr_b2b512 C m) = 64)"

lemma hex_id_valid: "token_ok t \<Longrightarrow> ValidateID (HexID t) = Ret ()"
  unfolding HexID_def by (rule ValidateID_hex) (simp_all add: token_ok_def)

section \<open>The handshake\<close>

lemma join_signatures_entry:
  "join_signatures C key ts acc = Ret sigs \<Longrightarrow> lookup sigs i = Some d \<Longrightarrow>
   lookup acc i = Some d \<or> (\<exists>bt \<in> set ts. \<exists>raw. FromBootstrapToken bt = Ret raw \<and> HexID raw = i \<and> SignDetached (cr_Sign C) raw key = Ret d)"
proof (induction C key ts acc rule: join_signatures.induct)
  case (2 C key token ts acc)
  obtain raw sig where raw: "FromBootstrapToken token = Ret raw" "SignDetached (cr_Sign C) raw key = Ret sig"
    "join_signatures C key ts (AList.update (HexID raw) sig acc) = Ret sigs" using "2.prems"(1) by auto
  from "2.IH" [OF raw(3) "2.prems"(2)] raw(1,2) show ?case by (auto split: if_splits)
qed simp

lemma join_signatures_keep:
  "join_signatures C key ts acc = Ret sigs \<Longrightarrow> lookup acc i \<noteq> None \<Longrightarrow> lookup sigs i \<noteq> None"
  by (induction C key ts acc rule: join_signatures.induct) auto

lemma join_signatures_has:
  "join_signatures C key ts acc = Ret sigs \<Longrightarrow> bt \<in> set ts \<Longrightarrow> FromBootstrapToken bt = Ret raw \<Longrightarrow> lookup sigs (HexID raw) \<noteq> None"
proof (induction C key ts acc rule: join_signatures.induct)
  case (2 C key token ts acc)
  obtain r sig where r: "FromBootstrapToken token = Ret r" "SignDetached (cr_Sign C) r key = Ret sig"
    "join_signatures C key ts (AList.update (HexID r) sig acc) = Ret sigs" using "2.prems"(1) by auto
  show ?case
  proof (cases "bt = token")
    case True
    then show ?thesis using join_signatures_keep [OF r(3)] r(1) "2.prems"(3) by simp
  qed (use "2.IH" r "2.prems" in simp)
qed simp

lemma bearer_roundtrip:
  assumes "space_free jws"
  shows "bearer_token (Some [(AuthorizationKey, [''Bearer '' @ jws])]) = Ret jws"
proof -
  have "CHR ''B'' \<notin> set (map hd spaces)" by code_simp
  then have "space_free (''Bearer '' @ jws)" using assms by (simp add: space_free_def)
  then have "TrimSpace (''Bearer '' @ jws) = ''Bearer '' @ jws" by (rule TrimSpace_id)
  then show ?thesis using TrimSpace_leading [OF assms] by (simp add: bearer_token_def md_Get_def TrimPrefix_def Let_def)
qed

lemma handshake:
  assumes laws: "crypto_laws C" and join: "join_signatures C (Ed25519PrivateKey k) tokenList [] = Ret sigs"
    and mem: "bt \<in> set tokenList" "FromBootstrapToken bt = Ret token" "token_ok token"
    and uniq: "\<And>bt' raw. bt' \<in> set tokenList \<Longrightarrow> FromBootstrapToken bt' = Ret raw \<Longrightarrow> HexID raw = HexID token \<Longrightarrow> raw = token"
  shows "\<exists>jws. findValidSignature C token sigs (cr_Public C (Ed25519PrivateKey k)) = Ret jws \<and>
    verified_token C (Ed25519PrivateKey k) (Some [(AuthorizationKey, [''Bearer '' @ jws])]) = Ret token"
proof -
  have jws: "jws_laws (cr_Sign C) (cr_Verify C) (\<lambda>k. cr_Public C (Ed25519PrivateKey k))" using laws by (simp add: crypto_laws_def)
  obtain d where d: "lookup sigs (HexID token) = Some d" using join_signatures_has [OF join mem(1,2)] by auto
  from join_signatures_entry [OF join d] have sign: "SignDetached (cr_Sign C) token (Ed25519PrivateKey k) = Ret d"
    using uniq by auto
  obtain h s where hs: "CHR ''.'' \<notin> set h" "CHR ''.'' \<notin> set s" "d = h @ ''..'' @ s"
    "cr_Sign C (EncodeJSON token) k = Ret (h @ ''.'' @ RawURL_EncodeToString (EncodeJSON token) @ ''.'' @ s)"
    "cr_Verify C (h @ ''.'' @ RawURL_EncodeToString (EncodeJSON token) @ ''.'' @ s) (cr_Public C (Ed25519PrivateKey k)) = Ret (EncodeJSON token)"
    by (rule SignDetached_Ret [OF jws sign])
  let ?full = "h @ ''.'' @ RawURL_EncodeToString (EncodeJSON token) @ ''.'' @ s"
  have "VerifyDetached (cr_Verify C) token d (cr_Public C (Ed25519PrivateKey k)) = Ret ?full"
    unfolding hs(3) VerifyDetached_attach [OF hs(1,2)] Let_def hs(5) by simp
  then have found: "findValidSignature C token sigs (cr_Public C (Ed25519PrivateKey k)) = Ret ?full" by (simp add: findValidSignature_def d)
  have "space_free ?full" using laws hs(4) unfolding crypto_laws_def by blast
  moreover have "cr_ParseJSON C (EncodeJSON token) = Ret token" using laws mem(3) by (simp add: crypto_laws_def)
  ultimately have "verified_token C (Ed25519PrivateKey k) (Some [(AuthorizationKey, [''Bearer '' @ ?full])]) = Ret token"
    unfolding verified_token_def bearer_roundtrip [OF \<open>space_free ?full\<close>] by (simp only: go_bind_simps go_err_simps hs(5) go.case)
  with found show ?thesis by blast
qed

text \<open>C11: the handshake lets in a client that knows a published token: the server signs every token it lists,
  the holder of one of them completes the signature, and the completed signature, sent back as a bearer
  token, is recognised by the server as exactly this token.\<close>

theorem handshake_completes:
  assumes "crypto_laws C" and "join_signatures C (Ed25519PrivateKey k) tokenList [] = Ret sigs"
    and "bt \<in> set tokenList" and "FromBootstrapToken bt = Ret token" and "token_ok token"
    and "\<And>bt' raw. bt' \<in> set tokenList \<Longrightarrow> FromBootstrapToken bt' = Ret raw \<Longrightarrow> HexID raw = HexID token \<Longrightarrow> raw = token"
  shows "\<exists>jws. findValidSignature C token sigs (cr_Public C (Ed25519PrivateKey k)) = Ret jws \<and>
    verified_token C (Ed25519PrivateKey k) (Some [(AuthorizationKey, [''Bearer '' @ jws])]) = Ret token"
  using handshake [OF assms] .


section \<open>On the etcd store\<close>

definition etcd_storage :: "(string \<Rightarrow> string) \<Rightarrow> string \<Rightarrow> time \<Rightarrow> ('s, 'w) EtcdStore \<Rightarrow> 's StorageConfig" where
  "etcd_storage sha entropy now e = \<lparr> st_tokens = Etcd_TokenStore sha entropy e, st_clusters = Etcd_ClusterStore now e,
     st_keyrings = Etcd_KeyringStore e \<rparr>"

lemma etcd_storage_sel [simp]:
  "st_tokens (etcd_storage sha entropy now e) = Etcd_TokenStore sha entropy e"
  "st_clusters (etcd_storage sha entropy now e) = Etcd_ClusterStore now e"
  "st_keyrings (etcd_storage sha entropy now e) = Etcd_KeyringStore e"
  by (simp_all add: etcd_storage_def)

interpretation etcd_boot: bootstrap_storage "etcd_I e ''gateway''" "etcd_R e ''gateway''" "etcd_storage sha entropy now e"
  "etcd_abs e ''gateway''" ring_of for e sha entropy now
  unfolding bootstrap_storage_def etcd_storage_sel
  using etcd_tokens.token_store_axioms etcd_clusters.cluster_store_axioms etcd_keyrings.keyring_store_axioms by blast

abbreviation "etcd_registered e \<equiv> registered (etcd_R e ''gateway'') (etcd_abs e ''gateway'') ring_of"
abbreviation "etcd_rekeyed e \<equiv> rekeyed (etcd_R e ''gateway'') (etcd_abs e ''gateway'') ring_of"

text \<open>The gateway's key signs tokens only.\<close>

definition signs_only_tokens :: "('k, 'p) crypto \<Rightarrow> 'k signing_key \<Rightarrow> bool" where
  "signs_only_tokens C key \<longleftrightarrow> (\<forall>md token. verified_token C key md = Ret token \<longrightarrow> token_ok token)"



end
