(* ===== verification/Bootstrap_Run.thy ===== *)
theory Bootstrap_Run
  imports Bootstrap_Client
begin

text \<open>
  The two sides of the bootstrap protocol run against each other over the etcd store: client and gateway
  end up with the same keys. The witnesses run it with a concrete signature scheme on the stand-alone
  server.
\<close>

section \<open>Both ends\<close>

text \<open>A connection to a gateway whose certificate has the public part of the gateway's signing key.\<close>

definition direct_gateway ::
  "('k, 'p) crypto \<Rightarrow> string \<Rightarrow> ('s, 'k) ServerV2 \<Rightarrow> 'c \<Rightarrow> ('s, 'c, BootstrapAuthRequestV2) gateway" where
  "direct_gateway C rand h leaf = \<lparr> gw_dial = (\<lambda>endpoint tls. return ()),
     gw_Join = bind (ServerV2_Join C h) (\<lambda>signatures. return (signatures, Some [leaf])),
     gw_Auth = (\<lambda>md req. ServerV2_Auth C rand h (Some md) req) \<rparr>"

lemma preserves_TimeToLive: "preserves (etcd_I e ns) (c_TimeToLive (es_Client e) i)"
  using TimeToLive_atomic under_params atomic_preserves by blast

lemma preserves_addLease: "preserves (etcd_I e ns) (addLeaseMetadata e token lease)"
  unfolding addLeaseMetadata_def
  by (intro preserves_if preserves_option preserves_bind preserves_catch preserves_pure preserves_TimeToLive)

lemma preserves_collect_tokens: "preserves (etcd_I e ns) (collect_tokens e kvs)"
proof (induction e kvs rule: collect_tokens.induct)
  case (2 e k kv kvs)
  show ?case unfolding collect_tokens.simps
    by (intro preserves_bind preserves_pure preserves_addLease "2.IH")
qed (simp only: collect_tokens.simps preserves_pure)

lemma preserves_ListTokens: "preserves (etcd_I e ns) (Etcd_ListTokens e)"
proof -
  have "preserves (etcd_I e ns) (c_GetPrefix (es_Client e) p)" for p
    using GetPrefix_atomic under_params atomic_preserves by blast
  then show ?thesis unfolding Etcd_ListTokens_def
    by (intro preserves_bind preserves_catch preserves_pure preserves_collect_tokens)
qed

lemma preserves_Join: "preserves (etcd_I e ns) (ServerV2_Join C \<lparr> sv2_privateKey = key, sv2_storage = etcd_storage sha entropy now e \<rparr>)"
proof -
  have list: "ListTokens (Etcd_TokenStore sha entropy e) = Etcd_ListTokens e" by (simp add: Etcd_TokenStore_def)
  show ?thesis unfolding ServerV2_Join_def join_def ServerV2.select_convs etcd_storage_sel list
    by (intro preserves_bind preserves_if preserves_pure preserves_ListTokens)
qed

lemma client_keys_Ret:
  assumes "client_keys C X strategy ekp pub = Ret kr"
  obtains sec sk where
    "DeriveSharedSecret (cr_X25519 C) (cr_b2b512 C) ekp \<lparr> pp_PublicKey = pub, pp_PeerType = PeerTypeServer \<rparr> = Ret sec"
    "NewSharedKeys (cr_keyFromSeed C) sec = Ret sk" "keys_of kr TShared = [KShared sk]"
proof -
  obtain sec sk where run: "DeriveSharedSecret (cr_X25519 C) (cr_b2b512 C) ekp \<lparr> pp_PublicKey = pub, pp_PeerType = PeerTypeServer \<rparr> = Ret sec"
    "NewSharedKeys (cr_keyFromSeed C) sec = Ret sk"
    "keyring_New (KShared sk # (case PersistentKey (x_Raw X) strategy of None \<Rightarrow> [] | Some k \<Rightarrow> [k])) = Ret kr"
    using assms by (auto simp: client_keys_def)
  have "keys_of kr TShared = [KShared sk]"
    using keys_of_two [OF run(3), of TShared] by (cases strategy) auto
  with run(1,2) show thesis by (rule that)
qed

lemma keys_agree:
  assumes laws: "crypto_laws C" and "NewEphemeralKeyPair (cr_X25519 C) (cr_basepoint C) r1 = Ret ekp"
    and "server_keys C r2 (kp_PublicKey ekp) = Ret (pub, k)" and "client_keys C X strategy ekp pub = Ret kr"
  shows "\<exists>sk. keys_of kr TShared = [KShared sk] \<and> k = [(TShared, [KShared sk])]"
proof -
  obtain se sec sk where s: "NewEphemeralKeyPair (cr_X25519 C) (cr_basepoint C) r2 = Ret se" "pub = kp_PublicKey se"
    "DeriveSharedSecret (cr_X25519 C) (cr_b2b512 C) se \<lparr> pp_PublicKey = kp_PublicKey ekp, pp_PeerType = PeerTypeClient \<rparr> = Ret sec"
    "NewSharedKeys (cr_keyFromSeed C) sec = Ret sk" "k = [(TShared, [KShared sk])]"
    using server_keys_Ret [OF assms(3)] .
  obtain sec' sk' where c: "DeriveSharedSecret (cr_X25519 C) (cr_b2b512 C) ekp \<lparr> pp_PublicKey = pub, pp_PeerType = PeerTypeServer \<rparr> = Ret sec'"
    "NewSharedKeys (cr_keyFromSeed C) sec' = Ret sk'" "keys_of kr TShared = [KShared sk']"
    using client_keys_Ret [OF assms(4)] .
  have "x25519_laws (cr_X25519 C) (cr_basepoint C)" "\<And>m. length (cr_b2b512 C m) = 64" using laws by (simp_all add: crypto_laws_def)
  from ecdh_same [OF this assms(2) s(1), where sec = sec'] c(1) s(2,3) have "sec' = sec" by simp
  with s c show ?thesis by auto
qed




section \<open>A concrete run\<close>

text \<open>A JSON reader for the text of well-formed tokens.\<close>

definition toy_fields :: "string \<Rightarrow> Token go" where
  "toy_fields s = (case split (CHR 0x22) s of
     [_, _, _, i, _, _, _, sec, _] \<Rightarrow> (case (Std_DecodeString i, Std_DecodeString sec) of
        (Some a, Some b) \<Rightarrow> Ret \<lparr> tok_ID = a, tok_Secret = b \<rparr>
      | _ \<Rightarrow> Fail (ErrText ''base64''))
   | _ \<Rightarrow> Fail (ErrText ''json''))"

definition toy_parse :: "string \<Rightarrow> Token go" where
  "toy_parse s = go_bind (toy_fields s) (\<lambda>t. if token_ok t then Ret t else Fail (ErrText ''length''))"

lemma toy_parse_ok: "toy_parse s = Ret t \<Longrightarrow> token_ok t"
  by (auto simp: toy_parse_def split: if_splits)

definition toy_crypto :: "(unit, unit) crypto" where
  "toy_crypto = \<lparr> cr_Sign = toy_sign, cr_Verify = toy_verify, cr_Public = (\<lambda>_. ()), cr_ParseJSON = toy_parse,
     cr_X25519 = toy_dh, cr_basepoint = ''g'', cr_b2b512 = (\<lambda>s. replicate 64 (CHR ''h'')), cr_keyFromSeed = id \<rparr>"

definition tokA :: Token where
  "tokA = \<lparr> tok_ID = ''abcdef'', tok_Secret = ''abcdefghijklmnopqrstuvwxyz'' \<rparr>"

definition s3 :: "wire server" where
  "s3 = sv_put (okey_path demo ''gateway'' (KToken, HexID tokA)) (WToken (ToBootstrapToken tokA)) NoLease empty_server"

definition toy_x509 :: "(unit, unit) x509" where
  "toy_x509 = \<lparr> x_PublicKey = id, x_Raw = (\<lambda>_. ''''), x_pinned = (\<lambda>pins. Ret (\<lambda>_. Ret ())), x_SystemCertPool = Ret [] \<rparr>"

definition toy_server :: "(wire server, unit) ServerV2" where
  "toy_server = \<lparr> sv2_privateKey = Ed25519PrivateKey (), sv2_storage = etcd_storage id '''' 0 demo \<rparr>"

definition toy_client :: "(unit, unit) ClientConfigV2" where
  "toy_client = \<lparr> cc_Token = Some tokA, cc_Endpoint = '''', cc_K8sConfig = None, cc_K8sNamespace = '''',
     cc_TrustStrategy = insecureTrustStrategy, cc_FriendlyName = Some ''edge'' \<rparr>"

text \<open>The operations of the stand-alone store.\<close>

abbreviation "tokenPath i \<equiv> path_Join [''opni'', tokensKey, i]"
abbreviation "clusterPath i \<equiv> path_Join [''opni'', clusterKey, i]"
abbreviation "ringPath i \<equiv> path_Join [''gateway'', keyringKey, i]"

lemma demo_getToken:
  assumes "sv_db s (tokenPath i) = Some kv" and "ev_value kv = WToken bt" and "ev_lease kv = 0"
  shows "getToken demo \<lparr> ref_id = i \<rparr> s = (Ret (bt, ev_version kv), s)"
  using assms by (simp add: getToken_def addLeaseMetadata_def bind_def catch_def solo_ops wire_codecs_def)

lemma demo_GetToken:
  assumes "sv_db s (tokenPath i) = Some kv" and "ev_value kv = WToken bt" and "ev_lease kv = 0"
  shows "Etcd_GetToken demo \<lparr> ref_id = i \<rparr> s = (Ret bt, s)"
  using demo_getToken [OF assms] by (simp add: Etcd_GetToken_def bind_def)

lemma demo_GetCluster_None:
  "sv_db s (clusterPath i) = None \<Longrightarrow> Etcd_GetCluster demo \<lparr> ref_id = i \<rparr> s = (Fail ErrNotFound, s)"
  by (simp add: Etcd_GetCluster_def bind_def catch_def solo_ops)

lemma demo_CreateCluster:
  assumes "sv_db s (clusterPath (cl_id c)) = None" and "sv_rev s < 9"
  shows "\<exists>d w. cl_id d = cl_id c \<and> Etcd_CreateCluster now demo c s = (Ret d, sv_put (clusterPath (cl_id c)) w NoLease s)"
  using assms by (simp add: Etcd_CreateCluster_def Let_def wire_codecs_def bind_def catch_def solo_ops guarded_def cluster_access) blast

lemma demo_UpdateToken:
  assumes "sv_db s (tokenPath i) = Some kv" and "ev_value kv = WToken bt" and "ev_lease kv = 0" and "mut bt = Ret bt'" and "sv_rev s < 9"
  shows "Etcd_UpdateToken demo \<lparr> ref_id = i \<rparr> mut s = (Ret bt', sv_put (tokenPath i) (WToken bt') IgnoreLease s)"
proof -
  have mar: "mar_token wire_codecs bt' = Ret (WToken bt')" by (simp add: wire_codecs_def)
  have "updateToken_attempt demo \<lparr> ref_id = i \<rparr> mut s = (Ret bt', sv_put (tokenPath i) (WToken bt') IgnoreLease s)"
    using assms(1,4,5) mar
    by (simp add: updateToken_attempt_def demo_getToken [OF assms(1-3)] Let_def bind_def solo_ops guarded_def)
  then show ?thesis unfolding Etcd_UpdateToken_def using retry_first [OF on_error_laws] by simp
qed

lemma demo_PutKeyring:
  assumes "sv_rev s < 9"
  shows "\<exists>t. keyring_Put (Etcd_KeyringStore demo ''gateway'' \<lparr> ref_id = i \<rparr>) [(TShared, [KShared sk])] s = (Ret (), t)"
  using assms by (simp add: Etcd_KeyringStore_def Let_def store_prefix_def keyring_Marshal_def keys_of_def bind_def catch_def
      solo_ops guarded_def wire_codecs_def ck_wf_def)

lemma demo_ListTokens:
  assumes "sv_keys s = [tokenPath i]" and "sv_db s (tokenPath i) = Some kv" and "ev_value kv = WToken bt" and "ev_lease kv = 0"
    and "prefix (path_Join [''opni'', tokensKey]) (tokenPath i)"
  shows "Etcd_ListTokens demo s = (Ret [bt], s)"
  using assms by (simp add: Etcd_ListTokens_def addLeaseMetadata_def bind_def catch_def solo_ops wire_codecs_def)

lemma gateway_kv_path: "kv_key key \<Longrightarrow> path_Join [path_Join [''gateway'', ''kv''], key] = ''gateway/kv/'' @ key"
proof -
  assume key: "kv_key key"
  have pre: "path_Join [''gateway'', ''kv''] = ''gateway/kv''" by code_simp
  have segs: "prefix_segs ''gateway/kv'' = [''gateway'', ''kv'']" "rooted ''gateway/kv'' = False" by code_simp+
  show "path_Join [path_Join [''gateway'', ''kv''], key] = ''gateway/kv/'' @ key"
    using join_append [of "[''gateway'', ''kv'']" "split slash key" "[slash]"]
    unfolding pre by (subst path_Join_kv [OF key]) (simp_all add: segs key_of_def join_split)
qed

lemma gateway_separate: "separate demo ''gateway''"
proof -
  have "plain ''opni''" "plain ''gateway''" by (simp_all add: plain_def)
  then have dir: "path_Join [''opni'', dir_of k] = ''opni/'' @ dir_of k" for k
    using path_Join2_key [OF plain_dir] by simp
  have ring: "path_Join [''gateway'', keyringKey, i] = ''gateway/'' @ keyringKey @ ''/'' @ i" if "ValidateID i = Ret ()" for i
    using path_Join_snoc [OF plain_kinds(3) ValidateID_plain [OF that], of "''gateway''"]
      path_Join2_key [OF plain_kinds(3) \<open>plain ''gateway''\<close>] by simp
  show ?thesis unfolding separate_def
  proof (intro conjI allI impI)
    fix k i assume "listed k" "ValidateID i = Ret ()"
    then show "\<not> prefix (path_Join [es_Prefix demo, dir_of k]) (path_Join [store_prefix demo ''gateway'', keyringKey, i])"
      using ring by (simp add: store_prefix_def dir)
  next
    fix k key assume "listed k" "kv_key key"
    then show "\<not> prefix (path_Join [es_Prefix demo, dir_of k]) (path_Join [path_Join [store_prefix demo ''gateway'', ''kv''], key])"
      using gateway_kv_path by (simp add: store_prefix_def dir)
  qed
qed

lemma gateway_params: "etcd_params demo ''gateway''"
  by (simp add: etcd_params_def wire_laws on_error_laws gateway_separate solo_laws)

lemma tokA_ok: "token_ok tokA" "HexID tokA = ''616263646566''" "FromBootstrapToken (ToBootstrapToken tokA) = Ret tokA"
proof -
  show "token_ok tokA" by (simp add: token_ok_def tokA_def)
  show "HexID tokA = ''616263646566''" "FromBootstrapToken (ToBootstrapToken tokA) = Ret tokA" by code_simp+
qed

lemma s3_facts:
  "sv_keys s3 = [tokenPath (HexID tokA)]" "sv_rev s3 = 1"
  "sv_db s3 k = (if k = tokenPath (HexID tokA) then Some \<lparr> ev_value = WToken (ToBootstrapToken tokA), ev_version = 1, ev_create = 1, ev_mod = 1, ev_lease = 0 \<rparr> else None)"
  by (simp_all add: s3_def sv_put_def empty_server_def etcd_put_def okey_path_def dir_of_def)

lemma gateway_I_s3: "etcd_I demo ''gateway'' s3"
proof -
  let ?k = "okey_path demo ''gateway'' (KToken, HexID tokA)"
  have empty: "etcd_I demo ''gateway'' empty_server"
    by (simp add: etcd_I_def gateway_params etcd_ok_def etcd_wf_def empty_server_def)
  have run: "c_Put (es_Client demo) ?k (WToken (ToBootstrapToken tokA)) NoLease empty_server = (Ret (), s3)"
    by (simp add: solo_ops guarded_def s3_def empty_server_def)
  have "atomic (etcd_I demo ''gateway'') (etcd_R demo ''gateway'') (c_Put (es_Client demo) ?k (WToken (ToBootstrapToken tokA)) NoLease)
      (put_call_effect (es_Client demo) ?k (WToken (ToBootstrapToken tokA)) NoLease)"
    by (rule Put_atomic [OF gateway_params]) (auto simp: hex_id_valid tokA_ok(1) well_typed_def wire_codecs_def ToBootstrapToken_def)
  then show ?thesis using empty run by (rule atomicE)
qed

lemma toy_parse_Encode:
  assumes "token_ok t"
  shows "toy_parse (EncodeJSON t) = Ret t"
proof -
  let ?q = "CHR 0x22"
  have "EncodeJSON t = ''{'' @ ?q # ''id'' @ ?q # '':'' @ ?q # Std_EncodeToString (tok_ID t) @ ?q # '','' @ ?q # ''secret'' @ ?q # '':'' @ ?q #
      Std_EncodeToString (tok_Secret t) @ ?q # ''}''"
    using assms by (auto simp: EncodeJSON_def token_ok_def)
  then have "split ?q (EncodeJSON t) = [''{'', ''id'', '':'', Std_EncodeToString (tok_ID t), '','', ''secret'', '':'', Std_EncodeToString (tok_Secret t), ''}'']"
    using Std_no_quote by (simp del: append_Cons append_Nil add: split_free_append)
  then show ?thesis using assms by (simp add: toy_parse_def toy_fields_def token_ok_def)
qed

lemma toy_laws: "crypto_laws toy_crypto"
proof -
  have "(\<lambda>k :: unit. ()) = id" by (simp add: fun_eq_iff)
  then have "jws_laws toy_sign toy_verify (\<lambda>k. ())" using toy_jws by simp
  moreover have "CHR ''h'' \<notin> set (map hd spaces)" "CHR ''g'' \<notin> set (map last spaces)" by code_simp+
  then have "space_free sig" if "toy_sign payload k = Ret sig" for payload k sig
    using that by (auto simp: toy_sign_def space_free_def)
  moreover have "x25519_laws toy_dh ''g''" by (simp add: x25519_laws_def toy_dh_def mult.commute)
  ultimately show ?thesis by (simp add: crypto_laws_def toy_crypto_def toy_parse_Encode)
qed

lemma toy_signs: "signs_only_tokens toy_crypto key"
  unfolding signs_only_tokens_def
proof (intro allI impI)
  fix md token assume "verified_token toy_crypto key md = Ret token"
  then obtain p where "(case toy_parse p of Ret t \<Rightarrow> Ret t | Fail e \<Rightarrow> Panic ''bug: jws.Verify returned a malformed token'' | Panic q \<Rightarrow> Panic q) = Ret token"
    by (auto simp: verified_token_def toy_crypto_def)
  then show "token_ok token" by (cases "toy_parse p") (auto dest: toy_parse_ok)
qed

lemma toy_join: "\<exists>sigs. join_signatures toy_crypto (Ed25519PrivateKey ()) [ToBootstrapToken tokA] [] = Ret sigs \<and> sigs \<noteq> []"
proof -
  have "\<exists>d. SignDetached toy_sign tokA (Ed25519PrivateKey ()) = Ret d"
    by (simp add: SignDetached_def toy_sign_def IndexByte_def LastIndexByte_def)
  then show ?thesis by (auto simp: tokA_ok(3) toy_crypto_def)
qed

text \<open>Witness: one token, known to the client.\<close>

theorem handshake_completes_witness:
  "\<exists>sigs jws. join_signatures toy_crypto (Ed25519PrivateKey ()) [ToBootstrapToken tokA] [] = Ret sigs \<and>
     findValidSignature toy_crypto tokA sigs () = Ret jws \<and>
     verified_token toy_crypto (Ed25519PrivateKey ()) (Some [(AuthorizationKey, [''Bearer '' @ jws])]) = Ret tokA"
proof -
  obtain sigs where sigs: "join_signatures toy_crypto (Ed25519PrivateKey ()) [ToBootstrapToken tokA] [] = Ret sigs" using toy_join by blast
  have "raw = tokA" if "bt' \<in> set [ToBootstrapToken tokA]" "FromBootstrapToken bt' = Ret raw" for bt' raw
    using that tokA_ok(3) by simp
  from handshake_completes [OF toy_laws sigs _ tokA_ok(3,1)] this sigs show ?thesis by auto
qed

definition auth_req1 :: BootstrapAuthRequestV2 where
  "auth_req1 = \<lparr> ba2_clientId = ''c1'', ba2_clientPubKey = ''xx'', ba2_friendlyName = Some ''edge'' \<rparr>"

lemma paths_differ: "clusterPath ''c1'' \<noteq> tokenPath ''616263646566''"
  using okey_path_inject [of "''gateway''" "(KCluster, ''c1'')" "(KToken, ''616263646566'')" demo] hex_id_valid [OF tokA_ok(1)] c1_valid(1)
  by (auto simp: observed_kind tokA_ok(2) okey_path_def dir_of_def)

abbreviation "toyring \<equiv> [(TShared, [KShared \<lparr> sk_ClientKey = replicate 32 (CHR ''h''), sk_ServerKey = replicate 32 (CHR ''h'') \<rparr>])]"

lemma toy_keys: "server_keys toy_crypto ''abc'' ''xx'' = Ret (''xxx'', toyring)"
  by (simp add: server_keys_def toy_crypto_def NewEphemeralKeyPair_def DeriveSharedSecret_def toy_dh_def NewSharedKeys_def keyring_New_def
      allowedKeyTypes_def keys_of_def numeral_eq_Suc)

abbreviation "toy_storage \<equiv> etcd_storage id '''' 0 demo"

lemma toy_reads:
  "stored_token toy_storage tokA s3 = (Ret (ToBootstrapToken tokA), s3)"
  "existing_cluster toy_storage \<lparr> ref_id = ''c1'' \<rparr> s3 = (Ret None, s3)"
  using demo_GetToken [of s3 "HexID tokA"] demo_GetCluster_None [of s3 "''c1''"] s3_facts(3) paths_differ
  by (simp_all add: stored_token_def existing_cluster_def Etcd_TokenStore_def Etcd_ClusterStore_def Token_Reference_def bind_def catch_def tokA_ok(2))

lemma toy_writes:
  assumes "cl_id c = ''c1''" and "\<And>r. mut r (ToBootstrapToken tokA) = Ret (bt' r)"
  shows "\<exists>d s4 s5 t. Etcd_CreateCluster 0 demo c s3 = (Ret d, s4) \<and> cl_id d = ''c1'' \<and>
    Etcd_UpdateToken demo \<lparr> ref_id = HexID tokA \<rparr> (mut (cluster_Reference d)) s4 = (Ret (bt' (cluster_Reference d)), s5) \<and>
    keyring_Put (Etcd_KeyringStore demo ''gateway'' \<lparr> ref_id = ''c1'' \<rparr>) toyring s5 = (Ret (), t)"
proof -
  have free: "sv_db s3 (clusterPath (cl_id c)) = None" unfolding assms(1) s3_facts(3) tokA_ok(2) using paths_differ by simp
  obtain d w where d: "cl_id d = ''c1''" "Etcd_CreateCluster 0 demo c s3 = (Ret d, sv_put (clusterPath ''c1'') w NoLease s3)"
    using demo_CreateCluster [OF free, of 0] assms(1) s3_facts(2) by auto
  let ?s4 = "sv_put (clusterPath ''c1'') w NoLease s3" and ?b = "bt' (cluster_Reference d)"
  let ?s5 = "sv_put (tokenPath (HexID tokA)) (WToken ?b) IgnoreLease ?s4"
  let ?kv = "\<lparr> ev_value = WToken (ToBootstrapToken tokA), ev_version = 1, ev_create = 1, ev_mod = 1, ev_lease = 0 \<rparr>"
  have db4: "sv_db ?s4 (tokenPath (HexID tokA)) = Some ?kv" "sv_rev ?s4 = 2"
    using paths_differ s3_facts by (auto simp: sv_put_def tokA_ok(2))
  have upd: "Etcd_UpdateToken demo \<lparr> ref_id = HexID tokA \<rparr> (mut (cluster_Reference d)) ?s4 = (Ret ?b, ?s5)"
    using demo_UpdateToken [where mut = "mut (cluster_Reference d)", OF db4(1) _ _ assms(2)] db4(2) by simp
  have "sv_rev ?s5 < 9" using db4(2) by (simp add: sv_put_def)
  from demo_PutKeyring [OF this] d upd show ?thesis by blast
qed

lemma toy_auth:
  assumes "verified_token toy_crypto (Ed25519PrivateKey ()) md = Ret tokA"
  shows "\<exists>t. ServerV2_Auth toy_crypto ''abc'' toy_server md auth_req1 s3 = (Ret ''xxx'', t)"
proof -
  have valid: "bootstrapAuthV2_Validate auth_req1 = Ret ()" by code_simp
  let ?c = "newClusterV2 auth_req1 (ToBootstrapToken tokA)" and ?mut = "NewCompositeMutator [NewIncrementUsageCountMutator]"
  obtain bt' where use: "?mut (ToBootstrapToken tokA) = Ret bt'"
    by (simp add: NewIncrementUsageCountMutator_def ToBootstrapToken_def)
  obtain d s4 s5 t where "Etcd_CreateCluster 0 demo ?c s3 = (Ret d, s4)" "cl_id d = ''c1''"
    "Etcd_UpdateToken demo \<lparr> ref_id = HexID tokA \<rparr> ?mut s4 = (Ret bt', s5)"
    "keyring_Put (Etcd_KeyringStore demo ''gateway'' \<lparr> ref_id = ''c1'' \<rparr>) toyring s5 = (Ret (), t)"
    using toy_writes [where c = ?c and mut = "\<lambda>_. ?mut" and bt' = "\<lambda>_. bt'", OF _ use] by (auto simp: auth_req1_def)
  then have "registerV2 toy_storage tokA ?c toyring s3 = (Ret (), t)"
    by (simp add: registerV2_def Etcd_ClusterStore_def Etcd_TokenStore_def Token_Reference_def cluster_Reference_def bind_def catch_def
        del: NewCompositeMutator.simps)
  then have "ServerV2_Auth toy_crypto ''abc'' toy_server md auth_req1 s3 = (Ret ''xxx'', t)"
    using assms toy_reads valid toy_keys by (simp add: ServerV2_Auth_def toy_server_def bind_def auth_req1_def)
  then show ?thesis by blast
qed

lemma toy_token: "\<exists>sigs jws. ServerV2_Join toy_crypto toy_server s3 = (Ret sigs, s3) \<and> findValidSignature toy_crypto tokA sigs () = Ret jws \<and>
   verified_token toy_crypto (Ed25519PrivateKey ()) (Some [(AuthorizationKey, [''Bearer '' @ jws])]) = Ret tokA"
proof -
  obtain sigs where sigs: "join_signatures toy_crypto (Ed25519PrivateKey ()) [ToBootstrapToken tokA] [] = Ret sigs" "sigs \<noteq> []" using toy_join by blast
  have "raw = tokA" if "bt' \<in> set [ToBootstrapToken tokA]" "FromBootstrapToken bt' = Ret raw" for bt' raw
    using that tokA_ok(3) by simp
  with handshake [OF toy_laws sigs(1) _ tokA_ok(3,1)] obtain jws where "findValidSignature toy_crypto tokA sigs () = Ret jws"
    "verified_token toy_crypto (Ed25519PrivateKey ()) (Some [(AuthorizationKey, [''Bearer '' @ jws])]) = Ret tokA" by auto
  moreover have "prefix (path_Join [''opni'', tokensKey]) (tokenPath (HexID tokA))" unfolding tokA_ok(2) by code_simp
  then have "Etcd_ListTokens demo s3 = (Ret [ToBootstrapToken tokA], s3)"
    using demo_ListTokens [OF s3_facts(1)] s3_facts(3) by simp
  then have "ServerV2_Join toy_crypto toy_server s3 = (Ret sigs, s3)"
    using sigs by (simp add: ServerV2_Join_def join_def toy_server_def Etcd_TokenStore_def bind_def del: join_signatures.simps)
  ultimately show ?thesis by blast
qed




text \<open>Witness for the first version: a capability backend that can always be installed, and a new cluster.\<close>

definition toy_backends :: "(wire server, unit) backendStore" where
  "toy_backends = \<lparr> bs_serverSpec = \<lparr> ss_Address = '''', ss_Port = '''' \<rparr>, bs_backends = [(''metrics'', \<lparr>
     bc_Info = return \<lparr> dt_name = ''metrics'', dt_source = '''', dt_drivers = [] \<rparr>, CanInstall = return (),
     Install = (\<lambda>r. return \<lparr> irs_status = ISSuccess, irs_message = '''' \<rparr>),
     bc_Status = (\<lambda>r. return \<lparr> ncs_enabled = False, ncs_lastSync = None \<rparr>), Uninstall = (\<lambda>r. return ()),
     UninstallStatus = (\<lambda>r. return ()), CancelUninstall = (\<lambda>r. return ()), InstallerTemplate = return '''' \<rparr>)] \<rparr>"

definition auth_reqV1 :: BootstrapAuthRequestV1 where
  "auth_reqV1 = \<lparr> ba1_clientID = ''c1'', ba1_clientPubKey = ''xx'', ba1_capability = ''metrics'' \<rparr>"

lemma toy_authV1:
  assumes "verified_token toy_crypto (Ed25519PrivateKey ()) md = Ret tokA"
  shows "\<exists>t. Server_Auth toy_crypto ''abc'' \<lparr> sv_privateKey = Ed25519PrivateKey (), sv_storage = toy_storage, sv_capBackendStore = toy_backends \<rparr>
    md auth_reqV1 s3 = (Ret ''xxx'', t)"
proof -
  have valid: "bootstrapAuthV1_Validate auth_reqV1 = Ret ()" by code_simp
  let ?c = "newClusterV1 auth_reqV1 (ToBootstrapToken tokA)"
  let ?mut = "\<lambda>r. NewCompositeMutator [NewIncrementUsageCountMutator, add_token_capability (capability_For JoinExistingCluster r)]"
  have "\<exists>b. ?mut r (ToBootstrapToken tokA) = Ret b" for r
    by (simp add: NewIncrementUsageCountMutator_def ToBootstrapToken_def NewAddCapabilityMutator_def Let_def)
  then obtain bt' where use: "\<And>r. ?mut r (ToBootstrapToken tokA) = Ret (bt' r)" by metis
  obtain d s4 s5 t where writes: "Etcd_CreateCluster 0 demo ?c s3 = (Ret d, s4)" "cl_id d = ''c1''"
    "Etcd_UpdateToken demo \<lparr> ref_id = HexID tokA \<rparr> (?mut (cluster_Reference d)) s4 = (Ret (bt' (cluster_Reference d)), s5)"
    "keyring_Put (Etcd_KeyringStore demo ''gateway'' \<lparr> ref_id = ''c1'' \<rparr>) toyring s5 = (Ret (), t)"
    using toy_writes [where c = ?c and mut = ?mut, OF _ use] by (auto simp: auth_reqV1_def)
  let ?b = "snd (hd (bs_backends toy_backends))"
  have usable: "usable_backend toy_backends ''metrics'' s3 = (Ret ?b, s3)"
    by (simp add: usable_backend_def backend_Get_def toy_backends_def bind_def catch_def)
  have ref: "token_Reference (ToBootstrapToken tokA) = \<lparr> ref_id = HexID tokA \<rparr>" by (simp add: token_Reference_def ToBootstrapToken_def)
  have "Install ?b r t = (Ret \<lparr> irs_status = ISSuccess, irs_message = '''' \<rparr>, t)" for r by (simp add: toy_backends_def)
  then have create: "handleCreate toy_storage ?c ?b (ToBootstrapToken tokA) toyring s3 = (Ret (), t)"
    using writes unfolding handleCreate_def ref
    by (simp add: Etcd_ClusterStore_def Etcd_TokenStore_def cluster_Reference_def bind_def catch_def ignore_def
        del: NewCompositeMutator.simps)
  have "Server_Auth toy_crypto ''abc'' \<lparr> sv_privateKey = Ed25519PrivateKey (), sv_storage = toy_storage, sv_capBackendStore = toy_backends \<rparr>
      md auth_reqV1 s3 = (Ret ''xxx'', t)"
    using assms toy_reads valid toy_keys usable create
    by (simp add: Server_Auth_def Let_def bind_def catch_def auth_reqV1_def shouldEditExisting_def)
  then show ?thesis by blast
qed


end
