(* ===== verification/Rbac.thy ===== *)
theory Rbac
  imports Contracts "HOL-Library.Char_ord" "HOL-Library.List_Lexorder"
begin

text \<open>
  \<^verbatim>\<open>pkg/storage/rbac_provider.go\<close> and \<^verbatim>\<open>pkg/rbac\<close>: which clusters a user may access, and the middleware that puts
  them into a request. Go compares strings byte by byte, which is the lexicographic order on them.
\<close>

section \<open>rbac\_provider.go\<close>

text \<open>\<^verbatim>\<open>allowedClusters\<close> is a \<^verbatim>\<open>map[string]struct{}\<close>.\<close>

definition allow :: "string list \<Rightarrow> unit gomap \<Rightarrow> unit gomap" where
  "allow ids allowedClusters = fold (\<lambda>i. AList.update i ()) ids allowedClusters"

fun collect_access ::
  "'s RBACStore \<Rightarrow> 's ClusterStore \<Rightarrow> string \<Rightarrow> RoleBinding list \<Rightarrow> unit gomap \<Rightarrow> ('s, unit gomap) prog" where
  "collect_access store clusters subject [] allowedClusters = return allowedClusters"
| "collect_access store clusters subject (roleBinding # rbs) allowedClusters =
     (if subject \<notin> set (rb_subjects roleBinding) then collect_access store clusters subject rbs allowedClusters
      else if rb_taints roleBinding \<noteq> [] then collect_access store clusters subject rbs allowedClusters
      else (\<lambda>s. case GetRole store (RoleReference roleBinding) s of
         (Ret role, t) \<Rightarrow>
           bind (map_err (Wrap ''failed to list clusters'') (ListClusters clusters (role_matchLabels role) MatchOptions_EmptySelectorMatchesNone))
             (\<lambda>filteredList. collect_access store clusters subject rbs
                (allow (map cl_id filteredList) (allow (role_clusterIDs role) allowedClusters))) t
       | (Fail e, t) \<Rightarrow> collect_access store clusters subject rbs allowedClusters t
       | (Panic p, t) \<Rightarrow> (Panic p, t)))"

definition SubjectAccess :: "'s RBACStore \<Rightarrow> 's ClusterStore \<Rightarrow> string \<Rightarrow> ('s, Reference list) prog" where
  "SubjectAccess store clusters subject =
     bind (map_err (Wrap ''failed to list role bindings'') (ListRoleBindings store)) (\<lambda>rbs.
     bind (collect_access store clusters subject rbs []) (\<lambda>allowedClusters.
     return (map (\<lambda>i. \<lparr> ref_id = i \<rparr>) (sort (keys allowedClusters)))))"

section \<open>middleware.go\<close>

text \<open>What the handler does to the request: abort it with a status, or set a header and pass it on with the ids.\<close>

datatype 'h handled = AbortWithStatus nat | Pass string 'h "string list"

record 'h HeaderCodec =
  codec_Key :: string
  codec_Encode :: "string list \<Rightarrow> 'h"

abbreviation "StatusUnauthorized \<equiv> 401 :: nat"

definition middleware_Handle ::
  "(string \<Rightarrow> ('s, Reference list) prog) \<Rightarrow> 'h HeaderCodec \<Rightarrow> string option \<Rightarrow> ('s, 'h handled) prog" where
  "middleware_Handle provider codec userID = (case userID of
     None \<Rightarrow> return (AbortWithStatus StatusUnauthorized)
   | Some user \<Rightarrow>
       catch (bind (provider user) (\<lambda>clusters.
          if clusters = [] then return (AbortWithStatus StatusUnauthorized)
          else (let ids = map ref_id clusters in return (Pass (codec_Key codec) (codec_Encode codec ids) ids))))
        (\<lambda>e. return (AbortWithStatus StatusUnauthorized)))"

section \<open>Properties\<close>

lemma lookup_allow: "lookup (allow ids m) i \<noteq> None \<longleftrightarrow> i \<in> set ids \<or> lookup m i \<noteq> None"
  unfolding allow_def by (induction ids arbitrary: m) auto

lemma gomap_ok_allow: "gomap_ok m \<Longrightarrow> gomap_ok (allow ids m)"
  unfolding allow_def by (induction ids arbitrary: m) simp_all

text \<open>A store at rest: what its reading operations answer in state \<open>s\<close>.\<close>

definition at_rest ::
  "'s RBACStore \<Rightarrow> 's ClusterStore \<Rightarrow> 's \<Rightarrow> RoleBinding list \<Rightarrow> (Reference \<Rightarrow> Role option) \<Rightarrow> (LabelSelector option \<Rightarrow> Cluster list) \<Rightarrow> bool" where
  "at_rest store clusters s rbs roles matching \<longleftrightarrow> ListRoleBindings store s = (Ret rbs, s) \<and>
     (\<forall>ref. GetRole store ref s = (case roles ref of Some r \<Rightarrow> Ret r | None \<Rightarrow> Fail ErrNotFound, s)) \<and>
     (\<forall>sel. ListClusters clusters sel MatchOptions_EmptySelectorMatchesNone s = (Ret (matching sel), s))"

text \<open>The clusters a role binding gives a subject access to.\<close>

definition granted ::
  "(Reference \<Rightarrow> Role option) \<Rightarrow> (LabelSelector option \<Rightarrow> Cluster list) \<Rightarrow> string \<Rightarrow> RoleBinding \<Rightarrow> string set" where
  "granted roles matching subject rb = (case roles (RoleReference rb) of
     Some r \<Rightarrow> if subject \<in> set (rb_subjects rb) \<and> rb_taints rb = []
       then set (role_clusterIDs r) \<union> cl_id ` set (matching (role_matchLabels r)) else {}
   | None \<Rightarrow> {})"

lemma collect_access_run:
  assumes "at_rest store clusters s rbs0 roles matching" and "gomap_ok m"
  shows "\<exists>m'. collect_access store clusters subject rbs m s = (Ret m', s) \<and> gomap_ok m' \<and>
    (\<forall>i. lookup m' i \<noteq> None \<longleftrightarrow> lookup m i \<noteq> None \<or> (\<exists>rb \<in> set rbs. i \<in> granted roles matching subject rb))"
  using assms(2)
proof (induction rbs arbitrary: m)
  case (Cons rb rbs)
  let ?on = "subject \<in> set (rb_subjects rb) \<and> rb_taints rb = []"
  show ?case
  proof (cases "?on \<and> roles (RoleReference rb) \<noteq> None")
    case True
    then obtain r where r: "roles (RoleReference rb) = Some r" by auto
    let ?m = "allow (map cl_id (matching (role_matchLabels r))) (allow (role_clusterIDs r) m)"
    have run: "collect_access store clusters subject (rb # rbs) m s = collect_access store clusters subject rbs ?m s"
      using True r assms(1) by (simp add: at_rest_def bind_def catch_def)
    have "i \<in> granted roles matching subject rb \<longleftrightarrow> i \<in> set (role_clusterIDs r) \<or> i \<in> cl_id ` set (matching (role_matchLabels r))" for i
      using True r by (auto simp: granted_def)
    with Cons.IH [of ?m] Cons.prems show ?thesis
      unfolding run lookup_allow by (auto simp: gomap_ok_allow)
  next
    case False
    then have "granted roles matching subject rb = {}" by (auto simp: granted_def split: option.splits)
    moreover have "collect_access store clusters subject (rb # rbs) m s = collect_access store clusters subject rbs m s"
      using False assms(1) by (auto simp: at_rest_def)
    ultimately show ?thesis using Cons.IH [OF Cons.prems] by simp
  qed
qed simp

lemma access_run:
  assumes "at_rest store clusters s rbs roles matching"
  shows "\<exists>refs. SubjectAccess store clusters subject s = (Ret refs, s) \<and> sorted (map ref_id refs) \<and> distinct (map ref_id refs) \<and>
    set (map ref_id refs) = (\<Union>rb \<in> set rbs. granted roles matching subject rb)"
proof -
  obtain m where m: "collect_access store clusters subject rbs [] s = (Ret m, s)" "gomap_ok m"
    "\<forall>i. lookup m i \<noteq> None \<longleftrightarrow> (\<exists>rb \<in> set rbs. i \<in> granted roles matching subject rb)"
    using collect_access_run [OF assms, of "[]" subject rbs] by (auto simp: gomap_ok_def)
  have "fst ` set m = {i. lookup m i \<noteq> None}" by (auto simp: map_of_eq_None_iff)
  then have "fst ` set m = (\<Union>rb \<in> set rbs. granted roles matching subject rb)" using m(3) by auto
  moreover have "SubjectAccess store clusters subject s = (Ret (map (\<lambda>i. \<lparr> ref_id = i \<rparr>) (sort (keys m))), s)"
    using m(1) assms by (simp add: SubjectAccess_def at_rest_def bind_def catch_def)
  ultimately show ?thesis using m(2) by (simp add: gomap_ok_def comp_def image_image)
qed

text \<open>C4: a user may access exactly the clusters that some untainted role binding of theirs leads to: those that
  the role names, and those that its selector matches. The answer lists each of them once, in order; a
  binding whose role does not exist gives nothing.\<close>

theorem SubjectAccess_exact:
  assumes "at_rest store clusters s rbs roles matching"
  shows "\<exists>refs. SubjectAccess store clusters subject s = (Ret refs, s) \<and> sorted (map ref_id refs) \<and> distinct (map ref_id refs) \<and>
    set (map ref_id refs) = (\<Union>rb \<in> set rbs. granted roles matching subject rb)"
  using access_run [OF assms] .

text \<open>Witness: two bindings for one user, one of them to a role that does not exist.\<close>

definition rbac_demo :: "unit RBACStore" where
  "rbac_demo = \<lparr> CreateRole = (\<lambda>r. return ()), DeleteRole = (\<lambda>r. return ()),
     GetRole = (\<lambda>r. if ref_id r = ''r1'' then return \<lparr> role_id = ''r1'', role_clusterIDs = [''c2'', ''c1''], role_matchLabels = None \<rparr>
       else throw ErrNotFound),
     CreateRoleBinding = (\<lambda>r. return ()), DeleteRoleBinding = (\<lambda>r. return ()), GetRoleBinding = (\<lambda>r. throw ErrNotFound),
     ListRoles = return [],
     ListRoleBindings = return [\<lparr> rb_id = ''b1'', rb_roleId = ''r1'', rb_subjects = [''user''], rb_taints = [] \<rparr>,
       \<lparr> rb_id = ''b2'', rb_roleId = ''r2'', rb_subjects = [''user''], rb_taints = [] \<rparr>] \<rparr>"

definition clusters_demo :: "unit ClusterStore" where
  "clusters_demo = \<lparr> CreateCluster = (\<lambda>c. return c), DeleteCluster = (\<lambda>r. return ()), GetCluster = (\<lambda>r. throw ErrNotFound),
     UpdateCluster = (\<lambda>r m. throw ErrNotFound), ListClusters = (\<lambda>sel opts. return []) \<rparr>"

lemma demo_at_rest:
  "at_rest rbac_demo clusters_demo () [\<lparr> rb_id = ''b1'', rb_roleId = ''r1'', rb_subjects = [''user''], rb_taints = [] \<rparr>,
       \<lparr> rb_id = ''b2'', rb_roleId = ''r2'', rb_subjects = [''user''], rb_taints = [] \<rparr>]
     (\<lambda>ref. if ref_id ref = ''r1'' then Some \<lparr> role_id = ''r1'', role_clusterIDs = [''c2'', ''c1''], role_matchLabels = None \<rparr> else None) (\<lambda>sel. [])"
  by (simp add: at_rest_def rbac_demo_def clusters_demo_def)

theorem SubjectAccess_exact_witness:
  "\<exists>refs. SubjectAccess rbac_demo clusters_demo ''user'' () = (Ret refs, ()) \<and> set (map ref_id refs) = {''c1'', ''c2''}"
proof -
  from SubjectAccess_exact [OF demo_at_rest, of "''user''"] obtain refs where
    "SubjectAccess rbac_demo clusters_demo ''user'' () = (Ret refs, ())"
    "set (map ref_id refs) = (\<Union>rb \<in> set [\<lparr> rb_id = ''b1'', rb_roleId = ''r1'', rb_subjects = [''user''], rb_taints = [] \<rparr>,
       \<lparr> rb_id = ''b2'', rb_roleId = ''r2'', rb_subjects = [''user''], rb_taints = [] \<rparr>].
       granted (\<lambda>ref. if ref_id ref = ''r1'' then Some \<lparr> role_id = ''r1'', role_clusterIDs = [''c2'', ''c1''], role_matchLabels = None \<rparr> else None)
         (\<lambda>sel. []) ''user'' rb)" by (elim exE conjE)
  moreover have "\<dots> = {''c1'', ''c2''}" by (auto simp: granted_def RoleReference_def)
  ultimately show ?thesis by metis
qed

text \<open>The middleware passes a request on only for a user with access to some cluster, and then with exactly
  the ids of the clusters that user may access, in the header and in the request's context; everybody
  else, also when the lookup fails, is refused as unauthorized.\<close>

theorem middleware_passes:
  assumes "at_rest store clusters s rbs roles matching"
  shows "middleware_Handle (SubjectAccess store clusters) codec userID s =
    (let ids = (case userID of None \<Rightarrow> {} | Some user \<Rightarrow> \<Union>rb \<in> set rbs. granted roles matching user rb) in
     (Ret (if ids = {} then AbortWithStatus StatusUnauthorized
        else Pass (codec_Key codec) (codec_Encode codec (sorted_list_of_set ids)) (sorted_list_of_set ids)), s))"
proof (cases userID)
  case (Some user)
  let ?ids = "\<Union>rb \<in> set rbs. granted roles matching user rb"
  obtain refs where refs: "SubjectAccess store clusters user s = (Ret refs, s)" "sorted (map ref_id refs)" "distinct (map ref_id refs)"
    "set (map ref_id refs) = ?ids" using access_run [OF assms] by blast
  then have "map ref_id refs = sorted_list_of_set ?ids" using sorted_list_of_set.idem_if_sorted_distinct by metis
  moreover have "refs = [] \<longleftrightarrow> ?ids = {}" using refs(4) by auto
  ultimately show ?thesis using refs(1) Some by (simp add: middleware_Handle_def bind_def catch_def Let_def)
qed (simp add: middleware_Handle_def)

theorem middleware_passes_witness:
  "fst (middleware_Handle (SubjectAccess rbac_demo clusters_demo) \<lparr> codec_Key = ''X-Scope'', codec_Encode = id \<rparr> (Some ''user'') ()) =
     Ret (Pass ''X-Scope'' [''c1'', ''c2''] [''c1'', ''c2''])"
proof -
  have ids: "(\<Union>rb \<in> set [\<lparr> rb_id = ''b1'', rb_roleId = ''r1'', rb_subjects = [''user''], rb_taints = [] \<rparr>,
       \<lparr> rb_id = ''b2'', rb_roleId = ''r2'', rb_subjects = [''user''], rb_taints = [] \<rparr>].
       granted (\<lambda>ref. if ref_id ref = ''r1'' then Some \<lparr> role_id = ''r1'', role_clusterIDs = [''c2'', ''c1''], role_matchLabels = None \<rparr> else None)
         (\<lambda>sel. []) ''user'' rb) = {''c1'', ''c2''}" by (auto simp: granted_def RoleReference_def)
  have "sorted [''c1'', ''c2'']" by code_simp
  then have "sorted_list_of_set {''c1'', ''c2''} = [''c1'', ''c2'']"
    using sorted_list_of_set.idem_if_sorted_distinct [of "[''c1'', ''c2'']"] by simp
  then show ?thesis
    unfolding middleware_passes [OF demo_at_rest] by (simp add: ids [simplified] Let_def)
qed

end
