(* ===== verification/Management.thy ===== *)
theory Management
  imports Bootstrap_Run Rbac
begin

text \<open>
  \<^verbatim>\<open>pkg/management\<close>: the handlers of the management API for clusters, capabilities, tokens and roles
  (\<^verbatim>\<open>clusters.go\<close>, \<^verbatim>\<open>tokens.go\<close>, \<^verbatim>\<open>rbac.go\<close>). Each is a program over the state of the storage backend. A cluster is
  named by its id or, when there is none with this id, by its name label. What the handlers guarantee is
  proved over the contracts of the stores, and holds of the etcd backend.
\<close>

section \<open>clusters.go: references\<close>

text \<open>The lookups by id; a cluster that is not found is left \<^verbatim>\<open>nil\<close>.\<close>

fun get_each :: "'s ClusterStore \<Rightarrow> Reference list \<Rightarrow> ('s, Cluster option list) prog" where
  "get_each store [] = return []"
| "get_each store (ref # refs) =
     bind (catch (bind (GetCluster store ref) (\<lambda>cluster. return (Some cluster)))
        (\<lambda>e. if errors_is e ErrNotFound then return None else throw e)) (\<lambda>cluster.
     bind (get_each store refs) (\<lambda>clusters. return (cluster # clusters)))"

definition missing_names :: "Reference list \<Rightarrow> Cluster option list \<Rightarrow> string list" where
  "missing_names refs clusters = map (ref_id \<circ> fst) (filter (\<lambda>(r, c). c = None) (zip refs clusters))"

definition name_indexes :: "Reference list \<Rightarrow> Cluster option list \<Rightarrow> int gomap" where
  "name_indexes refs clusters = fold (\<lambda>(i, r, c) m. if c = None then AList.update (ref_id r) (int i) m else m)
     (enumerate 0 (zip refs clusters)) []"

text \<open>The loop over the clusters with one of the names. The index of a name that was placed is set to -1, so
  that the branch that is meant to report a second cluster with this name is never reached.\<close>

fun place :: "Cluster list \<Rightarrow> int gomap \<Rightarrow> Cluster option list \<Rightarrow> (int gomap \<times> Cluster option list) go" where
  "place [] nameIndexes clusters = Ret (nameIndexes, clusters)"
| "place (c # items) nameIndexes clusters = (case cl_metadata c of
     None \<Rightarrow> Panic ''nil Metadata''
   | Some md \<Rightarrow> (let name = map_get (cm_labels md) NameLabel;
        (idx, ok) = (case lookup nameIndexes name of Some i \<Rightarrow> (i, True) | None \<Rightarrow> (0, False)) in
      if ok then
        if idx < 0 \<or> int (length clusters) \<le> idx then Panic ''index out of range''
        else place items (AList.update name (- 1) nameIndexes) (clusters[nat idx := Some c])
      else if idx = - 1 then Fail (ErrStatus FailedPrecondition (''ambiguous cluster name '' @ [CHR 0x22] @ name @ [CHR 0x22] @ '' (use cluster IDs instead)''))
      else Panic ''bug: ListClusters with label selector returned bad results''))"

definition check_found :: "string list \<Rightarrow> int gomap \<Rightarrow> unit go" where
  "check_found names nameIndexes = (let notFound = filter (\<lambda>(name, idx). idx \<noteq> - 1) nameIndexes in
     if notFound = [] then Ret ()
     else if length notFound = 1 then Fail (ErrStatus NotFound (''cluster not found: '' @ [CHR 0x22] @ names ! 0 @ [CHR 0x22]))
     else Fail (ErrStatus NotFound (show_nat (length names) @ '' clusters not found: ['' @ Go_Strings.join '' '' names @ '']'')))"

definition name_selector :: "string list \<Rightarrow> LabelSelector" where
  "name_selector names = \<lparr> ls_matchLabels = [],
     ls_matchExpressions = [\<lparr> lr_key = NameLabel, lr_operator = LabelSelectorOpIn, lr_values = names \<rparr>] \<rparr>"

definition resolveClusters :: "'s ClusterStore \<Rightarrow> Reference list \<Rightarrow> ('s, Cluster option list) prog" where
  "resolveClusters store refs =
     bind (get_each store refs) (\<lambda>clusters.
     let names = missing_names refs clusters; nameIndexes = name_indexes refs clusters in
     if names = [] then return clusters
     else bind (ListClusters store (Some (name_selector names)) MatchOptions_EmptySelectorMatchesNone) (\<lambda>cl.
          lift (go_bind (place cl nameIndexes clusters) (\<lambda>(nameIndexes, clusters).
            go_bind (check_found names nameIndexes) (\<lambda>_. Ret clusters)))))"

definition resolveCluster :: "'s ClusterStore \<Rightarrow> Reference \<Rightarrow> ('s, Cluster option) prog" where
  "resolveCluster store ref = bind (resolveClusters store [ref]) (\<lambda>clusters. return (clusters ! 0))"

text \<open>Answers the reference with the id of the cluster it resolved to.\<close>

definition ensureReferenceResolved :: "'s ClusterStore \<Rightarrow> Reference \<Rightarrow> ('s, Reference) prog" where
  "ensureReferenceResolved store ref = bind (resolveCluster store ref) (\<lambda>c. case c of
     None \<Rightarrow> panic ''nil Cluster'' | Some c \<Rightarrow> return (ref\<lparr> ref_id := cl_id c \<rparr>))"

section \<open>clusters.go: clusters\<close>

definition Management_ListClusters :: "('s, 'k) Backend \<Rightarrow> ListClustersRequest \<Rightarrow> ('s, Cluster list) prog" where
  "Management_ListClusters b req = bind (lift (listClusters_Validate req)) (\<lambda>_.
     ListClusters (b_clusters b) (lcr_matchLabels req) (lcr_matchOptions req))"

definition Management_GetCluster :: "('s, 'k) Backend \<Rightarrow> Reference \<Rightarrow> ('s, Cluster option) prog" where
  "Management_GetCluster b ref = bind (lift (reference_Validate (Some ref))) (\<lambda>_. resolveCluster (b_clusters b) ref)"

text \<open>The getters of a \<^verbatim>\<open>nil\<close> cluster answer zero values, its \<^verbatim>\<open>Reference\<close> panics.\<close>

definition Management_DeleteCluster :: "('s, 'k) Backend \<Rightarrow> Reference \<Rightarrow> ('s, unit) prog" where
  "Management_DeleteCluster b ref =
     bind (lift (reference_Validate (Some ref))) (\<lambda>_.
     bind (resolveCluster (b_clusters b) ref) (\<lambda>c. case c of
       None \<Rightarrow> panic ''nil Cluster''
     | Some cluster \<Rightarrow>
         if cluster_GetCapabilities cluster \<noteq> []
         then throw (ErrStatus FailedPrecondition ''cannot delete a cluster with capabilities; uninstall the capabilities first'')
         else bind (catch (keyring_Delete (b_keyrings b ''gateway'' (cluster_Reference cluster)))
                (\<lambda>e. if \<not> errors_is e ErrNotFound then throw (Wrap (''failed to delete keyring store for cluster '' @ cl_id cluster) e) else return ())) (\<lambda>_.
              DeleteCluster (b_clusters b) (cluster_Reference cluster))))"

abbreviation immutable :: "string gomap \<Rightarrow> string gomap" where
  "immutable labels \<equiv> filter (\<lambda>(k, v). \<not> IsLabelMutable k) labels"

definition edit_labels :: "string gomap \<Rightarrow> Cluster MutatorFunc" where
  "edit_labels labels cluster = Ret (cluster\<lparr> cl_metadata := Some ((case cl_metadata cluster of
     None \<Rightarrow> \<lparr> cm_labels = [], cm_capabilities = [], cm_resourceVersion = '''', cm_lastKnown = None, cm_creationTimestamp = None \<rparr>
   | Some md \<Rightarrow> md)\<lparr> cm_labels := labels \<rparr>) \<rparr>)"

definition Management_EditCluster :: "('s, 'k) Backend \<Rightarrow> EditClusterRequest \<Rightarrow> ('s, Cluster) prog" where
  "Management_EditCluster b req =
     bind (lift (editCluster_Validate req)) (\<lambda>_.
     bind (resolveCluster (b_clusters b) (the (ecr_cluster req))) (\<lambda>c. case c of
       None \<Rightarrow> panic ''nil Cluster''
     | Some oldCluster \<Rightarrow>
         if \<not> maps_Equal (immutable (cluster_GetLabels oldCluster)) (immutable (ecr_labels req))
         then throw (ErrStatus InvalidArgument ''cannot change immutable labels'')
         else UpdateCluster (b_clusters b) (cluster_Reference oldCluster) (edit_labels (ecr_labels req))))"

text \<open>The events of the store are sent on as they come; \<open>watchC\<close> is the watch of the store, \<open>send\<close> the stream.\<close>

datatype WatchEventKind = Created | Updated | Deleted

definition watch_event :: "Cluster WatchEvent \<Rightarrow> WatchEventKind \<times> Cluster option" where
  "watch_event event = (case we_EventType event of
     WatchEventCreate \<Rightarrow> (Created, we_Current event)
   | WatchEventUpdate \<Rightarrow> (Updated, we_Current event)
   | WatchEventDelete \<Rightarrow> (Deleted, we_Previous event)
   | WatchEventUnset \<Rightarrow> (Created, None))"

fun send_events :: "(WatchEventKind \<times> Cluster option \<Rightarrow> ('s, unit) prog) \<Rightarrow> Cluster WatchEvent list \<Rightarrow> ('s, unit) prog" where
  "send_events send [] = return ()"
| "send_events send (event # events) = bind (send (watch_event event)) (\<lambda>_. send_events send events)"

definition Management_WatchClusters ::
  "('s, 'k) Backend \<Rightarrow> (Cluster option list \<Rightarrow> ('s, Cluster WatchEvent list) prog) \<Rightarrow> (WatchEventKind \<times> Cluster option \<Rightarrow> ('s, unit) prog) \<Rightarrow>
   Reference list \<Rightarrow> ('s, unit) prog" where
  "Management_WatchClusters b watchC send knownClusters =
     bind (lift (watchClusters_Validate knownClusters)) (\<lambda>_.
     bind (resolveClusters (b_clusters b) knownClusters) (\<lambda>known. bind (watchC known) (send_events send)))"

section \<open>clusters.go: capabilities\<close>

text \<open>The client of a backend answers a response whenever it answers no error.\<close>

definition InstallCapability :: "('s, 'k) Backend \<Rightarrow> ('s, 'st) backendStore \<Rightarrow> CapabilityInstallRequest \<Rightarrow> ('s, InstallResponse) prog" where
  "InstallCapability b backends req =
     bind (lift (capabilityInstall_Validate req)) (\<lambda>_. let target = the (cir_target req) in
     bind (ensureReferenceResolved (b_clusters b) (the (ir_cluster target))) (\<lambda>ref.
     bind (lift (backend_Get backends (cir_name req))) (\<lambda>backend. Install backend (target\<lparr> ir_cluster := Some ref \<rparr>))))"

definition UninstallCapability :: "('s, 'k) Backend \<Rightarrow> ('s, 'st) backendStore \<Rightarrow> CapabilityUninstallRequest \<Rightarrow> ('s, unit) prog" where
  "UninstallCapability b backends req =
     bind (lift (capabilityUninstall_Validate req)) (\<lambda>_. let target = the (cur_target req) in
     bind (ensureReferenceResolved (b_clusters b) (the (ur_cluster target))) (\<lambda>ref.
     bind (lift (backend_Get backends (cur_name req))) (\<lambda>backend. Uninstall backend (target\<lparr> ur_cluster := Some ref \<rparr>))))"

text \<open>\<^verbatim>\<open>status.Code\<close> of an error that is no status and wraps none is \<^verbatim>\<open>Unknown\<close>; \<open>showRef\<close> is the text
  form of a message.\<close>

definition CapabilityUninstallStatus :: "(Reference \<Rightarrow> string) \<Rightarrow> ('s, 'k) Backend \<Rightarrow> ('s, 'st) backendStore \<Rightarrow> CapabilityStatusRequest \<Rightarrow> ('s, 'st) prog" where
  "CapabilityUninstallStatus showRef b backends req =
     bind (lift (capabilityStatus_Validate req)) (\<lambda>_.
     bind (ensureReferenceResolved (b_clusters b) (the (csr_cluster req))) (\<lambda>ref.
     bind (lift (go_err (backend_Get backends (csr_name req)) (\<lambda>e.
        if StatusCode e = NotFound then ErrStatus NotFound (''capability not found for cluster '' @ ref_id ref)
        else ErrStatus Internal (err_Error e)))) (\<lambda>backend.
     map_err (\<lambda>e. if StatusCode e = NotFound
        then ErrStatus NotFound (''no status available for cluster '' @ showRef ref @ '' and capability '' @ csr_name req)
        else ErrStatus Internal (err_Error e)) (UninstallStatus backend ref))))"

definition CancelCapabilityUninstall :: "('s, 'k) Backend \<Rightarrow> ('s, 'st) backendStore \<Rightarrow> CapabilityStatusRequest \<Rightarrow> ('s, unit) prog" where
  "CancelCapabilityUninstall b backends req =
     bind (lift (capabilityUninstallCancel_Validate req)) (\<lambda>_.
     bind (ensureReferenceResolved (b_clusters b) (the (csr_cluster req))) (\<lambda>ref.
     bind (lift (backend_Get backends (csr_name req))) (\<lambda>backend. CancelUninstall backend ref)))"

section \<open>tokens.go\<close>

definition CreateBootstrapToken ::
  "('d \<Rightarrow> unit go) \<Rightarrow> ('d \<Rightarrow> int) \<Rightarrow> ('s, 'k) Backend \<Rightarrow> 'd CreateBootstrapTokenRequest \<Rightarrow> ('s, BootstrapToken) prog" where
  "CreateBootstrapToken CheckValid AsDuration b req =
     bind (lift (createToken_Validate CheckValid AsDuration req)) (\<lambda>_.
     map_err (\<lambda>e. ErrStatus Internal (err_Error e)) (CreateToken (b_tokens b) (AsDuration (cbt_ttl req))
       [WithLabels (cbt_labels req), WithCapabilities (cbt_capabilities req)]))"

definition RevokeBootstrapToken :: "('s, 'k) Backend \<Rightarrow> Reference \<Rightarrow> ('s, unit) prog" where
  "RevokeBootstrapToken b ref = bind (lift (reference_Validate (Some ref))) (\<lambda>_. DeleteToken (b_tokens b) ref)"

definition ListBootstrapTokens :: "('s, 'k) Backend \<Rightarrow> ('s, BootstrapToken list) prog" where
  "ListBootstrapTokens b = map_err (\<lambda>e. ErrStatus Internal (err_Error e)) (ListTokens (b_tokens b))"

definition GetBootstrapToken :: "('s, 'k) Backend \<Rightarrow> Reference \<Rightarrow> ('s, BootstrapToken) prog" where
  "GetBootstrapToken b ref = bind (lift (reference_Validate (Some ref))) (\<lambda>_.
     map_err (\<lambda>e. ErrStatus Internal (err_Error e)) (GetToken (b_tokens b) ref))"

section \<open>rbac.go\<close>

definition Management_CreateRole :: "(string list \<Rightarrow> string list) \<Rightarrow> ('s, 'k) Backend \<Rightarrow> Role \<Rightarrow> ('s, unit) prog" where
  "Management_CreateRole uniq b role = bind (lift (role_Validate uniq role)) (\<lambda>_. CreateRole (b_rbac b) role)"

definition Management_DeleteRole :: "('s, 'k) Backend \<Rightarrow> Reference \<Rightarrow> ('s, unit) prog" where
  "Management_DeleteRole b ref = bind (lift (reference_Validate (Some ref))) (\<lambda>_. DeleteRole (b_rbac b) ref)"

definition Management_GetRole :: "('s, 'k) Backend \<Rightarrow> Reference \<Rightarrow> ('s, Role) prog" where
  "Management_GetRole b ref = bind (lift (reference_Validate (Some ref))) (\<lambda>_. GetRole (b_rbac b) ref)"

definition Management_CreateRoleBinding :: "('s, 'k) Backend \<Rightarrow> RoleBinding \<Rightarrow> ('s, unit) prog" where
  "Management_CreateRoleBinding b rb = bind (lift (roleBinding_Validate rb)) (\<lambda>_.
     if rb_taints rb \<noteq> [] then throw ErrReadOnlyField else CreateRoleBinding (b_rbac b) rb)"

definition Management_DeleteRoleBinding :: "('s, 'k) Backend \<Rightarrow> Reference \<Rightarrow> ('s, unit) prog" where
  "Management_DeleteRoleBinding b ref = bind (lift (reference_Validate (Some ref))) (\<lambda>_. DeleteRoleBinding (b_rbac b) ref)"

definition Management_GetRoleBinding :: "('s, 'k) Backend \<Rightarrow> Reference \<Rightarrow> ('s, RoleBinding) prog" where
  "Management_GetRoleBinding b ref = bind (lift (reference_Validate (Some ref))) (\<lambda>_. GetRoleBinding (b_rbac b) ref)"

definition Management_ListRoles :: "('s, 'k) Backend \<Rightarrow> ('s, Role list) prog" where
  "Management_ListRoles b = ListRoles (b_rbac b)"

definition Management_ListRoleBindings :: "('s, 'k) Backend \<Rightarrow> ('s, RoleBinding list) prog" where
  "Management_ListRoleBindings b = ListRoleBindings (b_rbac b)"

definition Management_SubjectAccess :: "('s, 'k) Backend \<Rightarrow> string \<Rightarrow> ('s, Reference list) prog" where
  "Management_SubjectAccess b subject = bind (lift (subjectAccessRequest_Validate subject)) (\<lambda>_.
     SubjectAccess (b_rbac b) (b_clusters b) subject)"

section \<open>Resolving a reference\<close>

abbreviation cluster_name :: "Cluster \<Rightarrow> string" where
  "cluster_name c \<equiv> map_get (cluster_GetLabels c) NameLabel"

lemma name_selected [simp]:
  "cluster_selected \<lparr> cs_clusterIDs = [], cs_labelSelector = Some (name_selector names), cs_matchOptions = opts \<rparr> c \<longleftrightarrow> cluster_name c \<in> set names"
  by (simp add: cluster_selected_def NewSelectorPredicate_iff labelSelectorMatches_iff selector_IsEmpty_def name_selector_def req_holds_def)

lemma named_metadata: "cluster_name c = i \<Longrightarrow> i \<noteq> [] \<Longrightarrow> \<exists>md. cl_metadata c = Some md \<and> map_get (cm_labels md) NameLabel = i"
  by (cases "cl_metadata c") (auto simp: cluster_GetLabels_def GetMetadataC_def zero_ClusterMetadata_def map_get_def)

text \<open>Placing the clusters with the one name asked for: none, one, or a second one, which panics.\<close>

lemma place_one:
  assumes "i \<noteq> ''''" and "\<forall>c \<in> set cl. cluster_name c = i"
  shows "place cl [(i, 0)] [None] = (case cl of [] \<Rightarrow> Ret ([(i, 0)], [None]) | [c] \<Rightarrow> Ret ([(i, - 1)], [Some c])
    | _ \<Rightarrow> Panic ''index out of range'')"
proof -
  have md: "\<exists>md. cl_metadata c = Some md \<and> map_get (cm_labels md) NameLabel = i" if "c \<in> set cl" for c
    using that assms named_metadata [of c] by blast
  show ?thesis
  proof (cases cl)
    case (Cons c rest)
    then obtain m where m: "cl_metadata c = Some m" "map_get (cm_labels m) NameLabel = i" using md [of c] by auto
    show ?thesis
    proof (cases rest)
      case (Cons d more)
      with \<open>cl = c # rest\<close> obtain m' where "cl_metadata d = Some m'" "map_get (cm_labels m') NameLabel = i" using md [of d] by auto
      with m Cons \<open>cl = c # rest\<close> show ?thesis by simp
    qed (use m Cons in simp)
  qed simp
qed

lemma resolve_by_name:
  assumes "i \<noteq> ''''" and "\<forall>c \<in> set cl. cluster_name c = i"
  shows "go_bind (place cl [(i, 0)] [None]) (\<lambda>(nameIndexes, clusters). go_bind (check_found [i] nameIndexes) (\<lambda>_. Ret clusters)) =
    (case cl of [] \<Rightarrow> Fail (ErrStatus NotFound (''cluster not found: '' @ [CHR 0x22] @ i @ [CHR 0x22])) | [c] \<Rightarrow> Ret [Some c]
     | _ \<Rightarrow> Panic ''index out of range'')"
  using place_one [OF assms] by (simp add: check_found_def split: list.splits)

lemma resolve_unknown:
  assumes "GetCluster store \<lparr> ref_id = i \<rparr> s = (Fail e, sa)" and "errors_is e ErrNotFound"
    and "ListClusters store (Some (name_selector [i])) MatchOptions_EmptySelectorMatchesNone sa = (q, sb)"
  shows "resolveClusters store [\<lparr> ref_id = i \<rparr>] s = (go_bind q (\<lambda>items. go_bind (place items [(i, 0)] [None])
      (\<lambda>(nameIndexes, clusters). go_bind (check_found [i] nameIndexes) (\<lambda>_. Ret clusters))), sb)"
proof -
  have "get_each store [\<lparr> ref_id = i \<rparr>] s = (Ret [None], sa)" using assms(1,2) by (simp add: bind_def catch_def)
  then show ?thesis using assms(3)
    by (cases q) (simp_all add: resolveClusters_def missing_names_def name_indexes_def bind_def Let_def del: get_each.simps place.simps)
qed

lemma resolve_known:
  "GetCluster store \<lparr> ref_id = i \<rparr> s = (Ret c, t) \<Longrightarrow> resolveCluster store \<lparr> ref_id = i \<rparr> s = (Ret (Some c), t)"
  "GetCluster store \<lparr> ref_id = i \<rparr> s = (Fail e, t) \<Longrightarrow> \<not> errors_is e ErrNotFound \<Longrightarrow> resolveCluster store \<lparr> ref_id = i \<rparr> s = (Fail e, t)"
  by (simp_all add: resolveCluster_def resolveClusters_def missing_names_def bind_def catch_def)

text \<open>A cluster store at rest: it holds the clusters \<open>cls\<close>.\<close>

definition clusters_at_rest :: "'s ClusterStore \<Rightarrow> 's \<Rightarrow> Cluster list \<Rightarrow> bool" where
  "clusters_at_rest store s cls \<longleftrightarrow>
     (\<forall>i. GetCluster store \<lparr> ref_id = i \<rparr> s = (case find (\<lambda>c. cl_id c = i) cls of Some c \<Rightarrow> Ret c | None \<Rightarrow> Fail ErrNotFound, s)) \<and>
     (\<forall>sel opts. ListClusters store sel opts s =
        (Ret (filter (cluster_selected \<lparr> cs_clusterIDs = [], cs_labelSelector = sel, cs_matchOptions = opts \<rparr>) cls), s))"

text \<open>C14: a reference resolves to the cluster with this id if there is one, and otherwise to the only cluster with
  this name. When no cluster has the name the answer is \<^verbatim>\<open>NotFound\<close>. When two of them have it the handler does not
  answer that the name is ambiguous, as it means to, but panics.\<close>

theorem resolveCluster_exact:
  assumes "clusters_at_rest store s cls" and "i \<noteq> ''''"
  shows "resolveCluster store \<lparr> ref_id = i \<rparr> s = (case find (\<lambda>c. cl_id c = i) cls of
      Some c \<Rightarrow> Ret (Some c)
    | None \<Rightarrow> (case filter (\<lambda>c. cluster_name c = i) cls of
        [] \<Rightarrow> Fail (ErrStatus NotFound (''cluster not found: '' @ [CHR 0x22] @ i @ [CHR 0x22]))
      | [c] \<Rightarrow> Ret (Some c)
      | _ \<Rightarrow> Panic ''index out of range''), s)"
proof (cases "find (\<lambda>c. cl_id c = i) cls")
  case None
  let ?named = "filter (\<lambda>c. cluster_name c = i) cls"
  have "ListClusters store (Some (name_selector [i])) MatchOptions_EmptySelectorMatchesNone s = (Ret ?named, s)"
    using assms(1) unfolding clusters_at_rest_def by (simp cong: filter_cong)
  moreover have "GetCluster store \<lparr> ref_id = i \<rparr> s = (Fail ErrNotFound, s)"
    using assms(1) None unfolding clusters_at_rest_def by simp
  ultimately have "resolveClusters store [\<lparr> ref_id = i \<rparr>] s = (go_bind (place ?named [(i, 0)] [None])
      (\<lambda>(nameIndexes, clusters). go_bind (check_found [i] nameIndexes) (\<lambda>_. Ret clusters)), s)"
    using resolve_unknown [where store = store and i = i and s = s and e = ErrNotFound and sa = s and q = "Ret ?named" and sb = s] by (simp del: place.simps)
  then show ?thesis using None resolve_by_name [OF assms(2), of ?named]
    by (simp add: resolveCluster_def bind_def del: place.simps split: list.splits)
next
  case (Some c)
  then have "GetCluster store \<lparr> ref_id = i \<rparr> s = (Ret c, s)" using assms(1) unfolding clusters_at_rest_def by simp
  with Some show ?thesis by (simp add: resolve_known)
qed


text \<open>Witness: two clusters with the name \<^verbatim>\<open>prod\<close>; one of them is found by its id, their name panics.\<close>

definition named_clusters :: "Cluster list" where
  "named_clusters = [labelled_cluster ''c1'' [(NameLabel, ''prod'')], labelled_cluster ''c2'' [(NameLabel, ''prod'')]]"

definition fixed_clusters :: "Cluster list \<Rightarrow> 's ClusterStore" where
  "fixed_clusters cls = \<lparr> CreateCluster = return, DeleteCluster = (\<lambda>_. return ()),
     GetCluster = (\<lambda>ref. lift (case find (\<lambda>c. cl_id c = ref_id ref) cls of Some c \<Rightarrow> Ret c | None \<Rightarrow> Fail ErrNotFound)),
     UpdateCluster = (\<lambda>ref mut. throw ErrNotFound),
     ListClusters = (\<lambda>sel opts. return (filter (cluster_selected \<lparr> cs_clusterIDs = [], cs_labelSelector = sel, cs_matchOptions = opts \<rparr>) cls)) \<rparr>"

theorem resolveCluster_exact_witness:
  "resolveCluster (fixed_clusters named_clusters) \<lparr> ref_id = ''prod'' \<rparr> () = (Panic ''index out of range'', ()) \<and>
   resolveCluster (fixed_clusters named_clusters) \<lparr> ref_id = ''c2'' \<rparr> () = (Ret (Some (named_clusters ! 1)), ())"
proof -
  have rest: "clusters_at_rest (fixed_clusters cls) s cls" for cls s by (simp add: clusters_at_rest_def fixed_clusters_def)
  show ?thesis
    using resolveCluster_exact [OF rest, of "''prod''" named_clusters "()"] resolveCluster_exact [OF rest, of "''c2''" named_clusters "()"]
    by (simp add: named_clusters_def labelled_cluster_def)
qed

section \<open>What the handlers guarantee\<close>

lemma immutable_lookup:
  assumes "gomap_ok old" and "gomap_ok new" and "maps_Equal (immutable old) (immutable new)" and "\<not> IsLabelMutable k"
  shows "lookup new k = lookup old k"
proof -
  have "lookup (immutable old) = lookup (immutable new)"
    using assms(1-3) by (simp add: maps_Equal_iff)
  then have "lookup (immutable new) k = lookup (immutable old) k" by simp
  with assms(4) show ?thesis by (simp add: lookup_filter_key)
qed

lemma edit_labels_props:
  "keeps_id (edit_labels ls)" "edit_labels ls c = Ret (cluster_SetLabels c ls)"
  by (simp_all add: keeps_id_def edit_labels_def cluster_SetLabels_def GetMetadataC_def zero_ClusterMetadata_def split: option.splits)

lemma edit_run:
  assumes "Management_EditCluster b req s = (Ret y, t)"
  shows "\<exists>i old sa. ecr_cluster req = Some \<lparr> ref_id = i \<rparr> \<and> ValidateID i = Ret () \<and> i \<noteq> '''' \<and>
    resolveCluster (b_clusters b) \<lparr> ref_id = i \<rparr> s = (Ret (Some old), sa) \<and>
    maps_Equal (immutable (cluster_GetLabels old)) (immutable (ecr_labels req)) \<and>
    UpdateCluster (b_clusters b) \<lparr> ref_id = cl_id old \<rparr> (edit_labels (ecr_labels req)) sa = (Ret y, t)"
proof -
  obtain c sa u where c: "resolveCluster (b_clusters b) (the (ecr_cluster req)) s = (Ret (Some c), sa)"
    "maps_Equal (immutable (cluster_GetLabels c)) (immutable (ecr_labels req))"
    "UpdateCluster (b_clusters b) \<lparr> ref_id = cl_id c \<rparr> (edit_labels (ecr_labels req)) sa = (Ret y, t)"
    and valid: "editCluster_Validate req = Ret u"
    using assms unfolding Management_EditCluster_def
    by (auto simp: bind_eq_Ret cluster_Reference_def split: option.splits if_splits)
  from valid obtain ref where "ecr_cluster req = Some ref" "reference_Validate (Some ref) = Ret ()"
    by (auto simp: editCluster_Validate_def split: option.splits)
  with c show ?thesis by (cases ref) (auto simp: reference_Validate_def split: if_splits)
qed

lemma catch_eq_Ret: "catch m h s = (Ret y, u) \<longleftrightarrow> m s = (Ret y, u) \<or> (\<exists>e t. m s = (Fail e, t) \<and> h e t = (Ret y, u))"
  by (auto simp: catch_def split: prod.splits go.splits)

lemma delete_run:
  assumes "Management_DeleteCluster b \<lparr> ref_id = i \<rparr> s = (Ret (), t)"
  shows "\<exists>c sa r sb. ValidateID i = Ret () \<and> i \<noteq> '''' \<and>
    resolveCluster (b_clusters b) \<lparr> ref_id = i \<rparr> s = (Ret (Some c), sa) \<and> cluster_GetCapabilities c = [] \<and>
    keyring_Delete (b_keyrings b ''gateway'' \<lparr> ref_id = cl_id c \<rparr>) sa = (r, sb) \<and> (r = Ret () \<or> (\<exists>e. r = Fail e \<and> errors_is e ErrNotFound)) \<and>
    DeleteCluster (b_clusters b) \<lparr> ref_id = cl_id c \<rparr> sb = (Ret (), t)"
  using assms unfolding Management_DeleteCluster_def
  by (auto simp: bind_eq_Ret catch_eq_Ret reference_Validate_def cluster_Reference_def split: option.splits if_splits)

text \<open>What happens to the storage while a handler only reads: steps of the others, and steps that change nothing.\<close>

definition quietly :: "('s \<Rightarrow> 's \<Rightarrow> bool) \<Rightarrow> ('s \<Rightarrow> 'x) \<Rightarrow> 's \<Rightarrow> 's \<Rightarrow> bool" where
  "quietly R \<alpha> = (\<lambda>s u. R s u \<or> \<alpha> u = \<alpha> s)\<^sup>*\<^sup>*"

lemma quietly_intros:
  "R s u \<Longrightarrow> quietly R \<alpha> s u" "\<alpha> u = \<alpha> s \<Longrightarrow> quietly R \<alpha> s u"
  by (auto simp: quietly_def)

lemma quietly_trans: "quietly R \<alpha> s t \<Longrightarrow> quietly R \<alpha> t u \<Longrightarrow> quietly R \<alpha> s u"
  unfolding quietly_def by (rule rtranclp_trans)

lemma quietly_read: "R s u \<Longrightarrow> \<alpha> v = \<alpha> u \<Longrightarrow> R v t \<Longrightarrow> quietly R \<alpha> s u \<and> quietly R \<alpha> u t"
  by (meson quietly_intros quietly_trans)

text \<open>Alone with its storage, a handler that only reads finds it as it was.\<close>

lemma quietly_alone: "quietly R \<alpha> s u \<Longrightarrow> (\<And>s u. R s u \<Longrightarrow> \<alpha> u = \<alpha> s) \<Longrightarrow> \<alpha> u = \<alpha> s"
  unfolding quietly_def by (induction rule: rtranclp_induct) auto

text \<open>A cluster that a reference resolved to was stored at a moment of the call: under the id asked for, or as
  the only one with this name.\<close>

definition found_at :: "('s \<Rightarrow> okey \<Rightarrow> 'k stored option) \<Rightarrow> string \<Rightarrow> Cluster \<Rightarrow> 's \<Rightarrow> bool" where
  "found_at \<alpha> i c u \<longleftrightarrow> \<alpha> u (KCluster, cl_id c) = Some (SCluster c) \<and>
     (cl_id c = i \<or> cluster_name c = i \<and> (\<forall>d. \<alpha> u (KCluster, cl_id d) = Some (SCluster d) \<longrightarrow> cluster_name d = i \<longrightarrow> d = c))"

locale management_storage =
  cl: cluster_store I R "b_clusters b" \<alpha> +
  kr: keyring_store I R "b_keyrings b" \<alpha> "''gateway''" kabs keyring_ok
  for I :: "'s \<Rightarrow> bool" and R :: "'s \<Rightarrow> 's \<Rightarrow> bool" and b :: "('s, keyring) Backend"
    and \<alpha> :: "'s \<Rightarrow> okey \<Rightarrow> 'k stored option" and kabs :: "keyring \<Rightarrow> 'k" +
  assumes stored_valid: "\<alpha> s (KCluster, i) = Some x \<Longrightarrow> ValidateID i = Ret ()"
begin

lemma get_moment:
  assumes "I s" and "ValidateID i = Ret ()" and "GetCluster (b_clusters b) \<lparr> ref_id = i \<rparr> s = (r, t)"
  obtains u v where "R s u" "get_effect \<alpha> SCluster (KCluster, i) u r v" "R v t" "I t" "I u" "I v"
  using cl.cluster_get [OF assms(2)] assms(1,3) by (rule atomicE) (blast intro: that)

lemma resolve_moment:
  assumes "I s" and "ValidateID i = Ret ()" and "i \<noteq> ''''" and "resolveCluster (b_clusters b) \<lparr> ref_id = i \<rparr> s = (Ret x, t)"
  obtains c u where "x = Some c" "quietly R \<alpha> s u" "found_at \<alpha> i c u" "I u" "quietly R \<alpha> u t" "I t"
proof -
  obtain r sa where get: "GetCluster (b_clusters b) \<lparr> ref_id = i \<rparr> s = (r, sa)" by (meson surj_pair)
  obtain u v where uv: "R s u" "get_effect \<alpha> SCluster (KCluster, i) u r v" "R v sa" "I sa" "I u" "I v"
    using get_moment [OF assms(1,2) get] .
  show thesis
  proof (cases r)
    case (Ret c)
    then have run: "x = Some c" "t = sa" using assms(4) get by (simp_all add: resolve_known)
    have c: "\<alpha> u (KCluster, i) = Some (SCluster c)" "\<alpha> v = \<alpha> u" using uv(2) Ret by (simp_all add: get_effect_def)
    have "cl_id c = i" using cl.cluster_stored [OF uv(5) c(1)] by simp
    with c have "found_at \<alpha> i c u" by (simp add: found_at_def)
    with run uv quietly_read [OF uv(1) c(2) uv(3)] show thesis by (intro that [of c u]) simp_all
  next
    case (Fail e)
    obtain q sb where list: "ListClusters (b_clusters b) (Some (name_selector [i])) MatchOptions_EmptySelectorMatchesNone sa = (q, sb)" by (meson surj_pair)
    obtain u' v' where l: "R sa u'" "I u'" "list_effect \<alpha> (\<lambda>u. {c. \<alpha> u (KCluster, cl_id c) = Some (SCluster c) \<and>
        cluster_selected \<lparr> cs_clusterIDs = [], cs_labelSelector = Some (name_selector [i]), cs_matchOptions = MatchOptions_EmptySelectorMatchesNone \<rparr> c})
        cl_id u' q v'" "R v' sb" "I sb"
      using cl.cluster_list uv(4) list by (rule atomicE)
    have nf: "errors_is e ErrNotFound" using assms(4) resolve_known(2) [OF get [unfolded Fail]] by auto
    note run = resolve_unknown [OF get [unfolded Fail] nf list]
    obtain items where items: "q = Ret items" using assms(4) run by (cases q) (simp_all add: resolveCluster_def bind_def)
    have mem: "set items = {c. \<alpha> u' (KCluster, cl_id c) = Some (SCluster c) \<and> cluster_name c = i}" "\<alpha> v' = \<alpha> u'"
      using l(3) items by (simp_all add: list_effect_def)
    have "resolveClusters (b_clusters b) [\<lparr> ref_id = i \<rparr>] s = (case items of
        [] \<Rightarrow> Fail (ErrStatus NotFound (''cluster not found: '' @ [CHR 0x22] @ i @ [CHR 0x22])) | [c] \<Rightarrow> Ret [Some c]
        | _ \<Rightarrow> Panic ''index out of range'', sb)"
      using run items resolve_by_name [OF assms(3), of items] mem(1) by (simp del: place.simps)
    then obtain c where c: "items = [c]" "x = Some c" "t = sb" using assms(4)
      by (auto simp: resolveCluster_def bind_def split: list.splits)
    have "d \<in> set items \<longleftrightarrow> \<alpha> u' (KCluster, cl_id d) = Some (SCluster d) \<and> cluster_name d = i" for d using mem(1) by simp
    then have "found_at \<alpha> i c u'" using c(1) unfolding found_at_def by (metis list.set_intros(1) set_ConsD empty_iff list.set(1))
    moreover have read: "\<alpha> v = \<alpha> u" using uv(2) Fail by (simp add: get_effect_def)
    note q1 = quietly_read [OF uv(1) read uv(3)] and q2 = quietly_read [OF l(1) mem(2) l(4)]
    have "quietly R \<alpha> s u'" using quietly_trans [OF quietly_trans [OF q1 [THEN conjunct1] q1 [THEN conjunct2]] q2 [THEN conjunct1]] .
    moreover have "quietly R \<alpha> u' t" using q2 c(3) by simp
    ultimately show thesis using c l(2,5) by (intro that [of c u']) simp_all
  next
    case (Panic p)
    then show thesis using uv(2) by (simp add: get_effect_def)
  qed
qed

text \<open>Editing a cluster: the labels are replaced in one step; those that were compared are the labels the
  cluster had when it was found.\<close>

lemma edit_moments:
  assumes "I s" and "Management_EditCluster b req s = (Ret y, t)"
  obtains i old u u' v' x where "ecr_cluster req = Some \<lparr> ref_id = i \<rparr>" "quietly R \<alpha> s u" "found_at \<alpha> i old u"
    "maps_Equal (immutable (cluster_GetLabels old)) (immutable (ecr_labels req))"
    "quietly R \<alpha> u u'" "\<alpha> u' (KCluster, cl_id old) = Some (SCluster x)" "managed_update (cluster_SetLabels x (ecr_labels req)) y"
    "\<alpha> v' = (\<alpha> u')((KCluster, cl_id old) \<mapsto> SCluster y)" "R v' t" "I t"
proof -
  obtain i old sa where run: "ecr_cluster req = Some \<lparr> ref_id = i \<rparr>" "ValidateID i = Ret ()" "i \<noteq> ''''"
    "resolveCluster (b_clusters b) \<lparr> ref_id = i \<rparr> s = (Ret (Some old), sa)"
    "maps_Equal (immutable (cluster_GetLabels old)) (immutable (ecr_labels req))"
    "UpdateCluster (b_clusters b) \<lparr> ref_id = cl_id old \<rparr> (edit_labels (ecr_labels req)) sa = (Ret y, t)"
    using edit_run [OF assms(2)] by blast
  obtain u where u: "quietly R \<alpha> s u" "found_at \<alpha> i old u" "I u" "quietly R \<alpha> u sa" "I sa"
    using resolve_moment [OF assms(1) run(2,3,4)] by blast
  have ok: "ValidateID (cl_id old) = Ret ()" using u(2) stored_valid unfolding found_at_def by blast
  obtain u' v' where m: "R sa u'" "update_effect \<alpha> SCluster (KCluster, cl_id old) (edit_labels (ecr_labels req)) managed_update u' (Ret y) v'" "R v' t" "I t"
    using cl.cluster_update [OF ok edit_labels_props(1)] u(5) run(6) by (rule atomicE)
  have q: "quietly R \<alpha> u u'" using quietly_trans [OF u(4) quietly_intros(1) [where R = R, OF m(1)]] .
  from m(2) obtain x where "\<alpha> u' (KCluster, cl_id old) = Some (SCluster x)" "managed_update (cluster_SetLabels x (ecr_labels req)) y"
    "\<alpha> v' = (\<alpha> u')((KCluster, cl_id old) \<mapsto> SCluster y)" by (auto simp: update_effect_def edit_labels_props)
  with run(1,5) u(1,2) q m(3,4) show thesis by (intro that)
qed

lemma delete_moments:
  assumes "I s" and "Management_DeleteCluster b \<lparr> ref_id = i \<rparr> s = (Ret (), t)"
  obtains c u ua va ub vb where "quietly R \<alpha> s u" "found_at \<alpha> i c u" "cluster_GetCapabilities c = []"
    "quietly R \<alpha> u ua" "\<alpha> va = (\<alpha> ua)((KKeyring ''gateway'', cl_id c) := None)"
    "R va ub" "\<alpha> ub (KCluster, cl_id c) \<noteq> None" "\<alpha> vb = (\<alpha> ub)((KCluster, cl_id c) := None)" "R vb t" "I t"
proof -
  obtain c sa r sb where run: "ValidateID i = Ret ()" "i \<noteq> ''''"
    "resolveCluster (b_clusters b) \<lparr> ref_id = i \<rparr> s = (Ret (Some c), sa)" "cluster_GetCapabilities c = []"
    "keyring_Delete (b_keyrings b ''gateway'' \<lparr> ref_id = cl_id c \<rparr>) sa = (r, sb)" "r = Ret () \<or> (\<exists>e. r = Fail e \<and> errors_is e ErrNotFound)"
    "DeleteCluster (b_clusters b) \<lparr> ref_id = cl_id c \<rparr> sb = (Ret (), t)"
    using delete_run [OF assms(2)] by blast
  obtain u where u: "quietly R \<alpha> s u" "found_at \<alpha> i c u" "I u" "quietly R \<alpha> u sa" "I sa"
    using resolve_moment [OF assms(1) run(1,2,3)] by blast
  have ok: "ValidateID (cl_id c) = Ret ()" using u(2) stored_valid unfolding found_at_def by blast
  obtain ua va where k: "R sa ua" "delete_effect \<alpha> (KKeyring ''gateway'', cl_id c) ua r va" "R va sb" "I sb"
    using kr.keyring_delete [OF ok] u(5) run(5) by (rule atomicE)
  obtain ub vb where d: "R sb ub" "delete_effect \<alpha> (KCluster, cl_id c) ub (Ret ()) vb" "R vb t" "I t"
    using cl.cluster_delete [OF ok] k(4) run(7) by (rule atomicE)
  have "\<alpha> va = (\<alpha> ua)((KKeyring ''gateway'', cl_id c) := None)"
    using run(6) k(2) by (auto simp: delete_effect_def fun_upd_idem)
  moreover have "quietly R \<alpha> u ua" using quietly_trans [OF u(4) quietly_intros(1) [where R = R, OF k(1)]] .
  moreover have "R va ub" using cl.R_trans [OF k(3) d(1)] .
  ultimately show thesis using u(1,2) run(4) d by (intro that [of u c ua va ub vb]) (simp_all add: delete_effect_def)
qed

end


section \<open>On the etcd store\<close>

lemma etcd_backend_sel [simp]: "b_clusters (EtcdBackend sha entropy now e) = Etcd_ClusterStore now e"
  "b_keyrings (EtcdBackend sha entropy now e) = Etcd_KeyringStore e"
  by (simp_all add: EtcdBackend_def)

interpretation etcd_management: management_storage "etcd_I e ''gateway''" "etcd_R e ''gateway''" "EtcdBackend sha entropy now e"
  "etcd_abs e ''gateway''" ring_of for e sha entropy now
proof -
  have valid: "management_storage_axioms (etcd_abs e ''gateway'')"
    by unfold_locales (auto simp: etcd_abs_def observed_def split: if_splits)
  show "management_storage (etcd_I e ''gateway'') (etcd_R e ''gateway'') (EtcdBackend sha entropy now e) (etcd_abs e ''gateway'') ring_of"
    unfolding management_storage_def etcd_backend_sel
    using valid etcd_clusters.cluster_store_axioms etcd_keyrings.keyring_store_axioms by blast
qed

abbreviation "etcd_quietly e \<equiv> quietly (etcd_R e ''gateway'') (etcd_abs e ''gateway'')"
abbreviation "etcd_found e \<equiv> found_at (etcd_abs e ''gateway'')"

text \<open>C15: editing a cluster replaces its labels by the labels of the request in one step and leaves the rest of the
  cluster as it is, whatever other instances do; the labels that may not change are the same in the
  request and in the cluster as it was found. So when no one else changes the cluster in the meantime, no
  immutable label is added, removed or changed.\<close>

theorem EditCluster_labels:
  assumes "etcd_I e ''gateway'' s" and "Management_EditCluster (EtcdBackend sha entropy now e) req s = (Ret y, t)"
    and "gomap_ok (ecr_labels req)"
  shows "\<exists>i old u u' v x. ecr_cluster req = Some \<lparr> ref_id = i \<rparr> \<and> etcd_quietly e s u \<and> etcd_found e i old u \<and>
    (gomap_ok (cluster_GetLabels old) \<longrightarrow> (\<forall>k. \<not> IsLabelMutable k \<longrightarrow> lookup (cluster_GetLabels y) k = lookup (cluster_GetLabels old) k)) \<and>
    etcd_quietly e u u' \<and> etcd_abs e ''gateway'' u' (KCluster, cl_id old) = Some (SCluster x) \<and>
    ((\<forall>s u. etcd_R e ''gateway'' s u \<longrightarrow> etcd_abs e ''gateway'' u = etcd_abs e ''gateway'' s) \<longrightarrow> x = old) \<and>
    cluster_GetLabels y = ecr_labels req \<and> cluster_GetCapabilities y = cluster_GetCapabilities x \<and> cl_id y = cl_id x \<and>
    etcd_abs e ''gateway'' v = (etcd_abs e ''gateway'' u')((KCluster, cl_id old) \<mapsto> SCluster y) \<and> etcd_R e ''gateway'' v t"
proof -
  obtain i old u u' v x where m: "ecr_cluster req = Some \<lparr> ref_id = i \<rparr>" "etcd_quietly e s u" "etcd_found e i old u"
    "maps_Equal (immutable (cluster_GetLabels old)) (immutable (ecr_labels req))"
    "etcd_quietly e u u'" "etcd_abs e ''gateway'' u' (KCluster, cl_id old) = Some (SCluster x)"
    "managed_update (cluster_SetLabels x (ecr_labels req)) y"
    "etcd_abs e ''gateway'' v = (etcd_abs e ''gateway'' u')((KCluster, cl_id old) \<mapsto> SCluster y)" "etcd_R e ''gateway'' v t"
    using etcd_management.edit_moments [OF assms(1,2)] .
  have y: "cluster_GetLabels y = ecr_labels req" "cluster_GetCapabilities y = cluster_GetCapabilities x" "cl_id y = cl_id x"
    using m(7) by (auto simp: managed_update_def)
  have alone: "x = old" if "\<forall>s u. etcd_R e ''gateway'' s u \<longrightarrow> etcd_abs e ''gateway'' u = etcd_abs e ''gateway'' s"
    using quietly_alone [OF m(5)] that m(3,6) by (simp add: found_at_def)
  have imm: "\<forall>k. \<not> IsLabelMutable k \<longrightarrow> lookup (cluster_GetLabels y) k = lookup (cluster_GetLabels old) k" if "gomap_ok (cluster_GetLabels old)"
    using immutable_lookup [OF that assms(3) m(4)] y(1) by simp
  show ?thesis using m(1,2,3,5,6,8,9) y alone imm by blast
qed



text \<open>Witnesses: a cluster without capabilities on the stand-alone server is renamed, and deleted.\<close>

lemma gateway_I_s1: "etcd_I demo ''gateway'' s1"
proof -
  have empty: "etcd_I demo ''gateway'' empty_server"
    by (simp add: etcd_I_def gateway_params etcd_ok_def etcd_wf_def empty_server_def)
  obtain r where "Etcd_CreateCluster 0 demo c1 empty_server = (r, s1)" by (cases "Etcd_CreateCluster 0 demo c1 empty_server") (simp add: s1_def)
  with CreateCluster_atomic [OF gateway_params c1_valid(2)] empty show ?thesis by (rule atomicE)
qed

lemma gateway_s1_stored: "etcd_abs demo ''gateway'' s1 (KCluster, ''c1'') = Some (SCluster c1_stored)"
  using s1_stored(1) by (simp add: etcd_abs_def observed_kind c1_valid(1) okey_path_def)

lemma resolve_s1: "resolveCluster (Etcd_ClusterStore 0 demo) \<lparr> ref_id = ''c1'' \<rparr> s1 = (Ret (Some c1_stored), s1)"
  using get_alone [OF _ gateway_s1_stored] by (simp add: Etcd_ClusterStore_def resolve_known(1))

definition rename_request :: EditClusterRequest where
  "rename_request = \<lparr> ecr_cluster = Some \<lparr> ref_id = ''c1'' \<rparr>, ecr_labels = [(NameLabel, ''edge'')] \<rparr>"

lemma rename_run: "\<exists>y t. Management_EditCluster (EtcdBackend id '''' 0 demo) rename_request s1 = (Ret y, t)"
proof -
  have valid: "editCluster_Validate rename_request = Ret ()" by code_simp
  have same: "maps_Equal (immutable (cluster_GetLabels c1_stored)) (immutable [(NameLabel, ''edge'')])" by code_simp
  have "\<exists>y t. Etcd_UpdateCluster demo \<lparr> ref_id = ''c1'' \<rparr> (edit_labels [(NameLabel, ''edge'')]) s1 = (Ret y, t)"
    using update_alone [OF _ gateway_params gateway_I_s1 c1_valid(1) gateway_s1_stored, of "edit_labels [(NameLabel, ''edge'')]"] s1_stored(2)
    by (fastforce simp: edit_labels_props wire_codecs_def c1_stored_def c1_def)
  then show ?thesis using resolve_s1 same valid
    by (simp add: Management_EditCluster_def bind_def rename_request_def cluster_Reference_def Etcd_ClusterStore_def c1_stored_def c1_def)
qed

theorem EditCluster_labels_witness:
  "\<exists>y t u x. Management_EditCluster (EtcdBackend id '''' 0 demo) rename_request s1 = (Ret y, t) \<and>
     etcd_quietly demo s1 u \<and> etcd_abs demo ''gateway'' u (KCluster, cl_id x) = Some (SCluster x) \<and> cluster_GetLabels y = [(NameLabel, ''edge'')]"
proof -
  obtain y t where run: "Management_EditCluster (EtcdBackend id '''' 0 demo) rename_request s1 = (Ret y, t)" using rename_run by blast
  have ok: "gomap_ok (ecr_labels rename_request)" by (simp add: rename_request_def gomap_ok_def)
  from EditCluster_labels [OF gateway_I_s1 run ok] run show ?thesis by (auto simp: rename_request_def found_at_def)
qed

lemma delete_run_s1: "\<exists>t. Management_DeleteCluster (EtcdBackend id '''' 0 demo) \<lparr> ref_id = ''c1'' \<rparr> s1 = (Ret (), t)"
proof -
  have valid: "reference_Validate (Some \<lparr> ref_id = ''c1'' \<rparr>) = Ret ()" by code_simp
  have caps: "cluster_GetCapabilities c1_stored = []" by code_simp
  have paths: "clusterPath ''c1'' = ''opni/clusters/c1''" "ringPath ''c1'' = ''gateway/keyrings/c1''" by code_simp+
  have s1: "sv_db s1 (clusterPath ''c1'') \<noteq> None" "sv_db s1 (ringPath ''c1'') = None" "sv_rev s1 = 1"
    by (simp_all add: s1_eq sv_put_def empty_server_def okey_path_def dir_of_def paths)
  have "keyring_Delete (Etcd_KeyringStore demo ''gateway'' \<lparr> ref_id = ''c1'' \<rparr>) s1 = (Fail ErrNotFound, s1)"
    using s1 by (simp add: Etcd_KeyringStore_def Let_def store_prefix_def bind_def catch_def solo_ops guarded_def)
  moreover have "\<exists>t. Etcd_DeleteCluster demo \<lparr> ref_id = ''c1'' \<rparr> s1 = (Ret (), t)"
    using s1 by (auto simp: Etcd_DeleteCluster_def bind_def catch_def solo_ops guarded_def)
  ultimately show ?thesis using resolve_s1 valid caps
    by (simp add: Management_DeleteCluster_def bind_def catch_def cluster_Reference_def Etcd_ClusterStore_def c1_stored_def c1_def)
qed


end
