(* ===== verification/Task.thy ===== *)
theory Task
  imports Storage Grpc_Util Go_Path
begin

text \<open>
  \<^verbatim>\<open>pkg/task\<close>: long-running tasks whose status is kept in a key-value store. \<^verbatim>\<open>controller.go\<close> launches, resumes and
  cancels them and configures the state machine each of them runs on; \<^verbatim>\<open>task.go\<close> is the view a running task
  has of its own status. The state machine package and the JSON encoder are parameters; every access to a
  status happens under the lock of its task. The loops that retry until the controller's context ends are
  given the number of attempts that fit before it does.
\<close>

datatype TaskState = StateUnknown | StatePending | StateRunning | StateCompleted | StateFailed | StateCanceled

datatype TaskTrigger = TriggerStart | TriggerEnd | TriggerError | TriggerCancel

record StateTransition =
  tr_state :: TaskState
  tr_timestamp :: time

record Progress =
  pr_current :: nat
  pr_total :: nat

record LogEntry =
  le_msg :: string
  le_level :: int
  le_timestamp :: time

record TaskStatus =
  ts_state :: TaskState
  ts_progress :: "Progress option"
  ts_metadata :: string
  ts_logs :: "LogEntry list"
  ts_transitions :: "StateTransition list"

section \<open>task.go\<close>

type_synonym 's status_store = "('s, TaskStatus) ValueStoreT"

fun getStatus :: "nat \<Rightarrow> 's status_store \<Rightarrow> ('s, TaskStatus option) prog" where
  "getStatus 0 status s = (Ret None, s)"
| "getStatus (Suc n) status s = (case vs_Get status s of
     (Ret st, t) \<Rightarrow> (Ret (Some st), t)
   | (Fail e, t) \<Rightarrow> getStatus n status t
   | (Panic p, t) \<Rightarrow> (Panic p, t))"

fun putStatus :: "nat \<Rightarrow> 's status_store \<Rightarrow> TaskStatus \<Rightarrow> ('s, unit) prog" where
  "putStatus 0 status st s = (Ret (), s)"
| "putStatus (Suc n) status st s = (case vs_Put status st s of
     (Ret _, t) \<Rightarrow> (Ret (), t)
   | (Fail e, t) \<Rightarrow> putStatus n status st t
   | (Panic p, t) \<Rightarrow> (Panic p, t))"

text \<open>The read-modify-write that the setters share; nothing happens when the context has ended.\<close>

definition modify_status :: "nat \<Rightarrow> 's status_store \<Rightarrow> (TaskStatus \<Rightarrow> TaskStatus) \<Rightarrow> ('s, unit) prog" where
  "modify_status n status f = bind (getStatus n status) (\<lambda>st.
     case st of None \<Rightarrow> return () | Some st \<Rightarrow> putStatus n status (f st))"

definition SetProgress :: "nat \<Rightarrow> 's status_store \<Rightarrow> Progress option \<Rightarrow> ('s, unit) prog" where
  "SetProgress n status progress = modify_status n status (\<lambda>st. st\<lparr> ts_progress := progress \<rparr>)"

definition GetProgress :: "nat \<Rightarrow> 's status_store \<Rightarrow> ('s, Progress option) prog" where
  "GetProgress n status = bind (getStatus n status) (\<lambda>st. return (case st of None \<Rightarrow> None | Some st \<Rightarrow> ts_progress st))"

definition AddLogEntry :: "nat \<Rightarrow> 's status_store \<Rightarrow> time \<Rightarrow> int \<Rightarrow> string \<Rightarrow> ('s, unit) prog" where
  "AddLogEntry n status now level msg =
     modify_status n status (\<lambda>st. st\<lparr> ts_logs := ts_logs st @ [\<lparr> le_msg = msg, le_level = level, le_timestamp = now \<rparr>] \<rparr>)"

definition logTransition :: "nat \<Rightarrow> 's status_store \<Rightarrow> StateTransition \<Rightarrow> ('s, unit) prog" where
  "logTransition n status transition = modify_status n status (\<lambda>st. st\<lparr> ts_transitions := ts_transitions st @ [transition] \<rparr>)"

definition LoadTaskMetadata :: "(string \<Rightarrow> 'o go) \<Rightarrow> nat \<Rightarrow> 's status_store \<Rightarrow> 'o \<Rightarrow> ('s, 'o) prog" where
  "LoadTaskMetadata ofJSON n status output = bind (getStatus n status) (\<lambda>st.
     let md = (case st of None \<Rightarrow> '''' | Some st \<Rightarrow> ts_metadata st) in
     if TrimSpace md = '''' then return output
     else lift (case ofJSON md of Ret x \<Rightarrow> Ret x | Fail e \<Rightarrow> Panic ''bug: failed to unmarshal task metadata'' | Panic p \<Rightarrow> Panic p))"

section \<open>The state machine\<close>

text \<open>The transitions that \<^verbatim>\<open>LaunchTask\<close> permits.\<close>

fun permitted :: "TaskState \<Rightarrow> TaskTrigger \<Rightarrow> TaskState option" where
  "permitted StatePending TriggerStart = Some StateRunning"
| "permitted StatePending TriggerCancel = Some StateCanceled"
| "permitted StateRunning TriggerEnd = Some StateCompleted"
| "permitted StateRunning TriggerCancel = Some StateCanceled"
| "permitted StateRunning TriggerError = Some StateFailed"
| "permitted _ _ = None"

text \<open>The \<^verbatim>\<open>stateless\<close> package: a machine over an accessor, a mutator, the callback before a transition and the
  entry handlers of the states; \<open>Fire\<close> is asked to fire a trigger. What its documentation says: the current
  state is read, a trigger that is not permitted in it is an error and changes nothing, otherwise the
  callback runs, the new state is set and its entry handler runs.\<close>

type_synonym 's machine =
  "('s, TaskState) prog \<Rightarrow> (TaskState \<Rightarrow> ('s, unit) prog) \<Rightarrow> (TaskState \<Rightarrow> ('s, unit) prog) \<Rightarrow> (TaskState \<Rightarrow> ('s, unit) prog) \<Rightarrow>
   (TaskState \<Rightarrow> TaskTrigger \<Rightarrow> TaskState option) \<Rightarrow> TaskTrigger \<Rightarrow> ('s, unit) prog"

definition machine_laws :: "'s machine \<Rightarrow> bool" where
  "machine_laws Fire \<longleftrightarrow> (\<forall>get set before entry cfg trig s st t. get s = (Ret st, t) \<longrightarrow>
     (case cfg st trig of
        None \<Rightarrow> \<exists>e. Fire get set before entry cfg trig s = (Fail e, t)
      | Some d \<Rightarrow> Fire get set before entry cfg trig s = bind (before d) (\<lambda>_. bind (set d) (\<lambda>_. entry d)) t))"

section \<open>controller.go\<close>

record 's TaskRunner =
  OnTaskPending :: "('s, unit) prog"
  OnTaskRunning :: "('s, unit) prog"
  OnTaskCompleted :: "TaskState \<Rightarrow> ('s, unit) prog"

definition task_accessor :: "'s status_store \<Rightarrow> ('s, TaskState) prog" where
  "task_accessor rw = bind (vs_Get rw) (\<lambda>status. return (ts_state status))"

definition task_mutator :: "'s status_store \<Rightarrow> string \<Rightarrow> TaskState \<Rightarrow> ('s, unit) prog" where
  "task_mutator rw mdJson state =
     bind (catch (vs_Get rw) (\<lambda>e. if StatusCode e = NotFound
        then return \<lparr> ts_state = state, ts_progress = None, ts_metadata = mdJson, ts_logs = [], ts_transitions = [] \<rparr> else throw e))
     (\<lambda>ts. vs_Put rw (ts\<lparr> ts_state := state \<rparr>))"

text \<open>The trigger that follows from what a handler of the runner returned; \<open>taskErr\<close> is \<^verbatim>\<open>taskCtx.Err()\<close>.\<close>

definition trigger_of :: "('s \<Rightarrow> go_error option) \<Rightarrow> ('s, unit) prog \<Rightarrow> TaskTrigger \<Rightarrow> ('s, TaskTrigger) prog" where
  "trigger_of taskErr handler ok s = (case handler s of
     (Ret _, t) \<Rightarrow> (Ret ok, t)
   | (Fail e, t) \<Rightarrow> (Ret (if taskErr t = Some e then TriggerCancel else TriggerError), t)
   | (Panic p, t) \<Rightarrow> (Panic p, t))"

text \<open>What happens when a final state is entered; the callbacks are non-blocking sends of the status (\<open>send\<close>).\<close>

definition on_completed :: "nat \<Rightarrow> 's status_store \<Rightarrow> 's TaskRunner \<Rightarrow> (TaskStatus option \<Rightarrow> ('s, unit) prog) \<Rightarrow> TaskState \<Rightarrow> ('s, unit) prog" where
  "on_completed n rw runner send state = bind (OnTaskCompleted runner state) (\<lambda>_. bind (getStatus n rw) send)"

definition on_running ::
  "nat \<Rightarrow> 's machine \<Rightarrow> 's status_store \<Rightarrow> string \<Rightarrow> time \<Rightarrow> 's TaskRunner \<Rightarrow> ('s \<Rightarrow> go_error option) \<Rightarrow> (TaskStatus option \<Rightarrow> ('s, unit) prog) \<Rightarrow>
   ('s, unit) prog" where
  "on_running n Fire rw mdJson now runner taskErr send =
     bind (trigger_of taskErr (OnTaskRunning runner) TriggerEnd)
       (Fire (task_accessor rw) (task_mutator rw mdJson)
          (\<lambda>d. logTransition n rw \<lparr> tr_state = d, tr_timestamp = now \<rparr>) (on_completed n rw runner send) permitted)"

text \<open>The handler that is active in the pending state.\<close>

definition on_pending ::
  "nat \<Rightarrow> 's machine \<Rightarrow> 's status_store \<Rightarrow> string \<Rightarrow> time \<Rightarrow> 's TaskRunner \<Rightarrow> ('s \<Rightarrow> go_error option) \<Rightarrow> (TaskStatus option \<Rightarrow> ('s, unit) prog) \<Rightarrow>
   ('s, unit) prog" where
  "on_pending n Fire rw mdJson now runner taskErr send =
     bind (trigger_of taskErr (OnTaskPending runner) TriggerStart)
       (Fire (task_accessor rw) (task_mutator rw mdJson)
          (\<lambda>d. logTransition n rw \<lparr> tr_state = d, tr_timestamp = now \<rparr>)
          (\<lambda>d. if d = StateRunning then on_running n Fire rw mdJson now runner taskErr send
               else on_completed n rw runner send d) permitted)"

text \<open>\<^verbatim>\<open>sm.ActivateCtx\<close> in the goroutine of the task: the active handler of the stored state; only the pending
  state has one.\<close>

definition run_task ::
  "nat \<Rightarrow> 's machine \<Rightarrow> 's status_store \<Rightarrow> string \<Rightarrow> time \<Rightarrow> 's TaskRunner \<Rightarrow> ('s \<Rightarrow> go_error option) \<Rightarrow> (TaskStatus option \<Rightarrow> ('s, unit) prog) \<Rightarrow>
   ('s, unit) prog" where
  "run_task n Fire rw mdJson now runner taskErr send = bind (task_accessor rw) (\<lambda>state.
     if state = StatePending then on_pending n Fire rw mdJson now runner taskErr send else return ())"

text \<open>The table of what is kept of the previous status.\<close>

fun state_String :: "TaskState \<Rightarrow> string" where
  "state_String StateUnknown = ''Unknown''"
| "state_String StatePending = ''Pending''"
| "state_String StateRunning = ''Running''"
| "state_String StateCompleted = ''Completed''"
| "state_String StateFailed = ''Failed''"
| "state_String StateCanceled = ''Canceled''"

definition restart_status :: "string \<Rightarrow> time \<Rightarrow> TaskState \<Rightarrow> TaskStatus \<Rightarrow> TaskStatus" where
  "restart_status mdJson now state prev =
     (let prev = prev\<lparr> ts_state := StatePending \<rparr> in
      case state of
        StateRunning \<Rightarrow> prev
      | StateFailed \<Rightarrow> prev\<lparr> ts_progress := None, ts_metadata := mdJson,
          ts_logs := ts_logs prev @ [\<lparr> le_msg = ''internal: restarting task (previous state: '' @ state_String state @ '')'', le_level = 0, le_timestamp = now \<rparr>] \<rparr>
      | StateCanceled \<Rightarrow> prev\<lparr> ts_metadata := mdJson, ts_logs := [], ts_transitions := [] \<rparr>
      | _ \<Rightarrow> prev\<lparr> ts_progress := None, ts_metadata := mdJson, ts_logs := [], ts_transitions := [] \<rparr>)"

text \<open>An error of the accessor other than \<^verbatim>\<open>NotFound\<close> is dropped.\<close>

definition init_status :: "nat \<Rightarrow> 's status_store \<Rightarrow> string \<Rightarrow> time \<Rightarrow> ('s, unit) prog" where
  "init_status n rw mdJson now =
     bind (\<lambda>s. case task_accessor rw s of
        (Ret state, t) \<Rightarrow> bind (vs_Get rw) (\<lambda>prev. vs_Put rw (restart_status mdJson now state prev)) t
      | (Fail e, t) \<Rightarrow> if StatusCode e = NotFound then task_mutator rw mdJson StatePending t else (Ret (), t)
      | (Panic p, t) \<Rightarrow> (Panic p, t)) (\<lambda>_.
     logTransition n rw \<lparr> tr_state = StatePending, tr_timestamp = now \<rparr>)"

text \<open>The controller: \<^verbatim>\<open>tasks\<close> maps an id to the cancel function of its last launch, a launch being known by its
  number; the launches that were cancelled, and the goroutines that were started.\<close>

record Controller =
  ct_tasks :: "nat gomap"
  ct_cancelled :: "nat list"
  ct_next :: nat
  ct_started :: "(nat \<times> string \<times> string) list"

datatype 'md metadata = NoMetadata | Metadata 'md | JsonMetadata string

definition metadata_json :: "('md \<Rightarrow> string go) \<Rightarrow> 'md metadata \<Rightarrow> string go" where
  "metadata_json toJSON md = (case md of
     JsonMetadata j \<Rightarrow> Ret j
   | Metadata m \<Rightarrow> go_err (toJSON m) (Wrap ''failed to marshal metadata'')
   | NoMetadata \<Rightarrow> Ret '''')"

definition launch :: "string \<Rightarrow> (Controller \<times> 's, nat) prog" where
  "launch ident = (\<lambda>(c, s). let old = (case lookup (ct_tasks c) ident of None \<Rightarrow> [] | Some k \<Rightarrow> [k]) in
     (Ret (ct_next c), (c\<lparr> ct_cancelled := old @ ct_cancelled c, ct_tasks := AList.update ident (ct_next c) (ct_tasks c),
        ct_next := Suc (ct_next c) \<rparr>, s)))"

definition LaunchTask ::
  "nat \<Rightarrow> ('md \<Rightarrow> string go) \<Rightarrow> ('s, TaskStatus) KeyValueStoreT \<Rightarrow> go_error option \<Rightarrow> time \<Rightarrow> string \<Rightarrow> 'md metadata \<Rightarrow>
   (Controller \<times> 's, unit) prog" where
  "LaunchTask n toJSON store ctxErr now ident md = (case ctxErr of
     Some e \<Rightarrow> throw (Wrap ''cannot launch task'' e)
   | None \<Rightarrow>
       bind (lift (metadata_json toJSON md)) (\<lambda>mdJson.
       bind (launch ident) (\<lambda>k.
       bind (on_snd (init_status n (NewValueStore store ident) mdJson now)) (\<lambda>_.
       (\<lambda>(c, s). (Ret (), (c\<lparr> ct_started := ct_started c @ [(k, ident, mdJson)] \<rparr>, s)))))))"

definition ListTasks :: "('s, TaskStatus) KeyValueStoreT \<Rightarrow> ('s, string list) prog" where
  "ListTasks store = bind (kv_ListKeys store '''') (\<lambda>keys. return (map path_Base keys))"

definition TaskStatus_of :: "('s, TaskStatus) KeyValueStoreT \<Rightarrow> string \<Rightarrow> ('s, TaskStatus) prog" where
  "TaskStatus_of store ident = vs_Get (NewValueStore store ident)"

definition CancelTask :: "string \<Rightarrow> Controller \<Rightarrow> Controller" where
  "CancelTask ident c = c\<lparr>
     ct_cancelled := (case lookup (ct_tasks c) ident of None \<Rightarrow> [] | Some k \<Rightarrow> [k]) @ ct_cancelled c,
     ct_tasks := AList.delete ident (ct_tasks c) \<rparr>"

text \<open>\<^verbatim>\<open>NewController\<close>: one existing task, looked up and resumed with up to \<open>m\<close> attempts, then all of them. The
  loop of the source has no limit; \<^const>\<open>None\<close> is a loop that has not ended after \<open>m\<close> attempts.\<close>

fun resume_task ::
  "nat \<Rightarrow> nat \<Rightarrow> ('s, TaskStatus) KeyValueStoreT \<Rightarrow> go_error option \<Rightarrow> time \<Rightarrow> string \<Rightarrow> (Controller \<times> 's, unit option) prog" where
  "resume_task 0 n store ctxErr now ident = return None"
| "resume_task (Suc m) n store ctxErr now ident = (\<lambda>cs. case on_snd (TaskStatus_of store ident) cs of
     (Panic p, cs1) \<Rightarrow> (Panic p, cs1)
   | (Fail e, cs1) \<Rightarrow> if StatusCode e = NotFound then (Ret (Some ()), cs1) else resume_task m n store ctxErr now ident cs1
   | (Ret status, cs1) \<Rightarrow>
       if ts_state status \<in> {StatePending, StateRunning} then
         (case LaunchTask n (\<lambda>_ :: unit. Ret '''') store ctxErr now ident (JsonMetadata (ts_metadata status)) cs1 of
            (Ret _, cs2) \<Rightarrow> (Ret (Some ()), cs2)
          | (Fail e, cs2) \<Rightarrow> resume_task m n store ctxErr now ident cs2
          | (Panic p, cs2) \<Rightarrow> (Panic p, cs2))
       else if ts_state status \<in> {StateCompleted, StateFailed, StateCanceled} then
         (case on_snd (vs_Delete (NewValueStore store ident)) cs1 of
            (Panic p, cs2) \<Rightarrow> (Panic p, cs2) | (_, cs2) \<Rightarrow> (Ret (Some ()), cs2))
       else (Ret (Some ()), cs1))"

fun resume_all ::
  "nat \<Rightarrow> nat \<Rightarrow> ('s, TaskStatus) KeyValueStoreT \<Rightarrow> go_error option \<Rightarrow> time \<Rightarrow> string list \<Rightarrow> (Controller \<times> 's, unit option) prog" where
  "resume_all m n store ctxErr now [] = return (Some ())"
| "resume_all m n store ctxErr now (ident # ids) = bind (resume_task m n store ctxErr now ident) (\<lambda>r.
     case r of None \<Rightarrow> return None | Some _ \<Rightarrow> resume_all m n store ctxErr now ids)"

definition NewController ::
  "nat \<Rightarrow> nat \<Rightarrow> ('s, TaskStatus) KeyValueStoreT \<Rightarrow> string \<Rightarrow> go_error option \<Rightarrow> time \<Rightarrow> (Controller \<times> 's, unit option) prog" where
  "NewController m n base name ctxErr now =
     (let store = NewKeyValueStoreWithPrefix base (''/tasks/'' @ name @ ''/'') in
      bind (on_snd (ListTasks store)) (resume_all m n store ctxErr now))"


section \<open>Transitions\<close>

inductive task_step :: "TaskState \<Rightarrow> TaskState \<Rightarrow> bool" where
  fired: "permitted st trig = Some d \<Longrightarrow> task_step st d"

inductive_cases task_step_cases: "task_step st d"

definition final_state :: "TaskState \<Rightarrow> bool" where
  "final_state st \<longleftrightarrow> st \<in> {StateCompleted, StateFailed, StateCanceled}"

lemma permitted_cases:
  "permitted st trig = Some d \<longleftrightarrow>
     (st, trig, d) \<in> {(StatePending, TriggerStart, StateRunning), (StatePending, TriggerCancel, StateCanceled),
       (StateRunning, TriggerEnd, StateCompleted), (StateRunning, TriggerCancel, StateCanceled), (StateRunning, TriggerError, StateFailed)}"
  by (cases st; cases trig) auto

lemma task_step_iff:
  "task_step st d \<longleftrightarrow> (st, d) \<in> {(StatePending, StateRunning), (StatePending, StateCanceled),
     (StateRunning, StateCompleted), (StateRunning, StateCanceled), (StateRunning, StateFailed)}"
proof
  assume "task_step st d"
  then obtain trig where "permitted st trig = Some d" by (rule task_step_cases)
  then show "(st, d) \<in> {(StatePending, StateRunning), (StatePending, StateCanceled),
     (StateRunning, StateCompleted), (StateRunning, StateCanceled), (StateRunning, StateFailed)}"
    unfolding permitted_cases by auto
qed (auto intro: fired [of _ TriggerStart] fired [of _ TriggerEnd] fired [of _ TriggerCancel] fired [of _ TriggerError])

fun steps_left :: "TaskState \<Rightarrow> nat" where
  "steps_left StatePending = 2"
| "steps_left StateRunning = 1"
| "steps_left _ = 0"

lemma task_step_less: "task_step st d \<Longrightarrow> steps_left d < steps_left st"
  by (auto simp: task_step_iff)



section \<open>What a run does\<close>

text \<open>A status store that works: \<open>cell\<close> is the stored status.\<close>

definition working :: "'s status_store \<Rightarrow> ('s \<Rightarrow> TaskStatus) \<Rightarrow> (TaskStatus \<Rightarrow> 's \<Rightarrow> 's) \<Rightarrow> bool" where
  "working rw cell upd \<longleftrightarrow> (\<forall>s. vs_Get rw s = (Ret (cell s), s)) \<and> (\<forall>st s. vs_Put rw st s = (Ret (), upd st s) \<and> cell (upd st s) = st)"

text \<open>The handlers of a runner do not change the task's state or its transitions, and do not panic: the
  interface they are given has no operation for that.\<close>

definition well_behaved :: "('s \<Rightarrow> TaskStatus) \<Rightarrow> ('s, unit) prog \<Rightarrow> bool" where
  "well_behaved cell h \<longleftrightarrow> (\<forall>s r t. h s = (r, t) \<longrightarrow> ts_state (cell t) = ts_state (cell s) \<and> ts_transitions (cell t) = ts_transitions (cell s)
     \<and> (\<forall>p. r \<noteq> Panic p))"

definition moved :: "('s \<Rightarrow> TaskStatus) \<Rightarrow> 's \<Rightarrow> TaskState list \<Rightarrow> TaskState \<Rightarrow> 's \<Rightarrow> bool" where
  "moved cell s ds d t \<longleftrightarrow> ts_state (cell t) = d \<and> map tr_state (ts_transitions (cell t)) = map tr_state (ts_transitions (cell s)) @ ds"

lemma working_modify:
  "working rw cell upd \<Longrightarrow> modify_status (Suc n) rw f s = (Ret (), upd (f (cell s)) s)"
  by (simp add: working_def modify_status_def bind_def)

lemma machine_lawsD:
  assumes "machine_laws Fire" and "get s = (Ret st, t)"
  shows "cfg st trig = None \<Longrightarrow> \<exists>e. Fire get put before entry cfg trig s = (Fail e, t)"
    and "cfg st trig = Some d \<Longrightarrow> Fire get put before entry cfg trig s = bind (before d) (\<lambda>_. bind (put d) (\<lambda>_. entry d)) t"
proof -
  have "case cfg st trig of None \<Rightarrow> \<exists>e. Fire get put before entry cfg trig s = (Fail e, t)
     | Some d \<Rightarrow> Fire get put before entry cfg trig s = bind (before d) (\<lambda>_. bind (put d) (\<lambda>_. entry d)) t"
    using assms unfolding machine_laws_def by blast
  then show "cfg st trig = None \<Longrightarrow> \<exists>e. Fire get put before entry cfg trig s = (Fail e, t)"
    and "cfg st trig = Some d \<Longrightarrow> Fire get put before entry cfg trig s = bind (before d) (\<lambda>_. bind (put d) (\<lambda>_. entry d)) t"
    by simp_all
qed

text \<open>Firing a trigger on a working store: nothing changes, or the transition is logged and made, and the entry
  handler runs.\<close>

lemma working_fire:
  fixes n :: nat and now :: time
  assumes "machine_laws Fire" and work: "working rw cell upd"
  defines "before \<equiv> \<lambda>d. logTransition (Suc n) rw \<lparr> tr_state = d, tr_timestamp = now \<rparr>"
  shows "permitted (ts_state (cell s)) trig = None \<Longrightarrow> \<exists>e. Fire (task_accessor rw) (task_mutator rw md) before entry permitted trig s = (Fail e, s)"
    and "permitted (ts_state (cell s)) trig = Some d \<Longrightarrow>
      \<exists>t. moved cell s [d] d t \<and> Fire (task_accessor rw) (task_mutator rw md) before entry permitted trig s = entry d t"
proof -
  have get: "task_accessor rw s = (Ret (ts_state (cell s)), s)" using work by (simp add: working_def task_accessor_def bind_def)
  show "permitted (ts_state (cell s)) trig = None \<Longrightarrow> \<exists>e. Fire (task_accessor rw) (task_mutator rw md) before entry permitted trig s = (Fail e, s)"
    by (rule machine_lawsD(1) [where get = "task_accessor rw" and cfg = permitted, OF assms(1) get])
  assume d: "permitted (ts_state (cell s)) trig = Some d"
  let ?u = "upd ((cell s)\<lparr> ts_transitions := ts_transitions (cell s) @ [\<lparr> tr_state = d, tr_timestamp = now \<rparr>] \<rparr>) s"
  let ?t = "upd ((cell ?u)\<lparr> ts_state := d \<rparr>) ?u"
  have cell: "cell (upd x u) = x" for x u using work by (simp add: working_def)
  have "before d s = (Ret (), ?u)" unfolding before_def logTransition_def using working_modify [OF work] .
  moreover have "task_mutator rw md d ?u = (Ret (), ?t)"
    using work by (simp add: working_def task_mutator_def bind_def catch_def)
  ultimately have "Fire (task_accessor rw) (task_mutator rw md) before entry permitted trig s = entry d ?t"
    using machine_lawsD(2) [where get = "task_accessor rw" and cfg = permitted, OF assms(1) get d] by (simp add: bind_def)
  moreover have "moved cell s [d] d ?t" by (simp add: moved_def cell)
  ultimately show "\<exists>t. moved cell s [d] d t \<and> Fire (task_accessor rw) (task_mutator rw md) before entry permitted trig s = entry d t" by blast
qed

lemma moved_keep: "well_behaved cell h \<Longrightarrow> h s = (r, t) \<Longrightarrow> moved cell s0 ds d s \<Longrightarrow> moved cell s0 ds d t"
  unfolding well_behaved_def moved_def by metis

lemma moved_trans: "moved cell s ds d t \<Longrightarrow> moved cell t es e u \<Longrightarrow> moved cell s (ds @ es) e u"
  by (simp add: moved_def)

lemma completed_run:
  assumes "working rw cell upd" and "well_behaved cell (OnTaskCompleted runner d)" and "\<And>st. well_behaved cell (send st)" and "moved cell s0 ds d s"
  shows "moved cell s0 ds d (snd (on_completed (Suc n) rw runner send d s))"
proof -
  obtain r t where r: "OnTaskCompleted runner d s = (r, t)" by (cases "OnTaskCompleted runner d s")
  have t: "moved cell s0 ds d t" using moved_keep [OF assms(2) r assms(4)] .
  obtain q u where q: "send (Some (cell t)) t = (q, u)" by (cases "send (Some (cell t)) t")
  have "moved cell s0 ds d u" using moved_keep [OF assms(3) q t] .
  moreover have "getStatus (Suc n) rw t = (Ret (Some (cell t)), t)" using assms(1) by (simp add: working_def)
  ultimately show ?thesis using r q t by (cases r) (simp_all add: on_completed_def bind_def)
qed

lemma trigger_run:
  assumes "well_behaved cell h" and "h s = (r, t)"
  shows "trigger_of taskErr h ok s = (Ret (case r of Ret _ \<Rightarrow> ok | Fail e \<Rightarrow> if taskErr t = Some e then TriggerCancel else TriggerError), t)"
  using assms by (cases r) (auto simp: trigger_of_def well_behaved_def)

text \<open>The state a running task ends in.\<close>

definition outcome :: "('s \<Rightarrow> go_error option) \<Rightarrow> unit go \<Rightarrow> 's \<Rightarrow> TaskState" where
  "outcome taskErr r t = (case r of Ret _ \<Rightarrow> StateCompleted | Fail e \<Rightarrow> if taskErr t = Some e then StateCanceled else StateFailed
     | Panic p \<Rightarrow> StateFailed)"

lemma running_run:
  assumes laws: "machine_laws Fire" and work: "working rw cell upd"
    and ok: "well_behaved cell (OnTaskRunning runner)" "\<And>d. well_behaved cell (OnTaskCompleted runner d)" "\<And>st. well_behaved cell (send st)"
    and s: "moved cell s0 ds StateRunning s"
  shows "\<exists>r t. OnTaskRunning runner s = (r, t) \<and> moved cell s0 (ds @ [outcome taskErr r t]) (outcome taskErr r t)
    (snd (on_running (Suc n) Fire rw md now runner taskErr send s))"
proof -
  obtain r t where r: "OnTaskRunning runner s = (r, t)" by (cases "OnTaskRunning runner s")
  let ?trig = "case r of Ret _ \<Rightarrow> TriggerEnd | Fail e \<Rightarrow> if taskErr t = Some e then TriggerCancel else TriggerError"
  have t: "moved cell s0 ds StateRunning t" using moved_keep [OF ok(1) r s] .
  have "\<forall>p. r \<noteq> Panic p" using ok(1) r unfolding well_behaved_def by blast
  then have "permitted (ts_state (cell t)) ?trig = Some (outcome taskErr r t)" using t
    by (cases r) (simp_all add: moved_def outcome_def)
  from working_fire(2) [OF laws work this] obtain u where u: "moved cell t [outcome taskErr r t] (outcome taskErr r t) u"
    "Fire (task_accessor rw) (task_mutator rw md) (\<lambda>d. logTransition (Suc n) rw \<lparr> tr_state = d, tr_timestamp = now \<rparr>) (on_completed (Suc n) rw runner send)
       permitted ?trig t = on_completed (Suc n) rw runner send (outcome taskErr r t) u" by blast
  have "moved cell s0 (ds @ [outcome taskErr r t]) (outcome taskErr r t) u" using moved_trans [OF t u(1)] .
  from completed_run [OF work ok(2,3) this] u(2) r trigger_run [OF ok(1) r] show ?thesis
    by (simp add: on_running_def bind_def)
qed



text \<open>Witness: the documented machine, a status as its own store, and a runner whose preparation fails: the
  task stays pending.\<close>

definition plain_machine :: "'s machine" where
  "plain_machine get put before entry cfg trig = bind get (\<lambda>st. case cfg st trig of
     None \<Rightarrow> throw (ErrText ''no valid leaving transitions'') | Some d \<Rightarrow> bind (before d) (\<lambda>_. bind (put d) (\<lambda>_. entry d)))"

lemma plain_machine_laws: "machine_laws plain_machine"
  by (auto simp: machine_laws_def plain_machine_def bind_def split: option.splits)

definition cell_store :: "TaskStatus status_store" where
  "cell_store = \<lparr> vs_Put = (\<lambda>st s. (Ret (), st)), vs_Get = (\<lambda>s. (Ret s, s)), vs_Delete = return () \<rparr>"

definition failing_runner :: "TaskStatus TaskRunner" where
  "failing_runner = \<lparr> OnTaskPending = throw (ErrText ''not ready''), OnTaskRunning = return (), OnTaskCompleted = (\<lambda>d. return ()) \<rparr>"

definition fresh_status :: TaskStatus where
  "fresh_status = \<lparr> ts_state = StatePending, ts_progress = None, ts_metadata = '''', ts_logs = [],
     ts_transitions = [\<lparr> tr_state = StatePending, tr_timestamp = 0 \<rparr>] \<rparr>"


section \<open>Launches\<close>

text \<open>At most one launch of a task is live: every goroutine that was started and whose context was not cancelled
  is the one that \<^verbatim>\<open>tasks\<close> knows for its id.\<close>

definition one_live :: "Controller \<Rightarrow> bool" where
  "one_live c \<longleftrightarrow> gomap_ok (ct_tasks c) \<and> (\<forall>i k. lookup (ct_tasks c) i = Some k \<longrightarrow> k < ct_next c) \<and>
     (\<forall>k i md. (k, i, md) \<in> set (ct_started c) \<longrightarrow> k < ct_next c \<and> (k \<in> set (ct_cancelled c) \<or> lookup (ct_tasks c) i = Some k))"

abbreviation "live_ok cs \<equiv> one_live (fst cs)"

definition new_controller :: Controller where
  "new_controller = \<lparr> ct_tasks = [], ct_cancelled = [], ct_next = 0, ct_started = [] \<rparr>"

lemma one_live_new: "one_live new_controller"
  by (simp add: one_live_def new_controller_def gomap_ok_def)

lemma preserves_on_snd: "preserves live_ok (on_snd m)"
  by (auto simp: preserves_def)

lemma one_live_Cancel: "one_live c \<Longrightarrow> one_live (CancelTask i c)"
  unfolding one_live_def CancelTask_def by (auto split: option.splits) metis

text \<open>Registering a launch cancels the one before it; the new one is known from then on.\<close>

lemma launch_live:
  assumes "one_live c" and "launch i (c, s) = (Ret k, (c', s'))"
  shows "one_live c' \<and> lookup (ct_tasks c') i = Some k \<and> k < ct_next c' \<and> s' = s"
  using assms unfolding one_live_def launch_def
  by (auto simp: Let_def less_Suc_eq split: option.splits if_splits) (metis option.distinct(1) option.inject)+

lemma preserves_LaunchTask: "preserves live_ok (LaunchTask n toJSON store ctxErr now i md)"
proof (rule preservesI)
  fix cs r cs' assume live: "live_ok cs" and run: "LaunchTask n toJSON store ctxErr now i md cs = (r, cs')"
  show "live_ok cs'"
  proof (cases "ctxErr = None \<and> (\<exists>j. metadata_json toJSON md = Ret j)")
    case False
    then have "cs' = cs" using run
      by (cases ctxErr; cases "metadata_json toJSON md") (auto simp: LaunchTask_def bind_def)
    with live show ?thesis by simp
  next
    case True
    then obtain j where j: "ctxErr = None" "metadata_json toJSON md = Ret j" by blast
    obtain c s where cs: "cs = (c, s)" by (cases cs)
    obtain k c1 s1 where l: "launch i (c, s) = (Ret k, (c1, s1))" by (simp add: launch_def Let_def)
    have c1: "one_live c1" "lookup (ct_tasks c1) i = Some k" "k < ct_next c1" "s1 = s" using launch_live [OF _ l] live cs by auto
    obtain q t where q: "init_status n (NewValueStore store i) j now s = (q, t)" by (cases "init_status n (NewValueStore store i) j now s")
    have "fst cs' = c1 \<or> fst cs' = c1\<lparr> ct_started := ct_started c1 @ [(k, i, j)] \<rparr>"
      using run j cs l c1(4) q by (cases q) (auto simp: LaunchTask_def bind_def)
    then show ?thesis using c1 unfolding one_live_def by auto blast+
  qed
qed

lemma preserves_live: "preserves live_ok m \<Longrightarrow> one_live c \<Longrightarrow> one_live (fst (snd (m (c, s))))"
  by (metis fst_conv preservesD surjective_pairing)

lemma preserves_resume_task: "preserves live_ok (resume_task m n store ctxErr now i)"
proof (induction m)
  case (Suc m)
  show ?case
  proof (rule preservesI)
    fix cs r cs' assume live: "live_ok cs" and run: "resume_task (Suc m) n store ctxErr now i cs = (r, cs')"
    obtain q cs1 where q: "on_snd (TaskStatus_of store i) cs = (q, cs1)" by (meson surj_pair)
    note l1 = preservesD [OF preserves_on_snd live q]
    have launched: "live_ok cs2" if "LaunchTask n (\<lambda>_ :: unit. Ret '''') store ctxErr now i j cs1 = (u, cs2)" for j u cs2
      using preservesD [OF preserves_LaunchTask l1 that] .
    have deleted: "live_ok cs2" if "on_snd (vs_Delete (NewValueStore store i)) cs1 = (w, cs2)" for w cs2
      using preservesD [OF preserves_on_snd l1 that] .
    show "live_ok cs'" using run q l1
      by (auto simp del: on_snd_run split: go.splits if_splits prod.splits dest: launched deleted preservesD [OF Suc.IH])
  qed
qed (simp add: preserves_def)

lemma preserves_resume_all: "preserves live_ok (resume_all m n store ctxErr now ids)"
proof (induction ids)
  case (Cons i ids)
  show ?case unfolding resume_all.simps by (intro preserves_bind preserves_option preserves_pure preserves_resume_task Cons.IH)
qed (simp add: preserves_def)

text \<open>C10: the controller keeps at most one launch of each task alive: launching a task again cancels the launch
  before it, cancelling a task leaves none, and resuming the stored tasks of a controller keeps this, also
  when a launch fails half-way.\<close>

theorem controller_one_live:
  assumes "one_live c"
  shows "one_live (CancelTask i c) \<and> one_live (fst (snd (LaunchTask n toJSON store ctxErr now i md (c, s)))) \<and>
    one_live (fst (snd (NewController m n base name ctxErr now (c, s)))) \<and>
    ((k, i, j) \<in> set (ct_started c) \<longrightarrow> (k', i, j') \<in> set (ct_started c) \<longrightarrow>
       k \<notin> set (ct_cancelled c) \<longrightarrow> k' \<notin> set (ct_cancelled c) \<longrightarrow> k = k')"
proof (intro conjI impI)
  show "one_live (CancelTask i c)" using one_live_Cancel [OF assms] .
  show "one_live (fst (snd (LaunchTask n toJSON store ctxErr now i md (c, s))))"
    using preserves_LaunchTask assms by (rule preserves_live)
  have "preserves live_ok (NewController m n base name ctxErr now)"
    unfolding NewController_def Let_def by (intro preserves_bind preserves_on_snd preserves_resume_all)
  then show "one_live (fst (snd (NewController m n base name ctxErr now (c, s))))"
    using assms by (rule preserves_live)
  show "k = k'" if "(k, i, j) \<in> set (ct_started c)" "(k', i, j') \<in> set (ct_started c)" "k \<notin> set (ct_cancelled c)" "k' \<notin> set (ct_cancelled c)"
    using assms that unfolding one_live_def by (metis option.inject)
qed

text \<open>Witness: a controller whose second launch of a task replaced the first.\<close>

definition relaunched :: Controller where
  "relaunched = \<lparr> ct_tasks = [(''t'', 1)], ct_cancelled = [0], ct_next = 2,
     ct_started = [(0, ''t'', []), (1, ''t'', [])] \<rparr>"

lemma one_live_relaunched: "one_live relaunched"
  by (auto simp: one_live_def relaunched_def gomap_ok_def split: if_splits)

theorem controller_one_live_witness: "one_live (CancelTask ''t'' relaunched)"
  using controller_one_live [OF one_live_relaunched, THEN conjunct1] .

end
