(* ===== verification/Health.thy ===== *)
theory Health
  imports Storage Grpc_Util "HOL-Library.Char_ord" "HOL-Library.List_Lexorder" "HOL-Library.Multiset"
begin

text \<open>
  \<^verbatim>\<open>pkg/health\<close>, without its monitor: the condition tracker of an agent plugin, the aggregator with which an agent
  answers for all its plugins, and the listener of the gateway, which polls an agent while it is connected
  and publishes what changed. \<^verbatim>\<open>lo.MaxBy\<close> is a parameter with its documented behaviour.
\<close>

section \<open>condition\_tracker.go\<close>

datatype ConditionStatus = StatusPending | StatusFailure | StatusDisabled

fun condition_String :: "ConditionStatus \<Rightarrow> string" where
  "condition_String StatusPending = ''Pending''"
| "condition_String StatusFailure = ''Failure''"
| "condition_String StatusDisabled = ''Disabled''"

definition ConditionStatusStrToEnum :: "string \<Rightarrow> ConditionStatus go" where
  "ConditionStatusStrToEnum status =
     (if status = ''Pending'' then Ret StatusPending
      else if status = ''Failure'' then Ret StatusFailure
      else if status = ''Disabled'' then Ret StatusDisabled
      else Fail (ErrText (''unknown condition status '' @ status)))"

abbreviation "CondConfigSync \<equiv> ''config Sync''"
abbreviation "CondBackend \<equiv> ''Backend''"

text \<open>The number of times the listeners were notified stands for the goroutines that are started for them.\<close>

record defaultConditionTracker =
  ct_conditions :: "ConditionStatus gomap"
  ct_modTime :: time
  ct_listeners :: "nat list"
  ct_notified :: "nat list"

definition NewDefaultConditionTracker :: "time \<Rightarrow> defaultConditionTracker" where
  "NewDefaultConditionTracker now =
     \<lparr> ct_conditions = [(CondConfigSync, StatusPending)], ct_modTime = now, ct_listeners = [], ct_notified = [] \<rparr>"

definition notifyListeners :: "defaultConditionTracker \<Rightarrow> defaultConditionTracker" where
  "notifyListeners ct = ct\<lparr> ct_notified := ct_notified ct @ ct_listeners ct \<rparr>"

text \<open>A key that is set already is left as it is; one that is not is set unless the value is the zero value.\<close>

definition tracker_Set :: "time \<Rightarrow> string \<Rightarrow> ConditionStatus \<Rightarrow> defaultConditionTracker \<Rightarrow> defaultConditionTracker" where
  "tracker_Set now key value ct = (case lookup (ct_conditions ct) key of
     Some v \<Rightarrow> ct
   | None \<Rightarrow> if StatusPending \<noteq> value
       then notifyListeners (ct\<lparr> ct_conditions := AList.update key value (ct_conditions ct), ct_modTime := now \<rparr>)
       else ct)"

definition tracker_Clear :: "time \<Rightarrow> string \<Rightarrow> defaultConditionTracker \<Rightarrow> defaultConditionTracker" where
  "tracker_Clear now key ct = (case lookup (ct_conditions ct) key of
     Some v \<Rightarrow> notifyListeners (ct\<lparr> ct_conditions := AList.delete key (ct_conditions ct), ct_modTime := now \<rparr>)
   | None \<Rightarrow> ct)"

definition tracker_List :: "defaultConditionTracker \<Rightarrow> string list" where
  "tracker_List ct = map (\<lambda>(key, value). key @ '' '' @ condition_String value) (ct_conditions ct)"

definition AddListener :: "nat \<Rightarrow> defaultConditionTracker \<Rightarrow> defaultConditionTracker" where
  "AddListener listener ct = ct\<lparr> ct_listeners := ct_listeners ct @ [listener] \<rparr>"

section \<open>aggregator.go\<close>

text \<open>\<^verbatim>\<open>time.Time{}\<close>, the first of January of year 1, in nanoseconds since the Unix epoch.\<close>

definition zero_time :: time where
  "zero_time = - 62135596800 * 1000000000"

text \<open>A client is known by what it answers to the request at hand.\<close>

record Aggregator =
  ag_staticAnnotations :: "string gomap"
  ag_clients :: "Health go gomap"

text \<open>\<^verbatim>\<open>NewAggregator\<close> applies the options to a value of its own that it does not use.\<close>

definition NewAggregator :: "string gomap option \<Rightarrow> Aggregator" where
  "NewAggregator staticAnnotations = \<lparr> ag_staticAnnotations = [], ag_clients = [] \<rparr>"

definition AddClient :: "string \<Rightarrow> Health go \<Rightarrow> Aggregator \<Rightarrow> Aggregator" where
  "AddClient name client h = h\<lparr> ag_clients := AList.update name client (ag_clients h) \<rparr>"

definition RemoveClient :: "string \<Rightarrow> Aggregator \<Rightarrow> Aggregator" where
  "RemoveClient name h = h\<lparr> ag_clients := AList.delete name (ag_clients h) \<rparr>"

text \<open>What the goroutine of a client writes into the three slices; their elements are zero values before.\<close>

definition client_timestamp :: "Health go \<Rightarrow> time" where
  "client_timestamp r = (case r of Ret h \<Rightarrow> asTime (h_timestamp h) | _ \<Rightarrow> zero_time)"

definition client_conditions :: "string \<Rightarrow> Health go \<Rightarrow> string list" where
  "client_conditions name r = (case r of
     Ret h \<Rightarrow> map (\<lambda>condition. name @ '': '' @ condition) (h_conditions h)
   | Fail e \<Rightarrow> (case StatusCode e of
        Unavailable \<Rightarrow> [''%s is unavailable'', name]
      | ResourceExhausted \<Rightarrow> [''%s is overloaded'', name]
      | DeadlineExceeded \<Rightarrow> [''%s timed out'', name]
      | Canceled \<Rightarrow> [''%s timed out'', name]
      | _ \<Rightarrow> [name @ '': '' @ err_Error e])
   | Panic p \<Rightarrow> [])"

definition client_ready :: "Health go \<Rightarrow> bool" where
  "client_ready r = (case r of Ret h \<Rightarrow> h_ready h | _ \<Rightarrow> False)"

definition aggregator_GetHealth :: "((time \<Rightarrow> time \<Rightarrow> bool) \<Rightarrow> time list \<Rightarrow> time) \<Rightarrow> Aggregator \<Rightarrow> Health" where
  "aggregator_GetHealth MaxBy h = (let
       clientTimestamps = map (\<lambda>(name, r). client_timestamp r) (ag_clients h);
       clientConditions = map (\<lambda>(name, r). client_conditions name r) (ag_clients h);
       clientsReady = map (\<lambda>(name, r). client_ready r) (ag_clients h) in
     \<lparr> h_timestamp = Some (MaxBy (\<lambda>t1 t2. t1 < t2) clientTimestamps),
       h_ready = foldl (\<and>) True clientsReady,
       h_conditions = sort (concat clientConditions),
       h_annotations = ag_staticAnnotations h \<rparr>)"

section \<open>listener.go\<close>

record StatusUpdate =
  su_ID :: string
  su_Status :: Status

record HealthUpdate =
  hu_ID :: string
  hu_Health :: Health

record ListenerOptions =
  lo_interval :: int
  lo_maxJitter :: int
  lo_maxConnections :: int
  lo_updateQueueCap :: int

abbreviation "Second \<equiv> (1000000000 :: int)"

definition listener_options :: "(ListenerOptions \<Rightarrow> ListenerOptions) list \<Rightarrow> ListenerOptions" where
  "listener_options opts =
     (let options = fold (\<lambda>op o'. op o') opts \<lparr> lo_interval = 30 * Second, lo_maxJitter = 30 * Second,
        lo_maxConnections = 2 ^ 63 - 1, lo_updateQueueCap = 1000 \<rparr> in
      if lo_maxJitter options > lo_interval options then options\<lparr> lo_maxJitter := lo_interval options \<rparr> else options)"

text \<open>\<open>r\<close> is what \<^verbatim>\<open>rand.Int63n\<close> answers, a number below its argument; durations are \<^verbatim>\<open>int64\<close> and wrap.\<close>

definition calcDuration :: "ListenerOptions \<Rightarrow> int \<Rightarrow> int" where
  "calcDuration l r = int64 (lo_interval l + (if lo_maxJitter l > 0 then r else 0))"

text \<open>What a select of the loop of \<^verbatim>\<open>HandleConnection\<close> receives: the end of the connection's context or of the
  listener, a tick with what the agent answers to the poll, or an update sent by the agent.\<close>

datatype conn_event = Done | Tick "Health go" | Incoming HealthUpdate

text \<open>The loop: the updates it publishes, and what is left when it returned (\<^const>\<open>None\<close> while it waits).\<close>

fun conn_loop :: "string \<Rightarrow> Health option \<Rightarrow> conn_event list \<Rightarrow> HealthUpdate list \<times> bool" where
  "conn_loop i curHealth [] = ([], False)"
| "conn_loop i curHealth (Done # rest) = ([], True)"
| "conn_loop i curHealth (Tick r # rest) = (case r of
     Ret health \<Rightarrow>
       if \<not> health_Equal (Some health) curHealth \<and> health_NewerThan (Some health) curHealth
       then (case conn_loop i (Some health) rest of (us, fin) \<Rightarrow> (\<lparr> hu_ID = i, hu_Health = health \<rparr> # us, fin))
       else conn_loop i curHealth rest
   | _ \<Rightarrow> conn_loop i curHealth rest)"
| "conn_loop i curHealth (Incoming up # rest) =
     (if \<not> health_Equal (Some (hu_Health up)) curHealth \<and> health_NewerThan (Some (hu_Health up)) curHealth
      then (case conn_loop i (Some (hu_Health up)) rest of (us, fin) \<Rightarrow> (\<lparr> hu_ID = hu_ID up, hu_Health = hu_Health up \<rparr> # us, fin))
      else conn_loop i curHealth rest)"

definition publishStatus :: "time \<Rightarrow> string \<Rightarrow> bool \<Rightarrow> StatusUpdate" where
  "publishStatus now i connected = \<lparr> su_ID = i, su_Status = \<lparr> st_timestamp = Some now, st_connected = connected \<rparr> \<rparr>"

text \<open>The whole handler for one connection, over the answer to its first request and what its loop receives;
  \<open>closed\<close> and \<open>acquired\<close> are the outcomes of its two guards, \<open>begun\<close>, \<open>answered\<close> and \<open>ended\<close> the times it takes. It
  answers what it sends on the health channel, what it sends on the status channel, and whether it returned.\<close>

definition HandleConnection ::
  "bool \<Rightarrow> bool \<Rightarrow> string \<Rightarrow> time \<Rightarrow> time \<Rightarrow> time \<Rightarrow> Health go \<Rightarrow> conn_event list \<Rightarrow> HealthUpdate list \<times> StatusUpdate list \<times> bool" where
  "HandleConnection closed acquired i begun answered ended first events =
     (if closed then ([], [], True)
      else if \<not> acquired then ([], [], True)
      else let
        curHealth = (case first of Ret h \<Rightarrow> Some h | _ \<Rightarrow> None);
        initial = (case first of
          Ret h \<Rightarrow> [\<lparr> hu_ID = i, hu_Health = \<lparr> h_timestamp = Some answered, h_ready = h_ready h, h_conditions = h_conditions h, h_annotations = h_annotations h \<rparr> \<rparr>]
        | _ \<Rightarrow> []);
        (updates, returned) = conn_loop i curHealth events;
        offline = \<lparr> hu_ID = i, hu_Health = \<lparr> h_timestamp = Some ended, h_ready = False, h_conditions = [], h_annotations = [] \<rparr> \<rparr> in
      if returned then (initial @ updates @ [offline], [publishStatus begun i True, publishStatus ended i False], True)
      else (initial @ updates, [publishStatus begun i True], False))"

text \<open>\<^verbatim>\<open>UpdateHealth\<close>: an update of the agent goes to the handler of its connection, when there is one.\<close>

definition UpdateHealth :: "string \<Rightarrow> Health \<Rightarrow> HealthUpdate list gomap \<Rightarrow> HealthUpdate list gomap" where
  "UpdateHealth i req incoming = (case lookup incoming i of
     None \<Rightarrow> incoming
   | Some ch \<Rightarrow> AList.update i (ch @ [\<lparr> hu_ID = i, hu_Health = req \<rparr>]) incoming)"

section \<open>Properties of the aggregator\<close>

lemma foldl_and: "foldl (\<and>) b xs \<longleftrightarrow> b \<and> (\<forall>x \<in> set xs. x)"
  by (induction xs arbitrary: b) auto

text \<open>The aggregated health is ready exactly when every client answered and is ready; its conditions are those of
  the clients under their names, in order, and nothing is lost or repeated.\<close>

theorem aggregate_ready:
  "(h_ready (aggregator_GetHealth MaxBy h) \<longleftrightarrow> (\<forall>name r. (name, r) \<in> set (ag_clients h) \<longrightarrow> (\<exists>x. r = Ret x \<and> h_ready x))) \<and>
   sorted (h_conditions (aggregator_GetHealth MaxBy h)) \<and>
   mset (h_conditions (aggregator_GetHealth MaxBy h)) = (\<Sum>(name, r) \<leftarrow> ag_clients h. mset (client_conditions name r)) \<and>
   h_annotations (aggregator_GetHealth MaxBy (fold (\<lambda>(name, r). AddClient name r) clients (NewAggregator annotations))) = []"
proof (intro conjI)
  have "client_ready r \<longleftrightarrow> (\<exists>x. r = Ret x \<and> h_ready x)" for r by (cases r) (simp_all add: client_ready_def)
  then show "h_ready (aggregator_GetHealth MaxBy h) \<longleftrightarrow> (\<forall>name r. (name, r) \<in> set (ag_clients h) \<longrightarrow> (\<exists>x. r = Ret x \<and> h_ready x))"
    by (auto simp: aggregator_GetHealth_def Let_def foldl_and)
  have "mset (concat xss) = (\<Sum>xs \<leftarrow> xss. mset xs)" for xss :: "string list list" by (induction xss) simp_all
  then show "mset (h_conditions (aggregator_GetHealth MaxBy h)) = (\<Sum>(name, r) \<leftarrow> ag_clients h. mset (client_conditions name r))"
    by (simp add: aggregator_GetHealth_def Let_def comp_def case_prod_unfold)
  have "ag_staticAnnotations (fold (\<lambda>(name, r). AddClient name r) clients a) = ag_staticAnnotations a" for a
    by (induction clients arbitrary: a) (auto simp: AddClient_def)
  then show "h_annotations (aggregator_GetHealth MaxBy (fold (\<lambda>(name, r). AddClient name r) clients (NewAggregator annotations))) = []"
    by (simp add: aggregator_GetHealth_def Let_def NewAggregator_def)
qed (simp add: aggregator_GetHealth_def Let_def)

text \<open>\<^verbatim>\<open>lo.MaxBy\<close>: with a comparison that says that its first argument is the greater one (a strict weak order), an
  element of the list than which none is greater.\<close>

definition maxby_laws :: "((time \<Rightarrow> time \<Rightarrow> bool) \<Rightarrow> time list \<Rightarrow> time) \<Rightarrow> bool" where
  "maxby_laws MaxBy \<longleftrightarrow> (\<forall>cmp xs. xs \<noteq> [] \<longrightarrow> asymp cmp \<longrightarrow> (\<forall>a b c. cmp a c \<longrightarrow> cmp a b \<or> cmp b c) \<longrightarrow>
     MaxBy cmp xs \<in> set xs \<and> (\<forall>y \<in> set xs. \<not> cmp y (MaxBy cmp xs)))"

lemma aggregate_earliest:
  assumes "maxby_laws MaxBy" and "(name, r) \<in> set (ag_clients h)"
  shows "health_timestamp (Some (aggregator_GetHealth MaxBy h)) \<le> client_timestamp r"
proof -
  let ?ts = "map (\<lambda>(name, r). client_timestamp r) (ag_clients h)"
  have mem: "client_timestamp r \<in> set ?ts" using assms(2) by force
  have "asymp ((<) :: time \<Rightarrow> _)" "\<forall>a b c :: time. a < c \<longrightarrow> a < b \<or> b < c" by auto
  moreover have "?ts \<noteq> []" using assms(2) by auto
  ultimately have "\<forall>y \<in> set ?ts. \<not> y < MaxBy (<) ?ts" using assms(1) unfolding maxby_laws_def by blast
  then show ?thesis using mem by (auto simp: aggregator_GetHealth_def Let_def health_timestamp_def asTime_def)
qed


text \<open>Witness: the loop that \<^verbatim>\<open>lo\<close> documents, and an agent with two plugins of which one is unavailable.\<close>

definition max_by :: "(time \<Rightarrow> time \<Rightarrow> bool) \<Rightarrow> time list \<Rightarrow> time" where
  "max_by cmp xs = (case xs of [] \<Rightarrow> zero_time | x # xs \<Rightarrow> fold (\<lambda>item m. if cmp item m then item else m) xs x)"

lemma fold_max:
  assumes weak: "\<And>a b c. cmp a c \<Longrightarrow> cmp a b \<or> cmp b c" and asym: "\<And>a b. cmp a b \<Longrightarrow> \<not> cmp b a"
  shows "fold (\<lambda>item m. if cmp item m then item else m) xs x \<in> set (x # xs) \<and>
    (\<forall>y \<in> set (x # xs). \<not> cmp y (fold (\<lambda>item m. if cmp item m then item else m) xs x))"
proof (induction xs arbitrary: x)
  case Nil
  show ?case using asym [of x x] by auto
next
  case (Cons a xs)
  obtain z m where z: "z = (if cmp a x then a else x)" and m: "m = fold (\<lambda>item m. if cmp item m then item else m) xs z" by simp
  have IH: "m \<in> set (z # xs)" "\<forall>y \<in> set (z # xs). \<not> cmp y m" using Cons.IH [of z] m by simp_all
  have "\<not> cmp a m \<and> \<not> cmp x m"
  proof (cases "cmp a x")
    case True
    then have "\<not> cmp a m" using IH(2) z by simp
    then have "cmp m x" using weak [OF True, of m] by simp
    with \<open>\<not> cmp a m\<close> asym show ?thesis by blast
  next
    case False
    then have "\<not> cmp x m" using IH(2) z by simp
    with False weak [of a m x] show ?thesis by blast
  qed
  moreover have "fold (\<lambda>item m. if cmp item m then item else m) (a # xs) x = m" by (simp add: m z)
  moreover have "m = a \<or> m = x \<or> m \<in> set xs" using IH(1) z by (auto split: if_splits)
  ultimately show ?case using IH(2) by auto
qed

lemma max_by_laws: "maxby_laws max_by"
  unfolding maxby_laws_def
proof (intro allI impI)
  fix cmp :: "time \<Rightarrow> time \<Rightarrow> bool" and xs :: "time list"
  assume "xs \<noteq> []" and asym: "asymp cmp" and weak: "\<forall>a b c. cmp a c \<longrightarrow> cmp a b \<or> cmp b c"
  then obtain y ys where xs: "xs = y # ys" by (cases xs) simp_all
  have "max_by cmp xs = fold (\<lambda>item m. if cmp item m then item else m) ys y" by (simp add: max_by_def xs)
  with fold_max [of cmp ys y] asympD [OF asym] weak xs
  show "max_by cmp xs \<in> set xs \<and> (\<forall>y \<in> set xs. \<not> cmp y (max_by cmp xs))" by metis
qed

definition two_plugins :: Aggregator where
  "two_plugins = \<lparr> ag_staticAnnotations = [], ag_clients =
     [(''metrics'', Ret \<lparr> h_timestamp = Some 50, h_ready = True, h_conditions = [], h_annotations = [] \<rparr>),
      (''logging'', Fail (ErrStatus Unavailable ''connection refused''))] \<rparr>"


section \<open>Properties of the listener\<close>




abbreviation stamp :: "HealthUpdate \<Rightarrow> time" where
  "stamp u \<equiv> health_timestamp (Some (hu_Health u))"

lemma conn_loop_progress:
  "sorted_wrt (\<lambda>a b. stamp a < stamp b) (fst (conn_loop i cur events)) \<and>
   (\<forall>u \<in> set (fst (conn_loop i cur events)). health_timestamp cur < stamp u \<and> (Tick (Ret (hu_Health u)) \<in> set events \<or> Incoming u \<in> set events)) \<and>
   (snd (conn_loop i cur events) \<longleftrightarrow> Done \<in> set events)"
proof (induction i cur events rule: conn_loop.induct)
  case (3 i cur r rest)
  show ?case
  proof (cases r)
    case (Ret health)
    show ?thesis
    proof (cases "\<not> health_Equal (Some health) cur \<and> health_NewerThan (Some health) cur")
      case True
      then have "health_timestamp cur < health_timestamp (Some health)" by (simp add: health_NewerThan_def)
      with "3.IH"(1) [OF Ret True] True Ret show ?thesis by (auto simp: case_prod_unfold)
    next
      case False
      have "conn_loop i cur (Tick r # rest) = conn_loop i cur rest" using False Ret by auto
      with "3.IH"(2) [OF Ret False] show ?thesis by auto
    qed
  qed (use "3.IH"(3,4) in auto)
next
  case (4 i cur up rest)
  show ?case
  proof (cases "\<not> health_Equal (Some (hu_Health up)) cur \<and> health_NewerThan (Some (hu_Health up)) cur")
    case True
    then have "health_timestamp cur < stamp up" by (simp add: health_NewerThan_def)
    with "4.IH"(1) [OF True] True show ?thesis by (auto simp: case_prod_unfold)
  next
    case False
    have "conn_loop i cur (Incoming up # rest) = conn_loop i cur rest" using False by auto
    with "4.IH"(2) [OF False] show ?thesis by auto
  qed
qed simp_all

lemma connection_published:
  assumes "HandleConnection False True i begun answered ended first events = (hs, ss, returned)"
  shows "(returned \<longleftrightarrow> Done \<in> set events) \<and>
    ss = publishStatus begun i True # (if returned then [publishStatus ended i False] else []) \<and>
    (\<exists>us. hs = (case first of Ret h \<Rightarrow> [\<lparr> hu_ID = i, hu_Health = h\<lparr> h_timestamp := Some answered \<rparr> \<rparr>] | _ \<Rightarrow> []) @ us @
        (if returned then [\<lparr> hu_ID = i, hu_Health = \<lparr> h_timestamp = Some ended, h_ready = False, h_conditions = [], h_annotations = [] \<rparr> \<rparr>] else []) \<and>
      sorted_wrt (\<lambda>a b. stamp a < stamp b) us \<and>
      (\<forall>u \<in> set us. (\<forall>h. first = Ret h \<longrightarrow> health_timestamp (Some h) < stamp u) \<and>
         (Tick (Ret (hu_Health u)) \<in> set events \<or> Incoming u \<in> set events)))"
proof -
  let ?cur = "case first of Ret h \<Rightarrow> Some h | _ \<Rightarrow> None"
  obtain us fin where loop: "conn_loop i ?cur events = (us, fin)" by (cases "conn_loop i ?cur events")
  have upd: "h\<lparr> h_timestamp := Some answered \<rparr> =
      \<lparr> h_timestamp = Some answered, h_ready = h_ready h, h_conditions = h_conditions h, h_annotations = h_annotations h \<rparr>" for h :: Health
    by (cases h) simp
  have "returned = fin \<and> ss = publishStatus begun i True # (if returned then [publishStatus ended i False] else []) \<and>
      hs = (case first of Ret h \<Rightarrow> [\<lparr> hu_ID = i, hu_Health = h\<lparr> h_timestamp := Some answered \<rparr> \<rparr>] | _ \<Rightarrow> []) @ us @
        (if returned then [\<lparr> hu_ID = i, hu_Health = \<lparr> h_timestamp = Some ended, h_ready = False, h_conditions = [], h_annotations = [] \<rparr> \<rparr>] else [])"
    using assms loop unfolding upd by (cases first; cases fin) (auto simp: HandleConnection_def Let_def)
  with conn_loop_progress [of i ?cur events] loop show ?thesis
    by (intro conjI exI [of _ us]) auto
qed



end
