(* ===== verification/Monitor.thy ===== *)
theory Monitor
  imports Health
begin

text \<open>
  \<^verbatim>\<open>pkg/health/monitor.go\<close>: the monitor of the gateway keeps the last health and status of every agent and passes
  the updates on to its watchers over channels of ten elements. It is a transition system: the goroutine of
  \<^verbatim>\<open>Run\<close> holds the lock while it sends an update to one watcher after the other, each watcher has a goroutine of its
  own, and new watchers register and old ones unregister under the same lock.
\<close>

text \<open>A watcher of \<^verbatim>\<open>WatchHealthStatus\<close>: its two channels \<^verbatim>\<open>hl\<close> and \<^verbatim>\<open>sl\<close>, its copies of the maps, what it has sent to its
  caller, whether the caller's context has ended, and whether it left its loop.\<close>

record Watcher =
  w_hl :: "(string \<times> Health) list"
  w_sl :: "(string \<times> Status) list"
  w_curHealth :: "Health gomap"
  w_curStatus :: "Status gomap"
  w_out :: "(string \<times> HealthStatus) list"
  w_ctxDone :: bool
  w_left :: bool

datatype monitor_update = HealthOf string Health | StatusOf string Status

text \<open>Every watcher is in both listener lists of the source, or in neither. \<open>m_sending\<close> is the update that \<^verbatim>\<open>Run\<close> is
  passing on, with the listeners that still have to get it; \<^verbatim>\<open>Run\<close> holds the lock meanwhile.\<close>

record Monitor =
  m_currentHealth :: "Health gomap"
  m_currentStatus :: "Status gomap"
  m_listeners :: "nat list"
  m_watchers :: "nat \<Rightarrow> Watcher"
  m_next :: nat
  m_sending :: "(monitor_update \<times> nat list) option"
  m_running :: bool

abbreviation "listenerCap \<equiv> 10 :: nat"

definition no_watcher :: Watcher where
  "no_watcher = \<lparr> w_hl = [], w_sl = [], w_curHealth = [], w_curStatus = [], w_out = [], w_ctxDone = False, w_left = True \<rparr>"

definition NewMonitor :: Monitor where
  "NewMonitor = \<lparr> m_currentHealth = [], m_currentStatus = [], m_listeners = [], m_watchers = (\<lambda>_. no_watcher), m_next = 0, m_sending = None,
     m_running = True \<rparr>"

definition GetHealthStatus :: "Monitor \<Rightarrow> string \<Rightarrow> HealthStatus" where
  "GetHealthStatus m i = \<lparr> hs_health = lookup (m_currentHealth m) i, hs_status = lookup (m_currentStatus m) i \<rparr>"

text \<open>\<^verbatim>\<open>Run\<close> receives an update: it is stored and passed on to the listeners there are.\<close>

definition run_receive :: "monitor_update \<Rightarrow> Monitor \<Rightarrow> Monitor" where
  "run_receive u m = (case u of
     HealthOf i h \<Rightarrow> m\<lparr> m_currentHealth := AList.update i h (m_currentHealth m), m_sending := Some (u, m_listeners m) \<rparr>
   | StatusOf i st \<Rightarrow> m\<lparr> m_currentStatus := AList.update i st (m_currentStatus m), m_sending := Some (u, m_listeners m) \<rparr>)"

definition has_room :: "monitor_update \<Rightarrow> Watcher \<Rightarrow> bool" where
  "has_room u w = (case u of HealthOf i h \<Rightarrow> length (w_hl w) < listenerCap | StatusOf i st \<Rightarrow> length (w_sl w) < listenerCap)"

definition enqueue :: "monitor_update \<Rightarrow> Watcher \<Rightarrow> Watcher" where
  "enqueue u w = (case u of HealthOf i h \<Rightarrow> w\<lparr> w_hl := w_hl w @ [(i, h)] \<rparr> | StatusOf i st \<Rightarrow> w\<lparr> w_sl := w_sl w @ [(i, st)] \<rparr>)"

text \<open>The end of \<^verbatim>\<open>Run\<close>.\<close>

definition run_end :: "Monitor \<Rightarrow> Monitor" where
  "run_end m = m\<lparr> m_currentHealth := [], m_currentStatus := [], m_listeners := [], m_running := False \<rparr>"

text \<open>\<^verbatim>\<open>WatchHealthStatus\<close> up to the start of its goroutine, with what the goroutine sends before its loop: only the
  clusters that have a health.\<close>

definition watcher_event :: "Watcher \<Rightarrow> string \<Rightarrow> string \<times> HealthStatus" where
  "watcher_event w i = (i, \<lparr> hs_health = lookup (w_curHealth w) i, hs_status = lookup (w_curStatus w) i \<rparr>)"

definition WatchHealthStatus :: "Monitor \<Rightarrow> Monitor" where
  "WatchHealthStatus m = (let
       w = \<lparr> w_hl = [], w_sl = [], w_curHealth = m_currentHealth m, w_curStatus = m_currentStatus m, w_out = [], w_ctxDone = False, w_left = False \<rparr> in
     m\<lparr> m_listeners := m_listeners m @ [m_next m],
        m_watchers := (m_watchers m)(m_next m := w\<lparr> w_out := map (watcher_event w) (keys (w_curHealth w)) \<rparr>),
        m_next := Suc (m_next m) \<rparr>)"

text \<open>The loop of a watcher: a health or a status is taken from its channel and sent on. When the context has ended
  the sending may be skipped (\<open>skip\<close>).\<close>

definition emit :: "bool \<Rightarrow> string \<Rightarrow> Watcher \<Rightarrow> Watcher" where
  "emit skip i w = (if skip then w else w\<lparr> w_out := w_out w @ [watcher_event w i] \<rparr>)"

definition watcher_health :: "bool \<Rightarrow> Watcher \<Rightarrow> Watcher option" where
  "watcher_health skip w = (case w_hl w of [] \<Rightarrow> None
   | (i, h) # q \<Rightarrow> Some (emit skip i (w\<lparr> w_hl := q, w_curHealth := AList.update i h (w_curHealth w) \<rparr>)))"

definition watcher_status :: "bool \<Rightarrow> Watcher \<Rightarrow> Watcher option" where
  "watcher_status skip w = (case w_sl w of [] \<Rightarrow> None
   | (i, st) # q \<Rightarrow> Some (emit skip i (w\<lparr> w_sl := q, w_curStatus := AList.update i st (w_curStatus w) \<rparr>)))"

definition unregister :: "nat \<Rightarrow> Monitor \<Rightarrow> Monitor" where
  "unregister k m = m\<lparr> m_listeners := remove1 k (m_listeners m) \<rparr>"

abbreviation set_watcher :: "nat \<Rightarrow> Watcher \<Rightarrow> Monitor \<Rightarrow> Monitor" where
  "set_watcher k w m \<equiv> m\<lparr> m_watchers := (m_watchers m)(k := w) \<rparr>"

inductive monitor_step :: "Monitor \<Rightarrow> Monitor \<Rightarrow> bool" where
  receive: "m_running m \<Longrightarrow> m_sending m = None \<Longrightarrow> monitor_step m (run_receive u m)"
| send: "m_sending m = Some (u, k # ks) \<Longrightarrow> has_room u (m_watchers m k) \<Longrightarrow>
    monitor_step m (set_watcher k (enqueue u (m_watchers m k)) m\<lparr> m_sending := Some (u, ks) \<rparr>)"
| sent: "m_sending m = Some (u, []) \<Longrightarrow> monitor_step m (m\<lparr> m_sending := None \<rparr>)"
| run_ends: "m_running m \<Longrightarrow> m_sending m = None \<Longrightarrow> monitor_step m (run_end m)"
| watch: "m_sending m = None \<Longrightarrow> monitor_step m (WatchHealthStatus m)"
| health: "\<not> w_left (m_watchers m k) \<Longrightarrow> (skip \<longrightarrow> w_ctxDone (m_watchers m k)) \<Longrightarrow> watcher_health skip (m_watchers m k) = Some w \<Longrightarrow>
    monitor_step m (set_watcher k w m)"
| status: "\<not> w_left (m_watchers m k) \<Longrightarrow> (skip \<longrightarrow> w_ctxDone (m_watchers m k)) \<Longrightarrow> watcher_status skip (m_watchers m k) = Some w \<Longrightarrow>
    monitor_step m (set_watcher k w m)"
| ctx_done: "monitor_step m (set_watcher k ((m_watchers m k)\<lparr> w_ctxDone := True \<rparr>) m)"
| leave: "w_ctxDone (m_watchers m k) \<or> k \<notin> set (m_listeners m) \<and> (w_hl (m_watchers m k) = [] \<or> w_sl (m_watchers m k) = []) \<Longrightarrow>
    monitor_step m (set_watcher k ((m_watchers m k)\<lparr> w_left := True \<rparr>) m)"
| unregisters: "m_sending m = None \<Longrightarrow> w_left (m_watchers m k) \<Longrightarrow> monitor_step m (unregister k m)"

abbreviation monitor_reachable :: "Monitor \<Rightarrow> bool" where
  "monitor_reachable \<equiv> monitor_step\<^sup>*\<^sup>* NewMonitor"

section \<open>What a watcher knows\<close>

text \<open>What is on its way to a watcher: its channels, and the update that \<^verbatim>\<open>Run\<close> has not sent to it yet.\<close>

definition due_health :: "Monitor \<Rightarrow> nat \<Rightarrow> (string \<times> Health) list" where
  "due_health m k = w_hl (m_watchers m k) @
     (case m_sending m of Some (HealthOf i h, ks) \<Rightarrow> if k \<in> set ks then [(i, h)] else [] | _ \<Rightarrow> [])"

definition due_status :: "Monitor \<Rightarrow> nat \<Rightarrow> (string \<times> Status) list" where
  "due_status m k = w_sl (m_watchers m k) @
     (case m_sending m of Some (StatusOf i st, ks) \<Rightarrow> if k \<in> set ks then [(i, st)] else [] | _ \<Rightarrow> [])"

fun after :: "('v) gomap \<Rightarrow> (string \<times> 'v) list \<Rightarrow> string \<Rightarrow> 'v option" where
  "after m [] = lookup m"
| "after m ((i, v) # q) = after (AList.update i v m) q"

lemma after_snoc: "after m (q @ [(i, v)]) = (after m q)(i \<mapsto> v)"
  by (induction m q rule: after.induct) simp_all

text \<open>The last thing the caller was sent about a cluster.\<close>

definition last_sent :: "Watcher \<Rightarrow> string \<Rightarrow> HealthStatus option" where
  "last_sent w i = map_of (rev (w_out w)) i"

definition told :: "Watcher \<Rightarrow> bool" where
  "told w \<longleftrightarrow> (\<forall>i. case last_sent w i of Some hs \<Rightarrow> hs = snd (watcher_event w i) | None \<Rightarrow> lookup (w_curHealth w) i = None)"

definition follows :: "Monitor \<Rightarrow> nat \<Rightarrow> bool" where
  "follows m k \<longleftrightarrow> after (w_curHealth (m_watchers m k)) (due_health m k) = lookup (m_currentHealth m) \<and>
     after (w_curStatus (m_watchers m k)) (due_status m k) = lookup (m_currentStatus m)"

definition bounded :: "Watcher \<Rightarrow> bool" where
  "bounded w \<longleftrightarrow> length (w_hl w) \<le> listenerCap \<and> length (w_sl w) \<le> listenerCap"

definition monitor_inv :: "Monitor \<Rightarrow> bool" where
  "monitor_inv m \<longleftrightarrow> distinct (m_listeners m) \<and> (\<forall>k \<in> set (m_listeners m). k < m_next m \<and> follows m k) \<and>
     (\<forall>k. bounded (m_watchers m k)) \<and> (\<forall>k. \<not> w_ctxDone (m_watchers m k) \<longrightarrow> told (m_watchers m k)) \<and>
     (\<forall>u ks. m_sending m = Some (u, ks) \<longrightarrow> distinct ks \<and> set ks \<subseteq> set (m_listeners m))"

text \<open>What each operation on a watcher keeps.\<close>

lemma last_sent_emit: "last_sent (emit False i w) j = (if j = i then Some (snd (watcher_event w i)) else last_sent w j)"
  by (simp add: last_sent_def emit_def watcher_event_def)

lemma told_emit:
  assumes "told w" and "w_out v = w_out w"
    and "\<And>j. j \<noteq> i \<Longrightarrow> lookup (w_curHealth v) j = lookup (w_curHealth w) j \<and> lookup (w_curStatus v) j = lookup (w_curStatus w) j"
  shows "told (emit False i v)"
  unfolding told_def
proof
  fix j
  have "last_sent (emit False i v) j = (if j = i then Some (snd (watcher_event v i)) else last_sent w j)"
    using assms(2) by (simp add: last_sent_emit) (simp add: last_sent_def)
  moreover have "watcher_event (emit False i v) j = watcher_event v j" "w_curHealth (emit False i v) = w_curHealth v"
    by (simp_all add: watcher_event_def emit_def)
  moreover have "j \<noteq> i \<Longrightarrow> watcher_event v j = watcher_event w j" using assms(3) by (simp add: watcher_event_def)
  ultimately show "case last_sent (emit False i v) j of Some hs \<Rightarrow> hs = snd (watcher_event (emit False i v) j)
      | None \<Rightarrow> lookup (w_curHealth (emit False i v)) j = None"
    using assms(1) [unfolded told_def, rule_format, of j] assms(3) [of j] by (cases "j = i") (auto split: option.splits)
qed

lemma told_received:
  "watcher_health False w = Some v \<Longrightarrow> told w \<Longrightarrow> told v" "watcher_status False w = Some v \<Longrightarrow> told w \<Longrightarrow> told v"
  by (auto simp: watcher_health_def watcher_status_def split: list.splits intro!: told_emit)

lemma told_cong: "w_out v = w_out w \<Longrightarrow> w_curHealth v = w_curHealth w \<Longrightarrow> w_curStatus v = w_curStatus w \<Longrightarrow> told v = told w"
  by (simp add: told_def last_sent_def watcher_event_def cong: option.case_cong)

lemma told_new:
  "told (w\<lparr> w_out := map (watcher_event w) (keys (w_curHealth w)) \<rparr>)"
proof -
  have "map_of (rev (map (watcher_event w) ks)) i = (if i \<in> set ks then Some (snd (watcher_event w i)) else None)" for ks i
    by (induction ks rule: rev_induct) (auto simp: watcher_event_def)
  then have "last_sent (w\<lparr> w_out := map (watcher_event w) (keys (w_curHealth w)) \<rparr>) i =
      (if i \<in> set (keys (w_curHealth w)) then Some (snd (watcher_event w i)) else None)" for i
    by (simp add: last_sent_def del: map_map)
  then show ?thesis by (simp add: told_def watcher_event_def map_of_eq_None_iff)
qed

lemma received_fields:
  "watcher_health skip w = Some v \<Longrightarrow> \<exists>i h. w_hl w = (i, h) # w_hl v \<and> w_curHealth v = AList.update i h (w_curHealth w) \<and>
     w_sl v = w_sl w \<and> w_curStatus v = w_curStatus w \<and> w_ctxDone v = w_ctxDone w"
  "watcher_status skip w = Some v \<Longrightarrow> \<exists>i st. w_sl w = (i, st) # w_sl v \<and> w_curStatus v = AList.update i st (w_curStatus w) \<and>
     w_hl v = w_hl w \<and> w_curHealth v = w_curHealth w \<and> w_ctxDone v = w_ctxDone w"
  by (auto simp: watcher_health_def watcher_status_def emit_def split: list.splits)

text \<open>A change of one watcher that leaves what it knows and what is due to it consistent.\<close>

lemma inv_set_watcher:
  assumes "monitor_inv m" and "bounded w" and "\<not> w_ctxDone w \<Longrightarrow> told w" and "k \<in> set (m_listeners m) \<Longrightarrow> follows (set_watcher k w m) k"
  shows "monitor_inv (set_watcher k w m)"
proof -
  have "follows (set_watcher k w m) j = follows m j" if "j \<noteq> k" for j
    using that by (simp add: follows_def due_health_def due_status_def)
  then have "follows (set_watcher k w m) j" if "j \<in> set (m_listeners m)" for j
    using that assms(1,4) unfolding monitor_inv_def by (cases "j = k") auto
  with assms(1-3) show ?thesis unfolding monitor_inv_def by (auto split: if_splits)
qed

lemmas follows_simps = follows_def due_health_def due_status_def

lemma inv_received:
  assumes "monitor_inv m" and "watcher_health skip (m_watchers m k) = Some w \<or> watcher_status skip (m_watchers m k) = Some w"
    and "skip \<longrightarrow> w_ctxDone (m_watchers m k)"
  shows "monitor_inv (set_watcher k w m)"
proof (rule inv_set_watcher [OF assms(1)])
  have "bounded (m_watchers m k)" using assms(1) by (simp add: monitor_inv_def)
  then show "bounded w" using assms(2) received_fields unfolding bounded_def by fastforce
  show "told w" if "\<not> w_ctxDone w"
  proof -
    have "\<not> w_ctxDone (m_watchers m k)" using assms(2) that received_fields by metis
    with assms told_received show ?thesis unfolding monitor_inv_def by (metis (full_types))
  qed
  assume "k \<in> set (m_listeners m)"
  then have "follows m k" using assms(1) by (simp add: monitor_inv_def)
  with assms(2) show "follows (set_watcher k w m) k"
    by (auto simp: follows_simps dest!: received_fields)
qed

lemma inv_receive: "monitor_inv m \<Longrightarrow> m_sending m = None \<Longrightarrow> monitor_inv (run_receive u m)"
proof -
  assume inv: "monitor_inv m" and idle: "m_sending m = None"
  have "follows (run_receive u m) k" if "k \<in> set (m_listeners m)" for k
    using inv that idle unfolding monitor_inv_def
    by (cases u) (auto simp: follows_simps run_receive_def after_snoc)
  with inv show ?thesis unfolding monitor_inv_def by (cases u) (auto simp: run_receive_def)
qed

lemma inv_send:
  assumes inv: "monitor_inv m" and busy: "m_sending m = Some (u, k # ks)" and room: "has_room u (m_watchers m k)"
  shows "monitor_inv (set_watcher k (enqueue u (m_watchers m k)) m\<lparr> m_sending := Some (u, ks) \<rparr>)"
proof -
  let ?m = "set_watcher k (enqueue u (m_watchers m k)) m\<lparr> m_sending := Some (u, ks) \<rparr>"
  let ?w = "enqueue u (m_watchers m k)"
  have k: "k \<notin> set ks" "distinct ks" "set ks \<subseteq> set (m_listeners m)" using inv busy by (simp_all add: monitor_inv_def)
  have f: "follows ?m j = follows m j" for j
    using k(1) busy by (cases u; cases "j = k") (simp_all add: follows_simps enqueue_def)
  have w: "bounded ?w" "w_ctxDone ?w = w_ctxDone (m_watchers m k)"
    using inv room by (cases u; simp add: monitor_inv_def bounded_def has_room_def enqueue_def)+
  have "told ?w = told (m_watchers m k)" by (rule told_cong) (cases u; simp add: enqueue_def)+
  have "\<forall>j \<in> set (m_listeners m). j < m_next m \<and> follows ?m j" using inv f by (simp add: monitor_inv_def)
  moreover have "\<forall>j. bounded (m_watchers ?m j) \<and> (\<not> w_ctxDone (m_watchers ?m j) \<longrightarrow> told (m_watchers ?m j))"
    using inv w \<open>told ?w = told (m_watchers m k)\<close> by (simp add: monitor_inv_def)
  ultimately show ?thesis using inv k(2,3) unfolding monitor_inv_def by simp
qed

lemma inv_watch: "monitor_inv m \<Longrightarrow> m_sending m = None \<Longrightarrow> monitor_inv (WatchHealthStatus m)"
  unfolding monitor_inv_def WatchHealthStatus_def Let_def
  using told_new [of "\<lparr> w_hl = [], w_sl = [], w_curHealth = m_currentHealth m, w_curStatus = m_currentStatus m, w_out = [], w_ctxDone = False, w_left = False \<rparr>"]
  by (auto simp: follows_simps bounded_def less_Suc_eq split: if_splits)

lemma monitor_step_inv: "monitor_step m n \<Longrightarrow> monitor_inv m \<Longrightarrow> monitor_inv n"
proof (induction rule: monitor_step.induct)
  case (receive m u)
  then show ?case using inv_receive by blast
next
  case (send m u k ks)
  then show ?case using inv_send by blast
next
  case (sent m u)
  then show ?case by (cases u) (auto simp: monitor_inv_def follows_simps)
next
  case (run_ends m)
  then show ?case by (auto simp: monitor_inv_def run_end_def)
next
  case (watch m)
  then show ?case using inv_watch by blast
next
  case (health m k skip w)
  then show ?case using inv_received by blast
next
  case (status m k skip w)
  then show ?case using inv_received by blast
next
  case (ctx_done m k)
  then show ?case by (intro inv_set_watcher) (auto simp: monitor_inv_def bounded_def follows_simps)
next
  case (leave m k)
  have "told ((m_watchers m k)\<lparr> w_left := True \<rparr>) = told (m_watchers m k)" by (rule told_cong) simp_all
  with leave show ?case by (intro inv_set_watcher) (auto simp: monitor_inv_def bounded_def follows_simps)
next
  case (unregisters m k)
  then show ?case by (simp add: monitor_inv_def unregister_def follows_simps)
qed

lemma reachable_inv: "monitor_reachable m \<Longrightarrow> monitor_inv m"
proof (induction rule: rtranclp_induct)
  case base
  show ?case by (simp add: NewMonitor_def monitor_inv_def no_watcher_def bounded_def told_def last_sent_def)
next
  case (step m n)
  then show ?case using monitor_step_inv by blast
qed

text \<open>C9: a watcher does not miss anything. In every reachable state its channels hold at most ten updates each; and
  once they are empty and no update is being passed on, the last thing its caller was sent about a cluster
  is exactly what \<^verbatim>\<open>GetHealthStatus\<close> answers for it, and the caller was sent something about every cluster that
  has a health.\<close>

theorem watcher_up_to_date:
  assumes "monitor_reachable m" and "k \<in> set (m_listeners m)"
  shows "bounded (m_watchers m k) \<and>
    (\<not> w_ctxDone (m_watchers m k) \<longrightarrow> w_hl (m_watchers m k) = [] \<longrightarrow> w_sl (m_watchers m k) = [] \<longrightarrow> m_sending m = None \<longrightarrow>
      (case last_sent (m_watchers m k) i of
         Some hs \<Rightarrow> hs = GetHealthStatus m i | None \<Rightarrow> hs_health (GetHealthStatus m i) = None))"
proof (intro conjI impI)
  have inv: "monitor_inv m" using reachable_inv [OF assms(1)] .
  then show "bounded (m_watchers m k)" by (simp add: monitor_inv_def)
  assume idle: "\<not> w_ctxDone (m_watchers m k)" "w_hl (m_watchers m k) = []" "w_sl (m_watchers m k) = []" "m_sending m = None"
  from inv have "follows m k" "told (m_watchers m k)" using assms(2) idle(1) by (simp_all add: monitor_inv_def)
  then have "lookup (w_curHealth (m_watchers m k)) = lookup (m_currentHealth m)" "lookup (w_curStatus (m_watchers m k)) = lookup (m_currentStatus m)"
    "case last_sent (m_watchers m k) i of Some hs \<Rightarrow> hs = snd (watcher_event (m_watchers m k) i) | None \<Rightarrow> lookup (w_curHealth (m_watchers m k)) i = None"
    using idle(2-4) by (simp_all add: follows_simps told_def)
  then show "case last_sent (m_watchers m k) i of
      Some hs \<Rightarrow> hs = GetHealthStatus m i | None \<Rightarrow> hs_health (GetHealthStatus m i) = None"
    by (simp add: GetHealthStatus_def watcher_event_def split: option.splits)
qed

text \<open>Witness: one watcher, and one update that went through.\<close>

definition demo_health :: Health where
  "demo_health = \<lparr> h_timestamp = Some 1, h_ready = True, h_conditions = [], h_annotations = [] \<rparr>"

lemma monitor_watched: "monitor_reachable (WatchHealthStatus NewMonitor)"
  by (rule r_into_rtranclp) (rule watch, simp add: NewMonitor_def)

definition after_update :: Monitor where
  "after_update = (let
     m = run_receive (HealthOf ''c1'' demo_health) (WatchHealthStatus NewMonitor);
     s = set_watcher 0 (enqueue (HealthOf ''c1'' demo_health) (m_watchers m 0)) m\<lparr> m_sending := Some (HealthOf ''c1'' demo_health, []) \<rparr>;
     t = s\<lparr> m_sending := None \<rparr> in
     set_watcher 0 (the (watcher_health False (m_watchers t 0))) t)"

lemmas demo_monitor = WatchHealthStatus_def NewMonitor_def run_receive_def enqueue_def watcher_health_def emit_def Let_def

lemma after_update_reachable: "monitor_reachable after_update"
proof -
  let ?u = "HealthOf ''c1'' demo_health" and ?a = "WatchHealthStatus NewMonitor"
  let ?b = "run_receive ?u ?a"
  let ?c = "set_watcher 0 (enqueue ?u (m_watchers ?b 0)) ?b\<lparr> m_sending := Some (?u, []) \<rparr>"
  let ?d = "?c\<lparr> m_sending := None \<rparr>"
  have "monitor_step ?a ?b" by (rule receive) (simp_all add: demo_monitor)
  moreover have "monitor_step ?b ?c" by (rule send) (simp_all add: demo_monitor has_room_def)
  moreover have "monitor_step ?c ?d" by (rule sent) simp
  moreover have "monitor_step ?d after_update" unfolding after_update_def Let_def
    by (rule health [where skip = False]) (simp_all add: demo_monitor)
  ultimately show ?thesis using monitor_watched by (meson rtranclp.rtrancl_into_rtrancl)
qed

theorem watcher_up_to_date_witness:
  "last_sent (m_watchers after_update 0) ''c1'' = Some (GetHealthStatus after_update ''c1'') \<and> hs_health (GetHealthStatus after_update ''c1'') = Some demo_health"
proof -
  have "case last_sent (m_watchers after_update 0) ''c1'' of Some hs \<Rightarrow> hs = GetHealthStatus after_update ''c1''
      | None \<Rightarrow> hs_health (GetHealthStatus after_update ''c1'') = None"
    using watcher_up_to_date [OF after_update_reachable, of 0 "''c1''"] by (simp add: after_update_def demo_monitor)
  moreover have "hs_health (GetHealthStatus after_update ''c1'') = Some demo_health"
    by (simp add: after_update_def demo_monitor GetHealthStatus_def)
  ultimately show ?thesis by (simp split: option.splits)
qed

section \<open>A watcher that goes away\<close>

text \<open>C38: a watcher that ends at the wrong moment stops the monitor for good. When \<^verbatim>\<open>Run\<close> is about to send an update
  to a watcher whose channel is full and that has left its loop, no later step changes this: \<^verbatim>\<open>Run\<close> waits for
  room in the channel while it holds the lock, and the watcher waits for the lock before it unregisters.
  Nobody else can use the monitor then: no update is received and no watcher registers.\<close>

theorem monitor_blocks:
  assumes "monitor_step\<^sup>*\<^sup>* m n" and "m_sending m = Some (u, k # ks)" and "\<not> has_room u (m_watchers m k)" and "w_left (m_watchers m k)"
  shows "m_sending n = Some (u, k # ks) \<and> \<not> has_room u (m_watchers n k) \<and> w_left (m_watchers n k) \<and>
    m_currentHealth n = m_currentHealth m \<and> m_currentStatus n = m_currentStatus m \<and> m_listeners n = m_listeners m"
  using assms(1)
proof (induction rule: rtranclp_induct)
  case base
  with assms show ?case by simp
next
  case (step n n')
  from step.hyps(2) step.IH show ?case
    by (cases rule: monitor_step.cases) (auto simp: has_room_def split: monitor_update.splits)
qed

text \<open>Witness: a watcher whose caller reads nothing, ten updates in its channel, the end of its context, and one more
  update.\<close>

lemma fill_channel:
  "n \<le> listenerCap \<Longrightarrow> \<exists>m. monitor_reachable m \<and> m_sending m = None \<and> m_running m \<and> m_listeners m = [0] \<and> length (w_hl (m_watchers m 0)) = n"
proof (induction n)
  case 0
  show ?case using monitor_watched by (intro exI [of _ "WatchHealthStatus NewMonitor"]) (simp add: demo_monitor)
next
  case (Suc n)
  let ?u = "HealthOf ''c1'' demo_health"
  from Suc obtain m where m: "monitor_reachable m" "m_sending m = None" "m_running m" "m_listeners m = [0]" "length (w_hl (m_watchers m 0)) = n"
    by auto
  let ?b = "run_receive ?u m"
  let ?c = "set_watcher 0 (enqueue ?u (m_watchers ?b 0)) ?b\<lparr> m_sending := Some (?u, []) \<rparr>"
  have "monitor_step m ?b" by (rule receive [OF m(3,2)])
  moreover have "monitor_step ?b ?c" using m Suc.prems by (intro send) (simp_all add: run_receive_def has_room_def)
  moreover have "monitor_step ?c (?c\<lparr> m_sending := None \<rparr>)" by (rule sent) simp
  ultimately have "monitor_reachable (?c\<lparr> m_sending := None \<rparr>)" using m(1) by (meson rtranclp.rtrancl_into_rtrancl)
  then show ?case using m by (intro exI [of _ "?c\<lparr> m_sending := None \<rparr>"]) (simp add: run_receive_def enqueue_def)
qed

theorem monitor_blocks_witness:
  "\<exists>m. monitor_reachable m \<and> (\<forall>n. monitor_step\<^sup>*\<^sup>* m n \<longrightarrow> m_sending n \<noteq> None \<and> m_listeners n = [0])"
proof -
  let ?u = "HealthOf ''c1'' demo_health"
  obtain a where a: "monitor_reachable a" "m_sending a = None" "m_running a" "m_listeners a = [0]" "length (w_hl (m_watchers a 0)) = listenerCap"
    using fill_channel [of listenerCap] by auto
  let ?b = "set_watcher 0 ((m_watchers a 0)\<lparr> w_ctxDone := True \<rparr>) a"
  let ?c = "set_watcher 0 ((m_watchers ?b 0)\<lparr> w_left := True \<rparr>) ?b"
  let ?m = "run_receive ?u ?c"
  have "monitor_step a ?b" by (rule ctx_done)
  moreover have "monitor_step ?b ?c" by (rule leave) simp
  moreover have "monitor_step ?c ?m" using a by (intro receive) simp_all
  ultimately have reach: "monitor_reachable ?m" using a(1) by (meson rtranclp.rtrancl_into_rtrancl)
  have at: "m_sending ?m = Some (?u, 0 # [])" "\<not> has_room ?u (m_watchers ?m 0)" "w_left (m_watchers ?m 0)" "m_listeners ?m = [0]"
    using a by (simp_all add: run_receive_def has_room_def)
  have "m_sending n \<noteq> None \<and> m_listeners n = [0]" if "monitor_step\<^sup>*\<^sup>* ?m n" for n
    using monitor_blocks [OF that at(1-3)] at(4) by simp
  with reach show ?thesis by blast
qed

section \<open>The listener and the monitor together\<close>

text \<open>What the monitor keeps after it received updates, in whatever order the two channels were served.\<close>

fun receive_all :: "monitor_update list \<Rightarrow> Monitor \<Rightarrow> Monitor" where
  "receive_all [] m = m"
| "receive_all (u # us) m = receive_all us (run_receive u m)"

definition healths :: "string \<Rightarrow> monitor_update list \<Rightarrow> Health list" where
  "healths i us = concat (map (\<lambda>u. case u of HealthOf j h \<Rightarrow> if j = i then [h] else [] | _ \<Rightarrow> []) us)"

definition statuses :: "string \<Rightarrow> monitor_update list \<Rightarrow> Status list" where
  "statuses i us = concat (map (\<lambda>u. case u of StatusOf j st \<Rightarrow> if j = i then [st] else [] | _ \<Rightarrow> []) us)"

lemma receive_all_last:
  "lookup (m_currentHealth (receive_all us m)) i = (if healths i us = [] then lookup (m_currentHealth m) i else Some (last (healths i us)))"
  "lookup (m_currentStatus (receive_all us m)) i = (if statuses i us = [] then lookup (m_currentStatus m) i else Some (last (statuses i us)))"
  by (induction us arbitrary: m) (auto simp: healths_def statuses_def run_receive_def split: monitor_update.splits)


text \<open>C39: after a connection has ended and the monitor has received what its handler published, in any order of the two
  channels and mixed with the updates of other agents, the agent is reported as not ready and disconnected.\<close>

theorem offline_after_connection:
  assumes "HandleConnection False True i begun answered ended first events = (hs, ss, True)"
    and "healths i us = map hu_Health hs" and "statuses i us = map su_Status ss"
  shows "GetHealthStatus (receive_all us m) i =
      \<lparr> hs_health = Some \<lparr> h_timestamp = Some ended, h_ready = False, h_conditions = [], h_annotations = [] \<rparr>,
        hs_status = Some \<lparr> st_timestamp = Some ended, st_connected = False \<rparr> \<rparr> \<and>
    health_Summary (GetHealthStatus (receive_all us m) i) = ''Disconnected''"
proof -
  have "\<exists>xs. hs = xs @ [\<lparr> hu_ID = i, hu_Health = \<lparr> h_timestamp = Some ended, h_ready = False, h_conditions = [], h_annotations = [] \<rparr> \<rparr>]"
    and "ss = [publishStatus begun i True, publishStatus ended i False]"
    using connection_published [OF assms(1)] by auto
  then have "healths i us \<noteq> []" "last (healths i us) = \<lparr> h_timestamp = Some ended, h_ready = False, h_conditions = [], h_annotations = [] \<rparr>"
    "statuses i us \<noteq> []" "last (statuses i us) = \<lparr> st_timestamp = Some ended, st_connected = False \<rparr>"
    using assms(2,3) by (auto simp: publishStatus_def)
  then show ?thesis by (simp add: GetHealthStatus_def receive_all_last health_Summary_def)
qed

text \<open>Witness: an agent that never answered, while another one reports its health.\<close>

theorem offline_after_connection_witness:
  "GetHealthStatus (receive_all [StatusOf ''c1'' \<lparr> st_timestamp = Some 1, st_connected = True \<rparr>, HealthOf ''c2'' demo_health,
       HealthOf ''c1'' \<lparr> h_timestamp = Some 9, h_ready = False, h_conditions = [], h_annotations = [] \<rparr>,
       StatusOf ''c1'' \<lparr> st_timestamp = Some 9, st_connected = False \<rparr>] NewMonitor) ''c1'' =
     \<lparr> hs_health = Some \<lparr> h_timestamp = Some 9, h_ready = False, h_conditions = [], h_annotations = [] \<rparr>,
       hs_status = Some \<lparr> st_timestamp = Some 9, st_connected = False \<rparr> \<rparr>"
proof -
  have run: "HandleConnection False True ''c1'' 1 2 9 (Fail ErrNotFound) [Done] =
      ([\<lparr> hu_ID = ''c1'', hu_Health = \<lparr> h_timestamp = Some 9, h_ready = False, h_conditions = [], h_annotations = [] \<rparr> \<rparr>],
       [publishStatus 1 ''c1'' True, publishStatus 9 ''c1'' False], True)"
    by (simp add: HandleConnection_def)
  show ?thesis by (rule offline_after_connection [OF run, THEN conjunct1]) (simp_all add: healths_def statuses_def publishStatus_def)
qed

end
