(* ===== verification/EtcdTypes.thy ===== *)
theory EtcdTypes
  imports EtcdProps
begin

text \<open>
  The storage stays well typed: every operation of the etcd backend, on clusters, tokens, roles, role bindings
  and keyrings, keeps what is stored under the directory of a kind an object of this kind under its own
  valid id, so that no listing ever meets a value it cannot decode.
\<close>

lemma preserves_call: "(etcd_params e ns \<Longrightarrow> atomic (etcd_I e ns) R m Q) \<Longrightarrow> preserves (etcd_I e ns) m"
  using under_params atomic_preserves by blast

lemma revoke_wf: "etcd_wf e (e_db E u) \<Longrightarrow> revoke_effect E i u r v \<Longrightarrow> etcd_wf e (e_db E v)"
proof -
  assume wf: "etcd_wf e (e_db E u)" and eff: "revoke_effect E i u r v"
  have "e_db E v p = e_db E u p \<or> e_db E v p = None" for p
    using eff by (auto simp: revoke_effect_def same_def split: go.splits option.splits if_splits)
  with wf show ?thesis unfolding etcd_wf_def by (metis option.distinct(1))
qed

lemma Grant_atomic: "etcd_params e ns \<Longrightarrow> atomic (etcd_I e ns) (etcd_R e ns) (c_Grant (es_Client e) n) (read_effect (es_Client e) (\<lambda>u x. True))"
  by (rule call_atomic [OF etcd_lawsD(7) [OF params_laws] read_wf])

lemma Revoke_atomic: "etcd_params e ns \<Longrightarrow> atomic (etcd_I e ns) (etcd_R e ns) (c_Revoke (es_Client e) l) (revoke_effect (es_Client e) l)"
  by (rule call_atomic [OF etcd_lawsD(6) [OF params_laws] revoke_wf])

lemma preserves_etcd:
  "preserves (etcd_I e ns) (c_Get (es_Client e) k)" "preserves (etcd_I e ns) (c_GetPrefix (es_Client e) k)"
  "preserves (etcd_I e ns) (c_Delete (es_Client e) k)" "preserves (etcd_I e ns) (c_Revoke (es_Client e) l)"
  "preserves (etcd_I e ns) (c_Grant (es_Client e) n)" "preserves (etcd_I e ns) (c_TimeToLive (es_Client e) l)"
  using preserves_call [OF Get_atomic] preserves_call [OF GetPrefix_atomic] preserves_call [OF Delete_atomic]
    preserves_call [OF Revoke_atomic] preserves_call [OF Grant_atomic] preserves_call [OF TimeToLive_atomic] by blast+

lemma preserves_writes:
  assumes "ValidateID (snd ki) = Ret ()" and "\<And>kv. etcd_params e ns \<Longrightarrow> ev_value kv = w \<Longrightarrow> well_typed (es_PJ e) (fst ki) (snd ki) kv"
  shows "preserves (etcd_I e ns) (c_Put (es_Client e) (okey_path e ns ki) w l)"
    and "preserves (etcd_I e ns) (c_Txn (es_Client e) (okey_path e ns ki) c w l)"
  by (rule preserves_call, rule Put_atomic Txn_atomic, simp_all add: assms)+

text \<open>A write of what a codec made of a value.\<close>

lemma preserves_marshalled:
  assumes "\<And>w. mar = Ret w \<Longrightarrow> preserves (etcd_I e ns) (f w)"
  shows "preserves (etcd_I e ns) (bind (lift (go_err mar g)) f)"
  using assms by (cases mar) (simp_all add: preserves_def)

lemma role_typed:
  "etcd_params e ns \<Longrightarrow> mar_role (es_PJ e) r = Ret w \<Longrightarrow> ev_value kv = w \<Longrightarrow> well_typed (es_PJ e) KRole (role_id r) kv"
  "etcd_params e ns \<Longrightarrow> mar_roleBinding (es_PJ e) rb = Ret w \<Longrightarrow> ev_value kv = w \<Longrightarrow> well_typed (es_PJ e) KRoleBinding (rb_id rb) kv"
  "etcd_params e ns \<Longrightarrow> mar_token (es_PJ e) t = Ret w \<Longrightarrow> ev_value kv = w \<Longrightarrow> bt_metadata t \<noteq> None \<Longrightarrow> well_typed (es_PJ e) KToken (bt_tokenID t) kv"
  by (simp_all add: etcd_params_def codec_laws_def well_typed_def)

lemma preserves_CreateRole: "ValidateID (role_id role) = Ret () \<Longrightarrow> preserves (etcd_I e ns) (Etcd_CreateRole e role)"
  unfolding Etcd_CreateRole_def okey_path_simps(3) [of e _ ns]
  by (intro preserves_marshalled preserves_bind preserves_catch preserves_pure preserves_writes(2)) (auto intro: role_typed)

lemma preserves_CreateRoleBinding: "ValidateID (rb_id rb) = Ret () \<Longrightarrow> preserves (etcd_I e ns) (Etcd_CreateRoleBinding e rb)"
  unfolding Etcd_CreateRoleBinding_def okey_path_simps(4) [of e _ ns]
  by (intro preserves_marshalled preserves_bind preserves_catch preserves_pure preserves_writes(2)) (auto intro: role_typed)

lemma preserves_DeleteRole: "preserves (etcd_I e ns) (Etcd_DeleteRole e ref)" "preserves (etcd_I e ns) (Etcd_DeleteRoleBinding e ref)"
  unfolding Etcd_DeleteRole_def Etcd_DeleteRoleBinding_def
  by (intro preserves_bind preserves_catch preserves_pure preserves_etcd)+

lemma preserves_CreateToken:
  assumes "\<And>s. length (sha256 s) = 32"
  shows "preserves (etcd_I e ns) (Etcd_CreateToken sha256 entropy e ttl opts)"
proof -
  have "ValidateID (bt_tokenID (ToBootstrapToken (NewToken sha256 entropy))) = Ret ()"
    using HexID_valid [OF NewToken_ok [OF assms]] by (simp add: ToBootstrapToken_def)
  then show ?thesis unfolding Etcd_CreateToken_def Let_def okey_path_simps(2) [of e _ ns]
    by (intro preserves_marshalled preserves_bind preserves_catch preserves_pure preserves_etcd preserves_writes(1)) (auto dest: role_typed(3) [OF _ _ refl])
qed

lemma preserves_DeleteToken:
  assumes "ValidateID i = Ret ()"
  shows "preserves (etcd_I e ns) (Etcd_DeleteToken e \<lparr> ref_id = i \<rparr>)"
proof -
  have revoke: "preserves (etcd_I e ns) (\<lambda>s. case m s of (r, t) \<Rightarrow> (r, snd (c_Revoke (es_Client e) l t)))"
    if "preserves (etcd_I e ns) m" for m :: "('a, unit) prog" and l
    using that preserves_etcd(4) [of e ns l] by (auto simp: preserves_def Let_def split: prod.splits)
  have get: "preserves (etcd_I e ns) (Etcd_GetToken e \<lparr> ref_id = i \<rparr>)" using atomic_preserves [OF GetToken_atomic [OF assms]] .
  show ?thesis unfolding Etcd_DeleteToken_def Let_def
    by (intro preserves_bind [OF get] preserves_option preserves_if revoke preserves_bind preserves_catch preserves_pure preserves_etcd)
qed



end
