(* ===== verification/Spec2Isabelle.thy ===== *)
theory Spec2Isabelle
  imports Management Task Monitor EtcdTypes
begin

text \<open>
  A verification library for the opni gateway and its agents (Go, \<^verbatim>\<open>src/pkg\<close>).

  \<^bold>\<open>The program.\<close> A gateway manages many clusters, each with an agent. An agent joins with a bootstrap token: it checks
  the gateway's certificates against its trust strategy, proves that it knows the token, agrees on shared keys
  with the gateway and is registered as a cluster. From then on it authenticates every stream with a keyed
  hash over a nonce of the gateway. The gateway keeps clusters, tokens, roles and keyrings in a storage
  backend that several instances share, offers them over a management API, decides which user may access
  which cluster, runs long tasks such as the removal of a capability, and watches the health of the agents.

  \<^bold>\<open>How it is modelled.\<close> A Go function is a HOL function of the same name. Where HOL or two Go packages use the name
  already, the type or package is put in front (\<^verbatim>\<open>Cluster.GetLabels\<close> is \<open>cluster_GetLabels\<close>, the handler
  \<^verbatim>\<open>Server.EditCluster\<close> of the management API is \<open>Management_EditCluster\<close>). A result is a value of \<open>'a go\<close>: \<open>Ret\<close>,
  \<open>Fail\<close> with an error, or \<open>Panic\<close>. Stateful code is a program \<open>('s, 'a) prog\<close> over the state \<open>'s\<close> of the storage. An
  interface is a record of programs. Code of other modules is a parameter, with the behaviour that its
  documentation states as a named predicate: the etcd client (\<open>etcd_laws\<close>), the codecs (\<open>codec_laws\<close>), the signature
  scheme, the elliptic curve, the hashes, certificates, \<^verbatim>\<open>lo.MaxBy\<close> (\<open>maxby_laws\<close>). Every property with such a hypothesis has
  a witness in which the parameters are concrete functions. Go's standard library is modelled as far as it
  is used.

  \<^bold>\<open>Theories.\<close>

  \<^item> \<open>Go_Prelude\<close>, \<open>Go_Strings\<close>, \<open>Go_Encoding\<close>, \<open>Go_Path\<close>, \<open>Grpc_Util\<close>: results, programs and their lemmas (\<open>go_simps\<close>), strings, encodings,
    \<^verbatim>\<open>path.Join\<close>, status codes and metadata (\<^verbatim>\<open>util/grpc.go\<close>).
  \<^item> \<open>Validation\<close>, \<open>Core_V1\<close>, \<open>Api_Validation\<close>: \<^verbatim>\<open>validation/\<close>, the messages of \<^verbatim>\<open>apis/core/v1\<close> and the \<^verbatim>\<open>Validate\<close> methods of all APIs.
  \<^item> \<open>Selection\<close>: \<^verbatim>\<open>storage/selection.go\<close>. Which clusters a selector picks; selectors of roles do not depend on internal
    labels; a \<^verbatim>\<open>NotIn\<close> expression that holds hides the expressions after it.
  \<^item> \<open>Storage\<close>, \<open>Contracts\<close>: the interfaces of \<^verbatim>\<open>storage/\<close> and what a backend promises. An operation is \<open>atomic\<close> when it takes its
    effect in one step although other instances act before and after it. The locales \<open>shared_state\<close>,
    \<open>cluster_store\<close>, \<open>token_store\<close>, \<open>keyring_store\<close>, \<open>kv_store\<close> and \<open>prefixed_kv_store\<close> are the contracts the clients rely on.
  \<^item> \<open>Etcd_Client\<close>, \<open>EtcdStore\<close>, \<open>EtcdContract\<close>, \<open>EtcdUpdate\<close>, \<open>EtcdKeys\<close>, \<open>EtcdTokens\<close>, \<open>EtcdProps\<close>, \<open>EtcdTypes\<close>: \<^verbatim>\<open>storage/etcd\<close>. The backend
    fulfils the contracts, by interpretation of the locales: updates are never lost, a token use is
    counted once, keys of different objects differ, a watch catches up, the storage stays well typed.
  \<^item> \<open>Tokens\<close>, \<open>Pkp\<close>, \<open>Keyring\<close>, \<open>B2mac\<close>, \<open>Trust\<close>: \<^verbatim>\<open>tokens/\<close>, \<^verbatim>\<open>pkp/\<close>, \<^verbatim>\<open>keyring/\<close> with \<^verbatim>\<open>ecdh/\<close>, \<^verbatim>\<open>b2mac/\<close>, \<^verbatim>\<open>trust/\<close>. Round trips of every textual form,
    soundness of detached signatures, exactly the connections that pinning accepts, agreement of the key
    exchange, and that a saved trust strategy is the one that was used.
  \<^item> \<open>ClusterAuth\<close>: \<^verbatim>\<open>auth/cluster\<close>. Only a holder of a stored key is authenticated, such a holder always is, and every
    failure has its status.
  \<^item> \<open>Capabilities\<close>: \<^verbatim>\<open>capabilities/\<close> with the locale \<open>capability_object\<close>. When the context of a capability ends.
  \<^item> \<open>Bootstrap_Server\<close>, \<open>Bootstrap_Props\<close>, \<open>Bootstrap_Client\<close>, \<open>Bootstrap_Run\<close>: \<^verbatim>\<open>bootstrap/\<close>. The server over the locale \<open>bootstrap_storage\<close>,
    the client, and both run against each other over the etcd store: they end up with the same keys, a
    cluster is registered only with a valid token, and everything else is refused.
  \<^item> \<open>Rbac\<close>: \<^verbatim>\<open>storage/rbac_provider.go\<close> and \<^verbatim>\<open>rbac/\<close>. The clusters a user may access are exactly those granted.
  \<^item> \<open>Task\<close>: \<^verbatim>\<open>task/\<close>. The state machine ends, what becomes of a task, and at most one launch of a task is alive.
  \<^item> \<open>Management\<close>: \<^verbatim>\<open>management/{clusters,tokens,rbac}.go\<close> over the locale \<open>management_storage\<close>, interpreted on the etcd
    backend. What a reference resolves to, edits and deletions of clusters.
  \<^item> \<open>Health\<close>, \<open>Monitor\<close>: \<^verbatim>\<open>health/\<close>. What a connection publishes, how the aggregator joins the healths of plugins, and the
    monitor with its watchers as a transition system (\<open>monitor_step\<close>): watchers are up to date with what is queued
    for them, and the monitor can block for ever.

  \<^bold>\<open>Bounds and fuel.\<close> The retry loop of the etcd store is the parameter \<^verbatim>\<open>retry.OnError\<close>; its law says that it repeats an attempt that
  failed with a retriable error some number of times, and \<open>EtcdProps\<close> shows that the first attempt succeeds
  when nobody interferes. The loops of \<open>Task\<close> that retry until a context ends take the number of attempts
  that fit before it does. A list of events stands for what a channel delivers. The listener channels of
  the monitor hold ten elements as in the source; the channel from a watcher to its caller is unbounded in the model.
  Times are numbers of nanoseconds, \<open>int\<close> where Go has \<^verbatim>\<open>int64\<close>.

  \<^bold>\<open>Not modelled.\<close> The JetStream and CRD backends, which implement the same interfaces on other services; the gRPC and HTTP
  servers, connections, the agent's process set-up and the plugin loader, which are input and output of
  third-party libraries; configuration files; OpenID; Kubernetes operators and generated code; the alerting,
  SLO, metrics, logging, topology and AI services; the dashboard and the command line. Log lines, traces and
  metrics of the modelled components are left out.
\<close>

end
